(* ===== verification/Prelude.thy ===== *)
theory Prelude
  imports Main "HOL-Library.Word"
begin

text \<open>
  Shared vocabulary of the development: the Go values, maps, errors and results that the
  components of kflow exchange, the formatting of error texts, Go's fixed-width integer
  arithmetic, and the collections of facts the component proofs use.

  Conventions.  A Go function that returns \<open>(T, error)\<close> returns a value of \<open>'a res\<close>: \<open>Ok\<close> for a
  nil error, \<open>Err\<close> for a non-nil one, and \<open>Panic\<close> when the call panics (a nil function value is
  called, a nil map is written).  A stateful call takes the world it acts on and returns the
  world it leaves behind.  A nil map is \<open>None\<close>, a non-nil map \<open>Some m\<close>; reading a nil map gives
  nothing, as in Go.
\<close>

named_theorems go_simps "unfolding rules of the small Go helpers"
named_theorems store_simps "behaviour of the store operations on the view of a state"
named_theorems frame "facts that a call leaves the recorded states alone"

section \<open>Values and maps\<close>

datatype gvalue =
    VNull
  | VBool bool
  | VNum int
  | VStr string
  | VList "gvalue list"
  | VMap "(string \<times> gvalue) list"

type_synonym gmap = "string \<rightharpoonup> gvalue"
type_synonym gomap = "gmap option"
type_synonym time = int
type_synonym duration = int

text \<open>Reading a possibly nil map.\<close>

definition entries :: "gomap \<Rightarrow> gmap" where
  "entries m = (case m of None \<Rightarrow> Map.empty | Some f \<Rightarrow> f)"

lemma entries_simps [simp, go_simps]:
  "entries None = Map.empty" "entries (Some f) = f"
  by (simp_all add: entries_def)

text \<open>
  An order in which \<open>range\<close> visits a Go map: Go leaves it unspecified, so a definition that
  ranges over a map takes the order as an argument.
\<close>

definition range_order :: "string list \<Rightarrow> (string \<rightharpoonup> 'v) \<Rightarrow> bool" where
  "range_order ord m \<longleftrightarrow> distinct ord \<and> set ord = dom m"

section \<open>Results\<close>

text \<open>
  Go errors.  The sentinels are the package-level error variables of pkg/kflow, internal/store
  and internal/runner; \<open>Errorf\<close> is a value built by \<open>fmt.Errorf\<close> or \<open>errors.New\<close>, kept as the fragments of its format: literal text, a \<open>%q\<close> string, a \<open>%s\<close>
  string, a \<open>%d\<close> number, a wrapped (\<open>%w\<close>) or printed (\<open>%v\<close>) error.  \<open>StatusErr\<close> is the error of a gRPC
  status: its code and its message.
\<close>

datatype goerr =
    ErrDuplicateName | ErrMissingHandler | ErrAmbiguousHandler | ErrUnknownState
  | ErrNoEntryPoint | ErrScaleMin
  | ErrExecutionNotFound | ErrStateNotFound | ErrStateNotCompleted
  | ErrStateAlreadyTerminal | ErrOutputTooLarge
  | ErrServiceNotFound | ErrDuplicateServiceName
  | ErrInvalidToken | ErrObjectNotFound
  | CtxErr string
  | StatusErr string string
  | Errorf "frag list"
and frag = FL string | FQ string | FS string | FD int | FW goerr | FV goerr

datatype 'a res = Ok 'a | Err goerr | Panic string

fun is_Ok :: "'a res \<Rightarrow> bool" where
  "is_Ok (Ok _) = True"
| "is_Ok _ = False"

lemma is_Ok_iff: "is_Ok r \<longleftrightarrow> (\<exists>x. r = Ok x)"
  by (cases r) auto

text \<open>
  The statement \<open>x, err := call(); if err != nil { ... }\<close>: \<open>ifErr r f k\<close> goes on with \<open>f\<close> when the
  call \<open>r\<close> returned an error and with \<open>k\<close> when it did not; a panic ends the function.
\<close>

definition ifErr ::
    "'a res \<times> 'w \<Rightarrow> (goerr \<Rightarrow> 'w \<Rightarrow> 'b res \<times> 'w) \<Rightarrow> ('a \<Rightarrow> 'w \<Rightarrow> 'b res \<times> 'w) \<Rightarrow> 'b res \<times> 'w" where
  "ifErr r f k =
     (case r of (Ok x, w) \<Rightarrow> k x w | (Err e, w) \<Rightarrow> f e w | (Panic p, w) \<Rightarrow> (Panic p, w))"

lemma ifErr_simps [simp, go_simps]:
  "ifErr (Ok x, w) f k = k x w" "ifErr (Err e, w) f k = f e w" "ifErr (Panic p, w) f k = (Panic p, w)"
  by (simp_all add: ifErr_def)

lemma ifErr_cases:
  obtains (ok) x w where "r = (Ok x, w)" "ifErr r f k = k x w"
    | (err) e w where "r = (Err e, w)" "ifErr r f k = f e w"
    | (panic) p w where "r = (Panic p, w)" "ifErr r f k = (Panic p, w)"
proof -
  obtain x w where r: "r = (x, w)" by (cases r)
  show thesis by (cases x) (use r ok err panic in \<open>simp_all\<close>)
qed

section \<open>Formatting\<close>

fun showNat :: "nat \<Rightarrow> string" where
  "showNat n = (if n < 10 then [char_of (48 + n)]
                else showNat (n div 10) @ [char_of (48 + n mod 10)])"

declare showNat.simps [simp del]

definition showInt :: "int \<Rightarrow> string" where
  "showInt i = (if i < 0 then CHR ''-'' # showNat (nat (- i)) else showNat (nat i))"

definition newlineCh :: char where
  "newlineCh = char_of (10 :: nat)"

definition hexDigit :: "nat \<Rightarrow> char" where
  "hexDigit n = (if n < 10 then char_of (48 + n) else char_of (87 + n))"

text \<open>
  \<open>%q\<close>: \<open>strconv.Quote\<close> on the bytes of the string.  Bytes from 128 on are passed through,
  which is what it does for printable characters in UTF-8.
\<close>

definition quoteChar :: "char \<Rightarrow> string" where
  "quoteChar c = (let n = of_char c :: nat in
     if n = 34 \<or> n = 92 then [char_of (92::nat), c]
     else if n = 7 then [char_of (92::nat), CHR ''a'']
     else if n = 8 then [char_of (92::nat), CHR ''b'']
     else if n = 12 then [char_of (92::nat), CHR ''f'']
     else if n = 10 then [char_of (92::nat), CHR ''n'']
     else if n = 13 then [char_of (92::nat), CHR ''r'']
     else if n = 9 then [char_of (92::nat), CHR ''t'']
     else if n = 11 then [char_of (92::nat), CHR ''v'']
     else if n < 32 \<or> n = 127 then
       [char_of (92::nat), CHR ''x'', hexDigit (n div 16), hexDigit (n mod 16)]
     else [c])"

definition quote :: "string \<Rightarrow> string" where
  "quote s = [char_of (34::nat)] @ concat (map quoteChar s) @ [char_of (34::nat)]"

fun Error :: "goerr \<Rightarrow> string" and fragText :: "frag \<Rightarrow> string" where
  "Error ErrDuplicateName = ''kflow: duplicate state or service name''"
| "Error ErrMissingHandler = ''kflow: task has no handler and no InvokeService target''"
| "Error ErrAmbiguousHandler = ''kflow: task has both inline handler and InvokeService target''"
| "Error ErrUnknownState = ''kflow: reference to unknown state name''"
| "Error ErrNoEntryPoint = ''kflow: workflow has no entry point (call Flow first)''"
| "Error ErrScaleMin = ''kflow: Deployment-mode service must have min scale >= 1''"
| "Error ErrExecutionNotFound = ''store: execution not found''"
| "Error ErrStateNotFound = ''store: state record not found''"
| "Error ErrStateNotCompleted = ''store: state is not in Completed status''"
| "Error ErrStateAlreadyTerminal = ''store: state record already in terminal status''"
| "Error ErrOutputTooLarge = ''store: output exceeds 1 MB and no object store is configured''"
| "Error ErrServiceNotFound = ''store: service not found''"
| "Error ErrDuplicateServiceName = ''store: service name already registered''"
| "Error ErrInvalidToken = ''runner: invalid state token''"
| "Error ErrObjectNotFound = ''object store: key not found''"
| "Error (CtxErr s) = s"
| "Error (StatusErr code desc) = ''rpc error: code = '' @ code @ '' desc = '' @ desc"
| "Error (Errorf fs) = concat (map fragText fs)"
| "fragText (FL s) = s"
| "fragText (FQ s) = quote s"
| "fragText (FS s) = s"
| "fragText (FD i) = showInt i"
| "fragText (FW e) = Error e"
| "fragText (FV e) = Error e"

text \<open>\<open>fmt.Sprintf\<close> over the same fragments.\<close>

definition Sprintf :: "frag list \<Rightarrow> string" where
  "Sprintf fs = concat (map fragText fs)"

section \<open>Fixed-width integers and durations\<close>

text \<open>Go's \<open>int64\<close> arithmetic wraps around: the value read back from the low 64 bits.\<close>

definition int64 :: "int \<Rightarrow> int" where
  "int64 x = (x + 2 ^ 63) mod 2 ^ 64 - 2 ^ 63"

definition int32 :: "int \<Rightarrow> int" where
  "int32 x = (x + 2 ^ 31) mod 2 ^ 32 - 2 ^ 31"

lemma int64_id: "- (2 ^ 63) \<le> x \<Longrightarrow> x < 2 ^ 63 \<Longrightarrow> int64 x = x"
  by (simp add: int64_def)

lemma int64_range: "- (2 ^ 63) \<le> int64 x" "int64 x < 2 ^ 63"
proof -
  have "0 \<le> (x + 2 ^ 63) mod (2 ^ 64 :: int)" and "(x + 2 ^ 63) mod (2 ^ 64 :: int) < 2 ^ 64"
    by simp_all
  then show "- (2 ^ 63) \<le> int64 x" "int64 x < 2 ^ 63"
    by (simp_all add: int64_def)
qed

definition Second :: duration where
  "Second = 1000000000"

definition Hour :: duration where
  "Hour = 3600 * Second"

text \<open>
  A \<open>time.Time\<close> is the number of nanoseconds since Go's zero time (1 January of year 1);
  \<open>Unix\<close> counts whole seconds since 1970.
\<close>

definition zeroTime :: time where
  "zeroTime = 0"

definition unixEpoch :: int where
  "unixEpoch = 62135596800"

definition Unix :: "time \<Rightarrow> int" where
  "Unix t = t div Second - unixEpoch"

definition timeFromUnix :: "int \<Rightarrow> time" where
  "timeFromUnix s = (s + unixEpoch) * Second"

lemma Unix_timeFromUnix [simp]: "Unix (timeFromUnix s) = s"
  by (simp add: Unix_def timeFromUnix_def Second_def)

lemma Unix_mono: "s \<le> t \<Longrightarrow> Unix s \<le> Unix t"
  by (simp add: Unix_def Second_def zdiv_mono1)

section \<open>Generic lemmas\<close>

lemma range_orderD: "range_order ord m \<Longrightarrow> x \<in> set ord \<longleftrightarrow> (\<exists>v. m x = Some v)"
  by (auto simp: range_order_def dom_def)

lemma range_order_empty [simp]: "range_order ord Map.empty \<longleftrightarrow> ord = []"
  by (auto simp: range_order_def)

lemma append_sep_inject:
  assumes "xs @ c # ys = xs' @ c # ys'" and "c \<notin> set xs" and "c \<notin> set xs'"
  shows "xs = xs' \<and> ys = ys'"
  using assms
proof (induction xs arbitrary: xs')
  case Nil
  then show ?case by (cases xs') auto
next
  case (Cons x xs)
  then show ?case by (cases xs') auto
qed

text \<open>
  A loop that scans a list and stops at the first offending element, as the rule loops of
  \<open>Validate\<close> do.
\<close>

fun firstErr :: "('a \<Rightarrow> goerr option) \<Rightarrow> 'a list \<Rightarrow> goerr option" where
  "firstErr f [] = None"
| "firstErr f (x # xs) = (case f x of Some e \<Rightarrow> Some e | None \<Rightarrow> firstErr f xs)"

lemma firstErr_None: "firstErr f xs = None \<longleftrightarrow> (\<forall>x \<in> set xs. f x = None)"
  by (induction xs) (auto split: option.splits)

lemma firstErr_Some: "firstErr f xs = Some e \<Longrightarrow> \<exists>x \<in> set xs. f x = Some e"
  by (induction xs) (auto split: option.splits)

end
