(* ===== verification/Workflow.thy ===== *)
theory Workflow
  imports Prelude
begin

text \<open>
  The workflow definition of pkg/kflow: task definitions, steps and the \<open>Workflow\<close> aggregate with
  its builder methods (workflow.go, state.go), the rules of \<open>Validate\<close> (validate.go) and service
  definitions (service.go).

  A \<open>*TaskDef\<close> returned by a builder aliases the entry of the task map it was stored in, so a
  method called on it is modelled as an update of that entry (\<open>onTask\<close>).
\<close>

section \<open>Handlers, retry policies and state kinds\<close>

type_synonym 'e HandlerFunc = "gomap \<Rightarrow> 'e \<Rightarrow> gomap res \<times> 'e"
type_synonym 'e ChoiceFunc = "gomap \<Rightarrow> 'e \<Rightarrow> string res \<times> 'e"

record RetryPolicy =
  MaxAttempts :: int
  BackoffSeconds :: int

datatype stateKind = taskState | choiceState | waitState | parallelState

definition Succeed :: string where
  "Succeed = ''__succeed__''"

definition Fail :: string where
  "Fail = ''__fail__''"

definition isSentinel :: "string \<Rightarrow> bool" where
  "isSentinel name \<longleftrightarrow> name = Succeed \<or> name = Fail"

section \<open>Task definitions and steps\<close>

record 'e TaskDef =
  td_name :: string
  td_fn :: "'e HandlerFunc option"
  td_choiceFn :: "'e ChoiceFunc option"
  td_serviceTarget :: string
  td_retry :: "RetryPolicy option"
  td_catch :: string
  td_kind :: stateKind
  td_waitDur :: duration

record StepBuilder =
  sb_name :: string
  sb_next :: string
  sb_catch :: string
  sb_retry :: "RetryPolicy option"
  sb_isEnd :: bool

definition blankTask :: "string \<Rightarrow> stateKind \<Rightarrow> 'e TaskDef" where
  "blankTask n k = \<lparr>td_name = n, td_fn = None, td_choiceFn = None, td_serviceTarget = '''',
     td_retry = None, td_catch = '''', td_kind = k, td_waitDur = 0\<rparr>"

definition TaskDef_InvokeService :: "string \<Rightarrow> 'e TaskDef \<Rightarrow> 'e TaskDef" where
  "TaskDef_InvokeService target t = t\<lparr>td_serviceTarget := target\<rparr>"

definition TaskDef_Retry :: "RetryPolicy \<Rightarrow> 'e TaskDef \<Rightarrow> 'e TaskDef" where
  "TaskDef_Retry p t = t\<lparr>td_retry := Some p\<rparr>"

definition TaskDef_Catch :: "string \<Rightarrow> 'e TaskDef \<Rightarrow> 'e TaskDef" where
  "TaskDef_Catch s t = t\<lparr>td_catch := s\<rparr>"

definition IsChoice :: "'e TaskDef \<Rightarrow> bool" where
  "IsChoice t \<longleftrightarrow> td_kind t = choiceState"

definition IsWait :: "'e TaskDef \<Rightarrow> bool" where
  "IsWait t \<longleftrightarrow> td_kind t = waitState"

definition IsParallel :: "'e TaskDef \<Rightarrow> bool" where
  "IsParallel t \<longleftrightarrow> td_kind t = parallelState"

definition Step :: "string \<Rightarrow> StepBuilder" where
  "Step n = \<lparr>sb_name = n, sb_next = '''', sb_catch = '''', sb_retry = None, sb_isEnd = False\<rparr>"

definition Step_Next :: "string \<Rightarrow> StepBuilder \<Rightarrow> StepBuilder" where
  "Step_Next s b = b\<lparr>sb_next := s\<rparr>"

definition Step_Catch :: "string \<Rightarrow> StepBuilder \<Rightarrow> StepBuilder" where
  "Step_Catch s b = b\<lparr>sb_catch := s\<rparr>"

definition Step_Retry :: "RetryPolicy \<Rightarrow> StepBuilder \<Rightarrow> StepBuilder" where
  "Step_Retry p b = b\<lparr>sb_retry := Some p\<rparr>"

definition Step_End :: "StepBuilder \<Rightarrow> StepBuilder" where
  "Step_End b = b\<lparr>sb_next := Succeed, sb_isEnd := True\<rparr>"

lemmas task_defs = blankTask_def TaskDef_InvokeService_def TaskDef_Retry_def TaskDef_Catch_def
  IsChoice_def IsWait_def IsParallel_def
lemmas step_defs = Step_def Step_Next_def Step_Catch_def Step_Retry_def Step_End_def

section \<open>The workflow aggregate\<close>

record 'e Workflow =
  wf_name :: string
  wf_image :: string
  wf_tasks :: "string \<rightharpoonup> 'e TaskDef"
  wf_steps :: "StepBuilder list"
  wf_names :: "string list"

definition New :: "string \<Rightarrow> 'e Workflow" where
  "New n = \<lparr>wf_name = n, wf_image = '''', wf_tasks = Map.empty, wf_steps = [], wf_names = []\<rparr>"

text \<open>The two statements every registering method ends with.\<close>

definition register :: "string \<Rightarrow> 'e TaskDef \<Rightarrow> 'e Workflow \<Rightarrow> 'e Workflow" where
  "register n td w = w\<lparr>wf_tasks := (wf_tasks w)(n \<mapsto> td), wf_names := wf_names w @ [n]\<rparr>"

definition Workflow_Task :: "string \<Rightarrow> 'e HandlerFunc option \<Rightarrow> 'e Workflow \<Rightarrow> 'e Workflow" where
  "Workflow_Task n fn w = register n ((blankTask n taskState)\<lparr>td_fn := fn\<rparr>) w"

definition Workflow_Choice :: "string \<Rightarrow> 'e ChoiceFunc option \<Rightarrow> 'e Workflow \<Rightarrow> 'e Workflow" where
  "Workflow_Choice n fn w = register n ((blankTask n choiceState)\<lparr>td_choiceFn := fn\<rparr>) w"

definition Workflow_Wait :: "string \<Rightarrow> duration \<Rightarrow> 'e Workflow \<Rightarrow> 'e Workflow" where
  "Workflow_Wait n dur w = register n ((blankTask n waitState)\<lparr>td_waitDur := dur\<rparr>) w"

definition Workflow_Parallel :: "string \<Rightarrow> 'e HandlerFunc option \<Rightarrow> 'e Workflow \<Rightarrow> 'e Workflow" where
  "Workflow_Parallel n fn w = register n ((blankTask n parallelState)\<lparr>td_fn := fn\<rparr>) w"

definition Workflow_Flow :: "StepBuilder list \<Rightarrow> 'e Workflow \<Rightarrow> 'e Workflow" where
  "Workflow_Flow steps w = w\<lparr>wf_steps := steps\<rparr>"

definition WithImage :: "string \<Rightarrow> 'e Workflow \<Rightarrow> 'e Workflow" where
  "WithImage i w = w\<lparr>wf_image := i\<rparr>"

text \<open>A method call on the \<open>*TaskDef\<close> stored under a name.\<close>

definition onTask :: "string \<Rightarrow> ('e TaskDef \<Rightarrow> 'e TaskDef) \<Rightarrow> 'e Workflow \<Rightarrow> 'e Workflow" where
  "onTask n f w = w\<lparr>wf_tasks := (wf_tasks w)(n := map_option f (wf_tasks w n))\<rparr>"

lemmas workflow_defs = New_def register_def Workflow_Task_def Workflow_Choice_def
  Workflow_Wait_def Workflow_Parallel_def Workflow_Flow_def WithImage_def onTask_def

section \<open>Validation\<close>

text \<open>Rule 2: the loop over \<open>w.names\<close> with its \<open>seen\<close> set.\<close>

fun duplicateName :: "string set \<Rightarrow> string list \<Rightarrow> bool" where
  "duplicateName seen [] = False"
| "duplicateName seen (n # ns) = (if n \<in> seen then True else duplicateName (insert n seen) ns)"

text \<open>Rule 3 on one task.\<close>

definition handlerRule :: "'e TaskDef \<Rightarrow> goerr option" where
  "handlerRule td =
     (if td_kind td \<noteq> taskState then None
      else if td_fn td \<noteq> None \<and> td_serviceTarget td \<noteq> '''' then Some ErrAmbiguousHandler
      else if td_fn td = None \<and> td_serviceTarget td = '''' then Some ErrMissingHandler
      else None)"

definition handlerLoop :: "(string \<rightharpoonup> 'e TaskDef) \<Rightarrow> string list \<Rightarrow> goerr option" where
  "handlerLoop tasks ord =
     firstErr (\<lambda>n. case tasks n of None \<Rightarrow> None | Some td \<Rightarrow> handlerRule td) ord"

text \<open>Rule 4 on one step.\<close>

definition knownTarget :: "(string \<rightharpoonup> 'e TaskDef) \<Rightarrow> string \<Rightarrow> bool" where
  "knownTarget tasks n \<longleftrightarrow> n = '''' \<or> isSentinel n \<or> tasks n \<noteq> None"

definition stepRule :: "(string \<rightharpoonup> 'e TaskDef) \<Rightarrow> StepBuilder \<Rightarrow> goerr option" where
  "stepRule tasks st =
     (if \<not> knownTarget tasks (sb_next st) then Some ErrUnknownState
      else if \<not> knownTarget tasks (sb_catch st) then Some ErrUnknownState
      else None)"

text \<open>
  \<open>Validate\<close>; \<open>ord\<close> is the order in which the loop of rule 3 visits the task map.
\<close>

definition Validate :: "string list \<Rightarrow> 'e Workflow \<Rightarrow> goerr option" where
  "Validate ord w =
     (if wf_steps w = [] then Some ErrNoEntryPoint
      else if duplicateName {} (wf_names w) then Some ErrDuplicateName
      else case handlerLoop (wf_tasks w) ord of
             Some e \<Rightarrow> Some e
           | None \<Rightarrow> firstErr (stepRule (wf_tasks w)) (wf_steps w))"

section \<open>Service definitions\<close>

type_synonym ServiceMode = int

definition Deployment :: ServiceMode where
  "Deployment = 0"

definition Lambda :: ServiceMode where
  "Lambda = 1"

record 'e ServiceDef =
  sd_name :: string
  sd_fn :: "'e HandlerFunc option"
  sd_mode :: ServiceMode
  sd_port :: int
  sd_minScale :: int
  sd_maxScale :: int
  sd_ingressHost :: string
  sd_timeout :: duration

definition NewService :: "string \<Rightarrow> 'e ServiceDef" where
  "NewService n = \<lparr>sd_name = n, sd_fn = None, sd_mode = Deployment, sd_port = 8080,
     sd_minScale = 0, sd_maxScale = 0, sd_ingressHost = '''', sd_timeout = 30 * Second\<rparr>"

definition Service_Handler :: "'e HandlerFunc option \<Rightarrow> 'e ServiceDef \<Rightarrow> 'e ServiceDef" where
  "Service_Handler fn s = s\<lparr>sd_fn := fn\<rparr>"

definition Service_Mode :: "ServiceMode \<Rightarrow> 'e ServiceDef \<Rightarrow> 'e ServiceDef" where
  "Service_Mode m s = s\<lparr>sd_mode := m\<rparr>"

definition Service_Port :: "int \<Rightarrow> 'e ServiceDef \<Rightarrow> 'e ServiceDef" where
  "Service_Port p s = s\<lparr>sd_port := p\<rparr>"

definition Service_Scale :: "int \<Rightarrow> int \<Rightarrow> 'e ServiceDef \<Rightarrow> 'e ServiceDef" where
  "Service_Scale mn mx s = s\<lparr>sd_minScale := mn, sd_maxScale := mx\<rparr>"

definition Service_Expose :: "string \<Rightarrow> 'e ServiceDef \<Rightarrow> 'e ServiceDef" where
  "Service_Expose h s = s\<lparr>sd_ingressHost := h\<rparr>"

definition Service_Timeout :: "duration \<Rightarrow> 'e ServiceDef \<Rightarrow> 'e ServiceDef" where
  "Service_Timeout d s = s\<lparr>sd_timeout := d\<rparr>"

definition ServiceDef_Validate :: "'e ServiceDef \<Rightarrow> goerr option" where
  "ServiceDef_Validate s =
     (if sd_mode s = Deployment \<and> sd_minScale s < 1 then Some ErrScaleMin else None)"

lemmas service_defs = NewService_def Service_Handler_def Service_Mode_def Service_Port_def
  Service_Scale_def Service_Expose_def Service_Timeout_def ServiceDef_Validate_def

section \<open>What validation establishes\<close>

lemma sentinel_simps [simp, go_simps]:
  "isSentinel Succeed" "isSentinel Fail" "\<not> isSentinel ''''" "Succeed \<noteq> ''''" "Fail \<noteq> ''''"
  "Succeed \<noteq> Fail" "Fail \<noteq> Succeed"
  by (simp_all add: isSentinel_def Succeed_def Fail_def)

lemma duplicateName_iff: "duplicateName seen ns \<longleftrightarrow> \<not> distinct ns \<or> set ns \<inter> seen \<noteq> {}"
  by (induction ns arbitrary: seen) auto

lemma handlerRule_None:
  "handlerRule td = None \<longleftrightarrow>
     (td_kind td = taskState \<longrightarrow> (td_fn td = None) = (td_serviceTarget td \<noteq> ''''))"
  by (auto simp: handlerRule_def)

lemma stepRule_None:
  "stepRule tasks st = None \<longleftrightarrow> knownTarget tasks (sb_next st) \<and> knownTarget tasks (sb_catch st)"
  by (simp add: stepRule_def)

text \<open>
  The declarative meaning of a valid workflow: an entry point, distinct registrations, every task
  state with exactly one of an inline handler and a service target, and every next and catch
  target of a step either empty, a sentinel or a registered state.
\<close>

definition valid_workflow :: "'e Workflow \<Rightarrow> bool" where
  "valid_workflow w \<longleftrightarrow>
     wf_steps w \<noteq> [] \<and> distinct (wf_names w) \<and>
     (\<forall>n td. wf_tasks w n = Some td \<longrightarrow> td_kind td = taskState \<longrightarrow>
        (td_fn td = None) = (td_serviceTarget td \<noteq> '''')) \<and>
     (\<forall>st \<in> set (wf_steps w). knownTarget (wf_tasks w) (sb_next st) \<and>
        knownTarget (wf_tasks w) (sb_catch st))"

lemma handlerLoop_None:
  assumes "range_order ord tasks"
  shows "handlerLoop tasks ord = None \<longleftrightarrow>
     (\<forall>n td. tasks n = Some td \<longrightarrow> td_kind td = taskState \<longrightarrow>
        (td_fn td = None) = (td_serviceTarget td \<noteq> ''''))"
  unfolding handlerRule_None [symmetric]
  using assms by (auto simp: handlerLoop_def firstErr_None range_order_def dom_def split: option.splits)

lemma stepLoop_None:
  "firstErr (stepRule tasks) sts = None \<longleftrightarrow>
     (\<forall>st \<in> set sts. knownTarget tasks (sb_next st) \<and> knownTarget tasks (sb_catch st))"
  by (simp add: firstErr_None stepRule_None)

lemma Validate_None_iff:
  assumes "range_order ord (wf_tasks w)"
  shows "Validate ord w = None \<longleftrightarrow> valid_workflow w"
proof (cases "handlerLoop (wf_tasks w) ord")
  case None
  with handlerLoop_None [OF assms] show ?thesis
    by (simp add: Validate_def valid_workflow_def duplicateName_iff stepLoop_None)
next
  case (Some e)
  with handlerLoop_None [OF assms] have "\<not> valid_workflow w"
    unfolding valid_workflow_def by auto
  with Some show ?thesis by (simp add: Validate_def)
qed

lemma Validate_entry: "Validate ord w = None \<Longrightarrow> wf_steps w \<noteq> []"
  by (auto simp: Validate_def)

lemma Validate_targets:
  "Validate ord w = None \<Longrightarrow> st \<in> set (wf_steps w) \<Longrightarrow>
     knownTarget (wf_tasks w) (sb_next st) \<and> knownTarget (wf_tasks w) (sb_catch st)"
  by (auto simp: Validate_def stepLoop_None split: if_splits option.splits)

section \<open>An example workflow\<close>

text \<open>Two states in sequence, whose handlers pass their input on and log their name.\<close>

definition logName :: "string \<Rightarrow> string list HandlerFunc" where
  "logName n inp v = (Ok (Some (entries inp)), v @ [n])"

definition exampleFlow :: "string list Workflow" where
  "exampleFlow =
     Workflow_Flow [Step_Next ''b'' (Step ''a''), Step_End (Step ''b'')]
       (Workflow_Task ''b'' (Some (logName ''b'')) (Workflow_Task ''a'' (Some (logName ''a'')) (New ''example'')))"

lemma exampleFlow_simps:
  "wf_names exampleFlow = [''a'', ''b'']"
  "wf_steps exampleFlow = [Step_Next ''b'' (Step ''a''), Step_End (Step ''b'')]"
  "wf_tasks exampleFlow ''a'' = Some ((blankTask ''a'' taskState)\<lparr>td_fn := Some (logName ''a'')\<rparr>)"
  "wf_tasks exampleFlow ''b'' = Some ((blankTask ''b'' taskState)\<lparr>td_fn := Some (logName ''b'')\<rparr>)"
  "dom (wf_tasks exampleFlow) = {''a'', ''b''}"
  by (auto simp: exampleFlow_def workflow_defs split: if_splits)

lemma exampleFlow_order: "range_order [''a'', ''b''] (wf_tasks exampleFlow)"
  by (simp add: range_order_def exampleFlow_simps)

lemma exampleFlow_valid: "Validate [''a'', ''b''] exampleFlow = None"
  by (simp add: Validate_def exampleFlow_simps handlerLoop_def handlerRule_def stepRule_def
      knownTarget_def step_defs task_defs)

section \<open>Properties\<close>



text \<open>
  The answer of validation does not depend on the order in which the task map is visited; the
  first error reported may.
\<close>

theorem Validate_order_independent:
  assumes "range_order ord (wf_tasks w)" and "range_order ord' (wf_tasks w)"
  shows "Validate ord w = None \<longleftrightarrow> Validate ord' w = None"
  using Validate_None_iff [OF assms(1)] Validate_None_iff [OF assms(2)] by simp

theorem Validate_order_independent_witness:
  "Validate [''b'', ''a''] exampleFlow = None"
proof -
  have "range_order [''b'', ''a''] (wf_tasks exampleFlow)"
    by (auto simp: range_order_def exampleFlow_simps)
  from Validate_order_independent [OF exampleFlow_order this] exampleFlow_valid show ?thesis by simp
qed

end
