(* ===== verification/Graph.thy ===== *)
theory Graph
  imports Workflow
begin

text \<open>
  The compiled graph of internal/engine/graph.go: \<open>Build\<close> turns a validated workflow into nodes
  keyed by state name, \<open>Next\<close> finds the successor of a node.
\<close>

section \<open>Nodes and compilation\<close>

record 'e Node =
  nd_Name :: string
  nd_TaskDef :: "'e TaskDef"
  nd_Next :: string
  nd_Catch :: string
  nd_Retry :: "RetryPolicy option"
  nd_Terminal :: bool

record 'e Graph =
  g_nodes :: "string \<rightharpoonup> 'e Node"
  g_entry :: string

text \<open>The node the loop body of \<open>Build\<close> makes of one step.\<close>

definition mkNode :: "'e TaskDef \<Rightarrow> StepBuilder \<Rightarrow> 'e Node" where
  "mkNode td st =
     \<lparr>nd_Name = sb_name st, nd_TaskDef = td, nd_Next = sb_next st,
      nd_Catch = (if sb_catch st = '''' then td_catch td else sb_catch st),
      nd_Retry = (case sb_retry st of None \<Rightarrow> td_retry td | Some p \<Rightarrow> Some p),
      nd_Terminal = (sb_next st = Succeed \<or> sb_next st = Fail)\<rparr>"

definition compileStep :: "(string \<rightharpoonup> 'e TaskDef) \<Rightarrow> StepBuilder \<Rightarrow> 'e Node res" where
  "compileStep tasks st =
     (case tasks (sb_name st) of
        None \<Rightarrow> Err (Errorf [FL ''engine: step '', FQ (sb_name st), FL '' references unknown task''])
      | Some td \<Rightarrow>
          if sb_next st = '''' \<and> \<not> sb_isEnd st
          then Err (Errorf [FL ''engine: step '', FQ (sb_name st), FL '' has no Next and is not End()''])
          else Ok (mkNode td st))"

fun buildLoop :: "(string \<rightharpoonup> 'e TaskDef) \<Rightarrow> nat \<Rightarrow> StepBuilder list \<Rightarrow> 'e Graph \<Rightarrow> 'e Graph res" where
  "buildLoop tasks i [] g = Ok g"
| "buildLoop tasks i (st # sts) g =
     (case compileStep tasks st of
        Err e \<Rightarrow> Err e
      | Panic p \<Rightarrow> Panic p
      | Ok node \<Rightarrow>
          (let g1 = g\<lparr>g_nodes := (g_nodes g)(sb_name st \<mapsto> node)\<rparr>;
               g2 = (if i = 0 then g1\<lparr>g_entry := sb_name st\<rparr> else g1)
           in buildLoop tasks (Suc i) sts g2))"

definition Build :: "string list \<Rightarrow> 'e Workflow \<Rightarrow> 'e Graph res" where
  "Build ord w =
     (case Validate ord w of
        Some e \<Rightarrow> Err e
      | None \<Rightarrow> buildLoop (wf_tasks w) 0 (wf_steps w) \<lparr>g_nodes = Map.empty, g_entry = ''''\<rparr>)"

definition EntryNode :: "'e Graph \<Rightarrow> 'e Node option" where
  "EntryNode g = g_nodes g (g_entry g)"

definition Graph_Node :: "'e Graph \<Rightarrow> string \<Rightarrow> 'e Node option" where
  "Graph_Node g n = g_nodes g n"

section \<open>Successors\<close>

text \<open>\<open>Next\<close>: a nil node with a nil error is \<open>Ok None\<close>.\<close>

definition Graph_Next :: "'e Graph \<Rightarrow> 'e Node \<Rightarrow> string \<Rightarrow> 'e Node option res" where
  "Graph_Next g node key =
     (if nd_Terminal node then Ok None
      else if IsChoice (nd_TaskDef node) then
        (case g_nodes g key of
           None \<Rightarrow> Err (Errorf [FL ''engine: choice node '', FQ (nd_Name node),
                     FL '' returned unknown state '', FQ key])
         | Some nxt \<Rightarrow> Ok (Some nxt))
      else
        (case g_nodes g (nd_Next node) of
           None \<Rightarrow> Err (Errorf [FL ''engine: node '', FQ (nd_Name node), FL '' next state '',
                     FQ (nd_Next node), FL '' not found in graph''])
         | Some nxt \<Rightarrow> Ok (Some nxt)))"

section \<open>What a successful build guarantees\<close>

lemma mkNode_simps [simp]:
  "nd_Name (mkNode td st) = sb_name st" "nd_TaskDef (mkNode td st) = td"
  "nd_Next (mkNode td st) = sb_next st"
  "nd_Terminal (mkNode td st) = isSentinel (sb_next st)"
  by (simp_all add: mkNode_def isSentinel_def)

lemma compileStep_Ok:
  "compileStep tasks st = Ok node \<longleftrightarrow>
     (\<exists>td. tasks (sb_name st) = Some td \<and> (sb_next st \<noteq> '''' \<or> sb_isEnd st) \<and> node = mkNode td st)"
  by (auto simp: compileStep_def split: option.splits)

lemma compileStep_no_Panic: "compileStep tasks st \<noteq> Panic p"
  by (auto simp: compileStep_def split: option.splits)

text \<open>The node map of a list of steps: the last step with a name gives its node.\<close>

definition stepNodes :: "(string \<rightharpoonup> 'e TaskDef) \<Rightarrow> StepBuilder list \<Rightarrow> string \<rightharpoonup> 'e Node" where
  "stepNodes tasks sts =
     map_of (rev (map (\<lambda>st. (sb_name st, mkNode (the (tasks (sb_name st))) st)) sts))"

lemma dom_stepNodes: "dom (stepNodes tasks sts) = sb_name ` set sts"
  by (simp add: stepNodes_def dom_map_of_conv_image_fst image_image)

lemma stepNodes_Some:
  "stepNodes tasks sts n = Some nd \<Longrightarrow>
     \<exists>st \<in> set sts. sb_name st = n \<and> nd = mkNode (the (tasks n)) st"
  by (auto simp: stepNodes_def dest!: map_of_SomeD)

definition compilable :: "(string \<rightharpoonup> 'e TaskDef) \<Rightarrow> StepBuilder \<Rightarrow> bool" where
  "compilable tasks st \<longleftrightarrow> tasks (sb_name st) \<noteq> None \<and> (sb_next st \<noteq> '''' \<or> sb_isEnd st)"

lemma compileStep_iff: "compileStep tasks st = Ok node \<longleftrightarrow>
    compilable tasks st \<and> node = mkNode (the (tasks (sb_name st))) st"
  by (auto simp: compileStep_Ok compilable_def)

lemma buildLoop_Ok:
  "buildLoop tasks i sts g = Ok g' \<longleftrightarrow>
     list_all (compilable tasks) sts \<and>
     g' = \<lparr>g_nodes = g_nodes g ++ stepNodes tasks sts,
           g_entry = (if i = 0 \<and> sts \<noteq> [] then sb_name (hd sts) else g_entry g)\<rparr>"
proof (induction sts arbitrary: i g)
  case Nil
  then show ?case by (auto simp: stepNodes_def)
next
  case (Cons st sts)
  have upd: "m ++ stepNodes tasks (st # sts) =
      m(sb_name st \<mapsto> mkNode (the (tasks (sb_name st))) st) ++ stepNodes tasks sts" for m
    by (simp add: stepNodes_def)
  show ?case
  proof (cases "compileStep tasks st")
    case (Ok node)
    then have "compilable tasks st" "node = mkNode (the (tasks (sb_name st))) st"
      by (simp_all add: compileStep_iff)
    with Ok Cons.IH show ?thesis by (simp add: upd Let_def fun_upd_def)
  next
    case (Err e)
    then have "\<not> compilable tasks st" using compileStep_iff [of tasks st] by auto
    with Err show ?thesis by simp
  next
    case (Panic p)
    then show ?thesis by (simp add: compileStep_no_Panic)
  qed
qed

lemma Build_Ok_iff:
  "Build ord w = Ok g \<longleftrightarrow>
     Validate ord w = None \<and> list_all (compilable (wf_tasks w)) (wf_steps w) \<and>
     g = \<lparr>g_nodes = stepNodes (wf_tasks w) (wf_steps w), g_entry = sb_name (hd (wf_steps w))\<rparr>"
  using Validate_entry [of ord w] by (auto simp: Build_def buildLoop_Ok split: option.splits)

lemma Build_Validate_error: "Validate ord w = Some e \<Longrightarrow> Build ord w = Err e"
  by (simp add: Build_def)

lemma buildLoop_no_Panic: "buildLoop tasks i sts g \<noteq> Panic p"
  by (induction sts arbitrary: i g)
    (auto simp: compileStep_no_Panic Let_def split: res.splits)

text \<open>The shape every compiled graph has.\<close>

definition graph_wf :: "'e Graph \<Rightarrow> bool" where
  "graph_wf g \<longleftrightarrow> EntryNode g \<noteq> None \<and>
     (\<forall>n nd. g_nodes g n = Some nd \<longrightarrow> nd_Name nd = n \<and> nd_Terminal nd = isSentinel (nd_Next nd))"

lemma graph_wf_name: "graph_wf g \<Longrightarrow> g_nodes g n = Some nd \<Longrightarrow> nd_Name nd = n"
  by (simp add: graph_wf_def)

lemma graph_wf_terminal:
  "graph_wf g \<Longrightarrow> g_nodes g n = Some nd \<Longrightarrow> nd_Terminal nd = isSentinel (nd_Next nd)"
  by (simp add: graph_wf_def)

lemma stepNodes_hd: "sts \<noteq> [] \<Longrightarrow> stepNodes tasks sts (sb_name (hd sts)) \<noteq> None"
  using dom_stepNodes [of tasks sts] hd_in_set [of sts] by blast

lemma Build_graph_wf: "Build ord w = Ok g \<Longrightarrow> graph_wf g"
  using stepNodes_hd [of "wf_steps w" "wf_tasks w"] Validate_entry [of ord w]
  by (auto simp: Build_Ok_iff graph_wf_def EntryNode_def dest!: stepNodes_Some)

lemma Graph_Next_cases:
  obtains (terminal) "nd_Terminal node" "Graph_Next g node key = Ok None"
  | (succ) nxt where "\<not> nd_Terminal node" "Graph_Next g node key = Ok (Some nxt)"
      "g_nodes g (if IsChoice (nd_TaskDef node) then key else nd_Next node) = Some nxt"
  | (missing) e where "\<not> nd_Terminal node" "Graph_Next g node key = Err e"
      "g_nodes g (if IsChoice (nd_TaskDef node) then key else nd_Next node) = None"
  by (cases "nd_Terminal node"; cases "IsChoice (nd_TaskDef node)";
      cases "g_nodes g (if IsChoice (nd_TaskDef node) then key else nd_Next node)")
    (auto simp: Graph_Next_def)

section \<open>The graph of the example\<close>

definition exampleGraph :: "string list Graph" where
  "exampleGraph = \<lparr>g_nodes = stepNodes (wf_tasks exampleFlow) (wf_steps exampleFlow), g_entry = ''a''\<rparr>"

lemma exampleGraph_Build: "Build [''a'', ''b''] exampleFlow = Ok exampleGraph"
  unfolding Build_Ok_iff
  by (simp add: exampleFlow_valid exampleGraph_def exampleFlow_simps compilable_def step_defs)

lemma exampleGraph_nodes:
  "g_nodes exampleGraph n =
     (if n = ''a'' then Some (mkNode (the (wf_tasks exampleFlow ''a'')) (Step_Next ''b'' (Step ''a'')))
      else if n = ''b'' then Some (mkNode (the (wf_tasks exampleFlow ''b'')) (Step_End (Step ''b'')))
      else None)"
  by (auto simp: exampleGraph_def stepNodes_def exampleFlow_simps(2) step_defs)

section \<open>Properties\<close>

text \<open>
  C29.  A workflow compiles exactly when it is valid and each step of its flow names a registered
  task and has a successor or is an end.
\<close>

theorem Build_succeeds_iff:
  assumes "range_order ord (wf_tasks w)"
  shows "(\<exists>g. Build ord w = Ok g) \<longleftrightarrow>
    valid_workflow w \<and>
    (\<forall>st \<in> set (wf_steps w). wf_tasks w (sb_name st) \<noteq> None \<and> (sb_next st \<noteq> '''' \<or> sb_isEnd st))"
  unfolding Build_Ok_iff Validate_None_iff [OF assms] by (auto simp: list_all_iff compilable_def)

theorem Build_succeeds_iff_witness: "valid_workflow exampleFlow"
  using Build_succeeds_iff [OF exampleFlow_order] exampleGraph_Build by blast

text \<open>
  The compiled graph has one node per step, entered at the first step; each node carries the
  step's name, its task, and the step's retry policy and catch with the task's as defaults.
\<close>

theorem Build_nodes:
  assumes "Build ord w = Ok g" and "distinct (map sb_name (wf_steps w))"
  shows "dom (g_nodes g) = sb_name ` set (wf_steps w) \<and> g_entry g = sb_name (hd (wf_steps w)) \<and>
    (\<forall>st \<in> set (wf_steps w). \<exists>td. wf_tasks w (sb_name st) = Some td \<and>
      g_nodes g (sb_name st) = Some \<lparr>nd_Name = sb_name st, nd_TaskDef = td, nd_Next = sb_next st,
        nd_Catch = (if sb_catch st = '''' then td_catch td else sb_catch st),
        nd_Retry = (case sb_retry st of None \<Rightarrow> td_retry td | Some p \<Rightarrow> Some p),
        nd_Terminal = isSentinel (sb_next st)\<rparr>)"
proof (intro conjI ballI)
  from assms(1) have g: "g = \<lparr>g_nodes = stepNodes (wf_tasks w) (wf_steps w), g_entry = sb_name (hd (wf_steps w))\<rparr>"
    and c: "list_all (compilable (wf_tasks w)) (wf_steps w)" by (simp_all add: Build_Ok_iff)
  show "dom (g_nodes g) = sb_name ` set (wf_steps w)" "g_entry g = sb_name (hd (wf_steps w))"
    by (simp_all add: g dom_stepNodes)
  fix st
  assume st: "st \<in> set (wf_steps w)"
  with c obtain td where td: "wf_tasks w (sb_name st) = Some td"
    by (auto simp: list_all_iff compilable_def)
  have "g_nodes g (sb_name st) = Some (mkNode td st)"
    using assms(2) st td by (auto simp: g stepNodes_def rev_map [symmetric] distinct_map inj_on_def
        intro!: map_of_is_SomeI)
  with td show "\<exists>td. wf_tasks w (sb_name st) = Some td \<and>
      g_nodes g (sb_name st) = Some \<lparr>nd_Name = sb_name st, nd_TaskDef = td, nd_Next = sb_next st,
        nd_Catch = (if sb_catch st = '''' then td_catch td else sb_catch st),
        nd_Retry = (case sb_retry st of None \<Rightarrow> td_retry td | Some p \<Rightarrow> Some p),
        nd_Terminal = isSentinel (sb_next st)\<rparr>"
    by (simp add: mkNode_def isSentinel_def)
qed

theorem Build_nodes_witness: "dom (g_nodes exampleGraph) = {''a'', ''b''} \<and> g_entry exampleGraph = ''a''"
proof -
  have "distinct (map sb_name (wf_steps exampleFlow))" by (simp add: exampleFlow_simps step_defs)
  from Build_nodes [OF exampleGraph_Build this] show ?thesis
    by (simp add: exampleFlow_simps step_defs)
qed

definition danglingFlow :: "string list Workflow" where
  "danglingFlow =
     Workflow_Flow [Step_Next ''b'' (Step ''a'')]
       (Workflow_Task ''b'' (Some (logName ''b'')) (Workflow_Task ''a'' (Some (logName ''a'')) (New ''dangling'')))"

text \<open>
  Validation looks next states up among the registered tasks and not among the steps of the
  flow: a workflow that validates and compiles can still send its execution to a state the graph
  does not have.
\<close>

theorem Build_dangling_next:
  "\<exists>g nd. Validate [''a'', ''b''] danglingFlow = None \<and> Build [''a'', ''b''] danglingFlow = Ok g \<and>
     EntryNode g = Some nd \<and>
     Graph_Next g nd '''' = Err (Errorf [FL ''engine: node '', FQ ''a'', FL '' next state '', FQ ''b'',
       FL '' not found in graph''])"
proof -
  have v: "Validate [''a'', ''b''] danglingFlow = None"
    by (simp add: Validate_def danglingFlow_def workflow_defs handlerLoop_def handlerRule_def
        stepRule_def knownTarget_def step_defs task_defs)
  have "Build [''a'', ''b''] danglingFlow =
      Ok \<lparr>g_nodes = stepNodes (wf_tasks danglingFlow) (wf_steps danglingFlow), g_entry = ''a''\<rparr>"
    unfolding Build_Ok_iff using v
    by (simp add: danglingFlow_def workflow_defs compilable_def step_defs)
  with v show ?thesis
    by (simp add: EntryNode_def stepNodes_def danglingFlow_def workflow_defs step_defs task_defs
        Graph_Next_def isSentinel_def Succeed_def Fail_def)
qed

end
