(* ===== verification/Store_Interface.thy ===== *)
theory Store_Interface
  imports Workflow
begin

text \<open>
  The records and the \<open>Store\<close> interface of internal/store (store.go, service_store.go), and the
  contract its clients rely on as a locale: what each operation does to the recorded state of one
  \<open>(execution, state)\<close> pair, and that it leaves the other states of that execution alone.
\<close>

section \<open>Records\<close>

type_synonym Status = string
type_synonym ServiceStatus = string

definition StatusPending :: Status where
  "StatusPending = ''Pending''"

definition StatusRunning :: Status where
  "StatusRunning = ''Running''"

definition StatusCompleted :: Status where
  "StatusCompleted = ''Completed''"

definition StatusFailed :: Status where
  "StatusFailed = ''Failed''"

lemmas status_defs = StatusPending_def StatusRunning_def StatusCompleted_def StatusFailed_def

lemma status_distinct [simp]: "distinct [StatusPending, StatusRunning, StatusCompleted, StatusFailed]"
  by (simp add: status_defs)

lemma status_neq [simp]:
  "StatusPending \<noteq> StatusRunning" "StatusPending \<noteq> StatusCompleted" "StatusPending \<noteq> StatusFailed"
  "StatusRunning \<noteq> StatusPending" "StatusRunning \<noteq> StatusCompleted" "StatusRunning \<noteq> StatusFailed"
  "StatusCompleted \<noteq> StatusPending" "StatusCompleted \<noteq> StatusRunning" "StatusCompleted \<noteq> StatusFailed"
  "StatusFailed \<noteq> StatusPending" "StatusFailed \<noteq> StatusRunning" "StatusFailed \<noteq> StatusCompleted"
  by (simp_all add: status_defs)

definition ServiceStatusPending :: ServiceStatus where
  "ServiceStatusPending = ''Pending''"

definition ServiceStatusRunning :: ServiceStatus where
  "ServiceStatusRunning = ''Running''"

definition ServiceStatusFailed :: ServiceStatus where
  "ServiceStatusFailed = ''Failed''"

definition ServiceStatusStopped :: ServiceStatus where
  "ServiceStatusStopped = ''Stopped''"

lemmas service_status_defs = ServiceStatusPending_def ServiceStatusRunning_def
  ServiceStatusFailed_def ServiceStatusStopped_def

record ExecutionRecord =
  er_ID :: string
  er_Workflow :: string
  er_Status :: Status
  er_Input :: gomap
  er_CreatedAt :: time
  er_UpdatedAt :: time

record StateRecord =
  sr_ExecutionID :: string
  sr_StateName :: string
  sr_Status :: Status
  sr_Input :: gomap
  sr_Output :: gomap
  sr_Error :: string
  sr_Attempt :: int
  sr_ResumeAt :: "time option"
  sr_CreatedAt :: time
  sr_UpdatedAt :: time

record ServiceRecord =
  svc_Name :: string
  svc_Mode :: ServiceMode
  svc_Port :: int
  svc_MinScale :: int
  svc_MaxScale :: int
  svc_IngressHost :: string
  svc_Timeout :: duration
  svc_Status :: ServiceStatus
  svc_ClusterIP :: string
  svc_CreatedAt :: time
  svc_UpdatedAt :: time

record ExecutionFilter =
  ef_Workflow :: string
  ef_Status :: string
  ef_Limit :: int
  ef_Offset :: int

section \<open>The interface\<close>

text \<open>
  A value of the Go interface: its methods, acting on the world \<open>'w\<close>.
\<close>

record 'w Store =
  st_CreateExecution :: "ExecutionRecord \<Rightarrow> 'w \<Rightarrow> unit res \<times> 'w"
  st_GetExecution :: "string \<Rightarrow> 'w \<Rightarrow> ExecutionRecord res \<times> 'w"
  st_UpdateExecution :: "string \<Rightarrow> Status \<Rightarrow> 'w \<Rightarrow> unit res \<times> 'w"
  st_ListExecutions :: "ExecutionFilter \<Rightarrow> 'w \<Rightarrow> ExecutionRecord list res \<times> 'w"
  st_WriteAheadState :: "StateRecord \<Rightarrow> 'w \<Rightarrow> unit res \<times> 'w"
  st_MarkRunning :: "string \<Rightarrow> string \<Rightarrow> 'w \<Rightarrow> unit res \<times> 'w"
  st_CompleteState :: "string \<Rightarrow> string \<Rightarrow> gomap \<Rightarrow> 'w \<Rightarrow> unit res \<times> 'w"
  st_FailState :: "string \<Rightarrow> string \<Rightarrow> string \<Rightarrow> 'w \<Rightarrow> unit res \<times> 'w"
  st_GetStateOutput :: "string \<Rightarrow> string \<Rightarrow> 'w \<Rightarrow> gomap res \<times> 'w"
  st_ListStates :: "string \<Rightarrow> 'w \<Rightarrow> StateRecord list res \<times> 'w"
  st_CreateService :: "ServiceRecord \<Rightarrow> 'w \<Rightarrow> unit res \<times> 'w"
  st_GetService :: "string \<Rightarrow> 'w \<Rightarrow> ServiceRecord res \<times> 'w"
  st_ListServices :: "'w \<Rightarrow> ServiceRecord list res \<times> 'w"
  st_UpdateServiceStatus :: "string \<Rightarrow> ServiceStatus \<Rightarrow> string \<Rightarrow> 'w \<Rightarrow> unit res \<times> 'w"
  st_DeleteService :: "string \<Rightarrow> 'w \<Rightarrow> unit res \<times> 'w"

section \<open>The contract of the state methods\<close>

text \<open>
  \<open>view w e s\<close> is the record of state \<open>s\<close> of execution \<open>e\<close> that later calls act on (for a store
  that keeps every attempt, that of the last attempt).  \<open>others view e s w w'\<close>: going from \<open>w\<close> to
  \<open>w'\<close>, no other state of execution \<open>e\<close> changed.
\<close>

type_synonym 'w view = "'w \<Rightarrow> string \<Rightarrow> string \<Rightarrow> StateRecord option"

definition others :: "'w view \<Rightarrow> string \<Rightarrow> string \<Rightarrow> 'w \<Rightarrow> 'w \<Rightarrow> bool" where
  "others view e s w w' \<longleftrightarrow> (\<forall>s'. s' \<noteq> s \<longrightarrow> view w' e s' = view w e s')"

definition status_in :: "'w view \<Rightarrow> 'w \<Rightarrow> string \<Rightarrow> string \<Rightarrow> Status \<Rightarrow> bool" where
  "status_in view w e s status \<longleftrightarrow> (\<exists>r. view w e s = Some r \<and> sr_Status r = status)"

lemma status_in_inj: "status_in view w e s a \<Longrightarrow> status_in view w e s b \<Longrightarrow> a = b"
  by (auto simp: status_in_def)

definition completed_with :: "'w view \<Rightarrow> 'w \<Rightarrow> string \<Rightarrow> string \<Rightarrow> gmap \<Rightarrow> bool" where
  "completed_with view w e s out \<longleftrightarrow>
     (\<exists>r. view w e s = Some r \<and> sr_Status r = StatusCompleted \<and> entries (sr_Output r) = out)"

lemma completed_status: "completed_with view w e s out \<Longrightarrow> status_in view w e s StatusCompleted"
  by (auto simp: completed_with_def status_in_def)

locale state_store =
  fixes st :: "'w Store" and view :: "'w view"
  assumes write_ahead_refuses:
      "status_in view w (sr_ExecutionID sr) (sr_StateName sr) StatusCompleted \<Longrightarrow>
       st_WriteAheadState st sr w \<noteq> (Ok u, w')"
    and write_ahead_ok:
      "st_WriteAheadState st sr w = (Ok u, w') \<Longrightarrow>
       (\<exists>r. view w' (sr_ExecutionID sr) (sr_StateName sr) = Some r \<and> sr_Status r = StatusPending \<and>
            sr_Attempt r = sr_Attempt sr \<and> entries (sr_Input r) = entries (sr_Input sr)) \<and>
       others view (sr_ExecutionID sr) (sr_StateName sr) w w'"
    and write_ahead_fail:
      "st_WriteAheadState st sr w = (res, w') \<Longrightarrow> \<not> is_Ok res \<Longrightarrow> view w' = view w"
    and mark_running_ok:
      "st_MarkRunning st e s w = (Ok u, w') \<Longrightarrow>
       status_in view w' e s StatusRunning \<and> others view e s w w'"
    and mark_running_fail:
      "st_MarkRunning st e s w = (res, w') \<Longrightarrow> \<not> is_Ok res \<Longrightarrow> view w' = view w"
    and complete_ok:
      "st_CompleteState st e s out w = (Ok u, w') \<Longrightarrow>
       completed_with view w' e s (entries out) \<and> others view e s w w'"
    and complete_fail:
      "st_CompleteState st e s out w = (res, w') \<Longrightarrow> \<not> is_Ok res \<Longrightarrow> view w' = view w"
    and fail_ok:
      "st_FailState st e s msg w = (Ok u, w') \<Longrightarrow>
       (\<exists>r. view w' e s = Some r \<and> sr_Status r = StatusFailed \<and> sr_Error r = msg) \<and>
       others view e s w w'"
    and fail_fail:
      "st_FailState st e s msg w = (res, w') \<Longrightarrow> \<not> is_Ok res \<Longrightarrow> view w' = view w"
    and get_output_view: "st_GetStateOutput st e s w = (ores, w') \<Longrightarrow> view w' = view w"
    and get_output_ok:
      "st_GetStateOutput st e s w = (Ok out, w') \<Longrightarrow> completed_with view w e s (entries out)"
    and no_panic:
      "fst (st_WriteAheadState st sr w) \<noteq> Panic p" "fst (st_MarkRunning st e s w) \<noteq> Panic p"
      "fst (st_CompleteState st e s out w) \<noteq> Panic p" "fst (st_FailState st e s msg w) \<noteq> Panic p"
      "fst (st_GetStateOutput st e s w) \<noteq> Panic p"
begin

lemma fail_status: "st_FailState st e s msg w = (Ok u, w') \<Longrightarrow> status_in view w' e s StatusFailed"
  by (drule fail_ok) (auto simp: status_in_def)

lemma pending_status:
  "st_WriteAheadState st sr w = (Ok u, w') \<Longrightarrow>
   status_in view w' (sr_ExecutionID sr) (sr_StateName sr) StatusPending"
  by (drule write_ahead_ok) (auto simp: status_in_def)

text \<open>No operation of the contract disturbs the completed record of another state.\<close>

lemma others_completed:
  "others view e s w w' \<Longrightarrow> s' \<noteq> s \<Longrightarrow>
   completed_with view w' e s' out = completed_with view w e s' out"
  by (simp add: others_def completed_with_def)

end

text \<open>
  A store without infrastructure failures: an operation fails only for the reasons the interface
  names.
\<close>

locale reliable_store = state_store +
  assumes write_ahead_total:
      "\<not> status_in view w (sr_ExecutionID sr) (sr_StateName sr) StatusCompleted \<Longrightarrow>
       fst (st_WriteAheadState st sr w) = Ok ()"
    and write_ahead_terminal:
      "status_in view w (sr_ExecutionID sr) (sr_StateName sr) StatusCompleted \<Longrightarrow>
       fst (st_WriteAheadState st sr w) = Err ErrStateAlreadyTerminal"
    and mark_running_total: "view w e s \<noteq> None \<Longrightarrow> fst (st_MarkRunning st e s w) = Ok ()"
    and complete_total: "view w e s \<noteq> None \<Longrightarrow> fst (st_CompleteState st e s out w) = Ok ()"
    and fail_total: "view w e s \<noteq> None \<Longrightarrow> fst (st_FailState st e s msg w) = Ok ()"
    and get_output_total:
      "completed_with view w e s om \<Longrightarrow> \<exists>m. fst (st_GetStateOutput st e s w) = Ok m \<and> entries m = om"

end
