(* ===== verification/Executor.thy ===== *)
theory Executor
  imports Graph Store_Interface
begin

text \<open>
  internal/engine/executor.go: the loop that drives a graph to its end, the write-ahead protocol
  around one state, and the retry loop.  The executor reaches its store, its handler, the service
  dispatcher, telemetry, the log writer and the notification hook through the fields of
  \<open>Executor\<close>, as the Go struct does; the clock, sleeping, the process log and the context are a
  \<open>Runtime\<close>.

  The catch of a state is a recursive call and the main loop may revisit states, so both take
  fuel; running out of it is \<open>None\<close>, and \<open>Executor_Correct\<close> proves how much is enough.
\<close>

section \<open>The executor\<close>

record 'w Runtime =
  rt_Now :: "'w \<Rightarrow> time"
  rt_Sleep :: "duration \<Rightarrow> 'w \<Rightarrow> 'w"
  rt_Log :: "string \<Rightarrow> 'w \<Rightarrow> 'w"
  rt_CtxErr :: "'w \<Rightarrow> goerr option"

type_synonym 'w transition_hook = "string \<Rightarrow> string \<Rightarrow> string \<Rightarrow> string \<Rightarrow> string \<Rightarrow> 'w \<Rightarrow> 'w"

record 'w Executor =
  ex_Store :: "'w Store"
  ex_Handler :: "string \<Rightarrow> gomap \<Rightarrow> 'w \<Rightarrow> gomap res \<times> 'w"
  ex_Dispatcher :: "(string \<Rightarrow> string \<Rightarrow> string \<Rightarrow> gomap \<Rightarrow> 'w \<Rightarrow> gomap res \<times> 'w) option"
  ex_Telemetry :: "'w transition_hook option"
  ex_LogWriter :: "(string \<Rightarrow> string \<Rightarrow> string \<Rightarrow> string \<Rightarrow> string \<Rightarrow> 'w \<Rightarrow> 'w) option"
  ex_Notify :: "'w transition_hook option"

definition logLine ::
    "'w Runtime \<Rightarrow> 'w Executor \<Rightarrow> string \<Rightarrow> string \<Rightarrow> string \<Rightarrow> frag list \<Rightarrow> 'w \<Rightarrow> 'w" where
  "logLine rt ex execID stateName level fs w =
     (let msg = Sprintf fs; w1 = rt_Log rt msg w in
      case ex_LogWriter ex of
        None \<Rightarrow> w1
      | Some write \<Rightarrow> write execID '''' stateName level msg w1)"

definition recordTransition ::
    "'w Executor \<Rightarrow> string \<Rightarrow> string \<Rightarrow> Status \<Rightarrow> Status \<Rightarrow> string \<Rightarrow> 'w \<Rightarrow> 'w" where
  "recordTransition ex execID state from to errMsg w =
     (let w1 = (case ex_Telemetry ex of None \<Rightarrow> w | Some f \<Rightarrow> f execID state from to errMsg w) in
      case ex_Notify ex of None \<Rightarrow> w1 | Some f \<Rightarrow> f execID state from to errMsg w1)"

definition mergeErrorKey :: "gomap \<Rightarrow> goerr \<Rightarrow> gomap" where
  "mergeErrorKey input err = Some ((entries input)(''_error'' \<mapsto> VStr (Error err)))"

definition cloneInput :: "gomap \<Rightarrow> gomap" where
  "cloneInput input = Some (entries input)"

section \<open>The retry loop\<close>

definition newStateRecord ::
    "string \<Rightarrow> string \<Rightarrow> gomap \<Rightarrow> int \<Rightarrow> time option \<Rightarrow> StateRecord" where
  "newStateRecord execID stateName input attempt resumeAt =
     \<lparr>sr_ExecutionID = execID, sr_StateName = stateName, sr_Status = '''', sr_Input = input,
      sr_Output = None, sr_Error = '''', sr_Attempt = attempt, sr_ResumeAt = resumeAt,
      sr_CreatedAt = zeroTime, sr_UpdatedAt = zeroTime\<rparr>"

text \<open>
  The part of an iteration that runs before a repeated handler call (\<open>attempt > 1\<close>): record the
  failure, write ahead the next attempt, mark it running, wait for the backoff.
\<close>

definition prepareRetry ::
    "'w Runtime \<Rightarrow> 'w Executor \<Rightarrow> string \<Rightarrow> 'e Node \<Rightarrow> gomap \<Rightarrow> duration \<Rightarrow> int \<Rightarrow> int \<Rightarrow> goerr
     \<Rightarrow> 'w \<Rightarrow> unit res \<times> 'w" where
  "prepareRetry rt ex execID node input backoff maxAttempts attempt lastErr w =
     (let w0 = logLine rt ex execID (nd_Name node) ''WARN''
                 [FL ''executor: ['', FS execID, FL ''] state '', FQ (nd_Name node), FL '' retry '',
                  FD attempt, FL ''/'', FD maxAttempts] w in
      case st_FailState (ex_Store ex) execID (nd_Name node) (Error lastErr) w0 of
        (Err e, w1) \<Rightarrow> (Err e, w1)
      | (Panic p, w1) \<Rightarrow> (Panic p, w1)
      | (Ok _, w1) \<Rightarrow>
          (let w2 = recordTransition ex execID (nd_Name node) StatusRunning StatusFailed
                      (Error lastErr) w1 in
           case st_WriteAheadState (ex_Store ex)
                  (newStateRecord execID (nd_Name node) input attempt None) w2 of
             (Err e, w3) \<Rightarrow> (Err e, w3)
           | (Panic p, w3) \<Rightarrow> (Panic p, w3)
           | (Ok _, w3) \<Rightarrow>
               (case st_MarkRunning (ex_Store ex) execID (nd_Name node) w3 of
                  (Err e, w4) \<Rightarrow> (Err e, w4)
                | (Panic p, w4) \<Rightarrow> (Panic p, w4)
                | (Ok _, w4) \<Rightarrow>
                    (let w5 = recordTransition ex execID (nd_Name node) StatusPending StatusRunning
                                '''' w4 in
                     (Ok (), if backoff > 0 then rt_Sleep rt backoff w5 else w5)))))"

text \<open>\<open>for attempt := 1; attempt <= maxAttempts; attempt++\<close>, over the list of attempts left.\<close>

fun retryLoop ::
    "'w Runtime \<Rightarrow> 'w Executor \<Rightarrow> string \<Rightarrow> 'e Node \<Rightarrow> gomap \<Rightarrow> duration \<Rightarrow> int \<Rightarrow> int list
     \<Rightarrow> goerr option \<Rightarrow> 'w \<Rightarrow> gomap res \<times> 'w" where
  "retryLoop rt ex execID node input backoff maxAttempts [] lastErr w =
     ((case lastErr of None \<Rightarrow> Ok None | Some e \<Rightarrow> Err e), w)"
| "retryLoop rt ex execID node input backoff maxAttempts (attempt # rest) lastErr w =
     (case (if attempt > 1
            then (case lastErr of
                    None \<Rightarrow> (Panic ''nil error'', w)
                  | Some le \<Rightarrow> prepareRetry rt ex execID node input backoff maxAttempts attempt le w)
            else (Ok (), w)) of
        (Err e, w1) \<Rightarrow> (Err e, w1)
      | (Panic p, w1) \<Rightarrow> (Panic p, w1)
      | (Ok _, w1) \<Rightarrow>
          (case ex_Handler ex (nd_Name node) input w1 of
             (Ok out, w2) \<Rightarrow> (Ok out, w2)
           | (Panic p, w2) \<Rightarrow> (Panic p, w2)
           | (Err e, w2) \<Rightarrow>
               retryLoop rt ex execID node input backoff maxAttempts rest (Some e) w2))"

definition retryAttempts :: "RetryPolicy option \<Rightarrow> int" where
  "retryAttempts policy =
     (case policy of None \<Rightarrow> 1 | Some p \<Rightarrow> if MaxAttempts p > 1 then MaxAttempts p else 1)"

definition retryBackoff :: "RetryPolicy option \<Rightarrow> duration" where
  "retryBackoff policy =
     (case policy of None \<Rightarrow> 0 | Some p \<Rightarrow> int64 (BackoffSeconds p * Second))"

definition applyRetry ::
    "'w Runtime \<Rightarrow> 'w Executor \<Rightarrow> string \<Rightarrow> 'e Node \<Rightarrow> gomap \<Rightarrow> 'w \<Rightarrow> gomap res \<times> 'w" where
  "applyRetry rt ex execID node input w =
     (let maxAttempts = retryAttempts (nd_Retry node); backoff = retryBackoff (nd_Retry node)
      in retryLoop rt ex execID node input backoff maxAttempts [1..maxAttempts] None w)"

section \<open>One state\<close>

text \<open>
  The write-ahead half of \<open>executeState\<close>: either the state is admitted and marked running, or
  the call returns at once (\<open>Settled\<close>), with the stored output when the state had completed.
\<close>

datatype admission = Admitted | Settled "gomap res"

definition admitState ::
    "'w Executor \<Rightarrow> string \<Rightarrow> 'e Node \<Rightarrow> gomap \<Rightarrow> time option \<Rightarrow> 'w \<Rightarrow> admission \<times> 'w" where
  "admitState ex execID node input resumeAt w =
     (case st_WriteAheadState (ex_Store ex)
             (newStateRecord execID (nd_Name node) input 1 resumeAt) w of
        (Panic p, w1) \<Rightarrow> (Settled (Panic p), w1)
      | (Err err, w1) \<Rightarrow>
          if err = ErrStateAlreadyTerminal
          then (case st_GetStateOutput (ex_Store ex) execID (nd_Name node) w1 of
                  (r, w2) \<Rightarrow> (Settled r, w2))
          else (Settled (Err err), w1)
      | (Ok _, w1) \<Rightarrow>
          (case st_MarkRunning (ex_Store ex) execID (nd_Name node) w1 of
             (Err e, w2) \<Rightarrow> (Settled (Err e), w2)
           | (Panic p, w2) \<Rightarrow> (Settled (Panic p), w2)
           | (Ok _, w2) \<Rightarrow>
               (Admitted, recordTransition ex execID (nd_Name node) StatusPending StatusRunning
                            '''' w2)))"

text \<open>Waiting, service dispatch or the handler with retries.\<close>

definition invokeState ::
    "'w Runtime \<Rightarrow> 'w Executor \<Rightarrow> string \<Rightarrow> 'e Node \<Rightarrow> gomap \<Rightarrow> time option \<Rightarrow> 'w
     \<Rightarrow> gomap res \<times> 'w" where
  "invokeState rt ex execID node input resumeAt w =
     (if IsWait (nd_TaskDef node) then
        (case resumeAt of
           None \<Rightarrow> (Panic ''nil resumeAt'', w)
         | Some t \<Rightarrow> (Ok (Some Map.empty), rt_Sleep rt (t - rt_Now rt w) w))
      else if td_serviceTarget (nd_TaskDef node) \<noteq> '''' \<and> ex_Dispatcher ex \<noteq> None then
        the (ex_Dispatcher ex) execID (nd_Name node) (td_serviceTarget (nd_TaskDef node)) input w
      else applyRetry rt ex execID node input w)"

definition completeState ::
    "'w Runtime \<Rightarrow> 'w Executor \<Rightarrow> string \<Rightarrow> 'e Node \<Rightarrow> gomap \<Rightarrow> 'w \<Rightarrow> gomap res \<times> 'w" where
  "completeState rt ex execID node out w =
     (case st_CompleteState (ex_Store ex) execID (nd_Name node) out w of
        (Err e, w1) \<Rightarrow> (Err e, w1)
      | (Panic p, w1) \<Rightarrow> (Panic p, w1)
      | (Ok _, w1) \<Rightarrow>
          (let w2 = recordTransition ex execID (nd_Name node) StatusRunning StatusCompleted '''' w1
           in (Ok out, logLine rt ex execID (nd_Name node) ''INFO''
                 [FL ''executor: ['', FS execID, FL ''] state '', FQ (nd_Name node),
                  FL '' completed''] w2)))"

definition failState ::
    "'w Runtime \<Rightarrow> 'w Executor \<Rightarrow> string \<Rightarrow> 'e Node \<Rightarrow> goerr \<Rightarrow> 'w \<Rightarrow> unit res \<times> 'w" where
  "failState rt ex execID node herr w =
     (let w0 = logLine rt ex execID (nd_Name node) ''ERROR''
                 [FL ''executor: ['', FS execID, FL ''] state '', FQ (nd_Name node),
                  FL '' failed: '', FV herr] w in
      case st_FailState (ex_Store ex) execID (nd_Name node) (Error herr) w0 of
        (Err e, w1) \<Rightarrow> (Err e, w1)
      | (Panic p, w1) \<Rightarrow> (Panic p, w1)
      | (Ok _, w1) \<Rightarrow>
          (Ok (), recordTransition ex execID (nd_Name node) StatusRunning StatusFailed
                    (Error herr) w1))"

definition stateResumeAt :: "'w Runtime \<Rightarrow> 'e Node \<Rightarrow> 'w \<Rightarrow> time option" where
  "stateResumeAt rt node w =
     (if IsWait (nd_TaskDef node) then Some (rt_Now rt w + td_waitDur (nd_TaskDef node)) else None)"

definition logStarting :: "'w Runtime \<Rightarrow> 'w Executor \<Rightarrow> string \<Rightarrow> 'e Node \<Rightarrow> 'w \<Rightarrow> 'w" where
  "logStarting rt ex execID node =
     logLine rt ex execID (nd_Name node) ''INFO''
       [FL ''executor: ['', FS execID, FL ''] state '', FQ (nd_Name node), FL '' starting'']"

definition logCatch :: "'w Runtime \<Rightarrow> 'w Executor \<Rightarrow> string \<Rightarrow> 'e Node \<Rightarrow> 'w \<Rightarrow> 'w" where
  "logCatch rt ex execID node =
     logLine rt ex execID (nd_Name node) ''WARN''
       [FL ''executor: ['', FS execID, FL ''] state '', FQ (nd_Name node),
        FL (CHR '' '' # CHR 0xE2 # CHR 0x86 # CHR 0x92 # '' catch ''), FQ (nd_Catch node)]"

fun executeState ::
    "nat \<Rightarrow> 'w Runtime \<Rightarrow> 'w Executor \<Rightarrow> string \<Rightarrow> 'e Graph \<Rightarrow> 'e Node \<Rightarrow> gomap \<Rightarrow> 'w
     \<Rightarrow> (gomap res \<times> 'w) option" where
  "executeState 0 rt ex execID g node input w = None"
| "executeState (Suc n) rt ex execID g node input w =
     (let w0 = logStarting rt ex execID node w;
          resumeAt = stateResumeAt rt node w0 in
      case admitState ex execID node input resumeAt w0 of
        (Settled r, w1) \<Rightarrow> Some (r, w1)
      | (Admitted, w1) \<Rightarrow>
          (case invokeState rt ex execID node input resumeAt w1 of
             (Panic p, w2) \<Rightarrow> Some (Panic p, w2)
           | (Ok out, w2) \<Rightarrow> Some (completeState rt ex execID node out w2)
           | (Err herr, w2) \<Rightarrow>
               (case failState rt ex execID node herr w2 of
                  (Err e, w3) \<Rightarrow> Some (Err e, w3)
                | (Panic p, w3) \<Rightarrow> Some (Panic p, w3)
                | (Ok _, w3) \<Rightarrow>
                    if nd_Catch node = '''' then Some (Err herr, w3)
                    else
                      (let w4 = logCatch rt ex execID node w3;
                           catchInput = mergeErrorKey input herr in
                       case Graph_Node g (nd_Catch node) of
                         None \<Rightarrow> Some (Err herr, w4)
                       | Some c \<Rightarrow> executeState n rt ex execID g c catchInput w4))))"

section \<open>The main loop\<close>

definition choiceKeyOf :: "'e Node \<Rightarrow> gomap \<Rightarrow> string" where
  "choiceKeyOf node out =
     (if IsChoice (nd_TaskDef node)
      then (case entries out ''__choice__'' of Some (VStr s) \<Rightarrow> s | _ \<Rightarrow> '''')
      else '''')"

definition logExecFailed :: "'w Runtime \<Rightarrow> 'w Executor \<Rightarrow> string \<Rightarrow> goerr \<Rightarrow> 'w \<Rightarrow> 'w" where
  "logExecFailed rt ex execID e =
     logLine rt ex execID '''' ''ERROR''
       [FL ''executor: execution '', FQ execID, FL '' failed: '', FV e]"

fun runLoop ::
    "nat \<Rightarrow> 'w Runtime \<Rightarrow> 'w Executor \<Rightarrow> string \<Rightarrow> 'e Graph \<Rightarrow> 'e Node option \<Rightarrow> gomap \<Rightarrow> 'w
     \<Rightarrow> (unit res \<times> 'w) option" where
  "runLoop n rt ex execID g None current w =
     Some (Ok (), logLine rt ex execID '''' ''INFO''
                    [FL ''executor: execution '', FQ execID, FL '' completed''] w)"
| "runLoop 0 rt ex execID g (Some node) current w = None"
| "runLoop (Suc n) rt ex execID g (Some node) current w =
     (case rt_CtxErr rt w of
        Some e \<Rightarrow> Some (Err e, w)
      | None \<Rightarrow>
          (case executeState n rt ex execID g node (cloneInput current) w of
             None \<Rightarrow> None
           | Some (Panic p, w1) \<Rightarrow> Some (Panic p, w1)
           | Some (Err e, w1) \<Rightarrow> Some (Err e, logExecFailed rt ex execID e w1)
           | Some (Ok out, w1) \<Rightarrow>
               (case Graph_Next g node (choiceKeyOf node out) of
                  Panic p \<Rightarrow> Some (Panic p, w1)
                | Err e \<Rightarrow> Some (Err e, logExecFailed rt ex execID e w1)
                | Ok next \<Rightarrow> runLoop n rt ex execID g next out w1)))"

definition Run ::
    "nat \<Rightarrow> 'w Runtime \<Rightarrow> 'w Executor \<Rightarrow> string \<Rightarrow> 'e Graph \<Rightarrow> gomap \<Rightarrow> 'w
     \<Rightarrow> (unit res \<times> 'w) option" where
  "Run n rt ex execID g input w =
     runLoop n rt ex execID g (EntryNode g) input
       (logLine rt ex execID '''' ''INFO''
          [FL ''executor: execution '', FQ execID, FL '' started''] w)"

end
