(* ===== verification/Executor_Correct.thy ===== *)
theory Executor_Correct
  imports Executor
begin

text \<open>
  What the executor guarantees on any store that keeps the contract \<open>state_store\<close>, proved once in
  the locale \<open>executor_env\<close>: handlers run only on states recorded as running, a completed state
  keeps its output, a successful result is backed by a completed record.  The fuel of
  \<open>executeState\<close> and \<open>runLoop\<close> is accounted for at the end.
\<close>

section \<open>Case analysis of one state\<close>

lemma executeState_cases [consumes 1, case_names settled panicked completed unfailed uncaught caught]:
  assumes "executeState (Suc n) rt ex e g node input w = Some (r, w')"
  defines "w0 \<equiv> logStarting rt ex e node w"
  defines "ra \<equiv> stateResumeAt rt node w0"
  obtains
    (settled) "admitState ex e node input ra w0 = (Settled r, w')"
  | (panicked) p w1 where "admitState ex e node input ra w0 = (Admitted, w1)"
      "invokeState rt ex e node input ra w1 = (Panic p, w')" "r = Panic p"
  | (completed) out w1 w2 where "admitState ex e node input ra w0 = (Admitted, w1)"
      "invokeState rt ex e node input ra w1 = (Ok out, w2)"
      "completeState rt ex e node out w2 = (r, w')"
  | (unfailed) herr w1 w2 x where "admitState ex e node input ra w0 = (Admitted, w1)"
      "invokeState rt ex e node input ra w1 = (Err herr, w2)"
      "failState rt ex e node herr w2 = (x, w')" "\<not> is_Ok x" "\<not> is_Ok r"
  | (uncaught) herr w1 w2 w3 where "admitState ex e node input ra w0 = (Admitted, w1)"
      "invokeState rt ex e node input ra w1 = (Err herr, w2)"
      "failState rt ex e node herr w2 = (Ok (), w3)" "r = Err herr"
      "nd_Catch node = '''' \<and> w' = w3 \<or>
       Graph_Node g (nd_Catch node) = None \<and> w' = logCatch rt ex e node w3"
  | (caught) herr w1 w2 w3 c where "admitState ex e node input ra w0 = (Admitted, w1)"
      "invokeState rt ex e node input ra w1 = (Err herr, w2)"
      "failState rt ex e node herr w2 = (Ok (), w3)" "nd_Catch node \<noteq> ''''"
      "Graph_Node g (nd_Catch node) = Some c"
      "executeState n rt ex e g c (mergeErrorKey input herr) (logCatch rt ex e node w3)
         = Some (r, w')"
  using assms(1) unfolding executeState.simps Let_def w0_def [symmetric] ra_def [symmetric]
  by (simp split: prod.splits admission.splits res.splits if_splits option.splits)
    (metis is_Ok.simps(2,3))+

lemma admitState_cases [consumes 1, case_names refused replayed unmarked admitted]:
  assumes "admitState ex e node input ra w = (a, w')"
  defines "sr \<equiv> newStateRecord e (nd_Name node) input 1 ra"
  obtains
    (refused) x r where "st_WriteAheadState (ex_Store ex) sr w = (x, w')" "\<not> is_Ok x"
      "a = Settled r" "\<not> is_Ok r"
  | (replayed) r w1 where
      "st_WriteAheadState (ex_Store ex) sr w = (Err ErrStateAlreadyTerminal, w1)"
      "st_GetStateOutput (ex_Store ex) e (nd_Name node) w1 = (r, w')" "a = Settled r"
  | (unmarked) w1 y r where "st_WriteAheadState (ex_Store ex) sr w = (Ok (), w1)"
      "st_MarkRunning (ex_Store ex) e (nd_Name node) w1 = (y, w')" "\<not> is_Ok y"
      "a = Settled r" "\<not> is_Ok r"
  | (admitted) w1 w2 where "st_WriteAheadState (ex_Store ex) sr w = (Ok (), w1)"
      "st_MarkRunning (ex_Store ex) e (nd_Name node) w1 = (Ok (), w2)" "a = Admitted"
      "w' = recordTransition ex e (nd_Name node) StatusPending StatusRunning '''' w2"
  using assms(1) unfolding admitState_def sr_def [symmetric]
  by (simp split: prod.splits res.splits if_splits) (metis is_Ok.simps(2,3))+

lemma runLoop_cases [consumes 1, case_names finished cancelled stopped advanced]:
  assumes "runLoop (Suc n) rt ex e g nd cur w = Some (r, w')"
  obtains
    (finished) "nd = None" "r = Ok ()"
      "w' = logLine rt ex e '''' ''INFO'' [FL ''executor: execution '', FQ e, FL '' completed''] w"
  | (cancelled) err where "rt_CtxErr rt w = Some err" "r = Err err" "w' = w"
  | (stopped) node x w1 where "nd = Some node" "rt_CtxErr rt w = None"
      "executeState n rt ex e g node (cloneInput cur) w = Some (x, w1)" "\<not> is_Ok r"
      "w' = w1 \<or> (\<exists>err. w' = logExecFailed rt ex e err w1)"
  | (advanced) node out w1 nxt where "nd = Some node" "rt_CtxErr rt w = None"
      "executeState n rt ex e g node (cloneInput cur) w = Some (Ok out, w1)"
      "Graph_Next g node (choiceKeyOf node out) = Ok nxt"
      "runLoop n rt ex e g nxt out w1 = Some (r, w')"
  using assms
  by (cases nd) ((auto split: option.splits prod.splits res.splits)[], (auto split: option.splits prod.splits res.splits; blast))

text \<open>The nodes a failing state can hand over to.\<close>

inductive catch_reach :: "'e Graph \<Rightarrow> 'e Node \<Rightarrow> 'e Node \<Rightarrow> bool" for g where
  here: "catch_reach g node node"
| hand_over: "nd_Catch node \<noteq> '''' \<Longrightarrow> Graph_Node g (nd_Catch node) = Some c \<Longrightarrow>
     catch_reach g c d \<Longrightarrow> catch_reach g node d"

text \<open>Completed records of execution \<open>e\<close> that survive a change of the world.\<close>

definition persists :: "'w view \<Rightarrow> string \<Rightarrow> 'w \<Rightarrow> 'w \<Rightarrow> bool" where
  "persists view e w w' \<longleftrightarrow>
     (\<forall>s out. completed_with view w e s out \<longrightarrow> completed_with view w' e s out)"

lemma persists_refl [simp, intro]: "persists view e w w"
  by (simp add: persists_def)

lemma persists_trans: "persists view e w1 w2 \<Longrightarrow> persists view e w2 w3 \<Longrightarrow> persists view e w1 w3"
  by (auto simp: persists_def)

lemma persists_same: "view w' = view w \<Longrightarrow> persists view e w w'"
  by (simp add: persists_def completed_with_def)

lemma persists_others:
  assumes "others view e s w w'" and "\<not> status_in view w e s StatusCompleted"
  shows "persists view e w w'"
  unfolding persists_def
proof (intro allI impI)
  fix s' out
  assume c: "completed_with view w e s' out"
  with assms(2) have "s' \<noteq> s" by (auto dest: completed_status)
  with assms(1) c show "completed_with view w' e s' out"
    by (simp add: others_def completed_with_def)
qed

lemma others_refl [simp, intro]: "others view e s w w"
  by (simp add: others_def)

lemma others_trans: "others view e s w1 w2 \<Longrightarrow> others view e s w2 w3 \<Longrightarrow> others view e s w1 w3"
  by (simp add: others_def)

lemma others_same: "view w' = view w \<Longrightarrow> others view e s w w'"
  by (simp add: others_def)

text \<open>
  Everything the executor calls besides the handler and the dispatcher keeps the property \<open>P\<close> of
  the world.
\<close>

definition silent :: "'w Runtime \<Rightarrow> 'w Executor \<Rightarrow> ('w \<Rightarrow> bool) \<Rightarrow> bool" where
  "silent rt ex P \<longleftrightarrow>
     (\<forall>w msg. P w \<longrightarrow> P (rt_Log rt msg w)) \<and> (\<forall>w d. P w \<longrightarrow> P (rt_Sleep rt d w)) \<and>
     (\<forall>w x s l m lw. P w \<longrightarrow> ex_LogWriter ex = Some lw \<longrightarrow> P (lw x '''' s l m w)) \<and>
     (\<forall>w x s a b m f. P w \<longrightarrow> ex_Telemetry ex = Some f \<longrightarrow> P (f x s a b m w)) \<and>
     (\<forall>w x s a b m f. P w \<longrightarrow> ex_Notify ex = Some f \<longrightarrow> P (f x s a b m w)) \<and>
     (\<forall>w sr. P w \<longrightarrow> P (snd (st_WriteAheadState (ex_Store ex) sr w))) \<and>
     (\<forall>w x s. P w \<longrightarrow> P (snd (st_MarkRunning (ex_Store ex) x s w))) \<and>
     (\<forall>w x s m. P w \<longrightarrow> P (snd (st_CompleteState (ex_Store ex) x s m w))) \<and>
     (\<forall>w x s m. P w \<longrightarrow> P (snd (st_FailState (ex_Store ex) x s m w))) \<and>
     (\<forall>w x s. P w \<longrightarrow> P (snd (st_GetStateOutput (ex_Store ex) x s w)))"

text \<open>
  The handler and the dispatcher keep \<open>P\<close> when they are called on a state recorded as running, in
  a world where the states completed in \<open>w0\<close> still are.
\<close>

definition guarded :: "'w Executor \<Rightarrow> 'w view \<Rightarrow> string \<Rightarrow> 'w \<Rightarrow> ('w \<Rightarrow> bool) \<Rightarrow> bool" where
  "guarded ex view e w0 P \<longleftrightarrow>
     (\<forall>s inp w. status_in view w e s StatusRunning \<longrightarrow> persists view e w0 w \<longrightarrow> P w \<longrightarrow>
        P (snd (ex_Handler ex s inp w))) \<and>
     (\<forall>d s t inp w. ex_Dispatcher ex = Some d \<longrightarrow> status_in view w e s StatusRunning \<longrightarrow>
        persists view e w0 w \<longrightarrow> P w \<longrightarrow> P (snd (d e s t inp w)))"

lemma silent_effects:
  assumes "silent rt ex P"
  shows "P w \<Longrightarrow> P (logLine rt ex x s l fs w)"
    and "P w \<Longrightarrow> P (recordTransition ex x s a b m w)"
    and "P w \<Longrightarrow> P (rt_Sleep rt d w)"
    and "st_WriteAheadState (ex_Store ex) sr w = (r, w') \<Longrightarrow> P w \<longrightarrow> P w'"
    and "st_MarkRunning (ex_Store ex) x s w = (r, w') \<Longrightarrow> P w \<longrightarrow> P w'"
    and "st_CompleteState (ex_Store ex) x s out w = (r, w') \<Longrightarrow> P w \<longrightarrow> P w'"
    and "st_FailState (ex_Store ex) x s msg w = (r, w') \<Longrightarrow> P w \<longrightarrow> P w'"
    and "st_GetStateOutput (ex_Store ex) x s w = (ro, w') \<Longrightarrow> P w \<longrightarrow> P w'"
proof -
  note sil = assms [unfolded silent_def]
  show "P w \<Longrightarrow> P (logLine rt ex x s l fs w)"
    using sil by (simp add: logLine_def Let_def split: option.splits)
  show "P w \<Longrightarrow> P (recordTransition ex x s a b m w)"
    using sil by (simp add: recordTransition_def Let_def split: option.splits)
  show "P w \<Longrightarrow> P (rt_Sleep rt d w)"
    and "st_WriteAheadState (ex_Store ex) sr w = (r, w') \<Longrightarrow> P w \<longrightarrow> P w'"
    and "st_MarkRunning (ex_Store ex) x s w = (r, w') \<Longrightarrow> P w \<longrightarrow> P w'"
    and "st_CompleteState (ex_Store ex) x s out w = (r, w') \<Longrightarrow> P w \<longrightarrow> P w'"
    and "st_FailState (ex_Store ex) x s msg w = (r, w') \<Longrightarrow> P w \<longrightarrow> P w'"
    and "st_GetStateOutput (ex_Store ex) x s w = (ro, w') \<Longrightarrow> P w \<longrightarrow> P w'"
    using sil by (metis snd_conv)+
qed

lemma silent_phases:
  assumes "silent rt ex P"
  shows "prepareRetry rt ex x node input b m a l w = (r, w') \<Longrightarrow> P w \<Longrightarrow> P w'"
    and "admitState ex x node input ra w = (ad, w') \<Longrightarrow> P w \<Longrightarrow> P w'"
    and "completeState rt ex x node out w = (ro, w') \<Longrightarrow> P w \<Longrightarrow> P w'"
    and "failState rt ex x node herr w = (r, w') \<Longrightarrow> P w \<Longrightarrow> P w'"
proof -
  note imp = silent_effects(4-8) [OF assms] and obs = silent_effects(1-3) [OF assms]
  show "prepareRetry rt ex x node input b m a l w = (r, w') \<Longrightarrow> P w \<Longrightarrow> P w'"
    by (auto simp: prepareRetry_def Let_def obs split: prod.splits res.splits if_splits dest!: imp)
  show "admitState ex x node input ra w = (ad, w') \<Longrightarrow> P w \<Longrightarrow> P w'"
    by (erule admitState_cases) (auto simp: obs dest!: imp)
  show "completeState rt ex x node out w = (ro, w') \<Longrightarrow> P w \<Longrightarrow> P w'"
    by (auto simp: completeState_def Let_def obs split: prod.splits res.splits dest!: imp)
  show "failState rt ex x node herr w = (r, w') \<Longrightarrow> P w \<Longrightarrow> P w'"
    by (auto simp: failState_def Let_def obs split: prod.splits res.splits dest!: imp)
qed

section \<open>The executor over a contract-keeping store\<close>

text \<open>
  The assumptions: the store keeps its contract; logging, sleeping, telemetry and notification
  change no state record; the handler and the dispatcher called for state \<open>s\<close> change at most the
  record of \<open>s\<close> (the runner service completes it on behalf of a Kubernetes job).
\<close>

locale executor_env =
  fixes rt :: "'w Runtime" and ex :: "'w Executor" and view :: "'w view" and e :: string
  assumes store: "state_store (ex_Store ex) view"
    and log_view: "view (rt_Log rt msg w) = view w"
    and sleep_view: "view (rt_Sleep rt d w) = view w"
    and writer_view: "ex_LogWriter ex = Some lw \<Longrightarrow> view (lw a b c d' m w) = view w"
    and telemetry_view: "ex_Telemetry ex = Some tel \<Longrightarrow> view (tel a b c d' m w) = view w"
    and notify_view: "ex_Notify ex = Some nf \<Longrightarrow> view (nf a b c d' m w) = view w"
    and handler_local: "others view e s w (snd (ex_Handler ex s inp w))"
    and dispatcher_local:
      "ex_Dispatcher ex = Some dsp \<Longrightarrow> others view e s w (snd (dsp e s target inp w))"

sublocale executor_env \<subseteq> st: state_store "ex_Store ex" view
  by (rule store)

context executor_env
begin

lemma logLine_view [simp]: "view (logLine rt ex x s lvl fs w) = view w"
  by (simp add: logLine_def log_view writer_view Let_def split: option.splits)

lemma recordTransition_view [simp]: "view (recordTransition ex x s a b m w) = view w"
  by (simp add: recordTransition_def telemetry_view notify_view Let_def split: option.splits)

lemma log_views [simp]:
  "view (logStarting rt ex x node w) = view w" "view (logCatch rt ex x node w) = view w"
  "view (logExecFailed rt ex x err w) = view w"
  by (simp_all add: logStarting_def logCatch_def logExecFailed_def)

lemma status_in_cong: "view w' = view w \<Longrightarrow> status_in view w' e s x = status_in view w e s x"
  by (simp add: status_in_def)

lemma completed_cong: "view w' = view w \<Longrightarrow> completed_with view w' e s x = completed_with view w e s x"
  by (simp add: completed_with_def)

lemma others_cong:
  "view w1 = view w \<Longrightarrow> view w2 = view w' \<Longrightarrow> others view e s w1 w2 = others view e s w w'"
  by (simp add: others_def)

subsubsection \<open>The steps of the protocol\<close>

lemma record_simps [simp]:
  "sr_ExecutionID (newStateRecord x s inp a ra) = x" "sr_StateName (newStateRecord x s inp a ra) = s"
  "sr_Attempt (newStateRecord x s inp a ra) = a" "sr_Input (newStateRecord x s inp a ra) = inp"
  by (simp_all add: newStateRecord_def)

lemma write_ahead_others:
  assumes "st_WriteAheadState (ex_Store ex) (newStateRecord e s inp a ra) w = (r, w')"
  shows "others view e s w w'"
  using st.write_ahead_ok [of "newStateRecord e s inp a ra" w "()" w']
    st.write_ahead_fail [OF assms] assms
  by (cases r) (auto intro: others_same)

lemma mark_running_others:
  "st_MarkRunning (ex_Store ex) e s w = (r, w') \<Longrightarrow> others view e s w w'"
  using st.mark_running_ok [of e s w "()" w'] st.mark_running_fail [of e s w r w']
  by (cases r) (auto intro: others_same)

lemma complete_others:
  "st_CompleteState (ex_Store ex) e s out w = (r, w') \<Longrightarrow> others view e s w w'"
  using st.complete_ok [of e s out w "()" w'] st.complete_fail [of e s out w r w']
  by (cases r) (auto intro: others_same)

lemma fail_others:
  "st_FailState (ex_Store ex) e s msg w = (r, w') \<Longrightarrow> others view e s w w'"
  using st.fail_ok [of e s msg w "()" w'] st.fail_fail [of e s msg w r w']
  by (cases r) (auto intro: others_same)

lemma admit_Admitted:
  assumes "admitState ex e node input ra w = (Admitted, w')"
  shows "status_in view w' e (nd_Name node) StatusRunning"
    and "others view e (nd_Name node) w w'"
    and "\<not> status_in view w e (nd_Name node) StatusCompleted"
proof -
  let ?s = "nd_Name node" let ?sr = "newStateRecord e (nd_Name node) input 1 ra"
  from assms obtain w1 w2 where wa: "st_WriteAheadState (ex_Store ex) ?sr w = (Ok (), w1)"
    and mr: "st_MarkRunning (ex_Store ex) e ?s w1 = (Ok (), w2)" and w': "view w' = view w2"
    by (cases rule: admitState_cases) auto
  show "status_in view w' e ?s StatusRunning"
    using st.mark_running_ok [OF mr] by (simp add: status_in_cong [OF w'])
  show "others view e ?s w w'"
    using others_trans [OF write_ahead_others [OF wa] mark_running_others [OF mr]]
    by (simp add: others_cong [OF refl w'])
  show "\<not> status_in view w e ?s StatusCompleted"
    using st.write_ahead_refuses [of w ?sr "()" w1] wa by auto
qed

lemma admit_Settled_persists:
  assumes "admitState ex e node input ra w = (Settled r, w')"
  shows "persists view e w w'"
  using assms
proof (cases rule: admitState_cases)
  case (refused x r)
  then show ?thesis using st.write_ahead_fail by (blast intro: persists_same)
next
  case (replayed r' w1)
  then have "view w1 = view w" "view w' = view w1"
    using st.write_ahead_fail [OF replayed(1)] st.get_output_view by auto
  then show ?thesis by (intro persists_same) simp
next
  case (unmarked w1 y r)
  then show ?thesis
    using st.write_ahead_refuses [of w "newStateRecord e (nd_Name node) input 1 ra" "()" w1]
    by (intro persists_others [of _ _ "nd_Name node"])
      (auto intro: others_trans [OF write_ahead_others mark_running_others])
qed simp

lemma admit_Settled_Ok:
  assumes "admitState ex e node input ra w = (Settled (Ok out), w')"
  shows "completed_with view w' e (nd_Name node) (entries out)"
  using assms
proof (cases rule: admitState_cases)
  case (replayed r w1)
  then have "st_GetStateOutput (ex_Store ex) e (nd_Name node) w1 = (Ok out, w')" by simp
  from st.get_output_ok [OF this] st.get_output_view [OF this] show ?thesis
    by (simp add: completed_with_def)
qed auto

lemma prepareRetry_spec:
  assumes "prepareRetry rt ex e node input b m a le w = (r, w')"
  shows "others view e (nd_Name node) w w'"
    and "r = Ok u \<Longrightarrow> status_in view w' e (nd_Name node) StatusRunning"
proof -
  let ?s = "nd_Name node" let ?sr = "newStateRecord e (nd_Name node) input a None"
  have "others view e ?s w w' \<and> (\<forall>u. r = Ok u \<longrightarrow> status_in view w' e ?s StatusRunning)"
    using assms
    by (auto simp: prepareRetry_def Let_def others_def status_in_def sleep_view
          split: prod.splits res.splits if_splits
          dest!: st.mark_running_ok st.mark_running_fail write_ahead_others fail_others)
  then show "others view e ?s w w'" and "r = Ok u \<Longrightarrow> status_in view w' e ?s StatusRunning" by auto
qed

lemma handler_others: "ex_Handler ex s inp w = (r, w') \<Longrightarrow> others view e s w w'"
  using handler_local [of s w inp] by simp

lemma retryLoop_others:
  "retryLoop rt ex e node input b m as le w = (r, w') \<Longrightarrow> others view e (nd_Name node) w w'"
proof (induction as arbitrary: le w)
  case Nil
  then show ?case by simp
next
  case (Cons a as)
  obtain x w1 where pre: "(if a > 1 then (case le of None \<Rightarrow> (Panic ''nil error'', w)
      | Some l \<Rightarrow> prepareRetry rt ex e node input b m a l w) else (Ok (), w)) = (x, w1)"
    by force
  then have o1: "others view e (nd_Name node) w w1"
    by (auto split: if_splits option.splits dest: prepareRetry_spec(1))
  obtain y w2 where h: "ex_Handler ex (nd_Name node) input w1 = (y, w2)" by force
  note o2 = handler_others [OF h]
  show ?case
  proof (cases "is_Ok x \<and> (\<exists>err. y = Err err)")
    case True
    then obtain err where "retryLoop rt ex e node input b m as (Some err) w2 = (r, w')"
      using Cons.prems pre h by (auto simp: is_Ok_iff)
    from Cons.IH [OF this] show ?thesis using o1 o2 by (blast intro: others_trans)
  next
    case False
    then have "w' = w1 \<or> w' = w2"
      using Cons.prems pre h by (auto simp: is_Ok_iff split: res.splits)
    then show ?thesis using o1 o2 by (blast intro: others_trans)
  qed
qed

lemma invokeState_others:
  assumes "invokeState rt ex e node input ra w = (r, w')"
  shows "others view e (nd_Name node) w w'"
  using assms dispatcher_local [of "the (ex_Dispatcher ex)" "nd_Name node" w
      "td_serviceTarget (nd_TaskDef node)" input]
  by (auto simp: invokeState_def applyRetry_def Let_def sleep_view others_def
      split: if_splits option.splits dest: retryLoop_others)

lemma completeState_spec:
  assumes "completeState rt ex e node out w = (r, w')"
  shows "others view e (nd_Name node) w w'"
    and "r = Ok out' \<Longrightarrow> out' = out \<and> completed_with view w' e (nd_Name node) (entries out)"
  using assms
  by (auto simp: completeState_def Let_def others_def completed_with_def split: prod.splits res.splits
      dest!: complete_others st.complete_ok)

lemma failState_spec:
  assumes "failState rt ex e node herr w = (r, w')"
  shows "others view e (nd_Name node) w w'"
    and "r = Ok u \<Longrightarrow> status_in view w' e (nd_Name node) StatusFailed"
  using assms
  by (auto simp: failState_def Let_def others_def status_in_def split: prod.splits res.splits
      dest!: fail_others st.fail_ok)

text \<open>Everything between admission and the end of a state touches that state only.\<close>

lemma admitted_persists:
  assumes "admitState ex e node input ra w = (Admitted, w1)"
    and "others view e (nd_Name node) w1 w'"
  shows "persists view e w w'"
  using admit_Admitted(2,3) [OF assms(1)] assms(2)
  by (intro persists_others [OF others_trans]) auto

lemmas admitted_persists2 = admitted_persists [OF _ others_trans]

lemma executeState_persists:
  "executeState n rt ex e g node input w = Some (r, w') \<Longrightarrow> persists view e w w'"
proof (induction n arbitrary: node input w)
  case 0
  then show ?case by simp
next
  case (Suc n)
  note w0 = persists_same [of view "logStarting rt ex e node w" w e]
  note step = persists_trans [OF w0]
  from Suc.prems show ?case
  proof (cases rule: executeState_cases)
    case settled
    then show ?thesis by (intro step admit_Settled_persists) auto
  next
    case (panicked p w1)
    then show ?thesis by (intro step admitted_persists) (auto dest: invokeState_others)
  next
    case (completed out w1 w2)
    then show ?thesis
      by (intro step admitted_persists2 [OF _ invokeState_others completeState_spec(1)]) auto
  next
    case (unfailed herr w1 w2 x)
    then show ?thesis
      by (intro step admitted_persists2 [OF _ invokeState_others failState_spec(1)]) auto
  next
    case (uncaught herr w1 w2 w3)
    then have "persists view e w w3"
      by (intro step admitted_persists2 [OF _ invokeState_others failState_spec(1)]) auto
    moreover have "view w' = view w3" using uncaught by auto
    ultimately show ?thesis by (blast intro: persists_trans persists_same)
  next
    case (caught herr w1 w2 w3 c)
    then have "persists view e w w3"
      by (intro step admitted_persists2 [OF _ invokeState_others failState_spec(1)]) auto
    moreover have "persists view e w3 (logCatch rt ex e node w3)" by (simp add: persists_same)
    ultimately show ?thesis using Suc.IH [OF caught(6)] by (blast intro: persists_trans)
  qed
qed

lemma executeState_Ok:
  "executeState n rt ex e g node input w = Some (Ok out, w') \<Longrightarrow>
   \<exists>d. catch_reach g node d \<and> completed_with view w' e (nd_Name d) (entries out)"
proof (induction n arbitrary: node input w)
  case 0
  then show ?case by simp
next
  case (Suc n)
  from Suc.prems show ?case
  proof (cases rule: executeState_cases)
    case settled
    then show ?thesis using admit_Settled_Ok catch_reach.here by blast
  next
    case (completed out' w1 w2)
    then show ?thesis using completeState_spec(2) catch_reach.here by blast
  next
    case (caught herr w1 w2 w3 c)
    then show ?thesis using Suc.IH [OF caught(6)] by (blast intro: catch_reach.hand_over)
  qed auto
qed

lemma runLoop_persists:
  "runLoop n rt ex e g nd cur w = Some (r, w') \<Longrightarrow> persists view e w w'"
proof (induction n arbitrary: nd cur w)
  case 0
  then show ?case by (cases nd) (auto intro: persists_same)
next
  case (Suc n)
  from Suc.prems show ?case
  proof (cases rule: runLoop_cases)
    case finished
    then show ?thesis by (simp add: persists_same)
  next
    case cancelled
    then show ?thesis by simp
  next
    case (stopped node x w1)
    then have "persists view e w w1" by (blast intro: executeState_persists)
    moreover have "view w' = view w1" using stopped by auto
    ultimately show ?thesis by (blast intro: persists_trans persists_same)
  next
    case (advanced node out w1 nxt)
    then show ?thesis using Suc.IH executeState_persists by (blast intro: persists_trans)
  qed
qed

subsubsection \<open>Handlers run on running states only\<close>

text \<open>
  If \<open>P\<close> is kept by every handler and dispatcher call made while the store says the state is
  running and nothing completed has been lost, and by everything else the executor calls, then the
  executor keeps \<open>P\<close>: it makes no other handler call.
\<close>

lemma retryLoop_guarded:
  assumes sil: "silent rt ex P"
    and h: "\<And>w. status_in view w e (nd_Name node) StatusRunning \<Longrightarrow> persists view e w0 w \<Longrightarrow> P w \<Longrightarrow>
              P (snd (ex_Handler ex (nd_Name node) input w))"
  shows "retryLoop rt ex e node input b m as le w = (r, w') \<Longrightarrow> P w \<Longrightarrow>
    (\<And>v. others view e (nd_Name node) w v \<Longrightarrow> persists view e w0 v) \<Longrightarrow>
    \<forall>a \<in> set (tl as). a > 1 \<Longrightarrow>
    as \<noteq> [] \<and> hd as \<le> 1 \<longrightarrow> status_in view w e (nd_Name node) StatusRunning \<Longrightarrow> P w'"
proof (induction as arbitrary: le w)
  case Nil
  then show ?case by simp
next
  case (Cons a as)
  obtain x w1 where pre: "(if a > 1 then (case le of None \<Rightarrow> (Panic ''nil error'', w)
      | Some l \<Rightarrow> prepareRetry rt ex e node input b m a l w) else (Ok (), w)) = (x, w1)"
    by force
  then have P1: "P w1" and o1: "others view e (nd_Name node) w w1"
    using Cons.prems(2) silent_phases(1) [OF sil]
    by (auto split: if_splits option.splits dest: prepareRetry_spec(1))
  have run: "status_in view w1 e (nd_Name node) StatusRunning" if "is_Ok x"
    using that pre Cons.prems(5) prepareRetry_spec(2)
    by (auto simp: is_Ok_iff split: if_splits option.splits)
  obtain y w2 where hd: "ex_Handler ex (nd_Name node) input w1 = (y, w2)" by force
  have P2: "P w2" if "is_Ok x" using h [OF run [OF that] Cons.prems(3) [OF o1] P1] hd by simp
  note o2 = others_trans [OF o1 handler_others [OF hd]]
  show ?case
  proof (cases "is_Ok x \<and> (\<exists>err. y = Err err)")
    case True
    then obtain err where rec: "retryLoop rt ex e node input b m as (Some err) w2 = (r, w')"
      using Cons.prems pre hd by (auto simp: is_Ok_iff)
    have "\<forall>a \<in> set (tl as). a > 1" "as \<noteq> [] \<and> hd as \<le> 1 \<longrightarrow> False"
      using Cons.prems(4) by (cases as; auto)+
    then show ?thesis
      using Cons.IH [OF rec P2 Cons.prems(3) [OF others_trans [OF o2]]] True by auto
  next
    case False
    then have "w' = w1 \<and> \<not> is_Ok x \<or> w' = w2 \<and> is_Ok x"
      using Cons.prems(1) pre hd by (auto simp: is_Ok_iff split: res.splits)
    then show ?thesis using P1 P2 by blast
  qed
qed

lemma invokeState_guarded:
  assumes "silent rt ex P" and "guarded ex view e w0 P"
    and "status_in view w e (nd_Name node) StatusRunning"
    and "invokeState rt ex e node input ra w = (r, w')" and "P w"
    and "\<And>v. others view e (nd_Name node) w v \<Longrightarrow> persists view e w0 v"
  shows "P w'"
proof -
  let ?n = "retryAttempts (nd_Retry node)"
  have tl: "\<forall>a \<in> set (tl [1..?n]). a > 1"
    by (subst upto.simps) auto
  have h: "P (snd (ex_Handler ex (nd_Name node) input v))"
    if "status_in view v e (nd_Name node) StatusRunning" "persists view e w0 v" "P v" for v
    using assms(2) that by (auto simp: guarded_def)
  consider (wait) d where "w' = w \<or> w' = rt_Sleep rt d w"
    | (dispatch) d t where "ex_Dispatcher ex = Some d" "d e (nd_Name node) t input w = (r, w')"
    | (retry) b where "retryLoop rt ex e node input b ?n [1..?n] None w = (r, w')"
    using assms(4) unfolding invokeState_def applyRetry_def Let_def
    by (auto split: if_splits option.splits)
  then show ?thesis
  proof cases
    case wait
    then show ?thesis using assms(5) silent_effects(3) [OF assms(1)] by auto
  next
    case (dispatch d t)
    then show ?thesis
      using assms(2,3,5) assms(6) [OF others_refl] unfolding guarded_def by (metis snd_conv)
  next
    case retry
    from retryLoop_guarded [OF assms(1) h this assms(5,6) tl] show ?thesis using assms(3) by blast
  qed
qed

lemma executeState_guarded:
  assumes "silent rt ex P" and "guarded ex view e w0 P"
  shows "executeState n rt ex e g node input w = Some (r, w') \<Longrightarrow> persists view e w0 w \<Longrightarrow> P w \<Longrightarrow>
    P w'"
proof (induction n arbitrary: node input w)
  case 0
  then show ?case by simp
next
  case (Suc n)
  note phases = silent_phases [OF assms(1)]
  let ?v = "logStarting rt ex e node w"
  have P0: "P ?v"
    using silent_effects(1) [OF assms(1) Suc.prems(3)] by (simp add: logStarting_def)
  have q0: "persists view e w0 ?v"
    using persists_trans [OF Suc.prems(2) persists_same [of view ?v w e]] by simp
  have cat: "P (logCatch rt ex e node v)" if "P v" for v
    using silent_effects(1) [OF assms(1) that] by (simp add: logCatch_def)
  have q: "persists view e w0 v" if "admitState ex e node input ra ?v = (Admitted, w1)"
    and "others view e (nd_Name node) w1 v" for ra w1 v
    using persists_trans [OF q0 admitted_persists [OF that]] .
  have inv: "P w2" if "admitState ex e node input ra ?v = (Admitted, w1)"
    and "invokeState rt ex e node input ra w1 = (x, w2)" for ra w1 x w2
    using invokeState_guarded [OF assms admit_Admitted(1) [OF that(1)] that(2) phases(2) [OF that(1) P0]]
      q [OF that(1)] by blast
  from Suc.prems(1) show ?case
  proof (cases rule: executeState_cases)
    case settled
    then show ?thesis using phases(2) P0 by blast
  next
    case (panicked p w1)
    then show ?thesis using inv by blast
  next
    case (completed out w1 w2)
    then show ?thesis using inv phases(3) by blast
  next
    case (unfailed herr w1 w2 x)
    then show ?thesis using inv phases(4) by blast
  next
    case (uncaught herr w1 w2 w3)
    then have "P w3" using inv phases(4) by blast
    then show ?thesis using uncaught cat by auto
  next
    case (caught herr w1 w2 w3 c)
    then have "P w3" using inv phases(4) by blast
    moreover have "persists view e w0 w3"
      using q [OF caught(1)] others_trans [OF invokeState_others [OF caught(2)]
          failState_spec(1) [OF caught(3)]] by blast
    then have "persists view e w0 (logCatch rt ex e node w3)"
      by (rule persists_trans) (simp add: persists_same)
    ultimately show ?thesis using Suc.IH [OF caught(6)] cat by blast
  qed
qed

lemma runLoop_guarded:
  assumes "silent rt ex P" and "guarded ex view e w0 P"
  shows "runLoop n rt ex e g nd cur w = Some (r, w') \<Longrightarrow> persists view e w0 w \<Longrightarrow> P w \<Longrightarrow> P w'"
proof (induction n arbitrary: nd cur w)
  case 0
  then show ?case by (cases nd) (auto intro: silent_effects(1) [OF assms(1)])
next
  case (Suc n)
  note exec = executeState_guarded [OF assms]
  from Suc.prems(1) show ?case
  proof (cases rule: runLoop_cases)
    case finished
    then show ?thesis using silent_effects(1) [OF assms(1)] Suc.prems(3) by simp
  next
    case cancelled
    then show ?thesis using Suc.prems(3) by simp
  next
    case (stopped node x w1)
    then have "P w1" using exec Suc.prems(2,3) by blast
    then show ?thesis
      using stopped(5) silent_effects(1) [OF assms(1)] by (auto simp: logExecFailed_def)
  next
    case (advanced node out w1 nxt)
    have "persists view e w0 w1"
      using persists_trans [OF Suc.prems(2) executeState_persists [OF advanced(3)]] .
    with advanced exec Suc.IH Suc.prems(2,3) show ?thesis by blast
  qed
qed

lemma Run_guarded:
  assumes "silent rt ex P" and "guarded ex view e w P"
    and "Run n rt ex e g input w = Some (r, w')" and "P w"
  shows "P w'"
  using runLoop_guarded [OF assms(1,2)] silent_effects(1) [OF assms(1,4)] assms(3)
    persists_same [where view=view, OF logLine_view]
  unfolding Run_def by blast

lemma Run_persists: "Run n rt ex e g input w = Some (r, w') \<Longrightarrow> persists view e w w'"
  unfolding Run_def
  by (drule runLoop_persists) (erule persists_trans [OF persists_same, rotated], simp)

end

section \<open>Fuel\<close>

text \<open>More fuel never changes a result.\<close>

lemma executeState_mono:
  "executeState n rt ex e g node input w = Some x \<Longrightarrow> n \<le> m \<Longrightarrow>
   executeState m rt ex e g node input w = Some x"
proof (induction n arbitrary: m node input w)
  case 0
  then show ?case by simp
next
  case (Suc n)
  then obtain k where m: "m = Suc k" "n \<le> k" by (cases m) auto
  show ?case
    using Suc.prems(1) Suc.IH [OF _ m(2)] unfolding m(1)
    by (auto simp: Let_def split: prod.splits admission.splits res.splits option.splits if_splits)
qed

lemma runLoop_mono:
  "runLoop n rt ex e g nd cur w = Some x \<Longrightarrow> n \<le> m \<Longrightarrow> runLoop m rt ex e g nd cur w = Some x"
proof (induction n arbitrary: m nd cur w)
  case 0
  then show ?case by (cases nd) auto
next
  case (Suc n)
  then obtain k where m: "m = Suc k" "n \<le> k" by (cases m) auto
  show ?case
  proof (cases nd)
    case None
    with Suc.prems show ?thesis by simp
  next
    case (Some node)
    show ?thesis
    proof (cases "rt_CtxErr rt w = None")
      case True
      with Suc.prems(1) Some obtain y w1
        where y: "executeState n rt ex e g node (cloneInput cur) w = Some (y, w1)"
        by (cases "executeState n rt ex e g node (cloneInput cur) w") auto
      note y' = executeState_mono [OF y m(2)]
      show ?thesis
      proof (cases "\<exists>out nxt. y = Ok out \<and> Graph_Next g node (choiceKeyOf node out) = Ok nxt")
        case True
        with Suc.prems(1) Suc.IH [OF _ m(2)] y y' \<open>rt_CtxErr rt w = None\<close> show ?thesis
          unfolding m(1) Some by auto
      next
        case False
        with Suc.prems(1) y y' \<open>rt_CtxErr rt w = None\<close> show ?thesis
          unfolding m(1) Some by (auto split: res.splits)
      qed
    next
      case False
      with Suc.prems(1) show ?thesis unfolding m(1) Some by auto
    qed
  qed
qed

text \<open>
  A graph whose catch hand-overs decrease a rank: one state needs as much fuel as its rank.
\<close>

definition catch_ranked :: "'e Graph \<Rightarrow> (string \<Rightarrow> nat) \<Rightarrow> bool" where
  "catch_ranked g \<kappa> \<longleftrightarrow>
     (\<forall>n nd c. g_nodes g n = Some nd \<longrightarrow> nd_Catch nd \<noteq> '''' \<longrightarrow> g_nodes g (nd_Catch nd) = Some c \<longrightarrow>
        \<kappa> (nd_Catch nd) < \<kappa> n)"

lemma executeState_terminates:
  assumes "catch_ranked g \<kappa>"
  shows "g_nodes g nm = Some node \<Longrightarrow> \<kappa> nm < n \<Longrightarrow>
    \<exists>r. executeState n rt ex e g node input w = Some r"
proof (induction n arbitrary: nm node input w)
  case 0
  then show ?case by simp
next
  case (Suc n)
  have "\<exists>r. executeState n rt ex e g c i v = Some r"
    if "nd_Catch node \<noteq> ''''" and "g_nodes g (nd_Catch node) = Some c" for c i v
  proof -
    from assms Suc.prems(1) that have "\<kappa> (nd_Catch node) < \<kappa> nm" by (auto simp: catch_ranked_def)
    with Suc.prems(2) have "\<kappa> (nd_Catch node) < n" by simp
    from Suc.IH [OF that(2) this] show ?thesis .
  qed
  then show ?case
    by (auto simp: Let_def Graph_Node_def
        split: prod.splits admission.splits res.splits option.splits)
qed

text \<open>
  A graph without choice states whose next steps decrease a rank: the loop ends.
\<close>

definition next_ranked :: "'e Graph \<Rightarrow> (string \<Rightarrow> nat) \<Rightarrow> bool" where
  "next_ranked g \<rho> \<longleftrightarrow>
     (\<forall>n nd c. g_nodes g n = Some nd \<longrightarrow> \<not> nd_Terminal nd \<longrightarrow>
        \<not> IsChoice (nd_TaskDef nd) \<and> (g_nodes g (nd_Next nd) = Some c \<longrightarrow> \<rho> (nd_Next nd) < \<rho> n))"

lemma next_rankedD:
  assumes "next_ranked g \<rho>" and "g_nodes g nm = Some node" and "Graph_Next g node k = Ok (Some c)"
  shows "g_nodes g (nd_Next node) = Some c" and "\<rho> (nd_Next node) < \<rho> nm"
proof -
  from assms(3) have nt: "\<not> nd_Terminal node" by (auto simp: Graph_Next_def)
  with assms(1,2) have "\<not> IsChoice (nd_TaskDef node)" by (auto simp: next_ranked_def)
  with assms(3) nt show nx: "g_nodes g (nd_Next node) = Some c"
    by (auto simp: Graph_Next_def split: option.splits)
  with assms(1,2) nt show "\<rho> (nd_Next node) < \<rho> nm" by (auto simp: next_ranked_def)
qed

lemma runLoop_terminates:
  assumes "catch_ranked g \<kappa>" and "\<forall>n nd. g_nodes g n = Some nd \<longrightarrow> \<kappa> n < K"
    and "next_ranked g \<rho>"
  shows "g_nodes g nm = Some node \<Longrightarrow> \<rho> nm + K < n \<Longrightarrow>
    \<exists>r. runLoop n rt ex e g (Some node) cur w = Some r"
proof (induction n arbitrary: nm node cur w)
  case 0
  then show ?case by simp
next
  case (Suc n)
  have "\<kappa> nm < n" using assms(2) Suc.prems by fastforce
  from executeState_terminates [OF assms(1) Suc.prems(1) this]
  obtain x w1 where ex: "executeState n rt ex e g node (cloneInput cur) w = Some (x, w1)"
    by (metis surj_pair)
  have "\<exists>r. runLoop n rt ex e g nxt out w1 = Some r"
    if "Graph_Next g node k = Ok nxt" for k nxt out
  proof (cases nxt)
    case None
    then show ?thesis by simp
  next
    case (Some c)
    from next_rankedD [OF assms(3) Suc.prems(1) that [unfolded Some]] Suc.prems(2)
    have "g_nodes g (nd_Next node) = Some c" "\<rho> (nd_Next node) + K < n" by auto
    from Suc.IH [OF this] Some show ?thesis by simp
  qed
  then show ?case using ex by (auto split: option.splits res.splits)
qed

lemma Run_mono: "Run n rt ex e g input w = Some x \<Longrightarrow> n \<le> m \<Longrightarrow> Run m rt ex e g input w = Some x"
  unfolding Run_def by (rule runLoop_mono)

section \<open>The example\<close>

definition exampleRank :: "string \<Rightarrow> nat" where
  "exampleRank n = (if n = ''a'' then 1 else 0)"

lemma example_ranked: "catch_ranked exampleGraph (\<lambda>_. 0)" "next_ranked exampleGraph exampleRank"
  by (auto simp: catch_ranked_def next_ranked_def exampleGraph_nodes exampleFlow_simps step_defs
      task_defs mkNode_def exampleRank_def split: if_splits)

end
