(* ===== verification/Memory_Store.thy ===== *)
theory Memory_Store
  imports Store_Interface
begin

text \<open>
  internal/store/memory_store.go: the in-process implementation of \<open>Store\<close>.  Every method holds
  the store's mutex from its first to its last statement, so each is one atomic transition of
  \<open>MemoryStore\<close>; \<open>now\<close> is what its call of \<open>time.Now\<close> returns.  Records are stored by value.
\<close>

section \<open>State\<close>

record MemoryStore =
  ms_executions :: "string \<rightharpoonup> ExecutionRecord"
  ms_states :: "string \<rightharpoonup> StateRecord"
  ms_services :: "string \<rightharpoonup> ServiceRecord"

definition NewMemoryStore :: MemoryStore where
  "NewMemoryStore = \<lparr>ms_executions = Map.empty, ms_states = Map.empty, ms_services = Map.empty\<rparr>"

definition stateKey :: "string \<Rightarrow> string \<Rightarrow> string" where
  "stateKey execID stateName = execID @ '':'' @ stateName"

section \<open>Execution methods\<close>

definition mem_CreateExecution :: "time \<Rightarrow> ExecutionRecord \<Rightarrow> MemoryStore \<Rightarrow> unit res \<times> MemoryStore" where
  "mem_CreateExecution now rcd m =
     (case ms_executions m (er_ID rcd) of
        Some _ \<Rightarrow> (Err (Errorf [FL ''store: execution '', FQ (er_ID rcd), FL '' already exists'']), m)
      | None \<Rightarrow>
          (let cp = rcd\<lparr>er_Status := StatusPending, er_CreatedAt := now, er_UpdatedAt := now\<rparr>
           in (Ok (), m\<lparr>ms_executions := (ms_executions m)(er_ID rcd \<mapsto> cp)\<rparr>)))"

definition mem_GetExecution :: "string \<Rightarrow> MemoryStore \<Rightarrow> ExecutionRecord res" where
  "mem_GetExecution execID m =
     (case ms_executions m execID of None \<Rightarrow> Err ErrExecutionNotFound | Some r \<Rightarrow> Ok r)"

definition mem_UpdateExecution :: "time \<Rightarrow> string \<Rightarrow> Status \<Rightarrow> MemoryStore \<Rightarrow> unit res \<times> MemoryStore" where
  "mem_UpdateExecution now execID status m =
     (case ms_executions m execID of
        None \<Rightarrow> (Err ErrExecutionNotFound, m)
      | Some r \<Rightarrow> (Ok (), m\<lparr>ms_executions :=
          (ms_executions m)(execID \<mapsto> r\<lparr>er_Status := status, er_UpdatedAt := now\<rparr>)\<rparr>))"

text \<open>
  \<open>ListExecutions\<close>; \<open>ord\<close> is the order in which \<open>range\<close> visits the map.  An offset below zero
  makes the slice expression panic; the end of the page is computed with \<open>int\<close> wrap-around.
\<close>

definition filterExecution :: "ExecutionFilter \<Rightarrow> ExecutionRecord \<Rightarrow> bool" where
  "filterExecution f r \<longleftrightarrow>
     \<not> (ef_Workflow f \<noteq> '''' \<and> er_Workflow r \<noteq> ef_Workflow f) \<and>
     \<not> (ef_Status f \<noteq> '''' \<and> er_Status r \<noteq> ef_Status f)"

definition mem_ListExecutions ::
    "string list \<Rightarrow> ExecutionFilter \<Rightarrow> MemoryStore \<Rightarrow> ExecutionRecord list res" where
  "mem_ListExecutions ord f m =
     (let limit = (if ef_Limit f \<le> 0 then 50 else ef_Limit f);
          results = filter (filterExecution f) (List.map_filter (ms_executions m) ord);
          start = ef_Offset f
      in if start > int (length results) then Ok []
         else let e0 = int64 (start + limit);
                  e1 = (if e0 > int (length results) then int (length results) else e0)
              in if start < 0 \<or> e1 < start then Panic ''slice bounds out of range''
                 else Ok (take (nat (e1 - start)) (drop (nat start) results)))"

section \<open>State methods\<close>

definition mem_WriteAheadState :: "time \<Rightarrow> StateRecord \<Rightarrow> MemoryStore \<Rightarrow> unit res \<times> MemoryStore" where
  "mem_WriteAheadState now rcd m =
     (let key = stateKey (sr_ExecutionID rcd) (sr_StateName rcd) in
      if (case ms_states m key of None \<Rightarrow> False | Some ex \<Rightarrow> sr_Status ex = StatusCompleted)
      then (Err ErrStateAlreadyTerminal, m)
      else (Ok (), m\<lparr>ms_states := (ms_states m)(key \<mapsto>
              rcd\<lparr>sr_Status := StatusPending, sr_CreatedAt := now, sr_UpdatedAt := now\<rparr>)\<rparr>))"

text \<open>The lookup-or-fail shape of the three methods that update a stored state record.\<close>

definition updState ::
    "string \<Rightarrow> string \<Rightarrow> (StateRecord \<Rightarrow> StateRecord) \<Rightarrow> MemoryStore \<Rightarrow> unit res \<times> MemoryStore" where
  "updState execID stateName f m =
     (let key = stateKey execID stateName in
      case ms_states m key of
        None \<Rightarrow> (Err ErrStateNotFound, m)
      | Some r \<Rightarrow> (Ok (), m\<lparr>ms_states := (ms_states m)(key \<mapsto> f r)\<rparr>))"

definition mem_MarkRunning :: "time \<Rightarrow> string \<Rightarrow> string \<Rightarrow> MemoryStore \<Rightarrow> unit res \<times> MemoryStore" where
  "mem_MarkRunning now execID stateName =
     updState execID stateName (\<lambda>r. r\<lparr>sr_Status := StatusRunning, sr_UpdatedAt := now\<rparr>)"

definition mem_CompleteState ::
    "time \<Rightarrow> string \<Rightarrow> string \<Rightarrow> gomap \<Rightarrow> MemoryStore \<Rightarrow> unit res \<times> MemoryStore" where
  "mem_CompleteState now execID stateName out =
     updState execID stateName
       (\<lambda>r. r\<lparr>sr_Status := StatusCompleted, sr_Output := out, sr_UpdatedAt := now\<rparr>)"

definition mem_FailState ::
    "time \<Rightarrow> string \<Rightarrow> string \<Rightarrow> string \<Rightarrow> MemoryStore \<Rightarrow> unit res \<times> MemoryStore" where
  "mem_FailState now execID stateName errMsg =
     updState execID stateName
       (\<lambda>r. r\<lparr>sr_Status := StatusFailed, sr_Error := errMsg, sr_UpdatedAt := now\<rparr>)"

definition mem_GetStateOutput :: "string \<Rightarrow> string \<Rightarrow> MemoryStore \<Rightarrow> gomap res" where
  "mem_GetStateOutput execID stateName m =
     (case ms_states m (stateKey execID stateName) of
        None \<Rightarrow> Err ErrStateNotFound
      | Some r \<Rightarrow> if sr_Status r \<noteq> StatusCompleted then Err ErrStateNotCompleted
                 else Ok (Some (entries (sr_Output r))))"

definition mem_ListStates :: "string list \<Rightarrow> string \<Rightarrow> MemoryStore \<Rightarrow> StateRecord list res" where
  "mem_ListStates ord execID m =
     Ok (filter (\<lambda>r. sr_ExecutionID r = execID) (List.map_filter (ms_states m) ord))"

section \<open>Service methods\<close>

definition mem_CreateService :: "time \<Rightarrow> ServiceRecord \<Rightarrow> MemoryStore \<Rightarrow> unit res \<times> MemoryStore" where
  "mem_CreateService now rcd m =
     (case ms_services m (svc_Name rcd) of
        Some _ \<Rightarrow> (Err ErrDuplicateServiceName, m)
      | None \<Rightarrow>
          (let cp = rcd\<lparr>svc_Status := ServiceStatusPending, svc_CreatedAt := now,
                        svc_UpdatedAt := now\<rparr>
           in (Ok (), m\<lparr>ms_services := (ms_services m)(svc_Name rcd \<mapsto> cp)\<rparr>)))"

definition mem_GetService :: "string \<Rightarrow> MemoryStore \<Rightarrow> ServiceRecord res" where
  "mem_GetService n m =
     (case ms_services m n of None \<Rightarrow> Err ErrServiceNotFound | Some r \<Rightarrow> Ok r)"

definition mem_ListServices :: "string list \<Rightarrow> MemoryStore \<Rightarrow> ServiceRecord list res" where
  "mem_ListServices ord m = Ok (List.map_filter (ms_services m) ord)"

definition mem_UpdateServiceStatus ::
    "time \<Rightarrow> string \<Rightarrow> ServiceStatus \<Rightarrow> string \<Rightarrow> MemoryStore \<Rightarrow> unit res \<times> MemoryStore" where
  "mem_UpdateServiceStatus now n status clusterIP m =
     (case ms_services m n of
        None \<Rightarrow> (Err ErrServiceNotFound, m)
      | Some r \<Rightarrow>
          (let r1 = r\<lparr>svc_Status := status\<rparr>;
               r2 = (if clusterIP \<noteq> '''' then r1\<lparr>svc_ClusterIP := clusterIP\<rparr> else r1)
           in (Ok (), m\<lparr>ms_services := (ms_services m)(n \<mapsto> r2\<lparr>svc_UpdatedAt := now\<rparr>)\<rparr>)))"

definition mem_DeleteService :: "string \<Rightarrow> MemoryStore \<Rightarrow> unit res \<times> MemoryStore" where
  "mem_DeleteService n m =
     (case ms_services m n of
        None \<Rightarrow> (Err ErrServiceNotFound, m)
      | Some _ \<Rightarrow> (Ok (), m\<lparr>ms_services := (ms_services m)(n := None)\<rparr>))"

lemmas mem_defs = mem_CreateExecution_def mem_GetExecution_def mem_UpdateExecution_def
  mem_WriteAheadState_def updState_def mem_MarkRunning_def mem_CompleteState_def
  mem_FailState_def mem_GetStateOutput_def mem_ListStates_def mem_CreateService_def
  mem_GetService_def mem_ListServices_def mem_UpdateServiceStatus_def mem_DeleteService_def

section \<open>The store as an interface value\<close>

text \<open>
  The world of an in-process execution: the store, the clock, the log, and the environment that
  the user's handlers act on.  The handlers get no reference to the store.
\<close>

record 'e mem_world =
  mw_store :: MemoryStore
  mw_now :: time
  mw_log :: "string list"
  mw_env :: 'e

definition onStore :: "(time \<Rightarrow> MemoryStore \<Rightarrow> 'a res \<times> MemoryStore) \<Rightarrow> 'e mem_world \<Rightarrow> 'a res \<times> 'e mem_world" where
  "onStore f w = (case f (mw_now w) (mw_store w) of (r, m) \<Rightarrow> (r, w\<lparr>mw_store := m\<rparr>))"

definition readStore :: "(MemoryStore \<Rightarrow> 'a res) \<Rightarrow> 'e mem_world \<Rightarrow> 'a res \<times> 'e mem_world" where
  "readStore f w = (f (mw_store w), w)"

text \<open>\<open>ranges m\<close> chooses the order of the three map loops.\<close>

record range_orders =
  ro_executions :: "MemoryStore \<Rightarrow> string list"
  ro_states :: "MemoryStore \<Rightarrow> string list"
  ro_services :: "MemoryStore \<Rightarrow> string list"

definition memoryStore :: "range_orders \<Rightarrow> 'e mem_world Store" where
  "memoryStore ro =
     \<lparr>st_CreateExecution = (\<lambda>r. onStore (\<lambda>now. mem_CreateExecution now r)),
      st_GetExecution = (\<lambda>e. readStore (mem_GetExecution e)),
      st_UpdateExecution = (\<lambda>e s. onStore (\<lambda>now. mem_UpdateExecution now e s)),
      st_ListExecutions = (\<lambda>f. readStore (\<lambda>m. mem_ListExecutions (ro_executions ro m) f m)),
      st_WriteAheadState = (\<lambda>r. onStore (\<lambda>now. mem_WriteAheadState now r)),
      st_MarkRunning = (\<lambda>e s. onStore (\<lambda>now. mem_MarkRunning now e s)),
      st_CompleteState = (\<lambda>e s out. onStore (\<lambda>now. mem_CompleteState now e s out)),
      st_FailState = (\<lambda>e s msg. onStore (\<lambda>now. mem_FailState now e s msg)),
      st_GetStateOutput = (\<lambda>e s. readStore (mem_GetStateOutput e s)),
      st_ListStates = (\<lambda>e. readStore (\<lambda>m. mem_ListStates (ro_states ro m) e m)),
      st_CreateService = (\<lambda>r. onStore (\<lambda>now. mem_CreateService now r)),
      st_GetService = (\<lambda>n. readStore (mem_GetService n)),
      st_ListServices = readStore (\<lambda>m. mem_ListServices (ro_services ro m) m),
      st_UpdateServiceStatus = (\<lambda>n s ip. onStore (\<lambda>now. mem_UpdateServiceStatus now n s ip)),
      st_DeleteService = (\<lambda>n. onStore (\<lambda>_. mem_DeleteService n))\<rparr>"

definition mem_view :: "'e mem_world view" where
  "mem_view w e s = ms_states (mw_store w) (stateKey e s)"

section \<open>The contract holds\<close>

lemma stateKey_inject [simp]: "stateKey e s = stateKey e s' \<longleftrightarrow> s = s'"
  by (simp add: stateKey_def)

text \<open>
  Across executions the key is injective as long as no execution ID holds a colon, which is so
  for the UUIDs the program generates.
\<close>

lemma stateKey_inject2:
  assumes "CHR '':'' \<notin> set e" and "CHR '':'' \<notin> set e'"
  shows "stateKey e s = stateKey e' s' \<longleftrightarrow> e = e' \<and> s = s'"
  using append_sep_inject [of e "CHR '':''" s e' s'] assms by (auto simp: stateKey_def)

lemma updState_Ok:
  "updState e s f m = (Ok u, m') \<longleftrightarrow>
     (\<exists>r. ms_states m (stateKey e s) = Some r \<and>
          m' = m\<lparr>ms_states := (ms_states m)(stateKey e s \<mapsto> f r)\<rparr>)"
  by (auto simp: updState_def Let_def split: option.splits)

lemma updState_fail: "updState e s f m = (r, m') \<Longrightarrow> \<not> is_Ok r \<Longrightarrow> m' = m"
  by (auto simp: updState_def Let_def split: option.splits)

lemmas mem_world_defs = memoryStore_def onStore_def readStore_def mem_view_def

interpretation mem: reliable_store "memoryStore ro" mem_view for ro
proof (unfold_locales, goal_cases)
  case (1 w sr u w') then show ?case
    by (auto simp: status_in_def mem_world_defs mem_WriteAheadState_def Let_def)
next
  case (2 sr w u w') then show ?case
    by (auto simp: others_def mem_world_defs mem_WriteAheadState_def Let_def split: if_splits)
next
  case (3 sr w res w') then show ?case
    by (auto simp: mem_world_defs mem_WriteAheadState_def Let_def fun_eq_iff split: if_splits)
qed (auto simp: others_def status_in_def completed_with_def mem_world_defs mem_defs Let_def
      fun_eq_iff split: if_splits option.splits prod.splits)

section \<open>Histories of the store\<close>

text \<open>
  One call of a mutating method, by any client: the steps the store can make.  Concurrent clients
  interleave such steps.
\<close>

inductive mem_step :: "MemoryStore \<Rightarrow> MemoryStore \<Rightarrow> bool" where
  create_execution: "mem_step m (snd (mem_CreateExecution now r m))"
| update_execution: "mem_step m (snd (mem_UpdateExecution now e st m))"
| write_ahead: "mem_step m (snd (mem_WriteAheadState now sr m))"
| mark_running: "mem_step m (snd (mem_MarkRunning now e s m))"
| complete_state: "mem_step m (snd (mem_CompleteState now e s out m))"
| fail_state: "mem_step m (snd (mem_FailState now e s msg m))"
| create_service: "mem_step m (snd (mem_CreateService now v m))"
| update_service: "mem_step m (snd (mem_UpdateServiceStatus now n sst ip m))"
| delete_service: "mem_step m (snd (mem_DeleteService n m))"

inductive mem_reachable :: "MemoryStore \<Rightarrow> bool" where
  start: "mem_reachable NewMemoryStore"
| step: "mem_reachable m \<Longrightarrow> mem_step m m' \<Longrightarrow> mem_reachable m'"

inductive_cases mem_stepE: "mem_step m m'"

text \<open>
  Every record is filed under its own key, and a state record has one of the four statuses.
\<close>

definition mem_inv :: "MemoryStore \<Rightarrow> bool" where
  "mem_inv m \<longleftrightarrow>
     (\<forall>k r. ms_executions m k = Some r \<longrightarrow> er_ID r = k) \<and>
     (\<forall>k r. ms_states m k = Some r \<longrightarrow> stateKey (sr_ExecutionID r) (sr_StateName r) = k \<and>
        sr_Status r \<in> {StatusPending, StatusRunning, StatusCompleted, StatusFailed}) \<and>
     (\<forall>k r. ms_services m k = Some r \<longrightarrow> svc_Name r = k)"

lemma mem_inv_updState:
  assumes "mem_inv m" and "\<And>r. sr_ExecutionID (f r) = sr_ExecutionID r"
    and "\<And>r. sr_StateName (f r) = sr_StateName r"
    and "\<And>r. sr_Status (f r) \<in> {StatusPending, StatusRunning, StatusCompleted, StatusFailed}"
  shows "mem_inv (snd (updState e s f m))"
  using assms unfolding mem_inv_def
  by (auto simp: updState_def Let_def split: option.splits if_splits)

lemma mem_inv_step: "mem_step m m' \<Longrightarrow> mem_inv m \<Longrightarrow> mem_inv m'"
proof (induction rule: mem_step.induct)
  case (create_execution m now r)
  then show ?case by (auto simp: mem_inv_def mem_CreateExecution_def Let_def split: option.splits if_splits)
next
  case (update_execution m now e st)
  then show ?case by (auto simp: mem_inv_def mem_UpdateExecution_def split: option.splits if_splits)
next
  case (write_ahead m now sr)
  then show ?case by (auto simp: mem_inv_def mem_WriteAheadState_def Let_def split: if_splits)
next
  case (mark_running m now e s)
  then show ?case unfolding mem_MarkRunning_def by (intro mem_inv_updState) simp_all
next
  case (complete_state m now e s out)
  then show ?case unfolding mem_CompleteState_def by (intro mem_inv_updState) simp_all
next
  case (fail_state m now e s msg)
  then show ?case unfolding mem_FailState_def by (intro mem_inv_updState) simp_all
next
  case (create_service m now v)
  then show ?case by (auto simp: mem_inv_def mem_CreateService_def Let_def split: option.splits if_splits)
next
  case (update_service m now n sst ip)
  then show ?case
    by (auto simp: mem_inv_def mem_UpdateServiceStatus_def Let_def split: option.splits if_splits)
next
  case (delete_service m n)
  then show ?case by (auto simp: mem_inv_def mem_DeleteService_def split: option.splits if_splits)
qed

lemma mem_inv_start: "mem_inv NewMemoryStore"
  by (simp add: mem_inv_def NewMemoryStore_def)

section \<open>Listing\<close>

lemma map_filter_nth_set: "set (List.map_filter f xs) = {y. \<exists>x \<in> set xs. f x = Some y}"
  by (induction xs) (auto simp: map_filter_simps split: option.splits)

definition matching :: "string list \<Rightarrow> ExecutionFilter \<Rightarrow> MemoryStore \<Rightarrow> ExecutionRecord list" where
  "matching ord f m = filter (filterExecution f) (List.map_filter (ms_executions m) ord)"

lemma set_matching:
  "range_order ord (ms_executions m) \<Longrightarrow>
   set (matching ord f m) = {r. (\<exists>k. ms_executions m k = Some r) \<and> filterExecution f r}"
  by (auto simp: matching_def map_filter_nth_set range_orderD)

lemma ListExecutions_page:
  assumes "0 \<le> ef_Offset f" and "ef_Offset f + ef_Limit f < 2 ^ 63" and "0 < ef_Limit f"
  shows "mem_ListExecutions ord f m =
    Ok (take (nat (ef_Limit f)) (drop (nat (ef_Offset f)) (matching ord f m)))"
proof -
  let ?n = "int (length (matching ord f m))"
  have e0: "int64 (ef_Offset f + ef_Limit f) = ef_Offset f + ef_Limit f"
    using assms by (intro int64_id) auto
  show ?thesis
    using assms unfolding mem_ListExecutions_def matching_def [symmetric] Let_def
    by (auto simp: e0 nat_diff_distrib' nat_le_iff nat_add_distrib)
qed

section \<open>Properties\<close>

text \<open>
  C18.  The memory store implements the contract \<open>reliable_store\<close> of this development, without
  infrastructure failures: write-ahead refuses exactly completed states, each successful call
  has the effect of the contract on its own record, failed calls change nothing, and no call touches
  another state of the execution.  (docs/phases/phase-2-state-machine.md has write-ahead refuse
  failed states too; the code, and with it the contract, admits them again.)
\<close>

theorem MemoryStore_contract: "reliable_store (memoryStore ro) (mem_view :: 'e mem_world view)"
  by (rule mem.reliable_store_axioms)

text \<open>
  C25.  In every state the store can reach through calls of its methods, in any order and from any
  number of clients, each record is filed under the key of its own fields and each state has one of
  the four statuses.
\<close>

theorem MemoryStore_invariant:
  assumes "mem_reachable m"
  shows "mem_inv m"
  using assms by (induction rule: mem_reachable.induct) (auto intro: mem_inv_start mem_inv_step)

definition exampleState :: StateRecord where
  "exampleState = \<lparr>sr_ExecutionID = ''e'', sr_StateName = ''a'', sr_Status = '''', sr_Input = None,
     sr_Output = None, sr_Error = '''', sr_Attempt = 1, sr_ResumeAt = None, sr_CreatedAt = 0,
     sr_UpdatedAt = 0\<rparr>"

theorem MemoryStore_invariant_witness:
  "mem_inv (snd (mem_WriteAheadState 7 exampleState NewMemoryStore))"
  by (rule MemoryStore_invariant) (blast intro: mem_reachable.start mem_reachable.step mem_step.write_ahead)

text \<open>
  C26.  Executions are isolated: whatever the state methods do for one execution, the states recorded for
  another stay as they are, as long as execution IDs have no colon.
\<close>

theorem MemoryStore_isolation:
  assumes "e \<noteq> e'" and "CHR '':'' \<notin> set e" and "CHR '':'' \<notin> set e'"
  shows "mem_view (snd (st_MarkRunning (memoryStore ro) e s w)) e' s' = mem_view w e' s' \<and>
    mem_view (snd (st_CompleteState (memoryStore ro) e s out w)) e' s' = mem_view w e' s' \<and>
    mem_view (snd (st_FailState (memoryStore ro) e s msg w)) e' s' = mem_view w e' s' \<and>
    mem_view (snd (st_WriteAheadState (memoryStore ro) (sr\<lparr>sr_ExecutionID := e\<rparr>) w)) e' s'
      = mem_view w e' s'"
proof -
  have "stateKey e' s' \<noteq> stateKey e t" for t using assms stateKey_inject2 [of e' e] by auto
  then show ?thesis by (simp add: mem_world_defs mem_defs Let_def split: option.splits prod.splits)
qed

definition exampleOrders :: range_orders where
  "exampleOrders = \<lparr>ro_executions = (\<lambda>_. []), ro_states = (\<lambda>_. []), ro_services = (\<lambda>_. [])\<rparr>"

definition exampleWorld :: "string list mem_world" where
  "exampleWorld = \<lparr>mw_store = NewMemoryStore, mw_now = 0, mw_log = [], mw_env = []\<rparr>"

theorem MemoryStore_isolation_witness:
  "mem_view (snd (st_WriteAheadState (memoryStore exampleOrders)
     (exampleState\<lparr>sr_ExecutionID := ''e''\<rparr>) exampleWorld)) ''f'' ''a'' = mem_view exampleWorld ''f'' ''a''"
proof -
  have "''e'' \<noteq> ''f''" "CHR '':'' \<notin> set ''e''" "CHR '':'' \<notin> set ''f''" by simp_all
  from MemoryStore_isolation [OF this] show ?thesis by blast
qed

text \<open>
  Listing executions with a positive limit returns the page of the matching executions that
  starts at the offset and has at most \<open>limit\<close> entries; the matching executions are exactly the
  stored ones that pass the filter.
\<close>

theorem ListExecutions_paging:
  assumes "range_order ord (ms_executions m)"
    and "0 \<le> ef_Offset f" and "0 < ef_Limit f" and "ef_Offset f + ef_Limit f < 2 ^ 63"
  shows "\<exists>all. mem_ListExecutions ord f m =
      Ok (take (nat (ef_Limit f)) (drop (nat (ef_Offset f)) all)) \<and>
    set all = {r. (\<exists>k. ms_executions m k = Some r) \<and> (ef_Workflow f = '''' \<or> er_Workflow r = ef_Workflow f) \<and>
      (ef_Status f = '''' \<or> er_Status r = ef_Status f)}"
proof -
  have "set (matching ord f m) = {r. (\<exists>k. ms_executions m k = Some r) \<and>
      (ef_Workflow f = '''' \<or> er_Workflow r = ef_Workflow f) \<and>
      (ef_Status f = '''' \<or> er_Status r = ef_Status f)}"
    unfolding set_matching [OF assms(1)] by (auto simp: filterExecution_def)
  with ListExecutions_page [OF assms(2,4,3), of ord m] show ?thesis by blast
qed

theorem ListExecutions_paging_witness:
  "\<exists>all. mem_ListExecutions [] \<lparr>ef_Workflow = '''', ef_Status = '''', ef_Limit = 10, ef_Offset = 0\<rparr>
     NewMemoryStore = Ok (take 10 (drop 0 all))"
  using ListExecutions_paging [of "[]" NewMemoryStore
      "\<lparr>ef_Workflow = '''', ef_Status = '''', ef_Limit = 10, ef_Offset = 0\<rparr>"]
  by (auto simp: NewMemoryStore_def)

text \<open>
  A negative offset is not rejected: the slice expression of the listing panics.
\<close>

theorem ListExecutions_negative_offset:
  assumes "ef_Offset f < 0"
  shows "mem_ListExecutions ord f m = Panic ''slice bounds out of range''"
  using assms by (simp add: mem_ListExecutions_def Let_def)

theorem ListExecutions_negative_offset_witness:
  "mem_ListExecutions [] \<lparr>ef_Workflow = '''', ef_Status = '''', ef_Limit = 10, ef_Offset = - 1\<rparr>
     NewMemoryStore = Panic ''slice bounds out of range''"
  by (rule ListExecutions_negative_offset) simp

end
