(* ===== verification/Local_Runner.thy ===== *)
theory Local_Runner
  imports Executor_Correct Memory_Store
begin

text \<open>
  internal/local/runner.go: \<open>RunLocal\<close> composes the graph compiler, the executor and the memory
  store into an in-process run of a workflow.  The user's handlers act on the environment part of
  the world only; the clock moves when the program sleeps; the background context never ends.

  The theory interprets the executor's locale on this composition and adds what holds of it beyond
  the contract: the retry loop seen from the handlers, and the fate of the records.
\<close>

unbundle bit_operations_syntax

section \<open>Execution IDs\<close>

definition hexBytes :: "8 word list \<Rightarrow> string" where
  "hexBytes bs = concat (map (\<lambda>b. [hexDigit (unat b div 16), hexDigit (unat b mod 16)]) bs)"

definition uuidBits :: "8 word list \<Rightarrow> 8 word list" where
  "uuidBits b = b[6 := ((b ! 6) AND 0x0f) OR 0x40, 8 := ((b ! 8) AND 0x3f) OR 0x80]"

text \<open>\<open>rnd\<close> is what \<open>rand.Read\<close> gives for the 16-byte buffer.\<close>

definition newUUID :: "8 word list res \<Rightarrow> string res" where
  "newUUID rnd =
     (case rnd of
        Err e \<Rightarrow> Err e
      | Panic p \<Rightarrow> Panic p
      | Ok b0 \<Rightarrow>
          (let b = uuidBits b0 in
           Ok (hexBytes (take 4 b) @ ''-'' @ hexBytes (take 2 (drop 4 b)) @ ''-'' @
               hexBytes (take 2 (drop 6 b)) @ ''-'' @ hexBytes (take 2 (drop 8 b)) @ ''-'' @
               hexBytes (drop 10 b))))"

section \<open>The composition\<close>

definition localRuntime :: "'e mem_world Runtime" where
  "localRuntime =
     \<lparr>rt_Now = mw_now,
      rt_Sleep = (\<lambda>d w. w\<lparr>mw_now := mw_now w + max d 0\<rparr>),
      rt_Log = (\<lambda>msg w. w\<lparr>mw_log := mw_log w @ [msg]\<rparr>),
      rt_CtxErr = (\<lambda>w. None)\<rparr>"

definition onEnv :: "('e \<Rightarrow> 'a \<times> 'e) \<Rightarrow> 'e mem_world \<Rightarrow> 'a \<times> 'e mem_world" where
  "onEnv f w = (case f (mw_env w) of (r, v) \<Rightarrow> (r, w\<lparr>mw_env := v\<rparr>))"

text \<open>The function literal that \<open>RunLocal\<close> installs as the executor's handler.\<close>

definition stateHandler :: "'e Workflow \<Rightarrow> string \<Rightarrow> gomap \<Rightarrow> 'e \<Rightarrow> gomap res \<times> 'e" where
  "stateHandler wk stateName inp v =
     (case wf_tasks wk stateName of
        None \<Rightarrow> (Err (Errorf [FL ''kflow.RunLocal: unknown state '', FQ stateName]), v)
      | Some td \<Rightarrow>
          if IsChoice td then
            (case td_choiceFn td of
               None \<Rightarrow> (Panic ''nil function'', v)
             | Some fn \<Rightarrow>
                 (case fn inp v of
                    (Err e, v1) \<Rightarrow> (Err e, v1)
                  | (Panic p, v1) \<Rightarrow> (Panic p, v1)
                  | (Ok choice, v1) \<Rightarrow>
                      (Ok (Some ((entries inp)(''__choice__'' \<mapsto> VStr choice))), v1)))
          else
            (case td_fn td of
               None \<Rightarrow> (Panic ''nil function'', v)
             | Some fn \<Rightarrow> fn inp v))"

definition localExecutor ::
    "range_orders \<Rightarrow> (string \<Rightarrow> gomap \<Rightarrow> 'e \<Rightarrow> gomap res \<times> 'e) \<Rightarrow> 'e mem_world Executor" where
  "localExecutor ro h =
     \<lparr>ex_Store = memoryStore ro, ex_Handler = (\<lambda>s inp. onEnv (h s inp)), ex_Dispatcher = None,
      ex_Telemetry = None, ex_LogWriter = None, ex_Notify = None\<rparr>"

definition newExecution :: "string \<Rightarrow> string \<Rightarrow> gomap \<Rightarrow> ExecutionRecord" where
  "newExecution execID wfName input =
     \<lparr>er_ID = execID, er_Workflow = wfName, er_Status = '''', er_Input = input,
      er_CreatedAt = zeroTime, er_UpdatedAt = zeroTime\<rparr>"

text \<open>The part after the graph and the ID are there.\<close>

definition runExecution ::
    "nat \<Rightarrow> range_orders \<Rightarrow> 'e Workflow \<Rightarrow> 'e Graph \<Rightarrow> string \<Rightarrow> gomap \<Rightarrow> 'e mem_world
     \<Rightarrow> (unit res \<times> 'e mem_world) option" where
  "runExecution n ro wk g execID input w =
     (let ms = memoryStore ro;
          w0 = rt_Log localRuntime (Sprintf [FL ''runner: starting local execution '',
                 FQ (wf_name wk), FL '' (execID='', FS execID, FL '')'']) w;
          w1 = w0\<lparr>mw_store := NewMemoryStore\<rparr> in
      case st_CreateExecution ms (newExecution execID (wf_name wk) input) w1 of
        (Err e, w2) \<Rightarrow> Some (Err (Errorf [FL ''kflow.RunLocal: create execution: '', FW e]), w2)
      | (Panic p, w2) \<Rightarrow> Some (Panic p, w2)
      | (Ok _, w2) \<Rightarrow>
          (case st_UpdateExecution ms execID StatusRunning w2 of
             (Err e, w3) \<Rightarrow> Some (Err (Errorf [FL ''kflow.RunLocal: mark running: '', FW e]), w3)
           | (Panic p, w3) \<Rightarrow> Some (Panic p, w3)
           | (Ok _, w3) \<Rightarrow>
               (case Run n localRuntime (localExecutor ro (stateHandler wk)) execID g input w3 of
                  None \<Rightarrow> None
                | Some (Panic p, w4) \<Rightarrow> Some (Panic p, w4)
                | Some (Err e, w4) \<Rightarrow>
                    (let w5 = rt_Log localRuntime (Sprintf [FL ''runner: execution '',
                                FQ (wf_name wk), FL '' failed: '', FV e]) w4
                     in Some (Err e, snd (st_UpdateExecution ms execID StatusFailed w5)))
                | Some (Ok _, w4) \<Rightarrow>
                    (let w5 = rt_Log localRuntime (Sprintf [FL ''runner: execution '',
                                FQ (wf_name wk), FL '' completed'']) w4
                     in Some (Ok (), snd (st_UpdateExecution ms execID StatusCompleted w5))))))"

definition RunLocal ::
    "nat \<Rightarrow> range_orders \<Rightarrow> string list \<Rightarrow> 8 word list res \<Rightarrow> 'e Workflow \<Rightarrow> gomap \<Rightarrow> 'e mem_world
     \<Rightarrow> (unit res \<times> 'e mem_world) option" where
  "RunLocal n ro ord rnd wk input w =
     (case Build ord wk of
        Err e \<Rightarrow> Some (Err (Errorf [FL ''kflow.RunLocal: '', FW e]), w)
      | Panic p \<Rightarrow> Some (Panic p, w)
      | Ok g \<Rightarrow>
          (case newUUID rnd of
             Err e \<Rightarrow> Some (Err (Errorf [FL ''kflow.RunLocal: uuid: '', FW e]), w)
           | Panic p \<Rightarrow> Some (Panic p, w)
           | Ok execID \<Rightarrow> runExecution n ro wk g execID input w))"

section \<open>The executor's contract holds for the composition\<close>

lemmas local_defs = localRuntime_def localExecutor_def

interpretation loc: executor_env localRuntime "localExecutor ro h" mem_view e for ro h e
  by (rule executor_env.intro)
    (auto simp: local_defs mem_view_def onEnv_def others_def mem.state_store_axioms fun_eq_iff
      split: prod.splits)

section \<open>UUIDs\<close>

lemma hexBytes_Nil [simp]: "hexBytes [] = []"
  by (simp add: hexBytes_def)

lemma hexBytes_Cons [simp]:
  "hexBytes (b # bs) = hexDigit (unat b div 16) # hexDigit (unat b mod 16) # hexBytes bs"
  by (simp add: hexBytes_def)

lemma length_hexBytes [simp]: "length (hexBytes bs) = 2 * length bs"
  by (induction bs) simp_all

definition isHex :: "char \<Rightarrow> bool" where
  "isHex c \<longleftrightarrow> c \<in> set ''0123456789abcdef''"

lemma hexDigit_isHex: "n < 16 \<Longrightarrow> isHex (hexDigit n)"
proof -
  have "list_all (\<lambda>n. isHex (hexDigit n)) [0..<16]" by code_simp
  then show "n < 16 \<Longrightarrow> isHex (hexDigit n)" by (simp add: list_all_iff)
qed

lemma hexBytes_isHex: "list_all isHex (hexBytes bs)"
proof (induction bs)
  case (Cons b bs)
  have "unat b < 2 ^ LENGTH(8)" by (rule unsigned_less)
  with Cons show ?case by (simp add: hexDigit_isHex)
qed simp

lemma version_nibble: "unat (((b :: 8 word) AND 0x0f) OR 0x40) div 16 = 4"
proof -
  have "drop_bit 4 ((b AND 0x0f) OR 0x40) = (4 :: 8 word)"
    by (rule bit_word_eqI) (auto simp: bit_simps less_Suc_eq numeral_eq_Suc)
  then have "unat (drop_bit 4 ((b AND 0x0f) OR 0x40)) = 4" by simp
  then show ?thesis by (simp add: drop_bit_eq_div unat_div_distrib)
qed

lemma variant_nibble: "unat (((b :: 8 word) AND 0x3f) OR 0x80) div 16 \<in> {8, 9, 10, 11}"
proof -
  have "drop_bit 6 ((b AND 0x3f) OR 0x80) = (2 :: 8 word)"
    by (rule bit_word_eqI) (auto simp: bit_simps less_Suc_eq numeral_eq_Suc)
  then have "unat (drop_bit 6 ((b AND 0x3f) OR 0x80)) = 2" by simp
  then have "unat ((b AND 0x3f) OR 0x80) div 64 = 2"
    by (simp add: drop_bit_eq_div unat_div_distrib)
  then have "unat ((b AND 0x3f) OR 0x80) div 16 div 4 = 2" by (simp add: div_mult2_eq [symmetric])
  then have "unat ((b AND 0x3f) OR 0x80) div 16 \<in> {8..<12}" by (simp, linarith)
  then show ?thesis by auto
qed

lemma hexDigit_eval:
  "hexDigit 4 = CHR ''4''" "hexDigit 8 = CHR ''8''" "hexDigit 9 = CHR ''9''"
  "hexDigit 10 = CHR ''a''" "hexDigit 11 = CHR ''b''"
  by code_simp+

lemma length16:
  assumes "length b = 16"
  obtains b0 b1 b2 b3 b4 b5 b6 b7 b8 b9 b10 b11 b12 b13 b14 b15
  where "b = [b0, b1, b2, b3, b4, b5, b6, b7, b8, b9, b10, b11, b12, b13, b14, b15]"
  using assms by (auto simp: numeral_eq_Suc length_Suc_conv)

lemma newUUID_format:
  assumes "length b = 16" and "newUUID (Ok b) = Ok u"
  shows "length u = 36" and "\<forall>c \<in> set u. isHex c \<or> c = CHR ''-''"
    and "u ! 14 = CHR ''4''" and "u ! 19 \<in> set ''89ab''"
proof -
  from assms(1) obtain b0 b1 b2 b3 b4 b5 b6 b7 b8 b9 b10 b11 b12 b13 b14 b15
    where b: "b = [b0, b1, b2, b3, b4, b5, b6, b7, b8, b9, b10, b11, b12, b13, b14, b15]"
    by (rule length16)
  note u = assms(2) [unfolded newUUID_def b uuidBits_def, simplified, symmetric]
  show "length u = 36" by (simp add: u)
  show "u ! 14 = CHR ''4''" by (simp add: u version_nibble hexDigit_eval)
  show "u ! 19 \<in> set ''89ab''" using variant_nibble [of b8] by (auto simp: u hexDigit_eval)
  have hex: "isHex c" if "c \<in> set (hexBytes bs)" for c bs
    using hexBytes_isHex [of bs] that by (simp add: list_all_iff)
  from assms(2) show "\<forall>c \<in> set u. isHex c \<or> c = CHR ''-''"
    by (auto simp: newUUID_def Let_def dest: hex)
qed

section \<open>Properties\<close>

text \<open>
  C36.  A generated execution ID is a version-4 UUID: 36 lower-case hexadecimal digits and hyphens
  with the version and variant digits in place.  In particular it has no colon.
\<close>

theorem newUUID_shape:
  assumes "length b = 16" and "newUUID (Ok b) = Ok u"
  shows "length u = 36 \<and> list_all (\<lambda>c. c \<in> set ''0123456789abcdef-'') u \<and>
    u ! 14 = CHR ''4'' \<and> u ! 19 \<in> set ''89ab'' \<and> CHR '':'' \<notin> set u"
proof -
  have sub: "c \<in> set ''0123456789abcdef-''" if "c \<in> set u" for c
    using newUUID_format(2) [OF assms] that by (auto simp: isHex_def)
  then have all: "list_all (\<lambda>c. c \<in> set ''0123456789abcdef-'') u" unfolding list_all_iff by blast
  have "CHR '':'' \<notin> set ''0123456789abcdef-''" by simp
  with sub have "CHR '':'' \<notin> set u" by blast
  with all newUUID_format(1,3,4) [OF assms] show ?thesis by blast
qed

theorem newUUID_shape_witness:
  "\<exists>u. newUUID (Ok (replicate 16 (0xAB :: 8 word))) = Ok u \<and> length u = 36"
proof -
  obtain u where u: "newUUID (Ok (replicate 16 (0xAB :: 8 word))) = Ok u"
    unfolding newUUID_def Let_def res.case by blast
  from newUUID_shape [OF length_replicate u] u show ?thesis by blast
qed

end
