(* ===== verification/Executor_Sim.thy ===== *)
theory Executor_Sim
  imports Executor_Correct
begin

text \<open>
  Simulation of one executor by another: when a map \<open>\<pi>\<close> between their worlds commutes with every
  primitive the executor calls, it commutes with whole runs.  An executor that carries extra
  bookkeeping in its world is related in this way to the executor without it.
\<close>

lemma case_prod_apsnd [simp]: "case_prod f (apsnd h p) = case_prod (\<lambda>x y. f x (h y)) p"
  by (cases p) simp

locale executor_sim =
  fixes rt :: "'w Runtime" and ex :: "'w Executor" and rt' :: "'v Runtime" and ex' :: "'v Executor"
    and \<pi> :: "'w \<Rightarrow> 'v"
  assumes now: "rt_Now rt' (\<pi> w) = rt_Now rt w"
    and ctx: "rt_CtxErr rt' (\<pi> w) = rt_CtxErr rt w"
    and sleep: "rt_Sleep rt' dur (\<pi> w) = \<pi> (rt_Sleep rt dur w)"
    and log: "logLine rt' ex' x s l fs (\<pi> w) = \<pi> (logLine rt ex x s l fs w)"
    and transition: "recordTransition ex' x s a b m (\<pi> w) = \<pi> (recordTransition ex x s a b m w)"
    and write_ahead: "st_WriteAheadState (ex_Store ex') sr (\<pi> w)
          = apsnd \<pi> (st_WriteAheadState (ex_Store ex) sr w)"
    and mark: "st_MarkRunning (ex_Store ex') x s (\<pi> w) = apsnd \<pi> (st_MarkRunning (ex_Store ex) x s w)"
    and complete: "st_CompleteState (ex_Store ex') x s out (\<pi> w)
          = apsnd \<pi> (st_CompleteState (ex_Store ex) x s out w)"
    and fail: "st_FailState (ex_Store ex') x s m (\<pi> w)
          = apsnd \<pi> (st_FailState (ex_Store ex) x s m w)"
    and get_output: "st_GetStateOutput (ex_Store ex') x s (\<pi> w)
          = apsnd \<pi> (st_GetStateOutput (ex_Store ex) x s w)"
    and handler: "ex_Handler ex' s inp (\<pi> w) = apsnd \<pi> (ex_Handler ex s inp w)"
    and no_dispatcher: "ex_Dispatcher ex' = None \<longleftrightarrow> ex_Dispatcher ex = None"
    and dispatcher: "ex_Dispatcher ex = Some d \<Longrightarrow> ex_Dispatcher ex' = Some d' \<Longrightarrow>
          d' x s t inp (\<pi> w) = apsnd \<pi> (d x s t inp w)"
begin

lemmas sim = now ctx sleep log transition write_ahead mark complete fail get_output handler

lemma prepareRetry_sim:
  "prepareRetry rt' ex' x node inp b m a le (\<pi> w) = apsnd \<pi> (prepareRetry rt ex x node inp b m a le w)"
  by (simp add: prepareRetry_def Let_def sim split: prod.splits res.splits)

lemma retryLoop_sim:
  "retryLoop rt' ex' x node inp b m as le (\<pi> w) = apsnd \<pi> (retryLoop rt ex x node inp b m as le w)"
proof (induction as arbitrary: le w)
  case Nil
  then show ?case by simp
next
  case (Cons a as)
  have pre: "(if a > 1 then (case le of None \<Rightarrow> (Panic ''nil error'', \<pi> w)
        | Some l \<Rightarrow> prepareRetry rt' ex' x node inp b m a l (\<pi> w)) else (Ok (), \<pi> w)) =
      apsnd \<pi> (if a > 1 then (case le of None \<Rightarrow> (Panic ''nil error'', w)
        | Some l \<Rightarrow> prepareRetry rt ex x node inp b m a l w) else (Ok (), w))"
    by (simp add: prepareRetry_sim split: option.splits)
  show ?case
    unfolding retryLoop.simps pre
    by (simp add: sim Cons.IH split: prod.splits res.splits)
qed

lemma admitState_sim: "admitState ex' x node inp ra (\<pi> w) = apsnd \<pi> (admitState ex x node inp ra w)"
  by (simp add: admitState_def sim split: prod.splits res.splits)

lemma invokeState_sim:
  "invokeState rt' ex' x node inp ra (\<pi> w) = apsnd \<pi> (invokeState rt ex x node inp ra w)"
  using no_dispatcher dispatcher [of "the (ex_Dispatcher ex)" "the (ex_Dispatcher ex')" x]
  by (auto simp: invokeState_def applyRetry_def Let_def sim retryLoop_sim split: option.splits)

lemma completeState_sim:
  "completeState rt' ex' x node out (\<pi> w) = apsnd \<pi> (completeState rt ex x node out w)"
  by (simp add: completeState_def Let_def sim split: prod.splits res.splits)

lemma failState_sim: "failState rt' ex' x node err (\<pi> w) = apsnd \<pi> (failState rt ex x node err w)"
  by (simp add: failState_def Let_def sim split: prod.splits res.splits)

lemma logs_sim:
  "logStarting rt' ex' x node (\<pi> w) = \<pi> (logStarting rt ex x node w)"
  "logCatch rt' ex' x node (\<pi> w) = \<pi> (logCatch rt ex x node w)"
  "logExecFailed rt' ex' x err (\<pi> w) = \<pi> (logExecFailed rt ex x err w)"
  "stateResumeAt rt' node (\<pi> w) = stateResumeAt rt node w"
  by (simp_all add: logStarting_def logCatch_def logExecFailed_def stateResumeAt_def sim)

lemmas phase_sim = logs_sim admitState_sim invokeState_sim completeState_sim failState_sim

lemma executeState_sim:
  "executeState n rt' ex' x g node inp (\<pi> w) = map_option (apsnd \<pi>) (executeState n rt ex x g node inp w)"
  by (induction n arbitrary: node inp w)
    (simp_all add: Let_def phase_sim split: prod.splits admission.splits res.splits option.splits)

lemma runLoop_sim:
  "runLoop n rt' ex' x g nd cur (\<pi> w) = map_option (apsnd \<pi>) (runLoop n rt ex x g nd cur w)"
proof (induction n arbitrary: nd cur w)
  case 0
  then show ?case by (cases nd) (simp_all add: sim)
next
  case (Suc n)
  show ?case
  proof (cases nd)
    case None
    then show ?thesis by (simp add: sim)
  next
    case (Some node)
    then show ?thesis
      by (simp add: sim executeState_sim logs_sim Suc.IH split: option.splits prod.splits res.splits)
  qed
qed

lemma Run_sim: "Run n rt' ex' x g inp (\<pi> w) = map_option (apsnd \<pi>) (Run n rt ex x g inp w)"
  by (simp add: Run_def sim runLoop_sim)

end

end
