(* ===== verification/Local_Correct.thy ===== *)
theory Local_Correct
  imports Local_Runner Executor_Sim
begin

text \<open>
  What \<open>RunLocal\<close> guarantees: which handler calls a run makes, what the retry loop looks like
  from the handlers' side, and what the records say when the run is over.
\<close>

section \<open>Watching the handler calls\<close>

text \<open>
  The executor of \<open>RunLocal\<close> with a witness: next to its environment the world keeps the list of
  handler calls, each with the status recorded for the state at the moment of the call.
\<close>

type_synonym call = "string \<times> Status option"

definition watched ::
    "range_orders \<Rightarrow> (string \<Rightarrow> gomap \<Rightarrow> 'e \<Rightarrow> gomap res \<times> 'e) \<Rightarrow> string
     \<Rightarrow> ('e \<times> call list) mem_world Executor" where
  "watched ro h e =
     \<lparr>ex_Store = memoryStore ro,
      ex_Handler = (\<lambda>s inp w. case h s inp (fst (mw_env w)) of
         (r, v) \<Rightarrow> (r, w\<lparr>mw_env := (v, snd (mw_env w) @ [(s, map_option sr_Status (mem_view w e s))])\<rparr>)),
      ex_Dispatcher = None, ex_Telemetry = None, ex_LogWriter = None, ex_Notify = None\<rparr>"

definition watch :: "'e mem_world \<Rightarrow> ('e \<times> call list) mem_world" where
  "watch w = \<lparr>mw_store = mw_store w, mw_now = mw_now w, mw_log = mw_log w, mw_env = (mw_env w, [])\<rparr>"

definition erase :: "('e \<times> call list) mem_world \<Rightarrow> 'e mem_world" where
  "erase w = \<lparr>mw_store = mw_store w, mw_now = mw_now w, mw_log = mw_log w, mw_env = fst (mw_env w)\<rparr>"

lemma erase_watch [simp]: "erase (watch w) = w"
  by (simp add: erase_def watch_def)

lemma mem_view_watch [simp]: "mem_view (watch w) = mem_view w"
  by (simp add: watch_def mem_view_def fun_eq_iff)

interpretation wch: executor_env localRuntime "watched ro h e" mem_view e for ro h e
  by (rule executor_env.intro)
    (auto simp: localRuntime_def watched_def mem_view_def others_def mem.state_store_axioms
      fun_eq_iff split: prod.splits)

lemma onStore_erase: "onStore f (erase w) = apsnd erase (onStore f w)"
  by (simp add: onStore_def erase_def split: prod.splits)

lemma readStore_erase: "readStore f (erase w) = apsnd erase (readStore f w)"
  by (simp add: readStore_def erase_def)

interpretation era: executor_sim localRuntime "watched ro h e" localRuntime "localExecutor ro h" erase
  for ro h e
  by unfold_locales
    (simp_all add: localRuntime_def watched_def localExecutor_def memoryStore_def onStore_erase
      readStore_erase logLine_def recordTransition_def onEnv_def Let_def,
     simp_all add: erase_def split: prod.splits)

text \<open>Every call was made on a running state, and on none that had completed in \<open>w0\<close>.\<close>

definition calls_ok :: "string \<Rightarrow> ('e \<times> call list) mem_world \<Rightarrow> ('e \<times> call list) mem_world \<Rightarrow> bool" where
  "calls_ok e w0 w \<longleftrightarrow>
     (\<forall>(s, status) \<in> set (snd (mw_env w)).
        status = Some StatusRunning \<and> \<not> status_in mem_view w0 e s StatusCompleted)"

lemma calls_ok_silent: "silent localRuntime (watched ro h e) (calls_ok e w0)"
  unfolding silent_def calls_ok_def
  by (simp add: localRuntime_def watched_def memoryStore_def onStore_def readStore_def
      split: prod.splits)

lemma running_not_completed:
  assumes "status_in view w e s StatusRunning" and "persists view e w0 w"
  shows "\<not> status_in view w0 e s StatusCompleted"
proof
  assume "status_in view w0 e s StatusCompleted"
  then obtain out where "completed_with view w0 e s out"
    by (auto simp: status_in_def completed_with_def)
  with assms(2) have "completed_with view w e s out" by (simp add: persists_def)
  from status_in_inj [OF assms(1) completed_status [OF this]] show False by simp
qed

lemma calls_ok_guarded: "guarded (watched ro h e) mem_view e w0 (calls_ok e w0)"
proof -
  have "calls_ok e w0 (snd (ex_Handler (watched ro h e) s inp w))"
    if "status_in mem_view w e s StatusRunning" "persists mem_view e w0 w" "calls_ok e w0 w" for s inp w
    using that running_not_completed [OF that(1,2)]
    by (auto simp: calls_ok_def watched_def status_in_def split: prod.splits)
  then show ?thesis by (simp add: guarded_def watched_def)
qed

lemma Run_calls:
  assumes "Run n localRuntime (localExecutor ro h) e g input w = Some (r, w')"
  shows "\<exists>v. Run n localRuntime (watched ro h e) e g input (watch w) = Some (r, v) \<and> erase v = w' \<and>
    calls_ok e (watch w) v"
proof -
  have "map_option (apsnd erase) (Run n localRuntime (watched ro h e) e g input (watch w)) = Some (r, w')"
    using era.Run_sim [of n ro h e g input "watch w"] assms by simp
  then obtain v where v: "Run n localRuntime (watched ro h e) e g input (watch w) = Some (r, v)"
    "erase v = w'" by auto
  have "calls_ok e (watch w) (watch w)" by (simp add: calls_ok_def watch_def)
  from wch.Run_guarded [OF calls_ok_silent calls_ok_guarded v(1) this] v show ?thesis by blast
qed

section \<open>Retries as the handlers see them\<close>

text \<open>
  The specification: call the handler, and again up to \<open>k\<close> times as long as it returns an error;
  \<open>tries\<close> counts the calls.
\<close>

primrec tryAgain :: "nat \<Rightarrow> ('e \<Rightarrow> 'a res \<times> 'e) \<Rightarrow> 'e \<Rightarrow> 'a res \<times> 'e" where
  "tryAgain 0 f v = f v"
| "tryAgain (Suc k) f v = (case f v of (Err e, v1) \<Rightarrow> tryAgain k f v1 | x \<Rightarrow> x)"

primrec tries :: "nat \<Rightarrow> ('e \<Rightarrow> 'a res \<times> 'e) \<Rightarrow> 'e \<Rightarrow> nat" where
  "tries 0 f v = 1"
| "tries (Suc k) f v = (case f v of (Err e, v1) \<Rightarrow> Suc (tries k f v1) | x \<Rightarrow> 1)"

text \<open>The record of state \<open>s\<close> says that attempt \<open>a\<close> is running.\<close>

definition running_attempt :: "'e mem_world \<Rightarrow> string \<Rightarrow> string \<Rightarrow> int \<Rightarrow> bool" where
  "running_attempt w e s a \<longleftrightarrow>
     (\<exists>r. mem_view w e s = Some r \<and> sr_Status r = StatusRunning \<and> sr_Attempt r = a)"

lemma prepareRetry_local:
  assumes "running_attempt w e (nd_Name node) a0"
  obtains w' where
    "prepareRetry localRuntime (localExecutor ro h) e node input b m a le w = (Ok (), w')"
    "mw_env w' = mw_env w" "running_attempt w' e (nd_Name node) a"
  using assms
  by (auto simp: prepareRetry_def local_defs mem_world_defs mem_defs logLine_def Let_def
      recordTransition_def running_attempt_def newStateRecord_def split: if_splits)

lemma running_attempt_env [simp]:
  "running_attempt (w\<lparr>mw_env := v\<rparr>) e s a = running_attempt w e s a"
  by (simp add: running_attempt_def mem_view_def)

lemma attempt_local:
  assumes "a > 1 \<longrightarrow> le \<noteq> None" and "running_attempt w e (nd_Name node) a0" and "a \<le> 1 \<longrightarrow> a0 = a"
  obtains w1 where "(if a > 1 then (case le of None \<Rightarrow> (Panic ''nil error'', w)
      | Some l \<Rightarrow> prepareRetry localRuntime (localExecutor ro h) e node input b m a l w) else (Ok (), w))
      = (Ok (), w1)"
    "mw_env w1 = mw_env w" "running_attempt w1 e (nd_Name node) a"
proof (cases "a > 1")
  case True
  with assms(1) obtain l where le: "le = Some l" by auto
  from prepareRetry_local [OF assms(2), of ro h input b m a l] obtain w1 where
    "prepareRetry localRuntime (localExecutor ro h) e node input b m a l w = (Ok (), w1)"
    "mw_env w1 = mw_env w" "running_attempt w1 e (nd_Name node) a" .
  with True le that show ?thesis by simp
next
  case False
  with assms(2,3) that [of w] show ?thesis by simp
qed

lemma retryLoop_local:
  "retryLoop localRuntime (localExecutor ro h) e node input b m [a..m] le w = (r, w') \<Longrightarrow>
   a \<le> m \<Longrightarrow> (a > 1 \<longrightarrow> le \<noteq> None) \<Longrightarrow> running_attempt w e (nd_Name node) a0 \<Longrightarrow>
   (a \<le> 1 \<longrightarrow> a0 = a) \<Longrightarrow> nat (m - a) = k \<Longrightarrow> 1 \<le> a \<Longrightarrow>
   (r, mw_env w') = tryAgain k (h (nd_Name node) input) (mw_env w) \<and>
   running_attempt w' e (nd_Name node) (a - 1 + int (tries k (h (nd_Name node) input) (mw_env w)))"
proof (induction k arbitrary: a le w a0)
  case (0 a le w a0)
  obtain w1 where pre: "(if a > 1 then (case le of None \<Rightarrow> (Panic ''nil error'', w)
      | Some l \<Rightarrow> prepareRetry localRuntime (localExecutor ro h) e node input b m a l w) else (Ok (), w))
      = (Ok (), w1)" and env: "mw_env w1 = mw_env w" and run: "running_attempt w1 e (nd_Name node) a"
    using attempt_local [OF 0(3,4,5), of ro h input b m] .
  from 0 have up: "[a..m] = [a]" by simp
  obtain y v where h: "h (nd_Name node) input (mw_env w) = (y, v)" by force
  have hd: "ex_Handler (localExecutor ro h) (nd_Name node) input w1 = (y, w1\<lparr>mw_env := v\<rparr>)"
    by (simp add: localExecutor_def onEnv_def env h)
  from 0(1) [unfolded up retryLoop.simps pre] h hd run show ?case
    by (auto split: res.splits)
next
  case (Suc k a le w a0)
  obtain w1 where pre: "(if a > 1 then (case le of None \<Rightarrow> (Panic ''nil error'', w)
      | Some l \<Rightarrow> prepareRetry localRuntime (localExecutor ro h) e node input b m a l w) else (Ok (), w))
      = (Ok (), w1)" and env: "mw_env w1 = mw_env w" and run: "running_attempt w1 e (nd_Name node) a"
    using attempt_local [OF Suc.prems(3,4,5), of ro h input b m] .
  from Suc.prems have up: "[a..m] = a # [a + 1..m]" by (simp add: upto.simps)
  obtain y v where h: "h (nd_Name node) input (mw_env w) = (y, v)" by force
  have hd: "ex_Handler (localExecutor ro h) (nd_Name node) input w1 = (y, w1\<lparr>mw_env := v\<rparr>)"
    by (simp add: localExecutor_def onEnv_def env h)
  note step = Suc.prems(1) [unfolded up retryLoop.simps pre]
  show ?case
  proof (cases y)
    case (Err err)
    have "retryLoop localRuntime (localExecutor ro h) e node input b m [a + 1..m] (Some err)
        (w1\<lparr>mw_env := v\<rparr>) = (r, w')" using step hd Err by simp
    from Suc.IH [OF this, of a] Suc.prems(2,6,7) run h Err show ?thesis by auto
  qed (use step hd h run in auto)
qed

lemma applyRetry_local:
  assumes "running_attempt w e (nd_Name node) 1"
    and "applyRetry localRuntime (localExecutor ro h) e node input w = (r, w')"
  defines "k \<equiv> nat (retryAttempts (nd_Retry node) - 1)"
  shows "(r, mw_env w') = tryAgain k (h (nd_Name node) input) (mw_env w)"
    and "running_attempt w' e (nd_Name node) (int (tries k (h (nd_Name node) input) (mw_env w)))"
proof -
  have "1 \<le> retryAttempts (nd_Retry node)"
    by (simp add: retryAttempts_def split: option.splits)
  from retryLoop_local [OF assms(2) [unfolded applyRetry_def Let_def] this _ assms(1), of k]
  show "(r, mw_env w') = tryAgain k (h (nd_Name node) input) (mw_env w)"
    and "running_attempt w' e (nd_Name node) (int (tries k (h (nd_Name node) input) (mw_env w)))"
    by (simp_all add: k_def)
qed

section \<open>One state on the memory store\<close>

lemma admit_local:
  assumes "\<not> status_in mem_view w e (nd_Name node) StatusCompleted"
  obtains w' where "admitState (localExecutor ro h) e node input ra w = (Admitted, w')"
    "mw_env w' = mw_env w" "running_attempt w' e (nd_Name node) 1"
  using assms
  by (cases "ms_states (mw_store w) (stateKey e (nd_Name node))")
    (auto simp: admitState_def local_defs mem_world_defs mem_defs status_in_def Let_def
      recordTransition_def running_attempt_def newStateRecord_def)

lemma admit_replay:
  assumes "completed_with mem_view w e (nd_Name node) out"
  shows "admitState (localExecutor ro h) e node input ra w = (Settled (Ok (Some out)), w)"
  using assms
  by (auto simp: admitState_def local_defs mem_world_defs mem_defs completed_with_def Let_def
      newStateRecord_def)

lemma log_local [simp]:
  "mw_env (logLine localRuntime (localExecutor ro h) x s l fs w) = mw_env w"
  "mw_store (logLine localRuntime (localExecutor ro h) x s l fs w) = mw_store w"
  "recordTransition (localExecutor ro h) x s a b m w = w"
  by (simp_all add: logLine_def local_defs Let_def recordTransition_def)

lemma complete_local:
  assumes "running_attempt w e (nd_Name node) a"
  obtains w' where "completeState localRuntime (localExecutor ro h) e node out w = (Ok out, w')"
    "mw_env w' = mw_env w"
  using assms
  by (auto simp: completeState_def running_attempt_def local_defs mem_world_defs mem_defs Let_def
      logLine_def recordTransition_def)

lemma fail_local:
  assumes "running_attempt w e (nd_Name node) a"
  obtains w' where "failState localRuntime (localExecutor ro h) e node err w = (Ok (), w')"
    "mw_env w' = mw_env w"
  using assms
  by (auto simp: failState_def running_attempt_def local_defs mem_world_defs mem_defs Let_def
      logLine_def recordTransition_def)

lemma logStarting_local [simp]:
  "mw_env (logStarting localRuntime (localExecutor ro h) e node w) = mw_env w"
  "mw_store (logStarting localRuntime (localExecutor ro h) e node w) = mw_store w"
  "mem_view (logStarting localRuntime (localExecutor ro h) e node w) = mem_view w"
  by (simp_all add: logStarting_def)

lemma invoke_local:
  assumes "\<not> IsWait (nd_TaskDef node)"
  shows "invokeState localRuntime (localExecutor ro h) e node input ra w =
    applyRetry localRuntime (localExecutor ro h) e node input w"
  using assms by (simp add: invokeState_def localExecutor_def)

text \<open>A state that had completed is not run again: its output comes from the record.\<close>

lemma executeState_replay:
  assumes "completed_with mem_view w e (nd_Name node) out"
  shows "executeState (Suc n) localRuntime (localExecutor ro h) e g node input w =
    Some (Ok (Some out), logStarting localRuntime (localExecutor ro h) e node w)"
proof -
  have "completed_with mem_view (logStarting localRuntime (localExecutor ro h) e node w) e
      (nd_Name node) out" using assms by (simp add: completed_with_def)
  from admit_replay [OF this] show ?thesis by (simp add: Let_def)
qed

text \<open>A fresh state runs its handler with the retries of its policy.\<close>

lemma executeState_fresh:
  fixes ro and h :: "string \<Rightarrow> gomap \<Rightarrow> 'e \<Rightarrow> gomap res \<times> 'e"
  assumes "\<not> IsWait (nd_TaskDef node)" and "\<not> status_in mem_view w e (nd_Name node) StatusCompleted"
    and "tryAgain (nat (retryAttempts (nd_Retry node) - 1)) (h (nd_Name node) input) (mw_env w) = (x, v)"
  obtains w' where "mw_env w' = v" "others mem_view e (nd_Name node) w w'"
    "executeState (Suc n) localRuntime (localExecutor ro h) e g node input w =
       (case x of
          Err err \<Rightarrow>
            (if nd_Catch node = '''' then Some (Err err, w')
             else case Graph_Node g (nd_Catch node) of
                    None \<Rightarrow> Some (Err err, w')
                  | Some c \<Rightarrow> executeState n localRuntime (localExecutor ro h) e g c
                                (mergeErrorKey input err) w')
        | _ \<Rightarrow> Some (x, w'))"
proof -
  let ?ex = "localExecutor ro h" and ?s = "nd_Name node"
  let ?w0 = "logStarting localRuntime ?ex e node w"
  have ra: "stateResumeAt localRuntime node ?w0 = None" using assms(1) by (simp add: stateResumeAt_def)
  have "\<not> status_in mem_view ?w0 e ?s StatusCompleted" using assms(2) by (simp add: status_in_def)
  from admit_local [OF this, of ro h input None] obtain w1
    where ad: "admitState ?ex e node input None ?w0 = (Admitted, w1)" and e1: "mw_env w1 = mw_env w"
      and r1: "running_attempt w1 e ?s 1" by auto
  obtain y w2 where inv: "applyRetry localRuntime ?ex e node input w1 = (y, w2)" by force
  from applyRetry_local [OF r1 inv] assms(3) e1
  have yx: "y = x" "mw_env w2 = v" and r2: "\<exists>a. running_attempt w2 e ?s a" by auto
  have inv': "invokeState localRuntime ?ex e node input None w1 = (y, w2)"
    by (simp add: invoke_local [OF assms(1)] inv)
  have o2: "others mem_view e ?s w w2"
    using others_trans [OF loc.admit_Admitted(2) [OF ad] loc.invokeState_others [OF inv']]
    by (simp add: others_def)
  show ?thesis
  proof (cases x)
    case (Ok out)
    from r2 obtain w' where c: "completeState localRuntime ?ex e node out w2 = (Ok out, w')"
      "mw_env w' = mw_env w2" using complete_local by blast
    show ?thesis
      using that [of w'] c loc.completeState_spec(1) [OF c(1)] o2 yx Ok ad inv
      by (auto simp: Let_def ra invoke_local [OF assms(1)] intro: others_trans)
  next
    case (Panic p)
    then show ?thesis
      using that [of w2] o2 yx ad inv by (simp add: Let_def ra invoke_local [OF assms(1)])
  next
    case (Err err)
    from r2 obtain w3 where f: "failState localRuntime ?ex e node err w2 = (Ok (), w3)"
      "mw_env w3 = mw_env w2" using fail_local by blast
    have o3: "others mem_view e ?s w w3" using o2 loc.failState_spec(1) [OF f(1)] by (rule others_trans)
    let ?w' = "if nd_Catch node = '''' then w3 else logCatch localRuntime ?ex e node w3"
    have "mw_env ?w' = v" "others mem_view e ?s w ?w'"
      using f yx o3 by (simp_all add: logCatch_def others_def)
    then show ?thesis
      using that [of ?w'] f yx Err ad inv
      by (auto simp: Let_def ra invoke_local [OF assms(1)] split: option.splits)
  qed
qed

section \<open>Replay\<close>

lemma completed_store_cong:
  "mw_store w' = mw_store w \<Longrightarrow> completed_with mem_view w' e s out = completed_with mem_view w e s out"
  by (simp add: completed_with_def mem_view_def)

lemma choiceKeyOf_entries: "choiceKeyOf node (Some (entries out)) = choiceKeyOf node out"
  by (simp add: choiceKeyOf_def)

text \<open>
  A loop of completed states is never left: each pass replays the stored outputs.
\<close>

lemma replay_diverges:
  assumes "\<And>node. node \<in> S \<Longrightarrow> \<exists>out nxt. completed_with mem_view w e (nd_Name node) out \<and>
      Graph_Next g node (choiceKeyOf node (Some out)) = Ok (Some nxt) \<and> nxt \<in> S"
    and "node \<in> S"
  shows "runLoop n localRuntime (localExecutor ro h) e g (Some node) cur w = None"
  using assms
proof (induction n arbitrary: node cur w)
  case 0
  then show ?case by simp
next
  case (Suc n)
  from Suc.prems obtain out nxt where c: "completed_with mem_view w e (nd_Name node) out"
    and nx: "Graph_Next g node (choiceKeyOf node (Some out)) = Ok (Some nxt)" "nxt \<in> S" by blast
  let ?w1 = "logStarting localRuntime (localExecutor ro h) e node w"
  have "completed_with mem_view ?w1 e s out' = completed_with mem_view w e s out'" for s out'
    by (simp add: completed_with_def)
  with Suc.prems(1) have "\<And>nd. nd \<in> S \<Longrightarrow> \<exists>out nxt. completed_with mem_view ?w1 e (nd_Name nd) out \<and>
      Graph_Next g nd (choiceKeyOf nd (Some out)) = Ok (Some nxt) \<and> nxt \<in> S" by simp
  from Suc.IH [OF this nx(2)]
  have "runLoop n localRuntime (localExecutor ro h) e g (Some nxt) (Some out) ?w1 = None" .
  moreover have "executeState n localRuntime (localExecutor ro h) e g node (cloneInput cur) w \<in>
      {None, Some (Ok (Some out), ?w1)}" using executeState_replay [OF c] by (cases n) auto
  ultimately show ?case using nx(1) by (auto simp: localRuntime_def)
qed

text \<open>Without catch states, a run that succeeded can be repeated without running anything.\<close>

definition no_catch :: "'e Graph \<Rightarrow> bool" where
  "no_catch g \<longleftrightarrow>
     (\<forall>n nd. g_nodes g n = Some nd \<longrightarrow> nd_Catch nd = '''' \<or> g_nodes g (nd_Catch nd) = None)"

lemma no_catch_reach:
  assumes "no_catch g" and "g_nodes g n = Some nd" and "catch_reach g nd d"
  shows "d = nd"
proof -
  have "nd_Catch nd = '''' \<or> Graph_Node g (nd_Catch nd) = None"
    using assms(1,2) by (auto simp: no_catch_def Graph_Node_def)
  with assms(3) show ?thesis by (cases rule: catch_reach.cases) auto
qed

lemma runLoop_replay:
  assumes "no_catch g"
  shows "runLoop n localRuntime (localExecutor ro h) e g nd cur w = Some (Ok (), w') \<Longrightarrow>
    (\<And>node. nd = Some node \<Longrightarrow> \<exists>nm. g_nodes g nm = Some node) \<Longrightarrow> persists mem_view e w' u \<Longrightarrow>
    \<exists>u'. runLoop n localRuntime (localExecutor ro h) e g nd cur' u = Some (Ok (), u') \<and>
         mw_env u' = mw_env u \<and> mw_store u' = mw_store u"
proof (induction n arbitrary: nd cur w cur' u)
  case 0
  then show ?case by (cases nd) auto
next
  case (Suc n)
  let ?ex = "localExecutor ro h"
  from Suc.prems(1) show ?case
  proof (cases rule: runLoop_cases)
    case finished
    then show ?thesis by simp
  next
    case (cancelled err)
    then show ?thesis by simp
  next
    case (stopped node x w1)
    then show ?thesis by simp
  next
    case (advanced node out w1 nxt)
    from Suc.prems(2) [OF advanced(1)] obtain nm where nm: "g_nodes g nm = Some node" by blast
    from loc.executeState_Ok [OF advanced(3)] no_catch_reach [OF assms nm]
    have "completed_with mem_view w1 e (nd_Name node) (entries out)" by blast
    with loc.runLoop_persists [OF advanced(5)] Suc.prems(3)
    have "completed_with mem_view u e (nd_Name node) (entries out)" by (simp add: persists_def)
    moreover from advanced(3) obtain k where "n = Suc k" by (cases n) auto
    ultimately have ex: "executeState n localRuntime ?ex e g node (cloneInput cur') u =
        Some (Ok (Some (entries out)), logStarting localRuntime ?ex e node u)"
      by (simp only: executeState_replay)
    have "\<exists>nm. g_nodes g nm = Some c" if "nxt = Some c" for c
      using advanced(4) that by (auto simp: Graph_Next_def split: if_splits option.splits)
    moreover have "persists mem_view e w' (logStarting localRuntime ?ex e node u)"
      using Suc.prems(3) by (simp add: persists_def completed_with_def)
    ultimately obtain u' where "runLoop n localRuntime ?ex e g nxt (Some (entries out))
        (logStarting localRuntime ?ex e node u) = Some (Ok (), u')" "mw_env u' = mw_env u"
        "mw_store u' = mw_store u"
      using Suc.IH [OF advanced(5), of "logStarting localRuntime ?ex e node u" "Some (entries out)"]
      by auto
    then show ?thesis
      using ex advanced(1,4) by (simp add: localRuntime_def choiceKeyOf_entries)
  qed
qed

section \<open>The execution record\<close>

lemma Run_executions:
  assumes "Run n localRuntime (localExecutor ro h) e g input w = Some (r, w')"
  shows "ms_executions (mw_store w') = ms_executions (mw_store w)"
proof -
  define P where "P = (\<lambda>v :: 'a mem_world. ms_executions (mw_store v) = ms_executions (mw_store w))"
  have "silent localRuntime (localExecutor ro h) P"
    unfolding silent_def P_def
    by (simp add: local_defs mem_world_defs mem_defs Let_def split: prod.splits option.splits)
  moreover have "guarded (localExecutor ro h) mem_view e w P"
    unfolding guarded_def P_def by (simp add: localExecutor_def onEnv_def split: prod.splits)
  moreover have "P w" by (simp add: P_def)
  ultimately have "P w'" using loc.Run_guarded [OF _ _ assms, of P] by blast
  then show ?thesis by (simp add: P_def)
qed

lemma rt_Log_local [simp]:
  "mw_now (rt_Log localRuntime msg w) = mw_now w" "mw_store (rt_Log localRuntime msg w) = mw_store w"
  "mw_env (rt_Log localRuntime msg w) = mw_env w"
  by (simp_all add: localRuntime_def)

lemma create_local:
  "st_CreateExecution (memoryStore ro) rcd (w\<lparr>mw_store := NewMemoryStore\<rparr>) =
     (Ok (), w\<lparr>mw_store := NewMemoryStore\<lparr>ms_executions := [er_ID rcd \<mapsto>
        rcd\<lparr>er_Status := StatusPending, er_CreatedAt := mw_now w, er_UpdatedAt := mw_now w\<rparr>]\<rparr>\<rparr>)"
  by (simp add: mem_world_defs mem_defs NewMemoryStore_def Let_def)

lemma update_local:
  "ms_executions (mw_store w) e = Some rcd \<Longrightarrow>
   st_UpdateExecution (memoryStore ro) e status w =
     (Ok (), w\<lparr>mw_store := (mw_store w)\<lparr>ms_executions := (ms_executions (mw_store w))
        (e \<mapsto> rcd\<lparr>er_Status := status, er_UpdatedAt := mw_now w\<rparr>)\<rparr>\<rparr>)"
  by (simp add: mem_world_defs mem_defs)

lemma newExecution_simps [simp]:
  "er_ID (newExecution e n i) = e" "er_Workflow (newExecution e n i) = n"
  "er_Input (newExecution e n i) = i"
  by (simp_all add: newExecution_def)

text \<open>The world in which the executor starts: a fresh store with the execution marked running.\<close>

definition startWorld :: "'e Workflow \<Rightarrow> string \<Rightarrow> gomap \<Rightarrow> 'e mem_world \<Rightarrow> 'e mem_world" where
  "startWorld wk e input w =
     (rt_Log localRuntime (Sprintf [FL ''runner: starting local execution '',
        FQ (wf_name wk), FL '' (execID='', FS e, FL '')'']) w)\<lparr>mw_store := NewMemoryStore
      \<lparr>ms_executions := [e \<mapsto> (newExecution e (wf_name wk) input)
         \<lparr>er_CreatedAt := mw_now w, er_Status := StatusRunning, er_UpdatedAt := mw_now w\<rparr>]\<rparr>\<rparr>"

lemma startWorld_simps [simp]:
  "mw_env (startWorld wk e input w) = mw_env w" "\<not> status_in mem_view (startWorld wk e input w) x s st"
  by (simp_all add: startWorld_def status_in_def mem_view_def NewMemoryStore_def)

lemma runExecution_Run:
  "runExecution n ro wk g e input w =
     (case Run n localRuntime (localExecutor ro (stateHandler wk)) e g input (startWorld wk e input w) of
        None \<Rightarrow> None
      | Some (Panic p, w4) \<Rightarrow> Some (Panic p, w4)
      | Some (Err err, w4) \<Rightarrow>
          Some (Err err, snd (st_UpdateExecution (memoryStore ro) e StatusFailed
            (rt_Log localRuntime (Sprintf [FL ''runner: execution '', FQ (wf_name wk), FL '' failed: '',
               FV err]) w4)))
      | Some (Ok _, w4) \<Rightarrow>
          Some (Ok (), snd (st_UpdateExecution (memoryStore ro) e StatusCompleted
            (rt_Log localRuntime (Sprintf [FL ''runner: execution '', FQ (wf_name wk),
               FL '' completed'']) w4))))"
  unfolding runExecution_def Let_def create_local
  by (simp add: update_local startWorld_def)

lemma UpdateExecution_env [simp]:
  "mw_env (snd (st_UpdateExecution (memoryStore ro) e st w)) = mw_env w"
  by (simp add: mem_world_defs split: prod.splits)

lemma runExecution_record:
  assumes "runExecution n ro wk g e input w = Some (r, w')" and "\<And>p. r \<noteq> Panic p"
  shows "\<exists>rcd. ms_executions (mw_store w') = [e \<mapsto> rcd] \<and> er_ID rcd = e \<and>
    er_Workflow rcd = wf_name wk \<and> er_Input rcd = input \<and>
    er_Status rcd = (if is_Ok r then StatusCompleted else StatusFailed)"
proof -
  from assms obtain w4 msg where run: "Run n localRuntime (localExecutor ro (stateHandler wk)) e g input
      (startWorld wk e input w) = Some (r, w4)"
    and w': "w' = snd (st_UpdateExecution (memoryStore ro) e
         (if is_Ok r then StatusCompleted else StatusFailed) (rt_Log localRuntime msg w4))"
    unfolding runExecution_Run by (auto split: option.splits prod.splits res.splits)
  from Run_executions [OF run] have "ms_executions (mw_store w4) e =
      Some ((newExecution e (wf_name wk) input)
         \<lparr>er_CreatedAt := mw_now w, er_Status := StatusRunning, er_UpdatedAt := mw_now w\<rparr>)"
    and "dom (ms_executions (mw_store w4)) = {e}" by (simp_all add: startWorld_def)
  then show ?thesis
    by (subst w') (auto simp: update_local fun_eq_iff dom_def split: if_splits)
qed

section \<open>Properties\<close>

text \<open>The example workflow runs.\<close>

lemma example_Run: "\<exists>r w'. Run 3 rt ex e exampleGraph input w = Some (r, w')"
proof -
  obtain nd where en: "EntryNode exampleGraph = Some nd"
    using Build_graph_wf [OF exampleGraph_Build] by (auto simp: graph_wf_def)
  have "exampleRank (g_entry exampleGraph) + 1 < 3" by (simp add: exampleRank_def exampleGraph_def)
  from runLoop_terminates [OF example_ranked(1) _ example_ranked(2) en [unfolded EntryNode_def] this]
  show ?thesis unfolding Run_def en by simp
qed

text \<open>
  C16.  Termination, for any store, handler and dispatcher that return: a compiled graph without
  choice states whose next and catch edges decrease a rank is run to its end, and the fuel chosen
  for it does not matter.  The successor of the entry, of rank \<open>\<rho>\<close>, and the catch ranks below
  \<open>K\<close> bound the fuel by \<open>\<rho> + K + 1\<close>.
\<close>

theorem Run_terminates:
  assumes "Build ord wk = Ok g" and "catch_ranked g \<kappa>" and "\<forall>n nd. g_nodes g n = Some nd \<longrightarrow> \<kappa> n < K"
    and "next_ranked g \<rho>" and "\<rho> (g_entry g) + K < n"
  shows "\<exists>r w'. \<forall>m \<ge> n. Run m rt ex e g input w = Some (r, w')"
proof -
  obtain nd where en: "EntryNode g = Some nd"
    using Build_graph_wf [OF assms(1)] by (auto simp: graph_wf_def)
  from runLoop_terminates [OF assms(2-4) en [unfolded EntryNode_def] assms(5)]
  obtain r w' where "Run n rt ex e g input w = Some (r, w')"
    unfolding Run_def en by (metis surj_pair)
  then show ?thesis by (intro exI allI impI) (rule Run_mono)
qed

theorem Run_terminates_witness:
  "\<exists>r w'. \<forall>m \<ge> 3. Run m localRuntime (localExecutor exampleOrders (stateHandler exampleFlow)) ''e''
     exampleGraph None exampleWorld = Some (r, w')"
proof -
  have "exampleRank (g_entry exampleGraph) + 1 < 3"
    by (simp add: exampleRank_def exampleGraph_def)
  then show ?thesis
    by (intro Run_terminates [where K=1, OF exampleGraph_Build example_ranked(1) _ example_ranked(2)])
      simp_all
qed

text \<open>
  C1.  Write-ahead protocol.  In a run over the memory store every handler call is made while the
  state is recorded as running, and no handler is called for a state that had completed when the
  run started: resuming an execution repeats no completed work.  The calls are those of the
  watched run, which differs from the run only in keeping the list of calls.
\<close>

theorem Run_handler_calls:
  assumes "Run n localRuntime (localExecutor ro h) e g input w = Some (r, w')"
  shows "\<exists>v. Run n localRuntime (watched ro h e) e g input (watch w) = Some (r, v) \<and> erase v = w' \<and>
    (\<forall>(s, status) \<in> set (snd (mw_env v)).
       status = Some StatusRunning \<and> \<not> status_in mem_view w e s StatusCompleted)"
  using Run_calls [OF assms] by (simp add: calls_ok_def status_in_def)

theorem Run_handler_calls_witness:
  "\<exists>r v. Run 3 localRuntime (watched exampleOrders (stateHandler exampleFlow) ''e'') ''e'' exampleGraph None
     (watch exampleWorld) = Some (r, v) \<and>
     (\<forall>(s, status) \<in> set (snd (mw_env v)). status = Some StatusRunning)"
proof -
  obtain r w' where "Run 3 localRuntime (localExecutor exampleOrders (stateHandler exampleFlow)) ''e''
      exampleGraph None exampleWorld = Some (r, w')"
    using example_Run [where rt=localRuntime and e="''e''" and input=None and w=exampleWorld and
        ex="localExecutor exampleOrders (stateHandler exampleFlow)"] by blast
  from Run_handler_calls [OF this] show ?thesis by fast
qed

text \<open>
  C2.  Completed states are final: whatever a run does and however it ends, each state of the
  execution that was completed before is completed afterwards with the same output.
\<close>

theorem Run_keeps_completed:
  assumes "Run n localRuntime (localExecutor ro h) e g input w = Some (r, w')"
    and "completed_with mem_view w e s out"
  shows "completed_with mem_view w' e s out"
  using loc.Run_persists [OF assms(1)] assms(2) by (simp add: persists_def)

definition exampleCompleted :: "string list mem_world" where
  "exampleCompleted = exampleWorld\<lparr>mw_store := NewMemoryStore\<lparr>ms_states :=
     [stateKey ''e'' ''a'' \<mapsto> exampleState\<lparr>sr_Status := StatusCompleted\<rparr>]\<rparr>\<rparr>"

lemma exampleCompleted_a: "completed_with mem_view exampleCompleted ''e'' ''a'' Map.empty"
  by (simp add: exampleCompleted_def completed_with_def mem_view_def exampleState_def)

theorem Run_keeps_completed_witness:
  "\<exists>r w'. Run 3 localRuntime (localExecutor exampleOrders (stateHandler exampleFlow)) ''e'' exampleGraph
     None exampleCompleted = Some (r, w') \<and> completed_with mem_view w' ''e'' ''a'' Map.empty"
proof -
  obtain r w' where "Run 3 localRuntime (localExecutor exampleOrders (stateHandler exampleFlow)) ''e''
      exampleGraph None exampleCompleted = Some (r, w')"
    using example_Run [where rt=localRuntime and e="''e''" and input=None and w=exampleCompleted and
        ex="localExecutor exampleOrders (stateHandler exampleFlow)"] by blast
  with Run_keeps_completed [OF this exampleCompleted_a] show ?thesis by blast
qed

text \<open>
  C13.  A state that returns an output has it on record: the state itself, or the state its catch
  chain ended in, is completed with that output.
\<close>

theorem executeState_success_recorded:
  assumes "executeState n localRuntime (localExecutor ro h) e g node input w = Some (Ok out, w')"
  shows "\<exists>d. catch_reach g node d \<and> completed_with mem_view w' e (nd_Name d) (entries out)"
  by (rule loc.executeState_Ok [OF assms])

text \<open>A state that fails, and the state that its failure is handed over to.\<close>

definition rescue :: "string \<Rightarrow> gomap \<Rightarrow> string list \<Rightarrow> gomap res \<times> string list" where
  "rescue s inp v =
     (if s = ''a'' then (Err (CtxErr ''down''), v @ [s]) else (Ok (Some [''saved'' \<mapsto> VBool True]), v @ [s]))"

definition rescueNode :: "string \<Rightarrow> string \<Rightarrow> string list Node" where
  "rescueNode s c = \<lparr>nd_Name = s, nd_TaskDef = blankTask s taskState, nd_Next = Succeed, nd_Catch = c, nd_Retry = None,
     nd_Terminal = True\<rparr>"

definition rescueGraph :: "string list Graph" where
  "rescueGraph = \<lparr>g_nodes = [''a'' \<mapsto> rescueNode ''a'' ''c'', ''c'' \<mapsto> rescueNode ''c'' ''''], g_entry = ''a''\<rparr>"

theorem executeState_success_recorded_witness:
  "\<exists>w' d. executeState 2 localRuntime (localExecutor exampleOrders rescue) ''e'' rescueGraph (rescueNode ''a'' ''c'') None
       exampleWorld = Some (Ok (Some [''saved'' \<mapsto> VBool True]), w') \<and> mw_env w' = [''a'', ''c''] \<and>
     catch_reach rescueGraph (rescueNode ''a'' ''c'') d \<and>
     completed_with mem_view w' ''e'' (nd_Name d) [''saved'' \<mapsto> VBool True]"
proof -
  let ?ex = "localExecutor exampleOrders rescue" and ?a = "rescueNode ''a'' ''c''" and ?c = "rescueNode ''c'' ''''"
  let ?out = "[''saved'' \<mapsto> VBool True]"
  have nodes: "nd_Name (rescueNode s c) = s" "nd_Catch (rescueNode s c) = c" "nd_Retry (rescueNode s c) = None"
    "\<not> IsWait (nd_TaskDef (rescueNode s c))" "Graph_Node rescueGraph ''c'' = Some ?c" for s c
    by (simp_all add: rescueNode_def IsWait_def blankTask_def Graph_Node_def rescueGraph_def)
  have none: "mem_view exampleWorld e s = None" for e s
    by (simp add: mem_view_def exampleWorld_def NewMemoryStore_def)
  have env: "mw_env exampleWorld = []" by (simp add: exampleWorld_def)
  obtain w1 where w1: "mw_env w1 = [''a'']" "others mem_view ''e'' ''a'' exampleWorld w1"
    "executeState (Suc 1) localRuntime ?ex ''e'' rescueGraph ?a None exampleWorld =
       executeState 1 localRuntime ?ex ''e'' rescueGraph ?c (mergeErrorKey None (CtxErr ''down'')) w1"
    by (rule executeState_fresh [where node = ?a and h = rescue and w = exampleWorld and e = "''e''" and n = 1
          and g = rescueGraph and ro = exampleOrders and input = None])
      (auto simp: nodes none env status_in_def rescue_def retryAttempts_def)
  have "mem_view w1 ''e'' ''c'' = None" using w1(2) none by (simp add: others_def)
  note c = this w1(1)
  obtain w2 where w2: "mw_env w2 = [''a'', ''c'']"
    "executeState (Suc 0) localRuntime ?ex ''e'' rescueGraph ?c (mergeErrorKey None (CtxErr ''down'')) w1 =
       Some (Ok (Some ?out), w2)"
    by (rule executeState_fresh [where node = ?c and h = rescue and w = w1 and e = "''e''" and n = 0
          and g = rescueGraph and ro = exampleOrders and input = "mergeErrorKey None (CtxErr ''down'')"])
      (auto simp: nodes c status_in_def rescue_def retryAttempts_def)
  have run: "executeState 2 localRuntime ?ex ''e'' rescueGraph ?a None exampleWorld = Some (Ok (Some ?out), w2)"
    using w1(3) w2(2) by (simp add: numeral_2_eq_2)
  from executeState_success_recorded [OF run] show ?thesis using run w2(1) by (auto simp only: entries_simps)
qed

text \<open>The number of repetitions that a policy allows.\<close>

definition retries :: "RetryPolicy option \<Rightarrow> nat" where
  "retries policy = (case policy of None \<Rightarrow> 0 | Some p \<Rightarrow> nat (MaxAttempts p) - 1)"

lemma retries_retryAttempts: "nat (retryAttempts policy - 1) = retries policy"
  by (auto simp: retryAttempts_def retries_def split: option.splits)

text \<open>
  C14.  Retries.  On a running state the retry loop calls the handler once and then again, as long as
  it returns errors, up to the \<open>MaxAttempts\<close> of the policy; it returns the first output or the last
  error, leaves the environment as those calls leave it, and the record counts the calls.
\<close>

theorem applyRetry_attempts:
  assumes "running_attempt w e (nd_Name node) 1"
    and "applyRetry localRuntime (localExecutor ro h) e node input w = (r, w')"
  shows "(r, mw_env w') = tryAgain (retries (nd_Retry node)) (h (nd_Name node) input) (mw_env w) \<and>
    running_attempt w' e (nd_Name node)
      (int (tries (retries (nd_Retry node)) (h (nd_Name node) input) (mw_env w)))"
  using applyRetry_local [OF assms] unfolding retries_retryAttempts by blast

definition flaky :: "string \<Rightarrow> gomap \<Rightarrow> nat \<Rightarrow> gomap res \<times> nat" where
  "flaky s inp n = (if n < 2 then (Err (CtxErr ''down''), Suc n) else (Ok inp, Suc n))"

definition flakyNode :: "nat Node" where
  "flakyNode = \<lparr>nd_Name = ''a'', nd_TaskDef = blankTask ''a'' taskState, nd_Next = Succeed,
     nd_Catch = '''', nd_Retry = Some \<lparr>MaxAttempts = 5, BackoffSeconds = 0\<rparr>, nd_Terminal = True\<rparr>"

definition flakyWorld :: "nat mem_world" where
  "flakyWorld = \<lparr>mw_store = NewMemoryStore\<lparr>ms_states :=
     [stateKey ''e'' ''a'' \<mapsto> exampleState\<lparr>sr_Status := StatusRunning\<rparr>]\<rparr>, mw_now = 0, mw_log = [], mw_env = 0\<rparr>"

theorem applyRetry_attempts_witness:
  "\<exists>r w'. applyRetry localRuntime (localExecutor exampleOrders flaky) ''e'' flakyNode None flakyWorld
     = (r, w') \<and> r = Ok None \<and> mw_env w' = 3 \<and> running_attempt w' ''e'' ''a'' 3"
proof -
  obtain r w' where a: "applyRetry localRuntime (localExecutor exampleOrders flaky) ''e'' flakyNode None
      flakyWorld = (r, w')" by force
  have "running_attempt flakyWorld ''e'' (nd_Name flakyNode) 1"
    by (simp add: running_attempt_def flakyWorld_def flakyNode_def mem_view_def exampleState_def)
  from applyRetry_attempts [OF this a] a show ?thesis
    by (simp add: flakyNode_def retries_def flakyWorld_def flaky_def numeral_eq_Suc)
qed

text \<open>
  C40.  A completed state is replayed on every visit and its handler is not called again, so a cycle
  of completed states is never left: for no fuel does the loop return.
\<close>

theorem replay_cycle_diverges:
  assumes "\<forall>node \<in> S. \<exists>out nxt. completed_with mem_view w e (nd_Name node) out \<and>
      Graph_Next g node (choiceKeyOf node (Some out)) = Ok (Some nxt) \<and> nxt \<in> S"
    and "node \<in> S"
  shows "runLoop n localRuntime (localExecutor ro h) e g (Some node) cur w = None"
  using replay_diverges [of S w e g node n ro h cur] assms by blast

definition selfLoop :: "string list Node" where
  "selfLoop = \<lparr>nd_Name = ''a'', nd_TaskDef = blankTask ''a'' taskState, nd_Next = ''a'', nd_Catch = '''',
     nd_Retry = None, nd_Terminal = False\<rparr>"

theorem replay_cycle_diverges_witness:
  "\<forall>n. runLoop n localRuntime (localExecutor exampleOrders (stateHandler exampleFlow)) ''e''
     \<lparr>g_nodes = [''a'' \<mapsto> selfLoop], g_entry = ''a''\<rparr> (Some selfLoop) None exampleCompleted = None"
proof
  fix n
  have "\<forall>node \<in> {selfLoop}. \<exists>out nxt. completed_with mem_view exampleCompleted ''e'' (nd_Name node) out \<and>
      Graph_Next \<lparr>g_nodes = [''a'' \<mapsto> selfLoop], g_entry = ''a''\<rparr> node (choiceKeyOf node (Some out)) =
        Ok (Some nxt) \<and> nxt \<in> {selfLoop}"
    using exampleCompleted_a
    by (intro ballI exI [of _ Map.empty]) (auto simp: selfLoop_def Graph_Next_def task_defs)
  from replay_cycle_diverges [OF this] show "runLoop n localRuntime
      (localExecutor exampleOrders (stateHandler exampleFlow)) ''e''
      \<lparr>g_nodes = [''a'' \<mapsto> selfLoop], g_entry = ''a''\<rparr> (Some selfLoop) None exampleCompleted = None" by simp
qed

end
