(* ===== verification/Sdk_Local.thy ===== *)
theory Sdk_Local
  imports Workflow
begin

text \<open>
  The SDK's own in-process runner, pkg/kflow/graph_json.go (from \<open>localNode\<close> on) and \<open>RunLocal\<close>
  of pkg/kflow/runner.go: a second interpreter for workflows, without a store.

  The context is \<open>context.Background()\<close>, whose channel never becomes ready, so each \<open>select\<close> of
  the source waits for its timer.  The world is the clock and the environment of the handlers.
  A workflow may loop, so \<open>runLocalGraph\<close> takes fuel.
\<close>

section \<open>The local graph\<close>

record 'e localNode =
  ln_name :: string
  ln_task :: "'e TaskDef"
  ln_next :: string
  ln_catch :: string
  ln_retry :: "RetryPolicy option"

record 'e localGraph =
  lg_entry :: string
  lg_nodes :: "string \<rightharpoonup> 'e localNode"

definition mkLocalNode :: "'e TaskDef \<Rightarrow> StepBuilder \<Rightarrow> 'e localNode" where
  "mkLocalNode td st =
     (let retry = (if sb_retry st \<noteq> None then sb_retry st else td_retry td);
          ctch = (if sb_catch st \<noteq> '''' then sb_catch st else td_catch td)
      in \<lparr>ln_name = sb_name st, ln_task = td, ln_next = sb_next st, ln_catch = ctch,
          ln_retry = retry\<rparr>)"

fun localNodes ::
    "(string \<rightharpoonup> 'e TaskDef) \<Rightarrow> StepBuilder list \<Rightarrow> (string \<rightharpoonup> 'e localNode)
     \<Rightarrow> (string \<rightharpoonup> 'e localNode) res" where
  "localNodes tasks [] nodes = Ok nodes"
| "localNodes tasks (st # sts) nodes =
     (case tasks (sb_name st) of
        None \<Rightarrow> Err (Errorf [FW ErrUnknownState, FL '': '', FQ (sb_name st)])
      | Some td \<Rightarrow> localNodes tasks sts (nodes(sb_name st \<mapsto> mkLocalNode td st)))"

definition buildLocalGraph :: "'e Workflow \<Rightarrow> 'e localGraph res" where
  "buildLocalGraph wk =
     (if wf_steps wk = [] then Err ErrNoEntryPoint
      else case localNodes (wf_tasks wk) (wf_steps wk) Map.empty of
             Err e \<Rightarrow> Err e
           | Panic p \<Rightarrow> Panic p
           | Ok nodes \<Rightarrow> Ok \<lparr>lg_entry = sb_name (hd (wf_steps wk)), lg_nodes = nodes\<rparr>)"

section \<open>Running one state\<close>

record 'e sdk_world =
  sw_now :: time
  sw_env :: 'e

definition afterTimer :: "duration \<Rightarrow> 'e sdk_world \<Rightarrow> 'e sdk_world" where
  "afterTimer d w = w\<lparr>sw_now := sw_now w + max d 0\<rparr>"

definition callFn :: "('e \<Rightarrow> 'a \<times> 'e) \<Rightarrow> 'e sdk_world \<Rightarrow> 'a \<times> 'e sdk_world" where
  "callFn f w = (case f (sw_env w) of (r, v) \<Rightarrow> (r, w\<lparr>sw_env := v\<rparr>))"

text \<open>\<open>for attempt := 0; attempt < maxAttempts; attempt++\<close>, over the list of attempts left.\<close>

fun retryAttemptLoop ::
    "'e HandlerFunc \<Rightarrow> gomap \<Rightarrow> int \<Rightarrow> int list \<Rightarrow> goerr option \<Rightarrow> 'e sdk_world
     \<Rightarrow> gomap res \<times> 'e sdk_world" where
  "retryAttemptLoop fn input backoff [] lastErr w =
     ((case lastErr of None \<Rightarrow> Ok None | Some e \<Rightarrow> Err e), w)"
| "retryAttemptLoop fn input backoff (attempt # rest) lastErr w =
     (let w1 = (if attempt > 0 \<and> backoff > 0 then afterTimer (int64 (backoff * Second)) w else w) in
      case callFn (fn input) w1 of
        (Ok out, w2) \<Rightarrow> (Ok out, w2)
      | (Panic p, w2) \<Rightarrow> (Panic p, w2)
      | (Err e, w2) \<Rightarrow> retryAttemptLoop fn input backoff rest (Some e) w2)"

definition runWithRetry ::
    "'e HandlerFunc \<Rightarrow> gomap \<Rightarrow> RetryPolicy option \<Rightarrow> 'e sdk_world \<Rightarrow> gomap res \<times> 'e sdk_world" where
  "runWithRetry fn input rp w =
     (let (maxAttempts, backoff) =
            (case rp of
               None \<Rightarrow> (1, 0)
             | Some p \<Rightarrow> if MaxAttempts p > 0 then (MaxAttempts p, BackoffSeconds p) else (1, 0))
      in retryAttemptLoop fn input backoff [0..maxAttempts - 1] None w)"

definition sdk_cloneInput :: "gomap \<Rightarrow> gomap" where
  "sdk_cloneInput inp = Some (entries inp)"

definition runLocalState ::
    "'e localNode \<Rightarrow> gomap \<Rightarrow> 'e sdk_world \<Rightarrow> gomap res \<times> 'e sdk_world" where
  "runLocalState node input w =
     (let td = ln_task node in
      if IsWait td then (Ok input, afterTimer (td_waitDur td) w)
      else if IsChoice td then
        (case td_choiceFn td of
           None \<Rightarrow> (Panic ''nil function'', w)
         | Some fn \<Rightarrow>
             (case callFn (fn input) w of
                (Err e, w1) \<Rightarrow> (Err e, w1)
              | (Panic p, w1) \<Rightarrow> (Panic p, w1)
              | (Ok nxt, w1) \<Rightarrow>
                  (Ok (Some ((entries (sdk_cloneInput input))(''__choice__'' \<mapsto> VStr nxt))), w1)))
      else
        (case td_fn td of
           None \<Rightarrow> (Err (Errorf [FL ''state '', FQ (td_name td),
                     FL '' uses InvokeService which is not supported in RunLocal'']), w)
         | Some fn \<Rightarrow> runWithRetry fn input (ln_retry node) w))"

definition nextLocalNode :: "'e localNode \<Rightarrow> gomap \<Rightarrow> string res" where
  "nextLocalNode node out =
     (if IsChoice (ln_task node) then
        (case entries out ''__choice__'' of
           Some (VStr choice) \<Rightarrow> Ok choice
         | _ \<Rightarrow> Err (Errorf [FL ''choice state '', FQ (ln_name node),
                  FL '': __choice__ not set in output'']))
      else Ok (ln_next node))"

section \<open>The loop\<close>

fun runLocalGraph ::
    "nat \<Rightarrow> 'e localGraph \<Rightarrow> string \<Rightarrow> gomap \<Rightarrow> 'e sdk_world \<Rightarrow> (unit res \<times> 'e sdk_world) option" where
  "runLocalGraph 0 g current input w = None"
| "runLocalGraph (Suc n) g current input w =
     (case lg_nodes g current of
        None \<Rightarrow> Some (Err (Errorf [FL ''unknown state: '', FQ current]), w)
      | Some node \<Rightarrow>
          (case runLocalState node input w of
             (Panic p, w1) \<Rightarrow> Some (Panic p, w1)
           | (Err e, w1) \<Rightarrow>
               if ln_catch node \<noteq> '''' then
                 runLocalGraph n g (ln_catch node)
                   (Some ((entries (sdk_cloneInput input))(''_error'' \<mapsto> VStr (Error e)))) w1
               else Some (Err (Errorf [FL ''state '', FQ current, FL '' failed: '', FW e]), w1)
           | (Ok out, w1) \<Rightarrow>
               (case nextLocalNode node out of
                  Err e \<Rightarrow> Some (Err e, w1)
                | Panic p \<Rightarrow> Some (Panic p, w1)
                | Ok nxt \<Rightarrow>
                    if nxt = '''' \<or> isSentinel nxt then Some (Ok (), w1)
                    else if lg_nodes g nxt = None then
                      Some (Err (Errorf [FL ''state '', FQ current, FL '': next state '', FQ nxt,
                              FL '' not in flow'']), w1)
                    else runLocalGraph n g nxt out w1)))"

definition sdk_RunLocal ::
    "nat \<Rightarrow> string list \<Rightarrow> 'e Workflow \<Rightarrow> gomap \<Rightarrow> 'e sdk_world \<Rightarrow> (unit res \<times> 'e sdk_world) option" where
  "sdk_RunLocal n ord wk input w =
     (case Validate ord wk of
        Some e \<Rightarrow> Some (Err (Errorf [FL ''invalid workflow: '', FW e]), w)
      | None \<Rightarrow>
          (case buildLocalGraph wk of
             Err e \<Rightarrow> Some (Err e, w)
           | Panic p \<Rightarrow> Some (Panic p, w)
           | Ok g \<Rightarrow> runLocalGraph n g (lg_entry g) input w))"

end
