(* ===== verification/Runners_Agree.thy ===== *)
theory Runners_Agree
  imports Local_Correct Sdk_Local
begin

text \<open>
  The two in-process runners compared: internal/local \<open>RunLocal\<close> (engine and memory store) and
  pkg/kflow \<open>RunLocal\<close> (no store).  They agree on workflows without wait states, catches and
  revisited states; the restrictions are the differences between the two programs.
\<close>

section \<open>The compiled graphs\<close>

definition toLocal :: "'e Node \<Rightarrow> 'e localNode" where
  "toLocal nd = \<lparr>ln_name = nd_Name nd, ln_task = nd_TaskDef nd, ln_next = nd_Next nd,
     ln_catch = nd_Catch nd, ln_retry = nd_Retry nd\<rparr>"

lemma toLocal_mkNode: "toLocal (mkNode td st) = mkLocalNode td st"
  by (simp add: toLocal_def mkNode_def mkLocalNode_def split: option.splits)

lemma stepNodes_Cons:
  "m ++ stepNodes tasks (st # sts) =
     m(sb_name st \<mapsto> mkNode (the (tasks (sb_name st))) st) ++ stepNodes tasks sts"
  by (simp add: stepNodes_def)

lemma localNodes_step:
  "list_all (compilable tasks) sts \<Longrightarrow>
   localNodes tasks sts (map_option toLocal \<circ> m) = Ok (map_option toLocal \<circ> (m ++ stepNodes tasks sts))"
proof (induction sts arbitrary: m)
  case Nil
  then show ?case by (simp add: stepNodes_def)
next
  case (Cons st sts)
  then obtain td where td: "tasks (sb_name st) = Some td" by (auto simp: compilable_def)
  have "(map_option toLocal \<circ> m)(sb_name st \<mapsto> mkLocalNode td st) =
      map_option toLocal \<circ> m(sb_name st \<mapsto> mkNode td st)"
    by (auto simp: fun_eq_iff toLocal_mkNode)
  then have "localNodes tasks (st # sts) (map_option toLocal \<circ> m) =
      localNodes tasks sts (map_option toLocal \<circ> m(sb_name st \<mapsto> mkNode td st))"
    by (simp only: localNodes.simps td option.case)
  also have "\<dots> = Ok (map_option toLocal \<circ> (m(sb_name st \<mapsto> mkNode td st) ++ stepNodes tasks sts))"
    by (rule Cons.IH) (use Cons.prems in simp)
  finally show ?case by (simp only: stepNodes_Cons td option.sel)
qed

lemma buildLocalGraph_Build:
  assumes "Build ord wk = Ok g"
  shows "buildLocalGraph wk = Ok \<lparr>lg_entry = g_entry g, lg_nodes = map_option toLocal \<circ> g_nodes g\<rparr>"
proof -
  from assms have c: "list_all (compilable (wf_tasks wk)) (wf_steps wk)" "wf_steps wk \<noteq> []"
    and g: "g = \<lparr>g_nodes = stepNodes (wf_tasks wk) (wf_steps wk), g_entry = sb_name (hd (wf_steps wk))\<rparr>"
    by (auto simp: Build_Ok_iff dest: Validate_entry)
  have "map_option toLocal \<circ> Map.empty = Map.empty" by (simp add: fun_eq_iff)
  with localNodes_step [OF c(1), of Map.empty] c(2) g show ?thesis by (simp add: buildLocalGraph_def)
qed

lemma Build_task:
  assumes "Build ord wk = Ok g" and "g_nodes g nm = Some nd"
  shows "wf_tasks wk nm = Some (nd_TaskDef nd)" and "nd_Name nd = nm"
    and "nd_Terminal nd = isSentinel (nd_Next nd)"
proof -
  from assms obtain st where st: "st \<in> set (wf_steps wk)" "sb_name st = nm"
      "nd = mkNode (the (wf_tasks wk nm)) st" "compilable (wf_tasks wk) st"
    by (auto simp: Build_Ok_iff list_all_iff dest!: stepNodes_Some)
  then show "wf_tasks wk nm = Some (nd_TaskDef nd)" by (auto simp: compilable_def)
  show "nd_Name nd = nm" "nd_Terminal nd = isSentinel (nd_Next nd)" using st by simp_all
qed

section \<open>Retries\<close>

lemma retryAttemptLoop_tryAgain:
  "retryAttemptLoop fn input b [a..m] le w = (r, w') \<Longrightarrow> a \<le> m \<Longrightarrow> nat (m - a) = k \<Longrightarrow>
   (r, sw_env w') = tryAgain k (fn input) (sw_env w)"
proof (induction k arbitrary: a le w)
  case 0
  then have "[a..m] = [a]" by simp
  with 0(1) show ?case
    by (auto simp: callFn_def afterTimer_def Let_def split: prod.splits res.splits if_splits)
next
  case (Suc k)
  then have up: "[a..m] = a # [a + 1..m]" by (simp add: upto.simps)
  obtain y v where y: "fn input (sw_env w) = (y, v)" by force
  define w1 where "w1 = (if a > 0 \<and> b > 0 then afterTimer (int64 (b * Second)) w else w)"
  have c: "callFn (fn input) w1 = (y, w1\<lparr>sw_env := v\<rparr>)"
    by (simp add: callFn_def w1_def afterTimer_def y)
  note step = Suc.prems(1) [unfolded up retryAttemptLoop.simps Let_def, folded w1_def, unfolded c]
  show ?case
  proof (cases y)
    case (Err e)
    with step have "retryAttemptLoop fn input b [a + 1..m] (Some e) (w1\<lparr>sw_env := v\<rparr>) = (r, w')"
      by simp
    from Suc.IH [OF this] Suc.prems y Err show ?thesis by simp
  qed (use step y in auto)
qed

lemma runWithRetry_tryAgain:
  assumes "runWithRetry fn input rp w = (r, w')"
  shows "(r, sw_env w') = tryAgain (nat (retryAttempts rp - 1)) (fn input) (sw_env w)"
proof -
  define m where "m = (case rp of None \<Rightarrow> 1 | Some p \<Rightarrow> if MaxAttempts p > 0 then MaxAttempts p else 1)"
  from assms obtain b where "retryAttemptLoop fn input b [0..m - 1] None w = (r, w')"
    by (auto simp: runWithRetry_def m_def split: option.splits if_splits)
  moreover have "0 \<le> m - 1" "m = retryAttempts rp"
    by (auto simp: m_def retryAttempts_def split: option.splits)
  ultimately show ?thesis by (metis retryAttemptLoop_tryAgain diff_zero)
qed

section \<open>Workflows on which the runners agree\<close>

text \<open>
  A handler that does not tell a nil map from an empty one.
\<close>

definition nil_blind :: "(gomap \<Rightarrow> 'b) \<Rightarrow> bool" where
  "nil_blind f \<longleftrightarrow> (\<forall>inp. f inp = f (Some (entries inp)))"

lemma nil_blindD: "nil_blind f \<Longrightarrow> entries a = entries b \<Longrightarrow> f a = f b"
  by (metis nil_blind_def)

text \<open>
  \<open>plain g \<rho>\<close>: no wait state, no catch; a task state has a handler and a next state; a choice state
  has no retries, is not an end state, and its function names states of the flow.  Successors
  have a smaller rank \<open>\<rho>\<close>, so that no state is visited twice.
\<close>

definition plain_node :: "'e Graph \<Rightarrow> (string \<Rightarrow> nat) \<Rightarrow> string \<Rightarrow> 'e Node \<Rightarrow> bool" where
  "plain_node g \<rho> nm nd \<longleftrightarrow>
     \<not> IsWait (nd_TaskDef nd) \<and> nd_Catch nd = '''' \<and> nd_Next nd \<noteq> '''' \<and>
     (if IsChoice (nd_TaskDef nd) then
        \<not> nd_Terminal nd \<and> retryAttempts (nd_Retry nd) = 1 \<and>
        (\<exists>fn. td_choiceFn (nd_TaskDef nd) = Some fn \<and> nil_blind fn \<and>
           (\<forall>inp v k v'. fn inp v = (Ok k, v') \<longrightarrow>
              k \<noteq> '''' \<and> \<not> isSentinel k \<and> g_nodes g k \<noteq> None \<and> \<rho> k < \<rho> nm))
      else
        (\<exists>fn. td_fn (nd_TaskDef nd) = Some fn \<and> nil_blind fn) \<and>
        (g_nodes g (nd_Next nd) \<noteq> None \<longrightarrow> \<rho> (nd_Next nd) < \<rho> nm))"

definition plain :: "'e Graph \<Rightarrow> (string \<Rightarrow> nat) \<Rightarrow> bool" where
  "plain g \<rho> \<longleftrightarrow> (\<forall>nm nd. g_nodes g nm = Some nd \<longrightarrow> plain_node g \<rho> nm nd)"

lemma stateHandler_state:
  assumes "wf_tasks wk nm = Some (nd_TaskDef nd)" and "plain_node g \<rho> nm nd"
    and "entries inp = entries inp'"
    and "runLocalState (toLocal nd) inp' ws = (x, ws')"
  shows "tryAgain (nat (retryAttempts (nd_Retry nd) - 1)) (stateHandler wk nm inp) (sw_env ws)
    = (x, sw_env ws')"
proof (cases "IsChoice (nd_TaskDef nd)")
  case True
  with assms(2) obtain fn where fn: "td_choiceFn (nd_TaskDef nd) = Some fn" "nil_blind fn"
    "retryAttempts (nd_Retry nd) = 1" "\<not> IsWait (nd_TaskDef nd)" by (auto simp: plain_node_def)
  from nil_blindD [OF fn(2) assms(3)] have "fn inp = fn inp'" .
  then show ?thesis
    using assms(1,3,4) True fn
    by (auto simp: runLocalState_def stateHandler_def toLocal_def sdk_cloneInput_def callFn_def
        split: prod.splits res.splits)
next
  case False
  with assms(2) obtain fn where fn: "td_fn (nd_TaskDef nd) = Some fn" "nil_blind fn"
    "\<not> IsWait (nd_TaskDef nd)" by (auto simp: plain_node_def)
  with assms(4) False have "runWithRetry fn inp' (nd_Retry nd) ws = (x, ws')"
    by (simp add: runLocalState_def toLocal_def)
  from runWithRetry_tryAgain [OF this] have
    "tryAgain (nat (retryAttempts (nd_Retry nd) - 1)) (fn inp') (sw_env ws) = (x, sw_env ws')" by simp
  moreover have "stateHandler wk nm inp = fn inp'"
    using assms(1) False fn nil_blindD [OF fn(2) assms(3)] by (auto simp: stateHandler_def fun_eq_iff)
  ultimately show ?thesis by simp
qed

definition same_outcome :: "unit res \<Rightarrow> unit res \<Rightarrow> bool" where
  "same_outcome r r' \<longleftrightarrow>
     (case r of Ok _ \<Rightarrow> is_Ok r' | Err _ \<Rightarrow> (\<exists>e. r' = Err e) | Panic p \<Rightarrow> r' = Panic p)"

lemma plain_next:
  assumes "plain_node g \<rho> nm nd" and "nd_Terminal nd = isSentinel (nd_Next nd)"
    and "runLocalState (toLocal nd) inp ws = (Ok out, ws')"
  obtains (ended) k where "Graph_Next g nd (choiceKeyOf nd out) = Ok None"
      "nextLocalNode (toLocal nd) out = Ok k" "isSentinel k"
  | (missing) k err where "Graph_Next g nd (choiceKeyOf nd out) = Err err"
      "nextLocalNode (toLocal nd) out = Ok k" "g_nodes g k = None" "k \<noteq> ''''" "\<not> isSentinel k"
  | (step) k c where "Graph_Next g nd (choiceKeyOf nd out) = Ok (Some c)"
      "nextLocalNode (toLocal nd) out = Ok k" "g_nodes g k = Some c" "\<rho> k < \<rho> nm" "k \<noteq> ''''"
      "\<not> isSentinel k"
proof (cases "IsChoice (nd_TaskDef nd)")
  case True
  with assms(1) obtain fn where fn: "td_choiceFn (nd_TaskDef nd) = Some fn"
      "\<not> IsWait (nd_TaskDef nd)" "\<not> nd_Terminal nd"
    and tgt: "\<forall>inp v k v'. fn inp v = (Ok k, v') \<longrightarrow>
              k \<noteq> '''' \<and> \<not> isSentinel k \<and> g_nodes g k \<noteq> None \<and> \<rho> k < \<rho> nm"
    by (auto simp: plain_node_def)
  from assms(3) True fn obtain k v where k: "fn inp (sw_env ws) = (Ok k, v)"
      and out: "entries out ''__choice__'' = Some (VStr k)"
    by (auto simp: runLocalState_def toLocal_def callFn_def split: prod.splits res.splits)
  from tgt k obtain c where c: "g_nodes g k = Some c" "k \<noteq> ''''" "\<not> isSentinel k" "\<rho> k < \<rho> nm" by blast
  show ?thesis
    using step [of c k] c out True fn
    by (simp add: Graph_Next_def choiceKeyOf_def nextLocalNode_def toLocal_def)
next
  case False
  then have nx: "nextLocalNode (toLocal nd) out = Ok (nd_Next nd)" "choiceKeyOf nd out = ''''"
    by (simp_all add: nextLocalNode_def toLocal_def choiceKeyOf_def)
  show ?thesis
  proof (cases "nd_Terminal nd")
    case True
    with nx assms(2) ended show ?thesis by (simp add: Graph_Next_def)
  next
    case nt: False
    then show ?thesis
      using nx assms(1,2) False missing step
      by (cases "g_nodes g (nd_Next nd)") (auto simp: Graph_Next_def plain_node_def)
  qed
qed

lemma same_outcome_Ok: "same_outcome r (Ok u) \<Longrightarrow> r = Ok ()"
  by (cases r) (auto simp: same_outcome_def)

lemma runners_step:
  assumes "Build ord wk = Ok g" and "plain g \<rho>" and lgn: "lg_nodes lg = map_option toLocal \<circ> g_nodes g"
  shows "g_nodes g nm = Some nd \<Longrightarrow> \<rho> nm < m \<Longrightarrow> m < n \<Longrightarrow> mw_env w = sw_env ws \<Longrightarrow>
    entries cur = entries cur' \<Longrightarrow>
    (\<And>k. g_nodes g k \<noteq> None \<Longrightarrow> \<rho> k \<le> \<rho> nm \<Longrightarrow> \<not> status_in mem_view w e k StatusCompleted) \<Longrightarrow>
    \<exists>r w' r' ws'. runLoop n localRuntime (localExecutor ro (stateHandler wk)) e g (Some nd) cur w
        = Some (r, w') \<and>
      runLocalGraph m lg nm cur' ws = Some (r', ws') \<and> same_outcome r r' \<and> mw_env w' = sw_env ws'"
proof (induction m arbitrary: n nm nd w ws cur cur')
  case 0
  then show ?case by simp
next
  case (Suc m)
  let ?ex = "localExecutor ro (stateHandler wk)"
  from Suc.prems(3) obtain n1 where n: "n = Suc (Suc n1)" by (metis Suc_lessE less_imp_Suc_add)
  note bt = Build_task [OF assms(1) Suc.prems(1)]
  have pl: "plain_node g \<rho> nm nd" using assms(2) Suc.prems(1) by (simp add: plain_def)
  obtain x ws1 where st: "runLocalState (toLocal nd) cur' ws = (x, ws1)" by force
  have "entries (cloneInput cur) = entries cur'" using Suc.prems(5) by (simp add: cloneInput_def)
  from stateHandler_state [OF bt(1) pl this st] bt(2) Suc.prems(4)
  have tr: "tryAgain (nat (retryAttempts (nd_Retry nd) - 1)) (stateHandler wk (nd_Name nd)
      (cloneInput cur)) (mw_env w) = (x, sw_env ws1)" by simp
  have nc: "\<not> IsWait (nd_TaskDef nd)" "nd_Catch nd = ''''" using pl by (auto simp: plain_node_def)
  have fresh: "\<not> status_in mem_view w e (nd_Name nd) StatusCompleted"
    using Suc.prems(6) [of nm] Suc.prems(1) bt(2) by simp
  obtain w1 where w1: "mw_env w1 = sw_env ws1" "others mem_view e nm w w1"
    and ex: "executeState (Suc n1) localRuntime ?ex e g nd (cloneInput cur) w = Some (x, w1)"
  proof (rule executeState_fresh [where h="stateHandler wk" and n=n1 and ro=ro and g=g,
        OF nc(1) fresh tr])
    fix w'
    assume "mw_env w' = sw_env ws1" and "others mem_view e (nd_Name nd) w w'"
      and "executeState (Suc n1) localRuntime ?ex e g nd (cloneInput cur) w =
        (case x of
           Err err \<Rightarrow>
             (if nd_Catch nd = '''' then Some (Err err, w')
              else case Graph_Node g (nd_Catch nd) of
                     None \<Rightarrow> Some (Err err, w')
                   | Some c \<Rightarrow> executeState n1 localRuntime ?ex e g c
                                 (mergeErrorKey (cloneInput cur) err) w')
         | _ \<Rightarrow> Some (x, w'))"
    with that [of w'] nc(2) bt(2) show thesis
      by (cases x) (simp_all del: executeState.simps)
  qed
  have ctx: "rt_CtxErr localRuntime w = None" by (simp add: localRuntime_def)
  have lnd: "lg_nodes lg nm = Some (toLocal nd)" "ln_catch (toLocal nd) = ''''"
    using Suc.prems(1) nc(2) by (simp_all add: toLocal_def lgn)
  have lnx: "lg_nodes lg k = None \<longleftrightarrow> g_nodes g k = None" for k by (simp add: lgn)
  show ?case
  proof (cases x)
    case (Err err)
    then show ?thesis
      using n ctx ex st lnd w1 by (simp add: same_outcome_def logExecFailed_def del: executeState.simps)
  next
    case (Panic p)
    then show ?thesis
      using n ctx ex st lnd w1 by (simp add: same_outcome_def del: executeState.simps)
  next
    case (Ok out)
    from st Ok have st': "runLocalState (toLocal nd) cur' ws = (Ok out, ws1)" by simp
    show ?thesis
    proof (rule plain_next [OF pl bt(3) st'], goal_cases)
      case (1 k)
      then show ?thesis
        using n ctx ex st' lnd lnx w1 Ok by (simp add: same_outcome_def del: executeState.simps)
    next
      case (2 k err)
      then show ?thesis
        using n ctx ex st' lnd lnx w1 Ok
        by (simp add: same_outcome_def logExecFailed_def del: executeState.simps)
    next
      case (3 k c)
      have "\<not> status_in mem_view w1 e k' StatusCompleted"
        if "g_nodes g k' \<noteq> None" "\<rho> k' \<le> \<rho> k" for k'
      proof -
        from that(2) 3 have "k' \<noteq> nm" "\<rho> k' \<le> \<rho> nm" by auto
        with Suc.prems(6) [OF that(1)] w1(2) show ?thesis by (auto simp: others_def status_in_def)
      qed
      from Suc.IH [of k c "Suc n1" w1 ws1 out out, OF _ _ _ _ _ this] 3 Suc.prems(2,3) w1 n
      show ?thesis using ctx ex st' lnd lnx Ok by (simp del: executeState.simps)
    qed
  qed
qed

lemma RunLocal_agree:
  assumes "Build ord wk = Ok g" and "plain g \<rho>" and "newUUID rnd = Ok e"
    and "\<rho> (g_entry g) < m" and "m < n" and "mw_env w = sw_env ws"
  shows "\<exists>r w' r' ws'. RunLocal n ro ord rnd wk input w = Some (r, w') \<and>
    sdk_RunLocal m ord wk input ws = Some (r', ws') \<and> same_outcome r r' \<and> mw_env w' = sw_env ws'"
proof -
  let ?ex = "localExecutor ro (stateHandler wk)"
  let ?lg = "\<lparr>lg_entry = g_entry g, lg_nodes = map_option toLocal \<circ> g_nodes g\<rparr>"
  obtain nd where en: "EntryNode g = Some nd" using Build_graph_wf [OF assms(1)] by (auto simp: graph_wf_def)
  let ?w0 = "logLine localRuntime ?ex e '''' ''INFO''
          [FL ''executor: execution '', FQ e, FL '' started''] (startWorld wk e input w)"
  have "\<exists>r w' r' ws'. runLoop n localRuntime ?ex e g (Some nd) input ?w0 = Some (r, w') \<and>
      runLocalGraph m ?lg (g_entry g) input ws = Some (r', ws') \<and> same_outcome r r' \<and>
      mw_env w' = sw_env ws'"
    using assms(6)
    by (intro runners_step [OF assms(1,2) _ en [unfolded EntryNode_def] assms(4,5)])
      (simp_all add: loc.status_in_cong [OF loc.logLine_view])
  then obtain r w' r' ws' where run: "Run n localRuntime ?ex e g input (startWorld wk e input w) = Some (r, w')"
    and sdk: "runLocalGraph m ?lg (g_entry g) input ws = Some (r', ws')"
    and out: "same_outcome r r'" "mw_env w' = sw_env ws'"
    by (auto simp: Run_def en)
  have "\<exists>v. RunLocal n ro ord rnd wk input w = Some (r, v) \<and> mw_env v = mw_env w'"
    using assms(1,3) run by (cases r) (simp_all add: RunLocal_def runExecution_Run)
  moreover have "sdk_RunLocal m ord wk input ws = Some (r', ws')"
    using assms(1) sdk buildLocalGraph_Build [OF assms(1)] by (simp add: sdk_RunLocal_def Build_Ok_iff)
  ultimately show ?thesis using out by auto
qed

section \<open>The example on both runners\<close>

lemma example_plain: "plain exampleGraph exampleRank"
  by (auto simp: plain_def plain_node_def exampleGraph_nodes exampleFlow_simps step_defs task_defs
      mkNode_def exampleRank_def nil_blind_def logName_def Succeed_def split: if_splits)

lemma example_sdk:
  "\<exists>ws. sdk_RunLocal 2 [''a'', ''b''] exampleFlow input \<lparr>sw_now = 0, sw_env = v\<rparr> = Some (Ok (), ws)"
  by (simp add: sdk_RunLocal_def exampleFlow_valid buildLocalGraph_Build [OF exampleGraph_Build]
      exampleGraph_nodes exampleFlow_simps numeral_2_eq_2 toLocal_def mkNode_def step_defs task_defs
      runLocalState_def runWithRetry_def callFn_def logName_def nextLocalNode_def isSentinel_def
      Succeed_def Fail_def)
    (simp add: exampleGraph_def exampleGraph_nodes)

section \<open>Properties\<close>

text \<open>
  C15.  The two in-process runners agree on plain workflows: no state waits or has a catch; every step
  has a next state, and no state can be visited twice; every task state has an inline function (so
  none invokes a service); every choice state is not an end, has no retries, and names only states
  of the flow, never a sentinel; no function tells a nil map from an empty one.  There the engine on
  the memory store and the SDK's runner both return, with the same outcome, and have made the same
  changes to the environment of the handlers.  Outside these workflows the runners may disagree.
\<close>

theorem RunLocal_agrees_with_sdk:
  assumes "Build ord wk = Ok g" and "plain g \<rho>" and "newUUID rnd = Ok e"
    and "\<rho> (g_entry g) < m" and "m < n" and "mw_env w = sw_env ws"
  shows "\<exists>r w' r' ws'. RunLocal n ro ord rnd wk input w = Some (r, w') \<and>
    sdk_RunLocal m ord wk input ws = Some (r', ws') \<and> same_outcome r r' \<and> mw_env w' = sw_env ws'"
  by (rule RunLocal_agree [OF assms])

lemma example_uuid: "\<exists>e. newUUID (Ok (replicate 16 (0xAB :: 8 word))) = Ok e"
  unfolding newUUID_def Let_def res.case by blast

theorem RunLocal_agrees_with_sdk_witness:
  "\<exists>w'. RunLocal 3 exampleOrders [''a'', ''b''] (Ok (replicate 16 0xAB)) exampleFlow None exampleWorld =
     Some (Ok (), w')"
proof -
  obtain e where e: "newUUID (Ok (replicate 16 (0xAB :: 8 word))) = Ok e" using example_uuid by blast
  have m: "exampleRank (g_entry exampleGraph) < 2" "(2 :: nat) < 3"
    by (simp_all add: exampleGraph_def exampleRank_def)
  have env: "mw_env exampleWorld = sw_env \<lparr>sw_now = 0, sw_env = []\<rparr>" by (simp add: exampleWorld_def)
  from RunLocal_agrees_with_sdk [where ro=exampleOrders and input=None, OF exampleGraph_Build
      example_plain e m env] example_sdk [of None "[]"]
  show ?thesis by (auto dest: same_outcome_Ok)
qed

lemma example_RunLocal:
  "\<exists>w'. RunLocal 3 exampleOrders [''a'', ''b''] (Ok (replicate 16 0xAB)) exampleFlow None exampleWorld =
     Some (Ok (), w')"
proof -
  obtain e where e: "newUUID (Ok (replicate 16 (0xAB :: 8 word))) = Ok e" using example_uuid by blast
  have m: "exampleRank (g_entry exampleGraph) < 2" "(2 :: nat) < 3"
    by (simp_all add: exampleGraph_def exampleRank_def)
  have env: "mw_env exampleWorld = sw_env \<lparr>sw_now = 0, sw_env = []\<rparr>" by (simp add: exampleWorld_def)
  from RunLocal_agree [where ro=exampleOrders and input=None, OF exampleGraph_Build
      example_plain e m env] example_sdk [of None "[]"]
  show ?thesis by (auto dest: same_outcome_Ok)
qed

text \<open>
  C22.  Idempotence.  When no state has a catch in the graph, repeating a run that succeeded
  succeeds again without calling any handler and without touching the store.
\<close>

theorem Run_repeatable:
  assumes "no_catch g" and "Run n localRuntime (localExecutor ro h) e g input w = Some (Ok (), w')"
  shows "\<exists>u. Run n localRuntime (localExecutor ro h) e g input' w' = Some (Ok (), u) \<and>
    mw_env u = mw_env w' \<and> mw_store u = mw_store w'"
proof -
  let ?ex = "localExecutor ro h"
  let ?l = "logLine localRuntime ?ex e '''' ''INFO'' [FL ''executor: execution '', FQ e, FL '' started'']"
  have "persists mem_view e w' (?l w')" by (rule persists_same) (rule loc.logLine_view)
  from runLoop_replay [OF assms(1) assms(2) [unfolded Run_def] _ this, of input']
  show ?thesis by (auto simp: Run_def EntryNode_def)
qed

theorem Run_repeatable_witness:
  "\<exists>w w' u. Run 3 localRuntime (localExecutor exampleOrders (stateHandler exampleFlow)) ''e'' exampleGraph
     None w = Some (Ok (), w') \<and>
     Run 3 localRuntime (localExecutor exampleOrders (stateHandler exampleFlow)) ''e'' exampleGraph None w'
     = Some (Ok (), u) \<and> mw_env u = mw_env w'"
proof -
  have nc: "no_catch exampleGraph"
    by (simp add: no_catch_def exampleGraph_nodes exampleFlow_simps step_defs task_defs mkNode_def)
  let ?ex = "localExecutor exampleOrders (stateHandler exampleFlow)"
  let ?l = "logLine localRuntime ?ex ''e'' '''' ''INFO''
      [FL ''executor: execution '', FQ ''e'', FL '' started''] exampleWorld"
  obtain nd where en: "EntryNode exampleGraph = Some nd"
    using Build_graph_wf [OF exampleGraph_Build] by (auto simp: graph_wf_def)
  have m: "exampleRank (g_entry exampleGraph) < 2" "(2 :: nat) < 3"
    by (simp_all add: exampleGraph_def exampleRank_def)
  have fresh: "\<not> status_in mem_view ?l ''e'' k StatusCompleted" for k
    by (simp add: loc.status_in_cong [OF loc.logLine_view] status_in_def mem_view_def exampleWorld_def
        NewMemoryStore_def)
  let ?lg = "\<lparr>lg_entry = g_entry exampleGraph, lg_nodes = map_option toLocal \<circ> g_nodes exampleGraph\<rparr>"
  have "mw_env ?l = sw_env \<lparr>sw_now = 0, sw_env = []\<rparr>" by (simp add: exampleWorld_def)
  from runners_step [where lg="?lg" and ro=exampleOrders and cur=None, OF exampleGraph_Build example_plain _
      en [unfolded EntryNode_def] m this refl fresh]
  obtain r w' r' ws' where a: "runLoop 3 localRuntime ?ex ''e'' exampleGraph (Some nd) None ?l = Some (r, w')"
    "runLocalGraph 2 ?lg (g_entry exampleGraph) None \<lparr>sw_now = 0, sw_env = []\<rparr> = Some (r', ws')"
    "same_outcome r r'" by auto
  have "r' = Ok ()" using a(2) example_sdk [of None "[]"]
    by (simp add: sdk_RunLocal_def exampleFlow_valid buildLocalGraph_Build [OF exampleGraph_Build])
  with a(3) have "r = Ok ()" by (auto dest: same_outcome_Ok)
  with a(1) have run: "Run 3 localRuntime ?ex ''e'' exampleGraph None exampleWorld = Some (Ok (), w')"
    by (simp add: Run_def en)
  from Run_repeatable [OF nc run, of None] run show ?thesis by blast
qed

text \<open>
  When \<open>RunLocal\<close> returns, its store holds exactly one execution, that of the workflow with the
  given input, marked completed if the result is nil and failed otherwise.
\<close>

theorem RunLocal_final_record:
  assumes "Build ord wk = Ok g" and "newUUID rnd = Ok e"
    and "RunLocal n ro ord rnd wk input w = Some (r, w')" and "\<forall>p. r \<noteq> Panic p"
  shows "\<exists>rcd. ms_executions (mw_store w') = [e \<mapsto> rcd] \<and> er_ID rcd = e \<and>
    er_Workflow rcd = wf_name wk \<and> er_Input rcd = input \<and>
    er_Status rcd = (if is_Ok r then StatusCompleted else StatusFailed)"
proof -
  from assms(1-3) have "runExecution n ro wk g e input w = Some (r, w')" by (simp add: RunLocal_def)
  from runExecution_record [OF this] assms(4) show ?thesis by blast
qed

theorem RunLocal_final_record_witness:
  "\<exists>e w' rcd. RunLocal 3 exampleOrders [''a'', ''b''] (Ok (replicate 16 0xAB)) exampleFlow None exampleWorld =
     Some (Ok (), w') \<and> ms_executions (mw_store w') = [e \<mapsto> rcd] \<and> er_Status rcd = StatusCompleted"
proof -
  obtain e where e: "newUUID (Ok (replicate 16 (0xAB :: 8 word))) = Ok e" using example_uuid by blast
  obtain w' where w': "RunLocal 3 exampleOrders [''a'', ''b''] (Ok (replicate 16 0xAB)) exampleFlow None
      exampleWorld = Some (Ok (), w')" using example_RunLocal by blast
  from RunLocal_final_record [OF exampleGraph_Build e w'] w' show ?thesis by auto
qed

end
