(* ===== verification/Utf8.thy ===== *)
theory Utf8
  imports Prelude
begin

text \<open>
  Strings as runes.  Go strings are byte sequences; \<open>[]rune(s)\<close> and \<open>utf8.DecodeRune\<close> are
  UTF-8 decoding, written out here with Go's treatment of invalid bytes.  The character classes of
  package unicode are tables, taken as an argument by the definitions that use them; \<open>asciiTable\<close>
  is their restriction to ASCII.
\<close>

section \<open>Runes\<close>

type_synonym rune = nat

definition RuneError :: rune where
  "RuneError = 0xFFFD"

definition contByte :: "nat \<Rightarrow> bool" where
  "contByte b \<longleftrightarrow> 0x80 \<le> b \<and> b \<le> 0xBF"

text \<open>The range the second byte of a sequence must lie in, by its first byte.\<close>

definition secondOk :: "nat \<Rightarrow> nat \<Rightarrow> bool" where
  "secondOk b0 b1 \<longleftrightarrow>
     (if b0 = 0xE0 then 0xA0 \<le> b1 \<and> b1 \<le> 0xBF
      else if b0 = 0xED then 0x80 \<le> b1 \<and> b1 \<le> 0x9F
      else if b0 = 0xF0 then 0x90 \<le> b1 \<and> b1 \<le> 0xBF
      else if b0 = 0xF4 then 0x80 \<le> b1 \<and> b1 \<le> 0x8F
      else contByte b1)"

fun decodeRune :: "nat list \<Rightarrow> rune \<times> nat" where
  "decodeRune [] = (RuneError, 0)"
| "decodeRune (b0 # bs) =
     (if b0 < 0x80 then (b0, 1)
      else if 0xC2 \<le> b0 \<and> b0 \<le> 0xDF then
        (case bs of
           b1 # _ \<Rightarrow> if contByte b1 then ((b0 - 0xC0) * 64 + (b1 - 0x80), 2) else (RuneError, 1)
         | _ \<Rightarrow> (RuneError, 1))
      else if 0xE0 \<le> b0 \<and> b0 \<le> 0xEF then
        (case bs of
           b1 # b2 # _ \<Rightarrow>
             if secondOk b0 b1 \<and> contByte b2
             then ((b0 - 0xE0) * 4096 + (b1 - 0x80) * 64 + (b2 - 0x80), 3) else (RuneError, 1)
         | _ \<Rightarrow> (RuneError, 1))
      else if 0xF0 \<le> b0 \<and> b0 \<le> 0xF4 then
        (case bs of
           b1 # b2 # b3 # _ \<Rightarrow>
             if secondOk b0 b1 \<and> contByte b2 \<and> contByte b3
             then ((b0 - 0xF0) * 262144 + (b1 - 0x80) * 4096 + (b2 - 0x80) * 64 + (b3 - 0x80), 4)
             else (RuneError, 1)
         | _ \<Rightarrow> (RuneError, 1))
      else (RuneError, 1))"

lemma decodeRune_pos: "bs \<noteq> [] \<Longrightarrow> 0 < snd (decodeRune bs)"
  by (cases bs) (auto split: list.splits)

function runes :: "nat list \<Rightarrow> rune list" where
  "runes [] = []"
| "runes (b # bs) = fst (decodeRune (b # bs)) # runes (drop (snd (decodeRune (b # bs))) (b # bs))"
  by pat_completeness auto
termination
proof (relation "measure length")
  fix b :: nat and bs
  have "0 < snd (decodeRune (b # bs))" by (rule decodeRune_pos) simp
  then show "(drop (snd (decodeRune (b # bs))) (b # bs), b # bs) \<in> measure length" by simp
qed simp

definition runesOf :: "string \<Rightarrow> rune list" where
  "runesOf s = runes (map of_char s)"

record unicode_table =
  IsUpper :: "rune \<Rightarrow> bool"
  IsLower :: "rune \<Rightarrow> bool"
  IsLetter :: "rune \<Rightarrow> bool"
  IsDigit :: "rune \<Rightarrow> bool"
  ToLower :: "rune \<Rightarrow> rune"

definition asciiTable :: unicode_table where
  "asciiTable = \<lparr>IsUpper = (\<lambda>r. 65 \<le> r \<and> r \<le> 90), IsLower = (\<lambda>r. 97 \<le> r \<and> r \<le> 122),
     IsLetter = (\<lambda>r. 65 \<le> r \<and> r \<le> 90 \<or> 97 \<le> r \<and> r \<le> 122), IsDigit = (\<lambda>r. 48 \<le> r \<and> r \<le> 57),
     ToLower = (\<lambda>r. if 65 \<le> r \<and> r \<le> 90 then r + 32 else r)\<rparr>"

definition encodeRune :: "rune \<Rightarrow> nat list" where
  "encodeRune r =
     (if r < 0x80 then [r]
      else if r < 0x800 then [0xC0 + r div 64, 0x80 + r mod 64]
      else if 0xD800 \<le> r \<and> r \<le> 0xDFFF \<or> r > 0x10FFFF then [0xEF, 0xBF, 0xBD]
      else if r < 0x10000 then [0xE0 + r div 4096, 0x80 + r div 64 mod 64, 0x80 + r mod 64]
      else [0xF0 + r div 262144, 0x80 + r div 4096 mod 64, 0x80 + r div 64 mod 64, 0x80 + r mod 64])"

section \<open>Valid sequences\<close>

text \<open>The decoder reports an invalid byte as \<open>RuneError\<close> of width one.\<close>

definition badRune :: "nat list \<Rightarrow> bool" where
  "badRune bs \<longleftrightarrow> decodeRune bs = (RuneError, 1)"

function validUtf8 :: "nat list \<Rightarrow> bool" where
  "validUtf8 [] = True"
| "validUtf8 (b # bs) =
     (\<not> badRune (b # bs) \<and> validUtf8 (drop (snd (decodeRune (b # bs))) (b # bs)))"
  by pat_completeness auto
termination
proof (relation "measure length")
  fix b :: nat and bs
  have "0 < snd (decodeRune (b # bs))" by (rule decodeRune_pos) simp
  then show "(drop (snd (decodeRune (b # bs))) (b # bs), b # bs) \<in> measure length" by simp
qed simp

text \<open>A good rune is decoded from its own bytes, whatever follows.\<close>

lemma decodeRune_take:
  assumes "decodeRune bs = (r, w)" and "\<not> badRune bs" and "bs \<noteq> []"
  shows "decodeRune (take w bs @ rest) = (r, w)" and "length (take w bs) = w"
proof -
  obtain b0 bs' where bs: "bs = b0 # bs'" using assms(3) by (cases bs) auto
  show "decodeRune (take w bs @ rest) = (r, w)" and "length (take w bs) = w"
    using assms(1,2) unfolding bs badRune_def
    by (auto split: if_splits list.splits simp: RuneError_def)
qed

lemma decodeRune_high:
  assumes "decodeRune (b # bs) = (r, w)" and "0x80 \<le> b" and "\<not> badRune (b # bs)"
  shows "1 < w" and "\<forall>x \<in> set (take w (b # bs)). 0x80 \<le> x"
  using assms unfolding badRune_def
  by (auto split: if_splits list.splits simp: contByte_def secondOk_def)

text \<open>The four shapes of a valid sequence.\<close>

lemma decodeRune_cases:
  assumes "decodeRune (b # bs) = (r, w)" and "\<not> badRune (b # bs)"
  obtains (one) "b < 0x80" "r = b" "w = 1"
  | (two) x y t where "b = 0xC0 + x" "bs = (0x80 + y) # t" "2 \<le> x" "x < 32" "y < 64"
      "r = x * 64 + y" "w = 2"
  | (three) x y z t where "b = 0xE0 + x" "bs = (0x80 + y) # (0x80 + z) # t" "x < 16" "y < 64" "z < 64"
      "r = x * 4096 + y * 64 + z" "w = 3" "x = 0 \<Longrightarrow> 32 \<le> y"
  | (four) x y z u t where "b = 0xF0 + x" "bs = (0x80 + y) # (0x80 + z) # (0x80 + u) # t"
      "x < 5" "y < 64" "z < 64" "u < 64" "r = x * 262144 + y * 4096 + z * 64 + u" "w = 4"
      "x = 0 \<Longrightarrow> 16 \<le> y"
proof -
  have c: "\<exists>y. b1 = 0x80 + y \<and> y < 64" if "contByte b1" for b1
    using that by (intro exI [of _ "b1 - 0x80"]) (auto simp: contByte_def)
  have s: "contByte b1 \<and> (b0 = 0xE0 \<longrightarrow> 0xA0 \<le> b1) \<and> (b0 = 0xF0 \<longrightarrow> 0x90 \<le> b1)"
    if "secondOk b0 b1" for b0 b1
    using that by (auto simp: secondOk_def contByte_def split: if_splits)
  have "b < 0x80 \<or> 0xC2 \<le> b \<and> b \<le> 0xDF \<or> 0xE0 \<le> b \<and> b \<le> 0xEF \<or> 0xF0 \<le> b \<and> b \<le> 0xF4"
    by (rule ccontr) (use assms in \<open>auto simp: badRune_def\<close>)
  then consider "b < 0x80" | "0xC2 \<le> b \<and> b \<le> 0xDF" | "0xE0 \<le> b \<and> b \<le> 0xEF" | "0xF0 \<le> b \<and> b \<le> 0xF4"
    by blast
  then show ?thesis
  proof cases
    case 1
    with one assms show ?thesis by simp
  next
    case 2
    then obtain b1 t where bs: "bs = b1 # t" "contByte b1"
      using assms by (auto simp: badRune_def split: list.splits if_splits)
    from c [OF bs(2)] obtain y where y: "b1 = 0x80 + y" "y < 64" by blast
    show ?thesis using two [of "b - 0xC0" y t] 2 bs y assms(1) by auto
  next
    case 3
    then obtain b1 b2 t where bs: "bs = b1 # b2 # t" "secondOk b b1" "contByte b2"
      using assms by (auto simp: badRune_def split: list.splits if_splits)
    from c [of b1] c [OF bs(3)] s [OF bs(2)] obtain y z
      where y: "b1 = 0x80 + y" "y < 64" "b2 = 0x80 + z" "z < 64" by blast
    show ?thesis
      using three [of "b - 0xE0" y z t] 3 bs y assms(1) s [OF bs(2)] by auto
  next
    case 4
    then obtain b1 b2 b3 t where bs: "bs = b1 # b2 # b3 # t" "secondOk b b1" "contByte b2" "contByte b3"
      using assms by (auto simp: badRune_def split: list.splits if_splits)
    from c [of b1] c [OF bs(3)] c [OF bs(4)] s [OF bs(2)] obtain y z u
      where y: "b1 = 0x80 + y" "y < 64" "b2 = 0x80 + z" "z < 64" "b3 = 0x80 + u" "u < 64" by blast
    show ?thesis
      using four [of "b - 0xF0" y z u t] 4 bs y assms(1) s [OF bs(2)] by auto
  qed
qed

end
