(* ===== verification/K8s_Names.thy ===== *)
theory K8s_Names
  imports Utf8
begin

text \<open>
  The resource names of internal/k8s: \<open>toKebab\<close> and \<open>JobName\<close> (job.go), \<open>SvcName\<close>
  (deployment.go).  The character classes of package unicode are the argument \<open>uc\<close>; the theorems
  hold for every such table.
\<close>

section \<open>Kebab case\<close>

definition hyphen :: rune where
  "hyphen = 45"

text \<open>
  The loop of \<open>toKebab\<close>; \<open>prev\<close> is \<open>runes[i-1]\<close>, absent for the first rune.  The builder's
  content is kept as runes.
\<close>

fun kebabLoop :: "unicode_table \<Rightarrow> rune option \<Rightarrow> rune list \<Rightarrow> rune list" where
  "kebabLoop uc prev [] = []"
| "kebabLoop uc prev (r # rs) =
     (if IsUpper uc r then
        (case prev of
           None \<Rightarrow> []
         | Some p \<Rightarrow>
             (let nxt = (case rs of [] \<Rightarrow> 0 | n # _ \<Rightarrow> n) in
              if IsLower uc p \<or> IsDigit uc p \<or> (IsUpper uc p \<and> IsLower uc nxt) then [hyphen] else []))
        @ [ToLower uc r]
      else if IsLetter uc r \<or> IsDigit uc r then [r]
      else [hyphen])
     @ kebabLoop uc (Some r) rs"

definition alnum :: "rune \<Rightarrow> bool" where
  "alnum r \<longleftrightarrow> 97 \<le> r \<and> r \<le> 122 \<or> 48 \<le> r \<and> r \<le> 57"

text \<open>\<open>[^a-z0-9]+\<close> replaced by a hyphen; \<open>b\<close>: inside a run that has been replaced.\<close>

fun replaceRuns :: "bool \<Rightarrow> rune list \<Rightarrow> rune list" where
  "replaceRuns b [] = []"
| "replaceRuns b (r # rs) =
     (if alnum r then r # replaceRuns False rs
      else if b then replaceRuns True rs
      else hyphen # replaceRuns True rs)"

definition toKebab :: "unicode_table \<Rightarrow> string \<Rightarrow> string" where
  "toKebab uc s = map char_of (replaceRuns False (kebabLoop uc None (runesOf s)))"

section \<open>Names\<close>

definition trimRightHyphens :: "string \<Rightarrow> string" where
  "trimRightHyphens s = rev (dropWhile (\<lambda>c. c = CHR ''-'') (rev s))"

definition JobName :: "unicode_table \<Rightarrow> string \<Rightarrow> string \<Rightarrow> string" where
  "JobName uc execID stateName =
     (let id1 = (if length execID > 16 then take 16 execID else execID);
          id2 = filter (\<lambda>c. c \<noteq> CHR ''-'') id1;
          id3 = (if length id2 > 16 then take 16 id2 else id2);
          kebab = toKebab uc stateName;
          name = ''kflow-'' @ id3 @ ''-'' @ kebab;
          name1 = (if length name > 63 then take 63 name else name)
      in trimRightHyphens name1)"

definition SvcName :: "unicode_table \<Rightarrow> string \<Rightarrow> string" where
  "SvcName uc serviceName =
     (let kebab = toKebab uc serviceName;
          name = ''kflow-svc-'' @ kebab;
          name1 = (if length name > 63 then take 63 name else name)
      in trimRightHyphens name1)"

section \<open>DNS labels\<close>

text \<open>The names Kubernetes accepts (RFC 1123 labels).\<close>

definition labelChar :: "char \<Rightarrow> bool" where
  "labelChar c \<longleftrightarrow> alnum (of_char c) \<or> c = CHR ''-''"

definition dnsLabel :: "string \<Rightarrow> bool" where
  "dnsLabel s \<longleftrightarrow> s \<noteq> [] \<and> length s \<le> 63 \<and> list_all labelChar s \<and>
     hd s \<noteq> CHR ''-'' \<and> last s \<noteq> CHR ''-''"

lemma alnum_lt: "alnum r \<Longrightarrow> r < 256"
  by (auto simp: alnum_def)

lemma replaceRuns_chars: "r \<in> set (replaceRuns b rs) \<Longrightarrow> alnum r \<or> r = hyphen"
  by (induction b rs rule: replaceRuns.induct) (auto split: if_splits)

lemma char_of_hyphen [simp]: "char_of hyphen = CHR ''-''"
  unfolding hyphen_def by code_simp

lemma toKebab_chars: "list_all labelChar (toKebab uc s)"
proof -
  have "labelChar (char_of r)" if "r \<in> set (replaceRuns False rs)" for r rs
    using replaceRuns_chars [OF that] alnum_lt by (auto simp: labelChar_def)
  then show ?thesis by (simp add: toKebab_def list_all_iff)
qed

lemma trim_suffix: "\<exists>k. s = trimRightHyphens s @ replicate k (CHR ''-'')"
proof -
  let ?t = "takeWhile (\<lambda>c. c = CHR ''-'') (rev s)"
  have "?t = replicate (length ?t) (CHR ''-'')"
    by (rule replicate_eqI) (auto dest: set_takeWhileD)
  moreover have "s = trimRightHyphens s @ rev ?t"
    by (metis rev_append rev_rev_ident takeWhile_dropWhile_id trimRightHyphens_def)
  ultimately show ?thesis by (metis rev_replicate)
qed

lemma trim_set: "set (trimRightHyphens s) \<subseteq> set s"
  by (auto simp: trimRightHyphens_def dest: set_dropWhileD)

lemma trim_length: "length (trimRightHyphens s) \<le> length s"
  using trim_suffix [of s] by (metis le_add1 length_append)

lemma trim_last: "trimRightHyphens s \<noteq> [] \<Longrightarrow> last (trimRightHyphens s) \<noteq> CHR ''-''"
proof -
  assume "trimRightHyphens s \<noteq> []"
  then have "dropWhile (\<lambda>c. c = CHR ''-'') (rev s) \<noteq> []" by (simp add: trimRightHyphens_def)
  from hd_dropWhile [OF this] this show ?thesis by (simp add: trimRightHyphens_def last_rev)
qed

lemma trim_hd:
  assumes "s \<noteq> []" and "hd s \<noteq> CHR ''-''"
  shows "trimRightHyphens s \<noteq> []" and "hd (trimRightHyphens s) = hd s"
proof -
  obtain k where k: "s = trimRightHyphens s @ replicate k (CHR ''-'')" using trim_suffix by blast
  show ne: "trimRightHyphens s \<noteq> []"
  proof
    assume "trimRightHyphens s = []"
    with k assms show False by (cases k) auto
  qed
  then show "hd (trimRightHyphens s) = hd s" by (metis k hd_append2)
qed

lemma dnsLabel_trim:
  assumes "s = c # t" and "c \<noteq> CHR ''-''" and "list_all labelChar s"
  shows "dnsLabel (trimRightHyphens (if length s > 63 then take 63 s else s))"
proof -
  let ?s = "if length s > 63 then take 63 s else s"
  have s: "?s \<noteq> []" "hd ?s \<noteq> CHR ''-''" "list_all labelChar ?s" "length ?s \<le> 63"
    using assms by (auto simp: list_all_iff dest: in_set_takeD)
  show ?thesis
    unfolding dnsLabel_def
    using trim_hd [OF s(1,2)] s(2,4) trim_last [of ?s] trim_length [of ?s] s(3) trim_set [of ?s]
    by (auto simp: list_all_iff simp del: take_eq_Nil2)
qed

text \<open>
  C35.  A job name is a DNS label of at most 63 characters whatever the state is called, for an
  execution ID made of lower-case letters, digits and hyphens, as the generated UUIDs are.
\<close>

theorem JobName_dnsLabel:
  assumes "list_all labelChar execID"
  shows "dnsLabel (JobName uc execID stateName)"
proof -
  let ?id1 = "if length execID > 16 then take 16 execID else execID"
  let ?id2 = "filter (\<lambda>c. c \<noteq> CHR ''-'') ?id1"
  let ?id3 = "if length ?id2 > 16 then take 16 ?id2 else ?id2"
  have "set ?id1 \<subseteq> set execID" "set ?id3 \<subseteq> set ?id2" by (auto simp del: filter_filter dest: in_set_takeD)
  moreover have "set ?id2 \<subseteq> set ?id1" by auto
  ultimately have "list_all labelChar ?id3" using assms unfolding list_all_iff by blast
  moreover have "list_all labelChar ''kflow-''" "list_all labelChar ''-''" by code_simp+
  ultimately have "list_all labelChar (''kflow-'' @ ?id3 @ ''-'' @ toKebab uc stateName)"
    using toKebab_chars by simp
  then have "dnsLabel (trimRightHyphens (if length (''kflow-'' @ ?id3 @ ''-'' @ toKebab uc stateName) > 63
      then take 63 (''kflow-'' @ ?id3 @ ''-'' @ toKebab uc stateName)
      else ''kflow-'' @ ?id3 @ ''-'' @ toKebab uc stateName))"
    by (rule dnsLabel_trim [of _ "CHR ''k''", rotated 2]) simp_all
  then show ?thesis by (simp only: JobName_def Let_def)
qed

theorem JobName_dnsLabel_witness:
  "dnsLabel (JobName asciiTable ''0a1b2c3d-0000-4000-8000-000000000000'' ''XMLParser'')"
  by (rule JobName_dnsLabel) code_simp

text \<open>
  So is the name of a service's deployment, whatever the service is called.
\<close>

theorem SvcName_dnsLabel: "dnsLabel (SvcName uc serviceName)"
proof -
  have "list_all labelChar ''kflow-svc-''" by code_simp
  then have "list_all labelChar (''kflow-svc-'' @ toKebab uc serviceName)"
    using toKebab_chars by simp
  then have "dnsLabel (trimRightHyphens (if length (''kflow-svc-'' @ toKebab uc serviceName) > 63
      then take 63 (''kflow-svc-'' @ toKebab uc serviceName)
      else ''kflow-svc-'' @ toKebab uc serviceName))"
    by (rule dnsLabel_trim [of _ "CHR ''k''", rotated 2]) simp_all
  then show ?thesis by (simp only: SvcName_def Let_def)
qed

end
