(* ===== verification/K8s_Client.thy ===== *)
theory K8s_Client
  imports K8s_Names Store_Interface
begin

text \<open>
  internal/k8s (job.go, deployment.go, ingress.go, errors.go): the wrapper around client-go that
  creates, watches and deletes the Jobs, Deployments, Services and Ingresses of kflow.

  client-go and the API server behind it are a parameter, the record \<open>Clientset\<close>: one field per
  call of the typed clients the code makes, and the predicates by which \<open>errors.As\<close> and the
  \<open>k8serrors\<close> package classify the errors these calls return.  A watch is what the loop's
  \<open>select\<close> receives, one after the other, each with the world at the time it is received: events,
  then the closing of the channel or the end of the context.  A log stream is the bytes it delivers
  and the error that ends it, if it does not end with the log.
\<close>

section \<open>Kubernetes objects\<close>

record ObjectMeta =
  om_Name :: string
  om_Namespace :: string
  om_Labels :: "string \<rightharpoonup> string"
  om_Annotations :: "string \<rightharpoonup> string"

record EnvVar =
  ev_Name :: string
  ev_Value :: string

record SecurityContext =
  sc_RunAsNonRoot :: "bool option"
  sc_RunAsUser :: "int option"
  sc_ReadOnlyRootFilesystem :: "bool option"
  sc_AllowPrivilegeEscalation :: "bool option"
  sc_Drop :: "string list"

record Container =
  co_Name :: string
  co_Image :: string
  co_Args :: "string list"
  co_Env :: "EnvVar list"
  co_Ports :: "(int \<times> string) list"
  co_SecurityContext :: SecurityContext

record PodTemplate =
  pt_Labels :: "string \<rightharpoonup> string"
  pt_RestartPolicy :: string
  pt_Containers :: "Container list"

record JobCondition =
  jc_Type :: string
  jc_Status :: string
  jc_Message :: string

record Job =
  job_Meta :: ObjectMeta
  job_Template :: PodTemplate
  job_Conditions :: "JobCondition list"

record K8sDeployment =
  dep_Meta :: ObjectMeta
  dep_Replicas :: "int option"
  dep_MatchLabels :: "string \<rightharpoonup> string"
  dep_Template :: PodTemplate
  dep_AvailableReplicas :: int

record K8sService =
  ks_Meta :: ObjectMeta
  ks_Selector :: "string \<rightharpoonup> string"
  ks_Ports :: "(int \<times> int \<times> string) list"
  ks_Type :: string
  ks_ClusterIP :: string

record IngressPath =
  ip_Path :: string
  ip_PathType :: string
  ip_Service :: string
  ip_Port :: int

record Ingress =
  ing_Meta :: ObjectMeta
  ing_Class :: string
  ing_Rules :: "(string \<times> IngressPath list) list"

section \<open>The API\<close>

datatype k8sObject = JobObject Job | DeploymentObject K8sDeployment | OtherObject

datatype 'w watch =
    ChannelClosed 'w
  | ContextDone goerr 'w
  | WatchEvent string k8sObject 'w "'w watch"

record 'w Clientset =
  kc_CreateJob :: "string \<Rightarrow> Job \<Rightarrow> 'w \<Rightarrow> unit res \<times> 'w"
  kc_DeleteJob :: "string \<Rightarrow> string \<Rightarrow> string option \<Rightarrow> 'w \<Rightarrow> unit res \<times> 'w"
  kc_WatchJobs :: "string \<Rightarrow> string \<Rightarrow> 'w \<Rightarrow> 'w watch res \<times> 'w"
  kc_CreateDeployment :: "string \<Rightarrow> K8sDeployment \<Rightarrow> 'w \<Rightarrow> unit res \<times> 'w"
  kc_GetDeployment :: "string \<Rightarrow> string \<Rightarrow> 'w \<Rightarrow> K8sDeployment res \<times> 'w"
  kc_UpdateDeployment :: "string \<Rightarrow> K8sDeployment \<Rightarrow> 'w \<Rightarrow> unit res \<times> 'w"
  kc_DeleteDeployment :: "string \<Rightarrow> string \<Rightarrow> string option \<Rightarrow> 'w \<Rightarrow> unit res \<times> 'w"
  kc_WatchDeployments :: "string \<Rightarrow> string \<Rightarrow> 'w \<Rightarrow> 'w watch res \<times> 'w"
  kc_CreateService :: "string \<Rightarrow> K8sService \<Rightarrow> 'w \<Rightarrow> unit res \<times> 'w"
  kc_GetService :: "string \<Rightarrow> string \<Rightarrow> 'w \<Rightarrow> K8sService res \<times> 'w"
  kc_DeleteService :: "string \<Rightarrow> string \<Rightarrow> string option \<Rightarrow> 'w \<Rightarrow> unit res \<times> 'w"
  kc_CreateIngress :: "string \<Rightarrow> Ingress \<Rightarrow> 'w \<Rightarrow> unit res \<times> 'w"
  kc_DeleteIngress :: "string \<Rightarrow> string \<Rightarrow> string option \<Rightarrow> 'w \<Rightarrow> unit res \<times> 'w"
  kc_ListPods :: "string \<Rightarrow> string \<Rightarrow> 'w \<Rightarrow> string list res \<times> 'w"
  kc_PodLogs :: "string \<Rightarrow> string \<Rightarrow> 'w \<Rightarrow> (string \<times> goerr option) res \<times> 'w"
  kc_StopWatch :: "'w \<Rightarrow> 'w"
  ke_IsURLError :: "goerr \<Rightarrow> bool"
  ke_NetOp :: "goerr \<Rightarrow> string option"
  ke_IsUnauthorized :: "goerr \<Rightarrow> bool"
  ke_IsForbidden :: "goerr \<Rightarrow> bool"

record 'w Client =
  cl_clientset :: "'w Clientset"
  cl_namespace :: string

section \<open>Errors\<close>

text \<open>The UTF-8 bytes of the dash in the error texts.\<close>

definition emDash :: string where
  "emDash = map char_of [226, 128, 148 :: nat]"

definition clusterError :: "'w Clientset \<Rightarrow> string \<Rightarrow> goerr \<Rightarrow> goerr" where
  "clusterError cs op err =
     (if ke_IsURLError cs err then
        if ke_NetOp cs err = Some ''dial''
        then Errorf [FL ''k8s: '', FS op, FL '': cluster not reachable '', FL emDash,
                     FL '' is the API server running? ('', FW err, FL '')'']
        else Errorf [FL ''k8s: '', FS op, FL '': cluster connection error ('', FW err, FL '')'']
      else if ke_IsUnauthorized cs err
      then Errorf [FL ''k8s: '', FS op, FL '': authentication failed '', FL emDash,
                   FL '' check kubeconfig credentials ('', FW err, FL '')'']
      else if ke_IsForbidden cs err
      then Errorf [FL ''k8s: '', FS op, FL '': permission denied '', FL emDash,
                   FL '' check RBAC rules for the service account ('', FW err, FL '')'']
      else Errorf [FL ''k8s: '', FS op, FL '': '', FW err])"

section \<open>Jobs\<close>

record JobSpec =
  js_Name :: string
  js_Image :: string
  js_Args :: "string list"
  js_Env :: "EnvVar list"
  js_Namespace :: string

record JobResult =
  jr_Succeeded :: bool
  jr_Failed :: bool
  jr_Message :: string

definition nsOr :: "'w Client \<Rightarrow> string \<Rightarrow> string" where
  "nsOr c ns = (if ns = '''' then cl_namespace c else ns)"

definition jobObject :: "string \<Rightarrow> JobSpec \<Rightarrow> Job" where
  "jobObject ns spec =
     \<lparr>job_Meta = \<lparr>om_Name = js_Name spec, om_Namespace = ns,
        om_Labels = [''app'' \<mapsto> ''kflow'', ''kflow/job'' \<mapsto> ''state''], om_Annotations = Map.empty\<rparr>,
      job_Template = \<lparr>pt_Labels = Map.empty, pt_RestartPolicy = ''Never'',
        pt_Containers =
          [\<lparr>co_Name = ''runner'', co_Image = js_Image spec, co_Args = js_Args spec,
            co_Env = map (\<lambda>e. \<lparr>ev_Name = ev_Name e, ev_Value = ev_Value e\<rparr>) (js_Env spec), co_Ports = [],
            co_SecurityContext = \<lparr>sc_RunAsNonRoot = Some True, sc_RunAsUser = Some 65534,
              sc_ReadOnlyRootFilesystem = Some True, sc_AllowPrivilegeEscalation = Some False,
              sc_Drop = [''ALL'']\<rparr>\<rparr>]\<rparr>,
      job_Conditions = []\<rparr>"

definition CreateJob :: "'w Client \<Rightarrow> JobSpec \<Rightarrow> 'w \<Rightarrow> string res \<times> 'w" where
  "CreateJob c spec w =
     (let ns = nsOr c (js_Namespace spec); name = js_Name spec in
      if name = '''' then (Err (Errorf [FL ''k8s: JobSpec.Name must not be empty'']), w)
      else
        ifErr (kc_CreateJob (cl_clientset c) ns (jobObject ns spec) w)
          (\<lambda>err w1. (Err (clusterError (cl_clientset c)
             (Sprintf [FL ''create job '', FQ name]) err), w1))
          (\<lambda>_ w1. (Ok name, w1)))"

definition DeleteJob :: "'w Client \<Rightarrow> string \<Rightarrow> 'w \<Rightarrow> unit res \<times> 'w" where
  "DeleteJob c name w =
     ifErr (kc_DeleteJob (cl_clientset c) (cl_namespace c) name (Some ''Background'') w)
       (\<lambda>err w1. (Err (clusterError (cl_clientset c) (Sprintf [FL ''delete job '', FQ name]) err), w1))
       (\<lambda>_ w1. (Ok (), w1))"

text \<open>The loop over the conditions of one job object.\<close>

fun jobVerdict :: "JobCondition list \<Rightarrow> JobResult option" where
  "jobVerdict [] = None"
| "jobVerdict (cond # conds) =
     (if jc_Type cond = ''Complete'' \<and> jc_Status cond = ''True''
      then Some \<lparr>jr_Succeeded = True, jr_Failed = False, jr_Message = ''''\<rparr>
      else if jc_Type cond = ''Failed'' \<and> jc_Status cond = ''True''
      then Some \<lparr>jr_Succeeded = False, jr_Failed = True, jr_Message = jc_Message cond\<rparr>
      else jobVerdict conds)"

fun waitJobLoop :: "string \<Rightarrow> 'w watch \<Rightarrow> JobResult res \<times> 'w" where
  "waitJobLoop name (ContextDone err w) = (Err err, w)"
| "waitJobLoop name (ChannelClosed w) =
     (Err (Errorf [FL ''k8s: watch channel closed before job '', FQ name,
                   FL '' reached terminal state'']), w)"
| "waitJobLoop name (WatchEvent type obj w rest) =
     (if type \<noteq> ''MODIFIED'' \<and> type \<noteq> ''ADDED'' then waitJobLoop name rest
      else case obj of
        JobObject job \<Rightarrow>
          (case jobVerdict (job_Conditions job) of
             Some result \<Rightarrow> (Ok result, w)
           | None \<Rightarrow> waitJobLoop name rest)
      | _ \<Rightarrow> waitJobLoop name rest)"

definition stopWatch :: "'w Client \<Rightarrow> 'a res \<times> 'w \<Rightarrow> 'a res \<times> 'w" where
  "stopWatch c r = (fst r, kc_StopWatch (cl_clientset c) (snd r))"

definition WaitForJob :: "'w Client \<Rightarrow> string \<Rightarrow> 'w \<Rightarrow> JobResult res \<times> 'w" where
  "WaitForJob c name w =
     ifErr (kc_WatchJobs (cl_clientset c) (cl_namespace c) (''metadata.name='' @ name) w)
       (\<lambda>err w1. (Err (clusterError (cl_clientset c) (Sprintf [FL ''watch job '', FQ name]) err), w1))
       (\<lambda>watcher w1. stopWatch c (waitJobLoop name watcher))"

section \<open>Deployments\<close>

record DeploymentSpec =
  ds_Name :: string
  ds_Image :: string
  ds_Args :: "string list"
  ds_Port :: int
  ds_MinScale :: int
  ds_MaxScale :: int
  ds_Namespace :: string

definition serviceLabels :: "string \<Rightarrow> string \<rightharpoonup> string" where
  "serviceLabels name = [''app'' \<mapsto> ''kflow'', ''kflow/service'' \<mapsto> name]"

definition deploymentObject :: "string \<Rightarrow> DeploymentSpec \<Rightarrow> K8sDeployment" where
  "deploymentObject ns spec =
     \<lparr>dep_Meta = \<lparr>om_Name = ds_Name spec, om_Namespace = ns, om_Labels = serviceLabels (ds_Name spec),
        om_Annotations = Map.empty\<rparr>,
      dep_Replicas = Some (ds_MinScale spec),
      dep_MatchLabels = [''kflow/service'' \<mapsto> ds_Name spec],
      dep_Template = \<lparr>pt_Labels = [''kflow/service'' \<mapsto> ds_Name spec], pt_RestartPolicy = '''',
        pt_Containers =
          [\<lparr>co_Name = ''service'', co_Image = ds_Image spec, co_Args = ds_Args spec, co_Env = [],
            co_Ports = [(ds_Port spec, ''TCP'')],
            co_SecurityContext = \<lparr>sc_RunAsNonRoot = Some True, sc_RunAsUser = Some 65534,
              sc_ReadOnlyRootFilesystem = None, sc_AllowPrivilegeEscalation = Some False,
              sc_Drop = [''ALL'']\<rparr>\<rparr>]\<rparr>,
      dep_AvailableReplicas = 0\<rparr>"

definition serviceObject :: "string \<Rightarrow> DeploymentSpec \<Rightarrow> K8sService" where
  "serviceObject ns spec =
     \<lparr>ks_Meta = \<lparr>om_Name = ds_Name spec, om_Namespace = ns, om_Labels = serviceLabels (ds_Name spec),
        om_Annotations = Map.empty\<rparr>,
      ks_Selector = [''kflow/service'' \<mapsto> ds_Name spec],
      ks_Ports = [(ds_Port spec, ds_Port spec, ''TCP'')],
      ks_Type = ''ClusterIP'', ks_ClusterIP = ''''\<rparr>"

definition CreateDeployment :: "'w Client \<Rightarrow> DeploymentSpec \<Rightarrow> 'w \<Rightarrow> unit res \<times> 'w" where
  "CreateDeployment c spec w =
     (let cs = cl_clientset c; ns = nsOr c (ds_Namespace spec); name = ds_Name spec in
      if ds_MinScale spec < 1
      then (Err (Errorf [FL ''k8s: Deployment '', FQ name, FL '' MinScale must be >= 1'']), w)
      else
        ifErr (kc_CreateDeployment cs ns (deploymentObject ns spec) w)
          (\<lambda>err w1. (Err (clusterError cs (Sprintf [FL ''create deployment '', FQ name]) err), w1))
          (\<lambda>_ w1.
             ifErr (kc_CreateService cs ns (serviceObject ns spec) w1)
               (\<lambda>err w2.
                  (Err (clusterError cs
                     (Sprintf [FL ''create service '', FQ name, FL '' (deployment cleaned up)'']) err),
                   snd (kc_DeleteDeployment cs ns name None w2)))
               (\<lambda>_ w2. (Ok (), w2))))"

definition UpdateDeploymentReplicas :: "'w Client \<Rightarrow> string \<Rightarrow> int \<Rightarrow> 'w \<Rightarrow> unit res \<times> 'w" where
  "UpdateDeploymentReplicas c name replicas w =
     (let cs = cl_clientset c in
      ifErr (kc_GetDeployment cs (cl_namespace c) name w)
        (\<lambda>err w1. (Err (clusterError cs
           (Sprintf [FL ''get deployment '', FQ name, FL '' for scale'']) err), w1))
        (\<lambda>deploy w1.
           ifErr (kc_UpdateDeployment cs (cl_namespace c) (deploy\<lparr>dep_Replicas := Some replicas\<rparr>) w1)
             (\<lambda>err w2. (Err (clusterError cs
                (Sprintf [FL ''update deployment replicas '', FQ name]) err), w2))
             (\<lambda>_ w2. (Ok (), w2))))"

text \<open>
  Both deletions are issued, then their errors are looked at.
\<close>

definition DeleteDeployment :: "'w Client \<Rightarrow> string \<Rightarrow> 'w \<Rightarrow> unit res \<times> 'w" where
  "DeleteDeployment c name w =
     (let cs = cl_clientset c; ns = cl_namespace c;
          (deployErr, w1) = kc_DeleteDeployment cs ns name (Some ''Background'') w;
          (svcErr, w2) = kc_DeleteService cs ns name (Some ''Background'') w1
      in ifErr (deployErr, w2)
           (\<lambda>err w3. (Err (clusterError cs (Sprintf [FL ''delete deployment '', FQ name]) err), w3))
           (\<lambda>_ w3.
              ifErr (svcErr, w3)
                (\<lambda>err w4. (Err (clusterError cs (Sprintf [FL ''delete service '', FQ name]) err), w4))
                (\<lambda>_ w4. (Ok (), w4))))"

definition GetDeploymentClusterIP :: "'w Client \<Rightarrow> string \<Rightarrow> 'w \<Rightarrow> string res \<times> 'w" where
  "GetDeploymentClusterIP c name w =
     (let cs = cl_clientset c in
      ifErr (kc_GetService cs (cl_namespace c) name w)
        (\<lambda>err w1. (Err (clusterError cs
           (Sprintf [FL ''get service ClusterIP for '', FQ name]) err), w1))
        (\<lambda>svc w1.
           if ks_ClusterIP svc = '''' \<or> ks_ClusterIP svc = ''None''
           then (Err (Errorf [FL ''k8s: service '', FQ name, FL '' has no ClusterIP assigned yet'']), w1)
           else (Ok (ks_ClusterIP svc), w1)))"

fun rolloutLoop :: "string \<Rightarrow> int \<Rightarrow> 'w watch \<Rightarrow> unit res \<times> 'w" where
  "rolloutLoop name minReady (ContextDone err w) = (Err err, w)"
| "rolloutLoop name minReady (ChannelClosed w) =
     (Err (Errorf [FL ''k8s: watch channel closed before deployment '', FQ name,
                   FL '' became ready'']), w)"
| "rolloutLoop name minReady (WatchEvent type obj w rest) =
     (if type \<noteq> ''MODIFIED'' \<and> type \<noteq> ''ADDED'' then rolloutLoop name minReady rest
      else case obj of
        DeploymentObject deploy \<Rightarrow>
          if dep_AvailableReplicas deploy \<ge> minReady then (Ok (), w)
          else rolloutLoop name minReady rest
      | _ \<Rightarrow> rolloutLoop name minReady rest)"

definition WatchDeploymentRollout :: "'w Client \<Rightarrow> string \<Rightarrow> int \<Rightarrow> 'w \<Rightarrow> unit res \<times> 'w" where
  "WatchDeploymentRollout c name minReady w =
     ifErr (kc_WatchDeployments (cl_clientset c) (cl_namespace c) (''metadata.name='' @ name) w)
       (\<lambda>err w1. (Err (clusterError (cl_clientset c)
          (Sprintf [FL ''watch deployment '', FQ name]) err), w1))
       (\<lambda>watcher w1. stopWatch c (rolloutLoop name minReady watcher))"

section \<open>Ingresses\<close>

record IngressSpec =
  is_Name :: string
  is_ServiceName :: string
  is_Port :: int
  is_Host :: string
  is_Namespace :: string

definition defaultIngressClass :: string where
  "defaultIngressClass = ''nginx''"

definition ingressObject :: "string \<Rightarrow> IngressSpec \<Rightarrow> Ingress" where
  "ingressObject ns spec =
     \<lparr>ing_Meta = \<lparr>om_Name = is_Name spec, om_Namespace = ns, om_Labels = [''app'' \<mapsto> ''kflow''],
        om_Annotations = [''nginx.ingress.kubernetes.io/rewrite-target'' \<mapsto> ''/'']\<rparr>,
      ing_Class = defaultIngressClass,
      ing_Rules = [(is_Host spec,
        [\<lparr>ip_Path = ''/'', ip_PathType = ''Prefix'', ip_Service = is_ServiceName spec,
          ip_Port = is_Port spec\<rparr>])]\<rparr>"

definition CreateIngress :: "'w Client \<Rightarrow> IngressSpec \<Rightarrow> 'w \<Rightarrow> unit res \<times> 'w" where
  "CreateIngress c spec w =
     (let ns = nsOr c (is_Namespace spec) in
      ifErr (kc_CreateIngress (cl_clientset c) ns (ingressObject ns spec) w)
        (\<lambda>err w1. (Err (clusterError (cl_clientset c)
           (Sprintf [FL ''create ingress '', FQ (is_Name spec)]) err), w1))
        (\<lambda>_ w1. (Ok (), w1)))"

definition DeleteIngress :: "'w Client \<Rightarrow> string \<Rightarrow> 'w \<Rightarrow> unit res \<times> 'w" where
  "DeleteIngress c name w =
     ifErr (kc_DeleteIngress (cl_clientset c) (cl_namespace c) name None w)
       (\<lambda>err w1. (Err (clusterError (cl_clientset c) (Sprintf [FL ''delete ingress '', FQ name]) err), w1))
       (\<lambda>_ w1. (Ok (), w1))"

section \<open>What a wait reports\<close>

text \<open>
  The specification of the two watch loops: the conditions of all job objects seen in Added and
  Modified events, in the order they arrive, each with the world it is seen in, and what is left
  when the watch ends.
\<close>

fun conditionsSeen :: "'w watch \<Rightarrow> (JobCondition \<times> 'w) list" where
  "conditionsSeen (WatchEvent type obj w rest) =
     (case obj of
        JobObject job \<Rightarrow>
          (if type \<in> {''ADDED'', ''MODIFIED''} then map (\<lambda>cond. (cond, w)) (job_Conditions job) else [])
      | _ \<Rightarrow> []) @ conditionsSeen rest"
| "conditionsSeen _ = []"

fun watchEnd :: "'w watch \<Rightarrow> goerr option \<times> 'w" where
  "watchEnd (WatchEvent type obj w rest) = watchEnd rest"
| "watchEnd (ChannelClosed w) = (None, w)"
| "watchEnd (ContextDone err w) = (Some err, w)"

definition terminalCondition :: "JobCondition \<Rightarrow> bool" where
  "terminalCondition cond \<longleftrightarrow> jc_Type cond \<in> {''Complete'', ''Failed''} \<and> jc_Status cond = ''True''"

definition conditionResult :: "JobCondition \<Rightarrow> JobResult" where
  "conditionResult cond =
     (if jc_Type cond = ''Complete''
      then \<lparr>jr_Succeeded = True, jr_Failed = False, jr_Message = ''''\<rparr>
      else \<lparr>jr_Succeeded = False, jr_Failed = True, jr_Message = jc_Message cond\<rparr>)"

definition waitOutcome :: "string \<Rightarrow> 'w watch \<Rightarrow> JobResult res \<times> 'w" where
  "waitOutcome name watcher =
     (case find (\<lambda>(cond, w). terminalCondition cond) (conditionsSeen watcher) of
        Some (cond, w) \<Rightarrow> (Ok (conditionResult cond), w)
      | None \<Rightarrow>
          (case watchEnd watcher of
             (Some err, w) \<Rightarrow> (Err err, w)
           | (None, w) \<Rightarrow>
               (Err (Errorf [FL ''k8s: watch channel closed before job '', FQ name,
                             FL '' reached terminal state'']), w)))"

lemma find_append: "find P (xs @ ys) = (case find P xs of Some x \<Rightarrow> Some x | None \<Rightarrow> find P ys)"
  by (induction xs) simp_all

lemma jobVerdict_find:
  "find (\<lambda>(cond, w). terminalCondition cond) (map (\<lambda>cond. (cond, v)) conds) =
     (case find terminalCondition conds of None \<Rightarrow> None | Some cond \<Rightarrow> Some (cond, v))"
  "jobVerdict conds = map_option conditionResult (find terminalCondition conds)"
  by (induction conds) (auto simp: terminalCondition_def conditionResult_def)

lemma waitJobLoop_outcome: "waitJobLoop name watcher = waitOutcome name watcher"
proof (induction watcher)
  case (WatchEvent type obj w rest)
  then show ?case
    by (auto simp: waitOutcome_def find_append jobVerdict_find(1) jobVerdict_find(2)
        split: k8sObject.splits option.splits)
qed (simp_all add: waitOutcome_def)

text \<open>
  C33.  \<open>WaitForJob\<close> returns the verdict of the first condition that is Complete or Failed with status
  True among the conditions of the job objects it receives in Added and Modified events; without
  such a condition it returns the error of the context or that the channel was closed.
\<close>

theorem WaitForJob_first_terminal:
  assumes "kc_WatchJobs (cl_clientset c) (cl_namespace c) (''metadata.name='' @ name) w = (Ok watcher, w1)"
  shows "WaitForJob c name w =
    (let (r, v) = waitOutcome name watcher in (r, kc_StopWatch (cl_clientset c) v))"
  using assms by (simp add: WaitForJob_def stopWatch_def waitJobLoop_outcome split: prod.splits)

section \<open>All or nothing\<close>

text \<open>
  What the client relies on of the API server, over the names of the Deployments and Services that
  exist: a create call that succeeds adds an object under a name that was free, a delete call that
  succeeds removes it, a call that fails has no effect, and no call panics.
\<close>

definition create_law ::
    "('w \<Rightarrow> unit res \<times> 'w) \<Rightarrow> ('w \<Rightarrow> (string \<times> string) set) \<Rightarrow> ('w \<Rightarrow> (string \<times> string) set)
     \<Rightarrow> string \<times> string \<Rightarrow> bool" where
  "create_law call kind other key \<longleftrightarrow>
     (\<forall>w r w'. call w = (r, w') \<longrightarrow> (\<forall>p. r \<noteq> Panic p) \<and> other w' = other w \<and>
        (if is_Ok r then key \<notin> kind w \<and> kind w' = insert key (kind w) else kind w' = kind w))"

definition delete_law ::
    "('w \<Rightarrow> unit res \<times> 'w) \<Rightarrow> ('w \<Rightarrow> (string \<times> string) set) \<Rightarrow> ('w \<Rightarrow> (string \<times> string) set)
     \<Rightarrow> string \<times> string \<Rightarrow> bool" where
  "delete_law call kind other key \<longleftrightarrow>
     (\<forall>w r w'. call w = (r, w') \<longrightarrow> (\<forall>p. r \<noteq> Panic p) \<and> other w' = other w \<and>
        (if is_Ok r then kind w' = kind w - {key} else kind w' = kind w))"

text \<open>
  A call that fails is taken to have had no effect.  This leaves out a call that times out after the
  API server has carried it out.
\<close>

definition resource_api ::
    "'w Clientset \<Rightarrow> ('w \<Rightarrow> (string \<times> string) set) \<Rightarrow> ('w \<Rightarrow> (string \<times> string) set) \<Rightarrow> bool" where
  "resource_api cs deps svcs \<longleftrightarrow>
     (\<forall>ns d. create_law (kc_CreateDeployment cs ns d) deps svcs (ns, om_Name (dep_Meta d))) \<and>
     (\<forall>ns s. create_law (kc_CreateService cs ns s) svcs deps (ns, om_Name (ks_Meta s))) \<and>
     (\<forall>ns n p. delete_law (kc_DeleteDeployment cs ns n p) deps svcs (ns, n)) \<and>
     (\<forall>ns n p. delete_law (kc_DeleteService cs ns n p) svcs deps (ns, n))"

lemma create_lawD:
  "create_law call kind other key \<Longrightarrow> call w = (r, w') \<Longrightarrow> other w' = other w"
  "create_law call kind other key \<Longrightarrow> call w = (Ok x, w') \<Longrightarrow>
     key \<notin> kind w \<and> kind w' = insert key (kind w)"
  "create_law call kind other key \<Longrightarrow> call w = (Err e, w') \<Longrightarrow> kind w' = kind w"
  "create_law call kind other key \<Longrightarrow> call w = (Panic p, w') \<Longrightarrow> False"
  unfolding create_law_def by (metis is_Ok.simps)+

lemma delete_lawD:
  "delete_law call kind other key \<Longrightarrow> call w = (r, w') \<Longrightarrow> other w' = other w"
  "delete_law call kind other key \<Longrightarrow> call w = (r, w') \<Longrightarrow> is_Ok r \<Longrightarrow> kind w' = kind w - {key}"
  "delete_law call kind other key \<Longrightarrow> call w = (r, w') \<Longrightarrow> \<not> is_Ok r \<Longrightarrow> kind w' = kind w"
  unfolding delete_law_def by metis+

lemma resource_apiD:
  assumes "resource_api cs deps svcs"
  shows "create_law (kc_CreateDeployment cs ns d) deps svcs (ns, om_Name (dep_Meta d))"
    and "create_law (kc_CreateService cs ns s) svcs deps (ns, om_Name (ks_Meta s))"
    and "delete_law (kc_DeleteDeployment cs ns n p) deps svcs (ns, n)"
    and "delete_law (kc_DeleteService cs ns n p) svcs deps (ns, n)"
  using assms by (simp_all add: resource_api_def)

lemma object_names [simp]:
  "om_Name (dep_Meta (deploymentObject ns spec)) = ds_Name spec"
  "om_Name (ks_Meta (serviceObject ns spec)) = ds_Name spec"
  by (simp_all add: deploymentObject_def serviceObject_def)

text \<open>
  C34.  \<open>CreateDeployment\<close> is all or nothing: on success the Deployment and its Service have been
  added under the requested name; on an error neither is there that was not there before, unless
  the deletion that should undo the Deployment failed as well.  A call of the API server that fails
  has no effect here.
\<close>

theorem CreateDeployment_all_or_nothing:
  assumes api: "resource_api (cl_clientset c) deps svcs"
    and call: "CreateDeployment c spec w = (r, w')"
    and key: "key = (nsOr c (ds_Namespace spec), ds_Name spec)"
  shows "(is_Ok r \<and> deps w' = insert key (deps w) \<and> svcs w' = insert key (svcs w)) \<or>
     (\<not> is_Ok r \<and> deps w' = deps w \<and> svcs w' = svcs w) \<or>
     (\<not> is_Ok r \<and> deps w' = insert key (deps w) \<and> svcs w' = svcs w \<and>
        (\<exists>w2. snd (kc_DeleteDeployment (cl_clientset c) (fst key) (snd key) None w2) = w' \<and>
              \<not> is_Ok (fst (kc_DeleteDeployment (cl_clientset c) (fst key) (snd key) None w2))))"
proof (cases "ds_MinScale spec < 1")
  case True
  then show ?thesis using call by (auto simp: CreateDeployment_def Let_def)
next
  case False
  let ?cs = "cl_clientset c" and ?ns = "nsOr c (ds_Namespace spec)"
  let ?mk = "kc_CreateDeployment ?cs ?ns (deploymentObject ?ns spec)"
  let ?svc = "kc_CreateService ?cs ?ns (serviceObject ?ns spec)"
  let ?del = "kc_DeleteDeployment ?cs ?ns (ds_Name spec) None"
  note law = resource_apiD [OF api]
  note mk = law(1) [where ns = ?ns and d = "deploymentObject ?ns spec", simplified]
  note sv = law(2) [where ns = ?ns and s = "serviceObject ?ns spec", simplified]
  note de = law(3) [where ns = ?ns and n = "ds_Name spec" and p = None]
  obtain r1 w1 where 1: "?mk w = (r1, w1)" by fastforce
  show ?thesis
  proof (cases r1)
    case (Ok x)
    note d = create_lawD(1,2) [OF mk 1 [unfolded Ok]]
    obtain r2 w2 where 2: "?svc w1 = (r2, w2)" by fastforce
    show ?thesis
    proof (cases r2)
      case okay: (Ok y)
      from create_lawD(1,2) [OF sv 2 [unfolded okay]] d call False 1 Ok 2 okay key show ?thesis
        by (auto simp: CreateDeployment_def Let_def)
    next
      case (Err e)
      obtain r3 w3 where 3: "?del w2 = (r3, w3)" by fastforce
      have w': "\<not> is_Ok r" "w' = w3" using call False 1 Ok 2 Err 3 by (auto simp: CreateDeployment_def Let_def)
      have "deps w2 = insert key (deps w)" "key \<notin> deps w" "svcs w2 = svcs w"
        using create_lawD(1,3) [OF sv 2 [unfolded Err]] d key by auto
      with delete_lawD [OF de 3] w' 3 key show ?thesis
        by (cases "is_Ok r3") (auto intro: exI [of _ w2])
    next
      case (Panic p)
      with create_lawD(4) [OF sv] 2 show ?thesis by blast
    qed
  next
    case (Err e)
    then show ?thesis using create_lawD(1,3) [OF mk 1 [unfolded Err]] call False 1
      by (auto simp: CreateDeployment_def Let_def)
  next
    case (Panic p)
    with create_lawD(4) [OF mk] 1 show ?thesis by blast
  qed
qed

section \<open>A simulated cluster\<close>

text \<open>
  A cluster in memory, on which the hypotheses above can be checked.  It is the concrete input of the
  two witnesses below, and no property assumes that a cluster behaves like it.  It has the objects by
  namespace and name, the kinds of object whose creation is refused, and the state \<open>'x\<close> of whatever else lives
  beside the cluster.  A watched job is run once: \<open>run\<close> is what its container does to that state
  and the condition the job ends with.
\<close>

record 'x Sim =
  sim_jobs :: "string \<times> string \<rightharpoonup> Job"
  sim_deployments :: "string \<times> string \<rightharpoonup> K8sDeployment"
  sim_services :: "string \<times> string \<rightharpoonup> K8sService"
  sim_ingresses :: "string \<times> string \<rightharpoonup> Ingress"
  sim_refused :: "string list"
  sim_rest :: 'x

definition alreadyExists :: goerr where
  "alreadyExists = Errorf [FL ''already exists'']"

definition notFound :: goerr where
  "notFound = Errorf [FL ''not found'']"

definition simCreate ::
    "('x Sim \<Rightarrow> string \<times> string \<rightharpoonup> 'o) \<Rightarrow> ((string \<times> string \<rightharpoonup> 'o) \<Rightarrow> 'x Sim \<Rightarrow> 'x Sim) \<Rightarrow> string
     \<Rightarrow> string \<times> string \<Rightarrow> 'o \<Rightarrow> 'x Sim \<Rightarrow> unit res \<times> 'x Sim" where
  "simCreate get put kind key obj w =
     (if kind \<in> set (sim_refused w) then (Err (Errorf [FL ''refused'']), w)
      else if get w key \<noteq> None then (Err alreadyExists, w)
      else (Ok (), put ((get w)(key \<mapsto> obj)) w))"

definition simDelete ::
    "('x Sim \<Rightarrow> string \<times> string \<rightharpoonup> 'o) \<Rightarrow> ((string \<times> string \<rightharpoonup> 'o) \<Rightarrow> 'x Sim \<Rightarrow> 'x Sim)
     \<Rightarrow> string \<times> string \<Rightarrow> 'x Sim \<Rightarrow> unit res \<times> 'x Sim" where
  "simDelete get put key w =
     (if get w key = None then (Err notFound, w) else (Ok (), put ((get w)(key := None)) w))"

definition simGet :: "('x Sim \<Rightarrow> string \<times> string \<rightharpoonup> 'o) \<Rightarrow> string \<times> string \<Rightarrow> 'x Sim \<Rightarrow> 'o res \<times> 'x Sim" where
  "simGet get key w = ((case get w key of None \<Rightarrow> Err notFound | Some obj \<Rightarrow> Ok obj), w)"

definition simWatchJob ::
    "(Job \<Rightarrow> 'x \<Rightarrow> JobCondition \<times> 'x) \<Rightarrow> string \<Rightarrow> string \<Rightarrow> 'x Sim \<Rightarrow> 'x Sim watch res \<times> 'x Sim" where
  "simWatchJob run ns selector w =
     (case sim_jobs w (ns, drop (length ''metadata.name='') selector) of
        None \<Rightarrow> (Ok (ChannelClosed w), w)
      | Some job \<Rightarrow>
          (let (cond, x) = run job (sim_rest w); w1 = w\<lparr>sim_rest := x\<rparr>
           in (Ok (WatchEvent ''ADDED'' (JobObject job) w
                (WatchEvent ''MODIFIED'' (JobObject (job\<lparr>job_Conditions := [cond]\<rparr>)) w1
                  (ChannelClosed w1))), w)))"

definition simClientset :: "(Job \<Rightarrow> 'x \<Rightarrow> JobCondition \<times> 'x) \<Rightarrow> 'x Sim Clientset" where
  "simClientset run =
     \<lparr>kc_CreateJob = (\<lambda>ns job. simCreate sim_jobs (\<lambda>m. sim_jobs_update (\<lambda>_. m)) ''Job''
        (ns, om_Name (job_Meta job)) job),
      kc_DeleteJob = (\<lambda>ns n p. simDelete sim_jobs (\<lambda>m. sim_jobs_update (\<lambda>_. m)) (ns, n)),
      kc_WatchJobs = simWatchJob run,
      kc_CreateDeployment = (\<lambda>ns d. simCreate sim_deployments (\<lambda>m. sim_deployments_update (\<lambda>_. m))
        ''Deployment'' (ns, om_Name (dep_Meta d)) d),
      kc_GetDeployment = (\<lambda>ns n. simGet sim_deployments (ns, n)),
      kc_UpdateDeployment = (\<lambda>ns d w.
        if sim_deployments w (ns, om_Name (dep_Meta d)) = None then (Err notFound, w)
        else (Ok (), w\<lparr>sim_deployments := (sim_deployments w)((ns, om_Name (dep_Meta d)) \<mapsto> d)\<rparr>)),
      kc_DeleteDeployment = (\<lambda>ns n p. simDelete sim_deployments
        (\<lambda>m. sim_deployments_update (\<lambda>_. m)) (ns, n)),
      kc_WatchDeployments = (\<lambda>ns selector w. (Ok (ChannelClosed w), w)),
      kc_CreateService = (\<lambda>ns s. simCreate sim_services (\<lambda>m. sim_services_update (\<lambda>_. m)) ''Service''
        (ns, om_Name (ks_Meta s)) s),
      kc_GetService = (\<lambda>ns n. simGet sim_services (ns, n)),
      kc_DeleteService = (\<lambda>ns n p. simDelete sim_services (\<lambda>m. sim_services_update (\<lambda>_. m)) (ns, n)),
      kc_CreateIngress = (\<lambda>ns i. simCreate sim_ingresses (\<lambda>m. sim_ingresses_update (\<lambda>_. m)) ''Ingress''
        (ns, om_Name (ing_Meta i)) i),
      kc_DeleteIngress = (\<lambda>ns n p. simDelete sim_ingresses (\<lambda>m. sim_ingresses_update (\<lambda>_. m)) (ns, n)),
      kc_ListPods = (\<lambda>ns selector w. (Ok [], w)),
      kc_PodLogs = (\<lambda>ns pod w. (Err notFound, w)),
      kc_StopWatch = (\<lambda>w. w),
      ke_IsURLError = (\<lambda>_. False), ke_NetOp = (\<lambda>_. None),
      ke_IsUnauthorized = (\<lambda>_. False), ke_IsForbidden = (\<lambda>_. False)\<rparr>"

lemmas sim_defs = simClientset_def simCreate_def simDelete_def simGet_def

lemma simClientset_api:
  "resource_api (simClientset run) (\<lambda>w. dom (sim_deployments w)) (\<lambda>w. dom (sim_services w))"
  unfolding resource_api_def create_law_def delete_law_def
  by (auto simp: sim_defs split: if_splits)

definition emptyCluster :: "string list \<Rightarrow> 'x \<Rightarrow> 'x Sim" where
  "emptyCluster refused x =
     \<lparr>sim_jobs = Map.empty, sim_deployments = Map.empty, sim_services = Map.empty,
      sim_ingresses = Map.empty, sim_refused = refused, sim_rest = x\<rparr>"

definition simClient :: "(Job \<Rightarrow> 'x \<Rightarrow> JobCondition \<times> 'x) \<Rightarrow> 'x Sim Client" where
  "simClient run = \<lparr>cl_clientset = simClientset run, cl_namespace = ''kflow''\<rparr>"

definition simRun :: "string \<Rightarrow> string \<Rightarrow> Job \<Rightarrow> 'x \<Rightarrow> JobCondition \<times> 'x" where
  "simRun type msg job x = (\<lparr>jc_Type = type, jc_Status = ''True'', jc_Message = msg\<rparr>, x)"

definition exampleDeployment :: DeploymentSpec where
  "exampleDeployment =
     \<lparr>ds_Name = ''kflow-svc-pay'', ds_Image = ''img:1'', ds_Args = [], ds_Port = 8080,
      ds_MinScale = 1, ds_MaxScale = 3, ds_Namespace = ''''\<rparr>"

theorem CreateDeployment_all_or_nothing_witness:
  "let c = simClient (simRun ''Complete'' '''');
       (r, w') = CreateDeployment c exampleDeployment (emptyCluster [''Service''] ())
   in \<not> is_Ok r \<and> dom (sim_deployments w') = {}"
proof -
  let ?c = "simClient (simRun ''Complete'' '''')"
  let ?w = "emptyCluster [''Service''] ()"
  obtain r w' where call: "CreateDeployment ?c exampleDeployment ?w = (r, w')" by fastforce
  have bad: "\<not> is_Ok r" and ok: "sim_deployments w' = Map.empty"
    using call by (auto simp: CreateDeployment_def exampleDeployment_def simClient_def sim_defs
        emptyCluster_def nsOr_def deploymentObject_def serviceObject_def split: if_splits)
  have "resource_api (cl_clientset ?c) (\<lambda>w. dom (sim_deployments w)) (\<lambda>w. dom (sim_services w))"
    by (simp add: simClient_def simClientset_api)
  from CreateDeployment_all_or_nothing [OF this call refl] bad ok call show ?thesis by auto
qed

definition exampleJob :: Job where
  "exampleJob = jobObject ''kflow''
     \<lparr>js_Name = ''j'', js_Image = ''img:1'', js_Args = [], js_Env = [], js_Namespace = ''''\<rparr>"

definition exampleJobs :: "unit Sim" where
  "exampleJobs = (emptyCluster [] ())\<lparr>sim_jobs := [(''kflow'', ''j'') \<mapsto> exampleJob]\<rparr>"

lemma simWatchJob_Some:
  assumes "sim_jobs w (''kflow'', name) = Some job" and "run job (sim_rest w) = (cond, x)"
  shows "kc_WatchJobs (cl_clientset (simClient run)) (cl_namespace (simClient run))
      (''metadata.name='' @ name) w =
    (Ok (WatchEvent ''ADDED'' (JobObject job) w
       (WatchEvent ''MODIFIED'' (JobObject (job\<lparr>job_Conditions := [cond]\<rparr>)) (w\<lparr>sim_rest := x\<rparr>)
         (ChannelClosed (w\<lparr>sim_rest := x\<rparr>)))), w)"
  using assms by (simp add: simClient_def simClientset_def simWatchJob_def Let_def)

theorem WaitForJob_first_terminal_witness:
  "WaitForJob (simClient (simRun ''Failed'' ''oom'')) ''j'' exampleJobs =
     (Ok \<lparr>jr_Succeeded = False, jr_Failed = True, jr_Message = ''oom''\<rparr>, exampleJobs)"
proof -
  let ?run = "simRun ''Failed'' ''oom''"
  let ?cond = "\<lparr>jc_Type = ''Failed'', jc_Status = ''True'', jc_Message = ''oom''\<rparr>"
  have job: "sim_jobs exampleJobs (''kflow'', ''j'') = Some exampleJob" by (simp add: exampleJobs_def)
  have run: "?run exampleJob (sim_rest exampleJobs) = (?cond, ())" by (simp add: simRun_def)
  show ?thesis
    by (subst WaitForJob_first_terminal [OF simWatchJob_Some [where run = ?run, OF job run]])
      (simp add: waitOutcome_def terminalCondition_def conditionResult_def simClient_def simClientset_def
        exampleJob_def jobObject_def)
qed

end
