(* ===== verification/Telemetry.thy ===== *)
theory Telemetry
  imports K8s_Client Executor
begin

text \<open>
  internal/telemetry: capturing the output of job containers (logs.go, \<open>StreamJobLogs\<close>), and the
  parameterised queries over the ClickHouse tables (logs.go, events.go, metrics.go, helpers.go).
  The ClickHouse driver is a parameter; a query is the SQL text and the list of its arguments, and
  the theory shows that the text depends on no value a caller supplies.
\<close>

section \<open>Scanning lines\<close>

text \<open>
  \<open>bufio.Scanner\<close> with its default limits: tokens are the lines without their line ends; a line of
  64 KiB or more ends the scan with \<open>bufio.ErrTooLong\<close>; what is left at the end of the stream is
  the last token; an error of the stream is reported after the tokens.
\<close>

definition MaxScanTokenSize :: nat where
  "MaxScanTokenSize = 64 * 1024"

definition errTooLong :: goerr where
  "errTooLong = Errorf [FL ''bufio.Scanner: token too long'']"

definition dropCR :: "string \<Rightarrow> string" where
  "dropCR s = (if s \<noteq> [] \<and> of_char (last s) = (13 :: nat) then butlast s else s)"

function scanLines :: "string \<Rightarrow> goerr option \<Rightarrow> string list \<times> goerr option" where
  "scanLines s err =
     (if s = [] then ([], err)
      else
        let line = takeWhile (\<lambda>c. c \<noteq> newlineCh) s in
        if length line \<ge> MaxScanTokenSize then ([], Some errTooLong)
        else
          (case scanLines (drop (Suc (length line)) s) err of
             (ls, e) \<Rightarrow> (dropCR line # ls, e)))"
  by pat_completeness auto
termination by (relation "measure (\<lambda>(s, err). length s)") auto

declare scanLines.simps [simp del]

section \<open>Container logs\<close>

type_synonym 'w log_writer = "string \<Rightarrow> string \<Rightarrow> string \<Rightarrow> string \<Rightarrow> string \<Rightarrow> 'w \<Rightarrow> 'w"

fun writeLines ::
    "'w Runtime \<Rightarrow> 'w log_writer option \<Rightarrow> string \<Rightarrow> string \<Rightarrow> string list \<Rightarrow> 'w \<Rightarrow> 'w" where
  "writeLines rt lw execID stateName [] w = w"
| "writeLines rt lw execID stateName (line # ls) w =
     (let w1 = rt_Log rt (Sprintf [FL ''job-log: ['', FS execID, FL ''/'', FS stateName, FL ''] '',
                 FS line]) w;
          w2 = (case lw of None \<Rightarrow> w1 | Some write \<Rightarrow> write execID '''' stateName ''INFO'' line w1)
      in writeLines rt lw execID stateName ls w2)"

fun streamPods ::
    "'w Runtime \<Rightarrow> 'w Clientset \<Rightarrow> string \<Rightarrow> string \<Rightarrow> string \<Rightarrow> 'w log_writer option \<Rightarrow> string list
     \<Rightarrow> 'w \<Rightarrow> 'w" where
  "streamPods rt cs ns execID stateName lw [] w = w"
| "streamPods rt cs ns execID stateName lw (pod # pods) w =
     (let w1 =
        (case kc_PodLogs cs ns pod w of
           (Ok (stream, readErr), v) \<Rightarrow>
             (let (ls, scanErr) = scanLines stream readErr;
                  v1 = writeLines rt lw execID stateName ls v
              in case scanErr of
                   None \<Rightarrow> v1
                 | Some err \<Rightarrow>
                     rt_Log rt (Sprintf [FL ''telemetry WARN: StreamJobLogs scan pod '', FQ pod,
                       FL '': '', FV err]) v1)
         | (Err err, v) \<Rightarrow>
             rt_Log rt (Sprintf [FL ''telemetry WARN: StreamJobLogs get logs for pod '', FQ pod,
               FL '': '', FV err]) v
         | (Panic p, v) \<Rightarrow> v)
      in streamPods rt cs ns execID stateName lw pods w1)"

definition StreamJobLogs ::
    "'w Runtime \<Rightarrow> 'w Clientset \<Rightarrow> string \<Rightarrow> string \<Rightarrow> string \<Rightarrow> string \<Rightarrow> 'w log_writer option
     \<Rightarrow> 'w \<Rightarrow> 'w" where
  "StreamJobLogs rt cs ns jobName execID stateName lw w =
     (case kc_ListPods cs ns (''job-name='' @ jobName) w of
        (Ok pods, w1) \<Rightarrow> streamPods rt cs ns execID stateName lw pods w1
      | (Err err, w1) \<Rightarrow>
          rt_Log rt (Sprintf [FL ''telemetry WARN: StreamJobLogs list pods for job '', FQ jobName,
            FL '': '', FV err]) w1
      | (Panic p, w1) \<Rightarrow> w1)"

section \<open>Queries\<close>

definition clampLimit :: "int \<Rightarrow> int \<Rightarrow> int \<Rightarrow> int" where
  "clampLimit v dflt mx = (if v \<le> 0 then dflt else if v > mx then mx else v)"

datatype sqlArg = SqlString string | SqlTime time | SqlInt int

record LogFilter =
  lf_ExecutionID :: string
  lf_ServiceName :: string
  lf_StateName :: string
  lf_Level :: string
  lf_Since :: "time option"
  lf_Until :: "time option"
  lf_Query :: string
  lf_Limit :: int
  lf_Offset :: int

record LogRow =
  lr_LogID :: string
  lr_ExecutionID :: string
  lr_ServiceName :: string
  lr_StateName :: string
  lr_Level :: string
  lr_Message :: string
  lr_OccurredAt :: time

record EventRow =
  vr_EventID :: string
  vr_ExecutionID :: string
  vr_StateName :: string
  vr_FromStatus :: string
  vr_ToStatus :: string
  vr_Error :: string
  vr_OccurredAt :: time

record MetricRow =
  mr_MetricID :: string
  mr_ServiceName :: string
  mr_InvocationID :: string
  mr_DurationMs :: int
  mr_StatusCode :: int
  mr_Error :: string
  mr_OccurredAt :: time

text \<open>
  The driver: \<open>QueryRow(...).Scan\<close> of a count, and \<open>Query\<close> with the \<open>Next\<close>/\<open>Scan\<close> results of
  its rows (a row that cannot be scanned is an error) and the final \<open>rows.Err()\<close>.
\<close>

record 'w ClickHouse =
  ch_Count :: "string \<Rightarrow> sqlArg list \<Rightarrow> 'w \<Rightarrow> int res"
  ch_LogRows :: "string \<Rightarrow> sqlArg list \<Rightarrow> 'w \<Rightarrow> (LogRow res list \<times> goerr option) res"
  ch_EventRows :: "string \<Rightarrow> sqlArg list \<Rightarrow> 'w \<Rightarrow> (EventRow res list \<times> goerr option) res"
  ch_MetricRows :: "string \<Rightarrow> sqlArg list \<Rightarrow> 'w \<Rightarrow> (MetricRow res list \<times> goerr option) res"

fun scanRows :: "'r res list \<Rightarrow> goerr option \<Rightarrow> 'r list res" where
  "scanRows [] None = Ok []"
| "scanRows [] (Some err) = Err err"
| "scanRows (Ok r # rs) err = (case scanRows rs err of Ok rows \<Rightarrow> Ok (r # rows) | x \<Rightarrow> x)"
| "scanRows (Err e # rs) err = Err e"
| "scanRows (Panic p # rs) err = Panic p"

definition queryRows :: "('r res list \<times> goerr option) res \<Rightarrow> 'r list res" where
  "queryRows q = (case q of Ok (rs, err) \<Rightarrow> scanRows rs err | Err e \<Rightarrow> Err e | Panic p \<Rightarrow> Panic p)"

text \<open>One optional condition: its text and its argument are appended together.\<close>

definition strCond :: "string \<Rightarrow> string \<Rightarrow> string \<times> sqlArg list \<Rightarrow> string \<times> sqlArg list" where
  "strCond cond v q = (if v \<noteq> '''' then (fst q @ cond, snd q @ [SqlString v]) else q)"

definition timeCond :: "string \<Rightarrow> time option \<Rightarrow> string \<times> sqlArg list \<Rightarrow> string \<times> sqlArg list" where
  "timeCond cond v q = (case v of None \<Rightarrow> q | Some t \<Rightarrow> (fst q @ cond, snd q @ [SqlTime t]))"

definition likeCond :: "string \<Rightarrow> string \<Rightarrow> string \<times> sqlArg list \<Rightarrow> string \<times> sqlArg list" where
  "likeCond cond v q =
     (if v \<noteq> '''' then (fst q @ cond, snd q @ [SqlString (''%'' @ v @ ''%'')]) else q)"

definition logsWhere :: "LogFilter \<Rightarrow> string \<times> sqlArg list" where
  "logsWhere f =
     likeCond '' AND message LIKE ?'' (lf_Query f)
    (timeCond '' AND occurred_at <= ?'' (lf_Until f)
    (timeCond '' AND occurred_at >= ?'' (lf_Since f)
    (strCond '' AND level = ?'' (lf_Level f)
    (strCond '' AND state_name = ?'' (lf_StateName f)
    (strCond '' AND service_name = ?'' (lf_ServiceName f)
    (strCond '' AND execution_id = ?'' (lf_ExecutionID f) ('' WHERE 1=1'', [])))))))"

text \<open>A raw string literal over several lines: the line end and the indentation are part of it.\<close>

definition sqlBreak :: string where
  "sqlBreak = newlineCh # char_of (9 :: nat) # replicate 10 (CHR '' '')"

definition logsCountSQL :: "LogFilter \<Rightarrow> string \<times> sqlArg list" where
  "logsCountSQL f = (''SELECT count() FROM logs'' @ fst (logsWhere f), snd (logsWhere f))"

definition logsSQL :: "LogFilter \<Rightarrow> string \<times> sqlArg list" where
  "logsSQL f =
     (''SELECT toString(log_id), execution_id, service_name, state_name, level, message, occurred_at'' @
        sqlBreak @ ''FROM logs'' @ fst (logsWhere f) @ '' ORDER BY occurred_at DESC LIMIT ? OFFSET ?'',
      snd (logsWhere f) @ [SqlInt (clampLimit (lf_Limit f) 100 1000), SqlInt (lf_Offset f)])"

definition QueryLogs :: "'w ClickHouse \<Rightarrow> LogFilter \<Rightarrow> 'w \<Rightarrow> (LogRow list \<times> int) res" where
  "QueryLogs ch f w =
     (case ch_Count ch (fst (logsCountSQL f)) (snd (logsCountSQL f)) w of
        Err e \<Rightarrow> Err e
      | Panic p \<Rightarrow> Panic p
      | Ok cnt \<Rightarrow>
          (case queryRows (ch_LogRows ch (fst (logsSQL f)) (snd (logsSQL f)) w) of
             Err e \<Rightarrow> Err e
           | Panic p \<Rightarrow> Panic p
           | Ok rows \<Rightarrow> Ok (rows, int64 cnt)))"

definition eventsSQL :: "string \<Rightarrow> time option \<Rightarrow> int \<Rightarrow> string \<times> sqlArg list" where
  "eventsSQL execID since limit =
     (let q = timeCond '' AND occurred_at >= ?'' since
            (''SELECT toString(event_id), execution_id, state_name, from_status, to_status, error, occurred_at'' @
             sqlBreak @ ''FROM execution_events WHERE execution_id = ?'', [SqlString execID])
      in (fst q @ '' ORDER BY occurred_at ASC LIMIT ?'', snd q @ [SqlInt (clampLimit limit 100 1000)]))"

definition QueryExecutionEvents ::
    "'w ClickHouse \<Rightarrow> string \<Rightarrow> time option \<Rightarrow> int \<Rightarrow> 'w \<Rightarrow> EventRow list res" where
  "QueryExecutionEvents ch execID since limit w =
     (let q = eventsSQL execID since limit in queryRows (ch_EventRows ch (fst q) (snd q) w))"

definition metricsSQL :: "string \<Rightarrow> time option \<Rightarrow> time option \<Rightarrow> int \<Rightarrow> string \<times> sqlArg list" where
  "metricsSQL serviceName since until limit =
     (let q = timeCond '' AND occurred_at <= ?'' until
            (timeCond '' AND occurred_at >= ?'' since
            (''SELECT toString(metric_id), service_name, invocation_id, duration_ms, status_code, error, occurred_at'' @
             sqlBreak @ ''FROM service_metrics WHERE service_name = ?'', [SqlString serviceName]))
      in (fst q @ '' ORDER BY occurred_at DESC LIMIT ?'', snd q @ [SqlInt (clampLimit limit 100 1000)]))"

definition QueryServiceMetrics ::
    "'w ClickHouse \<Rightarrow> string \<Rightarrow> time option \<Rightarrow> time option \<Rightarrow> int \<Rightarrow> 'w \<Rightarrow> MetricRow list res" where
  "QueryServiceMetrics ch serviceName since until limit w =
     (let q = metricsSQL serviceName since until limit in queryRows (ch_MetricRows ch (fst q) (snd q) w))"

section \<open>The text of a query depends on no argument\<close>

text \<open>Which of the optional conditions a filter sets, with the values left out.\<close>

definition filterShape :: "LogFilter \<Rightarrow> bool list" where
  "filterShape f =
     [lf_ExecutionID f \<noteq> '''', lf_ServiceName f \<noteq> '''', lf_StateName f \<noteq> '''', lf_Level f \<noteq> '''',
      lf_Since f \<noteq> None, lf_Until f \<noteq> None, lf_Query f \<noteq> '''']"

definition anyTime :: "bool \<Rightarrow> time option" where
  "anyTime b = (if b then Some 0 else None)"

definition anyString :: "bool \<Rightarrow> string" where
  "anyString b = (if b then ''x'' else '''')"

definition shapeFilter :: "bool list \<Rightarrow> LogFilter" where
  "shapeFilter bs =
     \<lparr>lf_ExecutionID = anyString (bs ! 0), lf_ServiceName = anyString (bs ! 1),
      lf_StateName = anyString (bs ! 2), lf_Level = anyString (bs ! 3), lf_Since = anyTime (bs ! 4),
      lf_Until = anyTime (bs ! 5), lf_Query = anyString (bs ! 6), lf_Limit = 0, lf_Offset = 0\<rparr>"

lemma cond_text:
  "fst (strCond c v q) = fst q @ (if v \<noteq> '''' then c else [])"
  "fst (timeCond c t q) = fst q @ (if t \<noteq> None then c else [])"
  "fst (likeCond c v q) = fst q @ (if v \<noteq> '''' then c else [])"
  by (simp_all add: strCond_def timeCond_def likeCond_def split: option.splits)

lemma cond_args:
  "length (snd (strCond c v q)) = length (snd q) + (if v \<noteq> '''' then 1 else 0)"
  "length (snd (timeCond c t q)) = length (snd q) + (if t \<noteq> None then 1 else 0)"
  "length (snd (likeCond c v q)) = length (snd q) + (if v \<noteq> '''' then 1 else 0)"
  by (simp_all add: strCond_def timeCond_def likeCond_def split: option.splits)

lemma any_simps [simp]: "(anyString b = '''') = (\<not> b)" "(anyTime b = None) = (\<not> b)"
  by (simp_all add: anyString_def anyTime_def)

lemma logsWhere_text: "fst (logsWhere f) = fst (logsWhere (shapeFilter (filterShape f)))"
  by (simp add: logsWhere_def cond_text shapeFilter_def filterShape_def)

lemma logsWhere_count: "count_list (fst (logsWhere f)) (CHR ''?'') = length (snd (logsWhere f))"
  by (simp add: logsWhere_def cond_text cond_args)

lemma sqlBreak_count [simp]: "count_list sqlBreak (CHR ''?'') = 0"
  by code_simp

text \<open>
  The SQL text of every telemetry query is one of finitely many templates, chosen by which
  filters are set and never by their values, and has exactly one placeholder for each argument: a
  value a caller supplies reaches the database as an argument only.
\<close>

theorem telemetry_queries_parameterised:
  "(\<exists>template. \<forall>f. fst (logsSQL f) = template (filterShape f)) \<and>
   (\<exists>template. \<forall>f. fst (logsCountSQL f) = template (filterShape f)) \<and>
   (\<exists>template. \<forall>e since n. fst (eventsSQL e since n) = template (since \<noteq> None)) \<and>
   (\<exists>template. \<forall>s since until n. fst (metricsSQL s since until n) = template (since \<noteq> None) (until \<noteq> None)) \<and>
   (\<forall>f. count_list (fst (logsSQL f)) (CHR ''?'') = length (snd (logsSQL f))) \<and>
   (\<forall>f. count_list (fst (logsCountSQL f)) (CHR ''?'') = length (snd (logsCountSQL f))) \<and>
   (\<forall>e since n. count_list (fst (eventsSQL e since n)) (CHR ''?'') = length (snd (eventsSQL e since n))) \<and>
   (\<forall>s since until n. count_list (fst (metricsSQL s since until n)) (CHR ''?'') =
      length (snd (metricsSQL s since until n)))"
proof (intro conjI allI)
  show "\<exists>template. \<forall>f. fst (logsSQL f) = template (filterShape f)"
    using logsWhere_text by (intro exI [of _ "\<lambda>bs. fst (logsSQL (shapeFilter bs))"]) (simp add: logsSQL_def)
  show "\<exists>template. \<forall>f. fst (logsCountSQL f) = template (filterShape f)"
    using logsWhere_text
    by (intro exI [of _ "\<lambda>bs. fst (logsCountSQL (shapeFilter bs))"]) (simp add: logsCountSQL_def)
  show "\<exists>template. \<forall>e since n. fst (eventsSQL e since n) = template (since \<noteq> None)"
    by (intro exI [of _ "\<lambda>b. fst (eventsSQL '''' (anyTime b) 0)"]) (simp add: eventsSQL_def Let_def cond_text)
  show "\<exists>template. \<forall>s since until n.
      fst (metricsSQL s since until n) = template (since \<noteq> None) (until \<noteq> None)"
    by (intro exI [of _ "\<lambda>a b. fst (metricsSQL '''' (anyTime a) (anyTime b) 0)"])
      (simp add: metricsSQL_def Let_def cond_text)
qed (simp_all add: logsSQL_def logsCountSQL_def eventsSQL_def metricsSQL_def Let_def logsWhere_count
      cond_text cond_args)

end
