(* ===== verification/Wire_Format.thy ===== *)
theory Wire_Format
  imports Graph
begin

text \<open>
  How a workflow reaches the control plane: \<open>toRegisterJSON\<close> of pkg/kflow/graph_json.go writes it
  as the \<open>WorkflowGraph\<close> message, \<open>BuildFromProto\<close> of internal/engine/graph.go compiles the
  message that arrives.  The fields of the JSON structs and of the message correspond one to one
  under the JSON mapping of protocol buffers, so both sides share the records below; an omitted
  field is its zero value.
\<close>

section \<open>Messages\<close>

record protoState =
  ps_Name :: string
  ps_Kind :: string
  ps_ServiceTarget :: string
  ps_WaitSeconds :: int
  ps_CatchState :: string

record protoStep =
  pp_Name :: string
  pp_Next :: string
  pp_Catch :: string
  pp_IsEnd :: bool

record protoGraph =
  pg_Name :: string
  pg_States :: "protoState list"
  pg_Steps :: "protoStep list"
  pg_Image :: string

section \<open>Writing\<close>

text \<open>
  \<open>int64(d.Seconds())\<close>, which truncates towards zero.  (\<open>Seconds\<close> goes through a \<open>float64\<close>; the
  result is exact for whole seconds, and for fractions of durations under 190 days.)
\<close>

definition wholeSeconds :: "duration \<Rightarrow> int" where
  "wholeSeconds d = (if d < 0 then - ((- d) div Second) else d div Second)"

definition kindName :: "'e TaskDef \<Rightarrow> string" where
  "kindName td =
     (if IsChoice td then ''choice'' else if IsWait td then ''wait''
      else if IsParallel td then ''parallel'' else ''task'')"

definition writeState :: "'e TaskDef \<Rightarrow> protoState" where
  "writeState td =
     \<lparr>ps_Name = td_name td, ps_Kind = kindName td, ps_ServiceTarget = td_serviceTarget td,
      ps_WaitSeconds = (if IsWait td then wholeSeconds (td_waitDur td) else 0),
      ps_CatchState = td_catch td\<rparr>"

definition writeStep :: "StepBuilder \<Rightarrow> protoStep" where
  "writeStep st =
     \<lparr>pp_Name = sb_name st, pp_Next = sb_next st, pp_Catch = sb_catch st, pp_IsEnd = sb_isEnd st\<rparr>"

definition toRegisterJSON :: "'e Workflow \<Rightarrow> protoGraph" where
  "toRegisterJSON wk =
     \<lparr>pg_Name = wf_name wk,
      pg_States = map writeState (List.map_filter (\<lambda>st. wf_tasks wk (sb_name st)) (wf_steps wk)),
      pg_Steps = map writeStep (wf_steps wk),
      pg_Image = wf_image wk\<rparr>"

section \<open>Reading\<close>

definition noopHandler :: "'e HandlerFunc" where
  "noopHandler inp v = (Ok (Some Map.empty), v)"

definition readState :: "protoState \<Rightarrow> 'e Workflow \<Rightarrow> 'e Workflow" where
  "readState s w =
     (let w1 = (if ps_Kind s = ''wait''
                then Workflow_Wait (ps_Name s) (int64 (ps_WaitSeconds s * Second)) w
                else Workflow_Task (ps_Name s) (Some noopHandler) w);
          w2 = (if ps_CatchState s \<noteq> '''' then onTask (ps_Name s) (TaskDef_Catch (ps_CatchState s)) w1
                else w1)
      in if ps_ServiceTarget s \<noteq> ''''
         then onTask (ps_Name s) (TaskDef_InvokeService (ps_ServiceTarget s)) w2 else w2)"

definition readStep :: "protoStep \<Rightarrow> StepBuilder" where
  "readStep p =
     (let sb = Step (pp_Name p);
          sb1 = (if pp_IsEnd p then Step_End sb
                 else if pp_Next p \<noteq> '''' then Step_Next (pp_Next p) sb else sb)
      in if pp_Catch p \<noteq> '''' then Step_Catch (pp_Catch p) sb1 else sb1)"

definition protoWorkflow :: "protoGraph \<Rightarrow> 'e Workflow" where
  "protoWorkflow pg =
     Workflow_Flow (map readStep (pg_Steps pg)) (fold readState (pg_States pg) (New (pg_Name pg)))"

definition BuildFromProto :: "string list \<Rightarrow> protoGraph \<Rightarrow> 'e Graph res" where
  "BuildFromProto ord pg = Build ord (protoWorkflow pg)"

section \<open>The workflow read back\<close>

text \<open>The task definition a state message is read as.\<close>

definition readTask :: "protoState \<Rightarrow> 'e TaskDef" where
  "readTask s =
     (if ps_Kind s = ''wait''
      then (blankTask (ps_Name s) waitState)\<lparr>td_waitDur := int64 (ps_WaitSeconds s * Second)\<rparr>
      else (blankTask (ps_Name s) taskState)\<lparr>td_fn := Some noopHandler\<rparr>)
     \<lparr>td_catch := ps_CatchState s, td_serviceTarget := ps_ServiceTarget s\<rparr>"

lemma readState_effect:
  "wf_tasks (readState s w) = (wf_tasks w)(ps_Name s \<mapsto> readTask s)"
  "wf_names (readState s w) = wf_names w @ [ps_Name s]"
  by (auto simp: readState_def readTask_def workflow_defs task_defs Let_def)

lemma readStates_effect:
  "wf_tasks (fold readState ss w) = wf_tasks w ++ map_of (rev (map (\<lambda>s. (ps_Name s, readTask s)) ss))"
  "wf_names (fold readState ss w) = wf_names w @ map ps_Name ss"
  by (induction ss arbitrary: w) (simp_all add: readState_effect)

lemma protoWorkflow_simps:
  "wf_tasks (protoWorkflow pg) = map_of (rev (map (\<lambda>s. (ps_Name s, readTask s)) (pg_States pg)))"
  "wf_names (protoWorkflow pg) = map ps_Name (pg_States pg)"
  "wf_steps (protoWorkflow pg) = map readStep (pg_Steps pg)"
  by (simp_all add: protoWorkflow_def Workflow_Flow_def readStates_effect New_def)

lemma readStep_writeStep:
  assumes "sb_retry st = None" and "sb_isEnd st \<Longrightarrow> sb_next st = Succeed"
  shows "readStep (writeStep st) = st"
  using assms by (cases st) (auto simp: readStep_def writeStep_def step_defs Let_def)

text \<open>Reading distinct states gives each its own task definition.\<close>

lemma protoWorkflow_task:
  assumes "distinct (map ps_Name (pg_States pg))" and "s \<in> set (pg_States pg)"
  shows "wf_tasks (protoWorkflow pg) (ps_Name s) = Some (readTask s)"
  using assms by (auto simp: protoWorkflow_simps rev_map [symmetric] comp_def intro!: map_of_is_SomeI)

lemma protoWorkflow_taskD:
  "wf_tasks (protoWorkflow pg) n = Some td \<Longrightarrow> \<exists>s \<in> set (pg_States pg). ps_Name s = n \<and> td = readTask s"
  by (auto simp: protoWorkflow_simps dest!: map_of_SomeD)

lemma writeState_name [simp]: "ps_Name (writeState td) = td_name td"
  by (simp add: writeState_def)

section \<open>Portable workflows\<close>

text \<open>
  What survives registration: plain tasks and waits of whole seconds, registered under their own
  name, without retry policies, in steps that name each other.
\<close>

definition portableTask :: "string \<Rightarrow> 'e TaskDef \<Rightarrow> bool" where
  "portableTask n td \<longleftrightarrow>
     td_name td = n \<and> td_retry td = None \<and> td_serviceTarget td = '''' \<and>
     (td_kind td = taskState \<or>
      td_kind td = waitState \<and> td_waitDur td mod Second = 0 \<and> int64 (td_waitDur td) = td_waitDur td)"

definition portable :: "'e Workflow \<Rightarrow> bool" where
  "portable wk \<longleftrightarrow>
     distinct (map sb_name (wf_steps wk)) \<and>
     (\<forall>st \<in> set (wf_steps wk).
        sb_retry st = None \<and> (sb_isEnd st \<longrightarrow> sb_next st = Succeed) \<and>
        (\<forall>t \<in> {sb_next st, sb_catch st}. t = '''' \<or> isSentinel t \<or> t \<in> sb_name ` set (wf_steps wk)) \<and>
        (case wf_tasks wk (sb_name st) of None \<Rightarrow> True | Some td \<Rightarrow> portableTask (sb_name st) td))"

text \<open>A node without its functions.\<close>

definition nodeShape ::
    "'e Node \<Rightarrow> string \<times> stateKind \<times> duration \<times> string \<times> string \<times> RetryPolicy option \<times> bool" where
  "nodeShape nd =
     (nd_Name nd, td_kind (nd_TaskDef nd),
      if IsWait (nd_TaskDef nd) then td_waitDur (nd_TaskDef nd) else 0,
      nd_Next nd, nd_Catch nd, nd_Retry nd, nd_Terminal nd)"

lemma wholeSeconds_exact: "d mod Second = 0 \<Longrightarrow> wholeSeconds d * Second = d"
proof -
  assume "d mod Second = 0"
  then have "(- d) mod Second = 0" by (simp add: mod_eq_0_iff_dvd)
  with \<open>d mod Second = 0\<close> have "(- d) div Second * Second = - d" "d div Second * Second = d"
    using div_mult_mod_eq [of d Second] div_mult_mod_eq [of "- d" Second] by simp_all
  then show ?thesis by (simp add: wholeSeconds_def)
qed

lemma readTask_shape:
  assumes "portableTask n td" and "sb_retry st = None"
  shows "nodeShape (mkNode (readTask (writeState td)) st) = nodeShape (mkNode td st)"
  using assms
  by (auto simp: portableTask_def nodeShape_def mkNode_def readTask_def writeState_def task_defs
      kindName_def wholeSeconds_exact)

lemma portable_tasks:
  assumes "portable wk" and "list_all (compilable (wf_tasks wk)) (wf_steps wk)"
    and "st \<in> set (wf_steps wk)"
  obtains td where "wf_tasks wk (sb_name st) = Some td" "portableTask (sb_name st) td"
    "td_name td = sb_name st"
  using assms by (fastforce simp: portable_def list_all_iff compilable_def portableTask_def
      split: option.splits)

lemma map_filter_all:
  "(\<And>x. x \<in> set xs \<Longrightarrow> f x \<noteq> None) \<Longrightarrow> List.map_filter f xs = map (\<lambda>x. the (f x)) xs"
  by (induction xs) (auto simp: List.map_filter_def)

lemma portable_states:
  assumes p: "portable wk" and c: "list_all (compilable (wf_tasks wk)) (wf_steps wk)"
  shows "pg_States (toRegisterJSON wk) =
    map (\<lambda>st. writeState (the (wf_tasks wk (sb_name st)))) (wf_steps wk)"
proof -
  have "wf_tasks wk (sb_name st) \<noteq> None" if "st \<in> set (wf_steps wk)" for st
    using portable_tasks [OF p c that] by auto
  then show ?thesis by (simp add: toRegisterJSON_def map_filter_all comp_def)
qed

lemma portable_read_back:
  fixes wk :: "'e Workflow" and ps :: "'f Workflow"
  assumes p: "portable wk" and c: "list_all (compilable (wf_tasks wk)) (wf_steps wk)"
  defines "ps \<equiv> protoWorkflow (toRegisterJSON wk)"
  shows "wf_steps ps = wf_steps wk" and "wf_names ps = map sb_name (wf_steps wk)"
    and "\<And>st. st \<in> set (wf_steps wk) \<Longrightarrow>
      wf_tasks ps (sb_name st) = Some (readTask (writeState (the (wf_tasks wk (sb_name st)))))"
proof -
  let ?td = "\<lambda>st. the (wf_tasks wk (sb_name st))"
  have td: "wf_tasks wk (sb_name st) \<noteq> None \<and> td_name (?td st) = sb_name st"
    if "st \<in> set (wf_steps wk)" for st
    using portable_tasks [OF p c that] by (metis option.distinct(1) option.sel)
  note ss = portable_states [OF p c]
  have nm: "map ps_Name (pg_States (toRegisterJSON wk)) = map sb_name (wf_steps wk)"
    using td by (simp add: ss)
  show "wf_steps ps = wf_steps wk"
    using p by (simp add: ps_def protoWorkflow_simps toRegisterJSON_def portable_def map_idI readStep_writeStep)
  show "wf_names ps = map sb_name (wf_steps wk)" by (simp add: ps_def protoWorkflow_simps nm)
  fix st assume st: "st \<in> set (wf_steps wk)"
  have "distinct (map ps_Name (pg_States (toRegisterJSON wk)))" using p nm by (simp add: portable_def)
  from protoWorkflow_task [OF this, of "writeState (?td st)"] st td [OF st]
  show "wf_tasks ps (sb_name st) = Some (readTask (writeState (?td st)))"
    by (simp add: ss ps_def)
qed

lemma stepNodes_shape:
  assumes "\<And>st. st \<in> set sts \<Longrightarrow>
    f (mkNode (the (tasks (sb_name st))) st) = f' (mkNode (the (tasks' (sb_name st))) st)"
  shows "map_option f (stepNodes tasks sts n) = map_option f' (stepNodes tasks' sts n)"
  using assms by (induction sts rule: rev_induct) (simp_all add: stepNodes_def)

lemma portable_valid:
  fixes wk :: "'e Workflow" and ps :: "'f Workflow"
  assumes p: "portable wk" and c: "list_all (compilable (wf_tasks wk)) (wf_steps wk)"
    and ne: "wf_steps wk \<noteq> []" and ps: "ps = protoWorkflow (toRegisterJSON wk)"
  shows "valid_workflow ps \<and> list_all (compilable (wf_tasks ps)) (wf_steps ps)"
proof -
  note rb = portable_read_back [OF p c, where 'f = 'f, folded ps]
  have known: "wf_tasks ps n \<noteq> None" if "n \<in> sb_name ` set (wf_steps wk)" for n
    using that rb(3) by auto
  have target: "knownTarget (wf_tasks ps) t"
    if "st \<in> set (wf_steps wk)" "t = sb_next st \<or> t = sb_catch st" for st t
    using p that known unfolding portable_def knownTarget_def by blast
  have handler: "(td_fn td = None) = (td_serviceTarget td \<noteq> '''')"
    if at: "wf_tasks ps n = Some td" "td_kind td = taskState" for n td
  proof -
    obtain st where st: "st \<in> set (wf_steps wk)"
      "td = readTask (writeState (the (wf_tasks wk (sb_name st))))"
      using at(1) protoWorkflow_taskD [of "toRegisterJSON wk" n td] portable_states [OF p c]
      unfolding ps by auto
    have "td_serviceTarget (the (wf_tasks wk (sb_name st))) = ''''"
      using portable_tasks [OF p c st(1)] by (metis option.sel portableTask_def)
    with st(2) at(2) show ?thesis
      by (auto simp: readTask_def writeState_def task_defs split: if_splits)
  qed
  have "list_all (compilable (wf_tasks ps)) (wf_steps ps)"
    using c rb(1) known by (auto simp: list_all_iff compilable_def)
  moreover have "distinct (wf_names ps)" using p rb(2) by (simp add: portable_def)
  ultimately show ?thesis
    using ne rb(1) target handler unfolding valid_workflow_def by auto
qed

section \<open>Properties\<close>

text \<open>
  C21.  Registration keeps a portable workflow: when the SDK's graph compiles, so does the message it
  is registered with, to a graph with the same entry and, state by state, the same kind, wait,
  successor, catch, retry and terminal flag.
\<close>

theorem wire_roundtrip:
  fixes wk :: "'e Workflow" and g :: "'e Graph"
  assumes build: "Build ord wk = Ok g" and p: "portable wk"
    and ord: "range_order ord' (wf_tasks (protoWorkflow (toRegisterJSON wk) :: 'f Workflow))"
  shows "\<exists>g' :: 'f Graph. BuildFromProto ord' (toRegisterJSON wk) = Ok g' \<and> g_entry g' = g_entry g \<and>
    (\<forall>n. map_option nodeShape (g_nodes g' n) = map_option nodeShape (g_nodes g n))"
proof -
  let ?ps = "protoWorkflow (toRegisterJSON wk) :: 'f Workflow"
  have c: "list_all (compilable (wf_tasks wk)) (wf_steps wk)"
    and g: "g = \<lparr>g_nodes = stepNodes (wf_tasks wk) (wf_steps wk), g_entry = sb_name (hd (wf_steps wk))\<rparr>"
    and ne: "wf_steps wk \<noteq> []"
    using build Validate_entry [of ord wk] by (auto simp: Build_Ok_iff)
  note rb = portable_read_back [OF p c, where 'f = 'f]
  have "Validate ord' ?ps = None \<and> list_all (compilable (wf_tasks ?ps)) (wf_steps ?ps)"
    using portable_valid [OF p c ne, of ?ps] Validate_None_iff [OF ord] by simp
  moreover have "map_option nodeShape (stepNodes (wf_tasks ?ps) (wf_steps wk) n) =
      map_option nodeShape (stepNodes (wf_tasks wk) (wf_steps wk) n)" for n
  proof -
    have "nodeShape (mkNode (the (wf_tasks ?ps (sb_name st))) st) =
        nodeShape (mkNode (the (wf_tasks wk (sb_name st))) st)" if st: "st \<in> set (wf_steps wk)" for st
    proof -
      obtain td where "wf_tasks wk (sb_name st) = Some td" "portableTask (sb_name st) td"
        using portable_tasks [OF p c st] by blast
      with rb(3) [OF st] readTask_shape [of "sb_name st" td st] p st show ?thesis
        by (simp add: portable_def)
    qed
    then show ?thesis by (rule stepNodes_shape)
  qed
  ultimately show ?thesis
    by (intro exI [of _ "\<lparr>g_nodes = stepNodes (wf_tasks ?ps) (wf_steps wk), g_entry = sb_name (hd (wf_steps wk))\<rparr>"])
      (simp add: BuildFromProto_def Build_Ok_iff rb(1) g)
qed

lemma exampleFlow_portable: "portable exampleFlow"
  by (simp add: portable_def exampleFlow_simps portableTask_def step_defs task_defs)

theorem wire_roundtrip_witness:
  "\<exists>g' :: unit Graph. BuildFromProto [''a'', ''b''] (toRegisterJSON exampleFlow) = Ok g' \<and>
     g_entry g' = ''a'' \<and>
     (\<forall>n. map_option nodeShape (g_nodes g' n) = map_option nodeShape (g_nodes exampleGraph n))"
proof -
  have "range_order [''a'', ''b'']
      (wf_tasks (protoWorkflow (toRegisterJSON exampleFlow) :: unit Workflow))"
    by (auto simp: range_order_def protoWorkflow_simps toRegisterJSON_def exampleFlow_simps
        List.map_filter_def step_defs task_defs writeState_def split: if_splits)
  from wire_roundtrip [OF exampleGraph_Build exampleFlow_portable this] show ?thesis
    by (simp add: exampleGraph_def)
qed

text \<open>
  A registered graph with a service target on a state other than a wait never compiles: every
  such state is given an inline handler as well, and a task with both is refused.
\<close>

theorem BuildFromProto_refuses_services:
  assumes "s \<in> set (pg_States pg)" and "ps_Kind s \<noteq> ''wait''" and "ps_ServiceTarget s \<noteq> ''''"
    and "range_order ord (wf_tasks (protoWorkflow pg :: 'e Workflow))"
  shows "\<exists>e. (BuildFromProto ord pg :: 'e Graph res) = Err e \<and>
    (distinct (map ps_Name (pg_States pg)) \<and> pg_Steps pg \<noteq> [] \<longrightarrow> e = ErrAmbiguousHandler)"
proof (cases "distinct (map ps_Name (pg_States pg))")
  case True
  let ?w = "protoWorkflow pg :: 'e Workflow"
  have rule: "handlerRule (readTask s' :: 'e TaskDef) \<in> {None, Some ErrAmbiguousHandler}" for s'
    by (simp add: handlerRule_def readTask_def task_defs)
  have td: "wf_tasks ?w (ps_Name s) = Some (readTask s)"
    by (rule protoWorkflow_task [OF True assms(1)])
  then have "ps_Name s \<in> set ord" using assms(4) by (simp add: range_orderD)
  moreover have bad: "handlerRule (readTask s :: 'e TaskDef) = Some ErrAmbiguousHandler"
    using assms(2,3) by (simp add: handlerRule_def readTask_def task_defs)
  ultimately have "handlerLoop (wf_tasks ?w) ord \<noteq> None"
    using td by (auto simp: handlerLoop_def firstErr_None intro!: bexI [of _ "ps_Name s"])
  then obtain e where e: "handlerLoop (wf_tasks ?w) ord = Some e" by auto
  then obtain n td where "wf_tasks ?w n = Some td" "handlerRule td = Some e"
    unfolding handlerLoop_def by (auto dest!: firstErr_Some split: option.splits)
  moreover from this(1) obtain s' where "td = readTask s'" using protoWorkflow_taskD by blast
  ultimately have "e = ErrAmbiguousHandler" using rule [of s'] by simp
  with e True show ?thesis
    by (cases "pg_Steps pg = []")
      (simp_all add: BuildFromProto_def Build_def Validate_def duplicateName_iff protoWorkflow_simps)
next
  case False
  then show ?thesis
    by (simp add: BuildFromProto_def Build_def Validate_def duplicateName_iff protoWorkflow_simps)
qed

definition serviceFlow :: "unit Workflow" where
  "serviceFlow =
     Workflow_Flow [Step_End (Step ''pay'')]
       (onTask ''pay'' (TaskDef_InvokeService ''payments'') (Workflow_Task ''pay'' None (New ''shop'')))"

theorem BuildFromProto_refuses_services_witness:
  "Validate [''pay''] serviceFlow = None \<and>
   (BuildFromProto [''pay''] (toRegisterJSON serviceFlow) :: unit Graph res) = Err ErrAmbiguousHandler"
proof -
  let ?s = "\<lparr>ps_Name = ''pay'', ps_Kind = ''task'', ps_ServiceTarget = ''payments'',
    ps_WaitSeconds = 0, ps_CatchState = ''''\<rparr>"
  have st: "pg_States (toRegisterJSON serviceFlow) = [?s]" "pg_Steps (toRegisterJSON serviceFlow) \<noteq> []"
    by (simp_all add: toRegisterJSON_def serviceFlow_def workflow_defs task_defs step_defs
        List.map_filter_def writeState_def kindName_def)
  have "range_order [''pay''] (wf_tasks (protoWorkflow (toRegisterJSON serviceFlow) :: unit Workflow))"
    by (simp add: range_order_def protoWorkflow_simps st)
  with BuildFromProto_refuses_services [of ?s "toRegisterJSON serviceFlow" "[''pay'']"] st
  have "(BuildFromProto [''pay''] (toRegisterJSON serviceFlow) :: unit Graph res) = Err ErrAmbiguousHandler"
    by auto
  moreover have "Validate [''pay''] serviceFlow = None"
    by (simp add: Validate_def serviceFlow_def workflow_defs task_defs step_defs handlerLoop_def
        handlerRule_def stepRule_def knownTarget_def)
  ultimately show ?thesis by simp
qed

end
