(* ===== verification/Codec.thy ===== *)
theory Codec
  imports Prelude
begin

text \<open>
  The byte codecs of the Go standard library that the program signs tokens with:
  \<open>base64.RawURLEncoding\<close> and HMAC-SHA256.  Go's \<open>[]byte\<close> and \<open>string\<close> are both lists of
  characters here, a character being a byte.
\<close>

unbundle bit_operations_syntax

section \<open>base64.RawURLEncoding\<close>

definition b64alphabet :: string where
  "b64alphabet = ''ABCDEFGHIJKLMNOPQRSTUVWXYZabcdefghijklmnopqrstuvwxyz0123456789-_''"

definition b64char :: "nat \<Rightarrow> char" where
  "b64char i = b64alphabet ! i"

definition b64index :: "char \<Rightarrow> nat option" where
  "b64index c = map_of (zip b64alphabet [0..<64]) c"

text \<open>Three bytes are four sextets; a rest of one or two bytes is two or three.\<close>

fun sextets :: "nat list \<Rightarrow> nat list" where
  "sextets (a # b # c # bs) =
     (a div 4) # (a mod 4 * 16 + b div 16) # (b mod 16 * 4 + c div 64) # (c mod 64) # sextets bs"
| "sextets [a, b] = [a div 4, a mod 4 * 16 + b div 16, b mod 16 * 4]"
| "sextets [a] = [a div 4, a mod 4 * 16]"
| "sextets [] = []"

fun unsextets :: "nat list \<Rightarrow> nat list option" where
  "unsextets (x # y # z # u # xs) =
     map_option (\<lambda>bs. (x * 4 + y div 16) # (y mod 16 * 16 + z div 4) # (z mod 4 * 64 + u) # bs)
       (unsextets xs)"
| "unsextets [x, y, z] = Some [x * 4 + y div 16, y mod 16 * 16 + z div 4]"
| "unsextets [x, y] = Some [x * 4 + y div 16]"
| "unsextets [x] = None"
| "unsextets [] = Some []"

definition b64encode :: "string \<Rightarrow> string" where
  "b64encode s = map b64char (sextets (map of_char s))"

text \<open>The decoder skips carriage returns and newlines and rejects every other foreign byte.\<close>

definition isNewline :: "char \<Rightarrow> bool" where
  "isNewline c \<longleftrightarrow> of_char c = (13 :: nat) \<or> of_char c = (10 :: nat)"

fun allSome :: "'a option list \<Rightarrow> 'a list option" where
  "allSome [] = Some []"
| "allSome (None # xs) = None"
| "allSome (Some x # xs) = map_option ((#) x) (allSome xs)"

definition b64decode :: "string \<Rightarrow> string option" where
  "b64decode s =
     (case allSome (map b64index (filter (\<lambda>c. \<not> isNewline c) s)) of
        None \<Rightarrow> None
      | Some xs \<Rightarrow> map_option (map char_of) (unsextets xs))"

section \<open>SHA-256 and HMAC\<close>

text \<open>
  The constants of SHA-256 are the first 32 bits of the fractional parts of the cube roots of the
  first 64 primes and of the square roots of the first 8 primes: \<open>rootBits k j r n\<close> extends
  \<open>r\<close> by \<open>j\<close> binary digits to the integer part of the \<open>k\<close>-th root of \<open>n\<close>.
\<close>

definition primes64 :: "int list" where
  "primes64 = [2, 3, 5, 7, 11, 13, 17, 19, 23, 29, 31, 37, 41, 43, 47, 53, 59, 61, 67, 71, 73, 79,
     83, 89, 97, 101, 103, 107, 109, 113, 127, 131, 137, 139, 149, 151, 157, 163, 167, 173, 179, 181,
     191, 193, 197, 199, 211, 223, 227, 229, 233, 239, 241, 251, 257, 263, 269, 271, 277, 281, 283,
     293, 307, 311]"

fun rootBits :: "nat \<Rightarrow> nat \<Rightarrow> int \<Rightarrow> int \<Rightarrow> int" where
  "rootBits k 0 r n = r"
| "rootBits k (Suc j) r n = rootBits k j (if (r + 2 ^ j) ^ k \<le> n then r + 2 ^ j else r) n"

definition rootFraction :: "nat \<Rightarrow> int \<Rightarrow> 32 word" where
  "rootFraction k p = word_of_int (rootBits k 36 0 (p * 2 ^ (32 * k)))"

definition sha256K :: "32 word list" where
  "sha256K = map (rootFraction 3) primes64"

definition sha256H0 :: "32 word list" where
  "sha256H0 = map (rootFraction 2) (take 8 primes64)"

definition be32 :: "nat list \<Rightarrow> 32 word" where
  "be32 bs = word_of_int (foldl (\<lambda>n b. n * 256 + int b) 0 bs)"

definition bytes32 :: "32 word \<Rightarrow> nat list" where
  "bytes32 w = (let n = uint w in
     map nat [n div 16777216, n div 65536 mod 256, n div 256 mod 256, n mod 256])"

fun chunks :: "nat \<Rightarrow> nat \<Rightarrow> 'a list \<Rightarrow> 'a list list" where
  "chunks 0 k xs = []"
| "chunks (Suc m) k xs = take k xs # chunks m k (drop k xs)"

text \<open>The message schedule, kept newest first.\<close>

fun schedule :: "nat \<Rightarrow> 32 word list \<Rightarrow> 32 word list" where
  "schedule 0 ws = ws"
| "schedule (Suc n) ws =
     (let w2 = ws ! 1; w7 = ws ! 6; w15 = ws ! 14; w16 = ws ! 15;
          s0 = word_rotr 7 w15 XOR word_rotr 18 w15 XOR drop_bit 3 w15;
          s1 = word_rotr 17 w2 XOR word_rotr 19 w2 XOR drop_bit 10 w2
      in schedule n ((s1 + w7 + s0 + w16) # ws))"

fun shaRound :: "32 word list \<Rightarrow> 32 word \<times> 32 word \<Rightarrow> 32 word list" where
  "shaRound [a, b, c, d, e, f, g, h] (k, w) =
     (let s1 = word_rotr 6 e XOR word_rotr 11 e XOR word_rotr 25 e;
          ch = (e AND f) XOR (NOT e AND g);
          t1 = h + s1 + ch + k + w;
          s0 = word_rotr 2 a XOR word_rotr 13 a XOR word_rotr 22 a;
          maj = (a AND b) XOR (a AND c) XOR (b AND c)
      in [t1 + (s0 + maj), a, b, c, d + t1, e, f, g])"
| "shaRound hs kw = hs"

definition shaBlock :: "32 word list \<Rightarrow> nat list \<Rightarrow> 32 word list" where
  "shaBlock hs blk =
     (let ws = rev (schedule 48 (rev (map be32 (chunks 16 4 blk))))
      in map2 (+) hs (foldl shaRound hs (zip sha256K ws)))"

definition shaPad :: "nat list \<Rightarrow> nat list" where
  "shaPad m =
     (let l = length m; z = (55 + 64 - l mod 64) mod 64
      in m @ [0x80] @ replicate z 0 @ map (\<lambda>i. l * 8 div 256 ^ (7 - i) mod 256) [0..<8])"

definition sha256 :: "nat list \<Rightarrow> nat list" where
  "sha256 m =
     (let p = shaPad m
      in concat (map bytes32 (foldl shaBlock sha256H0 (chunks (length p div 64) 64 p))))"

definition xorByte :: "nat \<Rightarrow> nat \<Rightarrow> nat" where
  "xorByte k b = k XOR b"

definition hmacSHA256 :: "string \<Rightarrow> string \<Rightarrow> string" where
  "hmacSHA256 secret msg =
     (let k0 = map of_char secret;
          k1 = (if length k0 > 64 then sha256 k0 else k0);
          k = k1 @ replicate (64 - length k1) 0
      in map char_of (sha256 (map (xorByte 0x5c) k @
           sha256 (map (xorByte 0x36) k @ map of_char msg))))"

section \<open>Round trip\<close>

lemma b64alphabet_props:
  "length b64alphabet = 64" "distinct b64alphabet"
  "list_all (\<lambda>c. \<not> isNewline c \<and> c \<noteq> CHR ''.'') b64alphabet"
  by (simp add: b64alphabet_def, simp add: b64alphabet_def, code_simp)

lemma b64index_b64char: "i < 64 \<Longrightarrow> b64index (b64char i) = Some i"
  using map_of_zip_nth [of b64alphabet "[0..<64]" i] b64alphabet_props(1,2)
  by (simp add: b64index_def b64char_def)

lemma b64char_plain: "i < 64 \<Longrightarrow> \<not> isNewline (b64char i) \<and> b64char i \<noteq> CHR ''.''"
  using b64alphabet_props(1,3) by (simp add: b64char_def list_all_length)

lemma sextets_lt: "\<forall>b \<in> set bs. b < 256 \<Longrightarrow> x \<in> set (sextets bs) \<Longrightarrow> x < 64"
proof (induction bs arbitrary: x rule: sextets.induct)
  case (1 a b c bs)
  then show ?case by auto
qed auto

lemma byte_split:
  fixes b :: nat
  assumes "b < 256"
  shows "b div 16 div 16 = 0" and "b div 16 mod 16 * 16 + b mod 16 = b"
    and "b div 64 div 4 = 0" and "b div 64 mod 4 * 64 + b mod 64 = b"
proof -
  from assms have "b div 16 < 16" "b div 64 < 4" by auto
  then show "b div 16 div 16 = 0" "b div 16 mod 16 * 16 + b mod 16 = b"
    "b div 64 div 4 = 0" "b div 64 mod 4 * 64 + b mod 64 = b" by simp_all
qed

lemma unsextets_sextets: "\<forall>b \<in> set bs. b < 256 \<Longrightarrow> unsextets (sextets bs) = Some bs"
proof (induction bs rule: sextets.induct)
  case (1 a b c bs)
  then show ?case using byte_split [of b] byte_split [of c] by (auto simp del: div_mult2_eq)
next
  case (2 a b)
  then show ?case using byte_split [of b] by auto
qed simp_all

lemma allSome_map: "(\<And>x. x \<in> set xs \<Longrightarrow> f (g x) = Some x) \<Longrightarrow> allSome (map (f \<circ> g) xs) = Some xs"
  by (induction xs) auto

lemma b64decode_b64encode: "b64decode (b64encode s) = Some s"
proof -
  let ?xs = "sextets (map of_char s)"
  have lt: "\<forall>b \<in> set (map of_char s :: nat list). b < 256" by simp
  note x = sextets_lt [OF lt]
  have "filter (\<lambda>c. \<not> isNewline c) (map b64char ?xs) = map b64char ?xs"
    using x b64char_plain by (auto simp: filter_id_conv)
  moreover have "allSome (map b64index (map b64char ?xs)) = Some ?xs"
    using allSome_map [of ?xs b64index b64char] x b64index_b64char by simp
  ultimately show ?thesis
    using unsextets_sextets [OF lt] by (simp add: b64decode_def b64encode_def map_idI)
qed

lemma b64encode_no_dot: "CHR ''.'' \<notin> set (b64encode s)"
proof -
  have "\<forall>b \<in> set (map of_char s :: nat list). b < 256" by simp
  from sextets_lt [OF this] b64char_plain show ?thesis by (fastforce simp: b64encode_def)
qed

lemma b64encode_printable: "list_all (\<lambda>c. 32 < (of_char c :: nat) \<and> of_char c < (0x7F :: nat)) (b64encode s)"
proof -
  have "list_all (\<lambda>c. 32 < (of_char c :: nat) \<and> of_char c < (0x7F :: nat)) b64alphabet" by (simp add: b64alphabet_def)
  then have "i < 64 \<Longrightarrow> 32 < (of_char (b64char i) :: nat) \<and> of_char (b64char i) < (0x7F :: nat)" for i
    using b64alphabet_props(1) by (simp add: b64char_def list_all_length)
  moreover have "\<forall>b \<in> set (map of_char s :: nat list). b < 256" by simp
  note sextets_lt [OF this]
  ultimately show ?thesis unfolding b64encode_def list_all_iff by auto
qed

lemma b64encode_ascii: "list_all (\<lambda>c. (of_char c :: nat) < 0x80) (b64encode s)"
  using b64encode_printable [of s] by (fastforce simp: list_all_iff)

end
