(* ===== verification/Json.thy ===== *)
theory Json
  imports Utf8
begin

text \<open>
  The part of encoding/json the program uses: writing strings and integers (Go 1.22, with HTML
  escaping), and reading a document into a syntax tree, from which the struct decoders take their
  fields.  Documents are byte lists.
\<close>

section \<open>Writing\<close>

definition asciiBytes :: "string \<Rightarrow> nat list" where
  "asciiBytes s = map of_char s"

definition hexByte :: "nat \<Rightarrow> nat" where
  "hexByte n = (if n < 10 then 48 + n else 87 + n)"

definition escapeAscii :: "nat \<Rightarrow> nat list" where
  "escapeAscii b =
     (if b = 34 \<or> b = 92 then [92, b]
      else if b = 8 then [92, 98]
      else if b = 12 then [92, 102]
      else if b = 10 then [92, 110]
      else if b = 13 then [92, 114]
      else if b = 9 then [92, 116]
      else if b < 32 \<or> b = 60 \<or> b = 62 \<or> b = 38 then
        [92, 117, 48, 48, hexByte (b div 16), hexByte (b mod 16)]
      else [b])"

function jsonBody :: "nat list \<Rightarrow> nat list" where
  "jsonBody [] = []"
| "jsonBody (b # bs) =
     (if b < 0x80 then escapeAscii b @ jsonBody bs
      else if badRune (b # bs) then [92, 117, 102, 102, 102, 100] @ jsonBody bs
      else
        (let (r, w) = decodeRune (b # bs) in
         (if r = 0x2028 \<or> r = 0x2029 then [92, 117, 50, 48, 50, hexByte (r mod 16)]
          else take w (b # bs))
         @ jsonBody (drop (snd (decodeRune (b # bs))) (b # bs))))"
  by pat_completeness auto
termination
proof (relation "measure length")
  fix b :: nat and bs
  have "0 < snd (decodeRune (b # bs))" by (rule decodeRune_pos) simp
  then show "(drop (snd (decodeRune (b # bs))) (b # bs), b # bs) \<in> measure length" by simp
qed simp_all

definition jsonString :: "nat list \<Rightarrow> nat list" where
  "jsonString bs = 34 # jsonBody bs @ [34]"

definition jsonInt :: "int \<Rightarrow> nat list" where
  "jsonInt i = asciiBytes (showInt i)"

section \<open>Reading\<close>

datatype jvalue =
    JNull
  | JBool bool
  | JNum "nat list"
  | JStr "nat list"
  | JArr "jvalue list"
  | JObj "(nat list \<times> jvalue) list"

definition isSpace :: "nat \<Rightarrow> bool" where
  "isSpace b \<longleftrightarrow> b = 32 \<or> b = 9 \<or> b = 10 \<or> b = 13"

definition skipWs :: "nat list \<Rightarrow> nat list" where
  "skipWs = dropWhile isSpace"

definition isDig :: "nat \<Rightarrow> bool" where
  "isDig b \<longleftrightarrow> 48 \<le> b \<and> b \<le> 57"

definition hexVal :: "nat \<Rightarrow> nat option" where
  "hexVal b =
     (if isDig b then Some (b - 48)
      else if 97 \<le> b \<and> b \<le> 102 then Some (b - 87)
      else if 65 \<le> b \<and> b \<le> 70 then Some (b - 55)
      else None)"

fun hex4 :: "nat list \<Rightarrow> (nat \<times> nat list) option" where
  "hex4 (a # b # c # d # r) =
     (case (hexVal a, hexVal b, hexVal c, hexVal d) of
        (Some a', Some b', Some c', Some d') \<Rightarrow> Some (((a' * 16 + b') * 16 + c') * 16 + d', r)
      | _ \<Rightarrow> None)"
| "hex4 _ = None"

lemma hex4_length: "hex4 s = Some (u, r) \<Longrightarrow> length s = length r + 4"
  by (induction s rule: hex4.induct) (auto split: option.splits)

definition simpleEscape :: "nat \<Rightarrow> nat option" where
  "simpleEscape c =
     map_of [(34, 34), (92, 92), (47, 47), (98, 8), (102, 12), (110, 10), (114, 13), (116, 9)] c"

text \<open>
  A \<open>\\u\<close> escape may be the first half of a surrogate pair: \<open>pairedRune\<close> gives the rune and the
  rest of the input.
\<close>

definition pairedRune :: "nat \<Rightarrow> nat list \<Rightarrow> rune \<times> nat list" where
  "pairedRune u s =
     (if \<not> (0xD800 \<le> u \<and> u \<le> 0xDFFF) then (u, s)
      else if take 2 s = [92, 117] then
        (case hex4 (drop 2 s) of
           Some (v, r) \<Rightarrow>
             if u < 0xDC00 \<and> 0xDC00 \<le> v \<and> v \<le> 0xDFFF
             then ((u - 0xD800) * 1024 + (v - 0xDC00) + 0x10000, r) else (RuneError, s)
         | None \<Rightarrow> (RuneError, s))
      else (RuneError, s))"

lemma pairedRune_length: "length (snd (pairedRune u s)) \<le> length s"
  by (auto simp: pairedRune_def split: option.splits dest!: hex4_length)

text \<open>The bytes of a string literal after its opening quote, and what follows the closing one.\<close>

function parseStr :: "nat list \<Rightarrow> (nat list \<times> nat list) option" where
  "parseStr [] = None"
| "parseStr (b # bs) =
     (if b = 34 then Some ([], bs)
      else if b = 92 then
        (case bs of
           [] \<Rightarrow> None
         | c # cs \<Rightarrow>
             if c = 117 then
               (case hex4 cs of
                  None \<Rightarrow> None
                | Some (u, cs1) \<Rightarrow>
                    map_option (\<lambda>(t, r). (encodeRune (fst (pairedRune u cs1)) @ t, r))
                      (parseStr (snd (pairedRune u cs1))))
             else
               (case simpleEscape c of
                  None \<Rightarrow> None
                | Some x \<Rightarrow> map_option (\<lambda>(t, r). (x # t, r)) (parseStr cs)))
      else if b < 32 then None
      else if b < 0x80 then map_option (\<lambda>(t, r). (b # t, r)) (parseStr bs)
      else if badRune (b # bs) then map_option (\<lambda>(t, r). ([0xEF, 0xBF, 0xBD] @ t, r)) (parseStr bs)
      else map_option (\<lambda>(t, r). (take (snd (decodeRune (b # bs))) (b # bs) @ t, r))
             (parseStr (drop (snd (decodeRune (b # bs))) (b # bs))))"
  by pat_completeness auto
termination
proof (relation "measure length", goal_cases)
  case (2 b bs c cs a u cs1)
  then show ?case using hex4_length [of cs u cs1] pairedRune_length [of u cs1] by auto
next
  case (6 b bs)
  have "0 < snd (decodeRune (b # bs))" by (rule decodeRune_pos) simp
  then show ?case by simp
qed simp_all

text \<open>The longest prefix that is a number literal, and the rest.\<close>

definition spanDig :: "nat list \<Rightarrow> nat list \<times> nat list" where
  "spanDig s = (takeWhile isDig s, dropWhile isDig s)"

definition intPart :: "nat list \<Rightarrow> (nat list \<times> nat list) option" where
  "intPart s =
     (case s of
        [] \<Rightarrow> None
      | c # r \<Rightarrow> if c = 48 then Some ([48], r)
                 else if isDig c then Some (spanDig s) else None)"

definition fracPart :: "nat list \<Rightarrow> (nat list \<times> nat list) option" where
  "fracPart s =
     (case s of
        [] \<Rightarrow> Some ([], s)
      | c # r \<Rightarrow>
          if c \<noteq> 46 then Some ([], s)
          else (case spanDig r of (ds, r') \<Rightarrow> if ds = [] then None else Some (46 # ds, r')))"

definition expPart :: "nat list \<Rightarrow> (nat list \<times> nat list) option" where
  "expPart s =
     (case s of
        [] \<Rightarrow> Some ([], s)
      | c # r \<Rightarrow>
          if c \<noteq> 101 \<and> c \<noteq> 69 then Some ([], s)
          else
            (let (sg, r1) = (case r of [] \<Rightarrow> ([], r)
                             | d # r' \<Rightarrow> if d = 43 \<or> d = 45 then ([d], r') else ([], r))
             in case spanDig r1 of (ds, r2) \<Rightarrow> if ds = [] then None else Some (c # sg @ ds, r2)))"

definition parseNum :: "nat list \<Rightarrow> (nat list \<times> nat list) option" where
  "parseNum s =
     (let (sg, s0) = (case s of [] \<Rightarrow> ([], s) | c # r \<Rightarrow> if c = 45 then ([45], r) else ([], s)) in
      case intPart s0 of
        None \<Rightarrow> None
      | Some (ip, s1) \<Rightarrow>
          (case fracPart s1 of
             None \<Rightarrow> None
           | Some (fp, s2) \<Rightarrow>
               (case expPart s2 of
                  None \<Rightarrow> None
                | Some (ep, s3) \<Rightarrow> Some (sg @ ip @ fp @ ep, s3))))"

definition maxNestingDepth :: nat where
  "maxNestingDepth = 10000"

text \<open>
  Values; the first argument bounds the recursion (the length of the document is enough, every
  call consumes a byte), \<open>d\<close> is the nesting depth.
\<close>

fun parseValue :: "nat \<Rightarrow> nat \<Rightarrow> nat list \<Rightarrow> (jvalue \<times> nat list) option"
and parseElems :: "nat \<Rightarrow> nat \<Rightarrow> nat list \<Rightarrow> (jvalue list \<times> nat list) option"
and parseMembers :: "nat \<Rightarrow> nat \<Rightarrow> nat list \<Rightarrow> ((nat list \<times> jvalue) list \<times> nat list) option" where
  "parseValue 0 d s = None"
| "parseValue (Suc n) d s =
     (case skipWs s of
        [] \<Rightarrow> None
      | b # bs \<Rightarrow>
          if b = 34 then map_option (\<lambda>(t, r). (JStr t, r)) (parseStr bs)
          else if b = 123 then
            (if d \<ge> maxNestingDepth then None
             else if take 1 (skipWs bs) = [125] then Some (JObj [], drop 1 (skipWs bs))
             else map_option (\<lambda>(ms, r). (JObj ms, r)) (parseMembers n (Suc d) bs))
          else if b = 91 then
            (if d \<ge> maxNestingDepth then None
             else if take 1 (skipWs bs) = [93] then Some (JArr [], drop 1 (skipWs bs))
             else map_option (\<lambda>(vs, r). (JArr vs, r)) (parseElems n (Suc d) bs))
          else if b = 45 \<or> isDig b then map_option (\<lambda>(t, r). (JNum t, r)) (parseNum (b # bs))
          else if take 4 (b # bs) = asciiBytes ''true'' then Some (JBool True, drop 3 bs)
          else if take 5 (b # bs) = asciiBytes ''false'' then Some (JBool False, drop 4 bs)
          else if take 4 (b # bs) = asciiBytes ''null'' then Some (JNull, drop 3 bs)
          else None)"
| "parseElems 0 d s = None"
| "parseElems (Suc n) d s =
     (case parseValue n d s of
        None \<Rightarrow> None
      | Some (v, r) \<Rightarrow>
          (case skipWs r of
             [] \<Rightarrow> None
           | c # r' \<Rightarrow>
               if c = 44 then map_option (\<lambda>(vs, q). (v # vs, q)) (parseElems n d r')
               else if c = 93 then Some ([v], r')
               else None))"
| "parseMembers 0 d s = None"
| "parseMembers (Suc n) d s =
     (case skipWs s of
        [] \<Rightarrow> None
      | b # bs \<Rightarrow>
          if b \<noteq> 34 then None
          else
            (case parseStr bs of
               None \<Rightarrow> None
             | Some (k, r) \<Rightarrow>
                 if take 1 (skipWs r) \<noteq> [58] then None
                 else
                   (case parseValue n d (drop 1 (skipWs r)) of
                      None \<Rightarrow> None
                    | Some (v, r1) \<Rightarrow>
                        (case skipWs r1 of
                           [] \<Rightarrow> None
                         | c # r2 \<Rightarrow>
                             if c = 44 then map_option (\<lambda>(ms, q). ((k, v) # ms, q)) (parseMembers n d r2)
                             else if c = 125 then Some ([(k, v)], r2)
                             else None))))"

definition parseJson :: "nat list \<Rightarrow> jvalue option" where
  "parseJson s =
     (case parseValue (2 * length s + 2) 0 s of
        Some (v, r) \<Rightarrow> if skipWs r = [] then Some v else None
      | None \<Rightarrow> None)"

section \<open>Fields of a struct\<close>

text \<open>Field names match exactly or up to simple case folding.\<close>

definition foldRune :: "rune \<Rightarrow> rune" where
  "foldRune r = (if 97 \<le> r \<and> r \<le> 122 then r - 32 else if r = 0x17F then 83
                 else if r = 0x212A then 75 else r)"

definition foldName :: "nat list \<Rightarrow> rune list" where
  "foldName bs = map foldRune (runes bs)"

definition fieldOf :: "string list \<Rightarrow> nat list \<Rightarrow> string option" where
  "fieldOf names k =
     (case find (\<lambda>f. asciiBytes f = k) names of
        Some f \<Rightarrow> Some f
      | None \<Rightarrow> find (\<lambda>f. foldName (asciiBytes f) = foldName k) names)"

text \<open>\<open>strconv.ParseInt (s, 10, 64)\<close> on the text of a number literal.\<close>

definition digitsVal :: "nat list \<Rightarrow> nat" where
  "digitsVal ds = foldl (\<lambda>n d. n * 10 + (d - 48)) 0 ds"

definition parseInt64 :: "nat list \<Rightarrow> int option" where
  "parseInt64 s =
     (let (neg, ds) = (case s of [] \<Rightarrow> (False, s) | c # r \<Rightarrow> if c = 45 then (True, r) else (False, s)) in
      if ds = [] \<or> \<not> list_all isDig ds then None
      else let v = (if neg then - int (digitsVal ds) else int (digitsVal ds))
           in if - (2 ^ 63) \<le> v \<and> v < 2 ^ 63 then Some v else None)"

section \<open>Strings round trip\<close>

lemma separator_bytes:
  assumes "decodeRune (b # bs) = (r, w)" and "\<not> badRune (b # bs)" and "r = 0x2028 \<or> r = 0x2029"
  shows "take w (b # bs) = encodeRune r"
  using assms(1,2)
proof (cases rule: decodeRune_cases)
  case (three x y z t)
  have r: "0x2028 \<le> r" "r \<le> 0x2029" using assms(3) by auto
  have "\<not> 3 \<le> x" "\<not> x \<le> 1" using r three(4,5,6) by linarith+
  then have x: "x = 2" by simp
  have "\<not> 1 \<le> y" using r three(6) x by linarith
  then have "y = 0" "z = r - 0x2000" using three(6) x by auto
  then have "take w (b # bs) = [0xE2, 0x80, 0x80 + (r - 0x2000)]" using three(1,2,7) x by simp
  also have "\<dots> = encodeRune r" using assms(3) by (elim disjE) (simp_all add: encodeRune_def)
  finally show ?thesis .
next
  case (four x y z u t)
  then have "16 * 4096 \<le> r" by (cases "x = 0") auto
  with assms(3) have False by auto
  then show ?thesis ..
qed (use assms(3) in auto)

lemma hexVal_hexByte: "n < 16 \<Longrightarrow> hexVal (hexByte n) = Some n"
  by (auto simp: hexVal_def hexByte_def isDig_def)

lemma hex4_escape: "hex4 (48 # 48 # hexByte (b div 16) # hexByte (b mod 16) # r) = Some (b, r)"
  if "b < 256"
proof -
  have "b div 16 < 16" "b mod 16 < 16" using that by auto
  then show ?thesis by (simp add: hexVal_hexByte) (simp add: hexVal_def isDig_def)
qed

lemma pairedRune_plain: "u < 0xD800 \<Longrightarrow> pairedRune u s = (u, s)"
  by (simp add: pairedRune_def)

lemma parseStr_escape:
  assumes "b < 0x80"
  shows "parseStr (escapeAscii b @ s) = map_option (\<lambda>(t, r). (b # t, r)) (parseStr s)"
proof (cases "b < 32 \<or> b = 60 \<or> b = 62 \<or> b = 38")
  case True
  show ?thesis
  proof (cases "b \<in> {8, 9, 10, 12, 13}")
    case True
    then show ?thesis by (auto simp: escapeAscii_def simpleEscape_def)
  next
    case False
    then have "escapeAscii b = [92, 117, 48, 48, hexByte (b div 16), hexByte (b mod 16)]"
      using True by (auto simp: escapeAscii_def)
    then show ?thesis
      using hex4_escape [of b s] assms by (simp add: pairedRune_plain encodeRune_def)
  qed
next
  case False
  then show ?thesis using assms by (auto simp: escapeAscii_def simpleEscape_def)
qed

lemma validUtf8_ascii: "b < 0x80 \<Longrightarrow> validUtf8 (b # bs) = validUtf8 bs"
  by (simp add: badRune_def RuneError_def)

declare decodeRune.simps(2) [simp del] validUtf8.simps(2) [simp del] jsonBody.simps(2) [simp del] parseStr.simps(2) [simp del]

lemma parseStr_high:
  assumes "decodeRune (b # bs) = (r, w)" and "\<not> badRune (b # bs)" and "0x80 \<le> b"
  shows "parseStr (take w (b # bs) @ s) = map_option (\<lambda>(t, q). (take w (b # bs) @ t, q)) (parseStr s)"
proof -
  note d = decodeRune_take [OF assms(1,2)]
  obtain bs' where t: "take w (b # bs) @ s = b # bs'"
    using decodeRune_high(1) [OF assms(1,3,2)] by (cases w) auto
  have "decodeRune (b # bs') = (r, w)" using d(1) [of s] t by simp
  moreover have "\<not> badRune (b # bs')"
    using calculation assms(1,2) by (simp add: badRune_def)
  moreover have "take w (b # bs') = take w (b # bs)" "drop w (b # bs') = s"
    using d(2) t by (metis append_eq_conv_conj list.discI)+
  ultimately show ?thesis
    unfolding t using assms(3) by (simp add: parseStr.simps(2))
qed

lemma parseStr_jsonBody: "validUtf8 bs \<Longrightarrow> parseStr (jsonBody bs @ 34 # rest) = Some (bs, rest)"
proof (induction bs rule: jsonBody.induct)
  case 1
  then show ?case by (simp add: parseStr.simps(2))
next
  case (2 b bs)
  show ?case
  proof (cases "b < 0x80")
    case True
    then show ?thesis
      using 2 by (simp add: jsonBody.simps(2) validUtf8_ascii parseStr_escape)
  next
    case False
    obtain r w where d: "decodeRune (b # bs) = (r, w)" by force
    from 2(4) have nb: "\<not> badRune (b # bs)" and v: "validUtf8 (drop w (b # bs))"
      by (simp_all add: validUtf8.simps(2) d)
    have ih: "parseStr (jsonBody (drop w (b # bs)) @ 34 # rest) = Some (drop w (b # bs), rest)"
      using 2(3) [OF False nb] d v by simp
    show ?thesis
    proof (cases "r = 0x2028 \<or> r = 0x2029")
      case True
      then have "parseStr ([92, 117, 50, 48, 50, hexByte (r mod 16)] @ s) =
          map_option (\<lambda>(t, q). (encodeRune r @ t, q)) (parseStr s)" for s
        by (auto simp: parseStr.simps(2) hexVal_def hexByte_def isDig_def pairedRune_plain)
      then show ?thesis
        using False nb d ih separator_bytes [OF d nb True, symmetric] True
        by (simp add: jsonBody.simps(2))
    next
      case sep: False
      then show ?thesis
        using False nb d ih parseStr_high [OF d nb]
        by (simp add: jsonBody.simps(2))
    qed
  qed
qed

section \<open>Integers round trip\<close>

lemma asciiBytes_append [simp]: "asciiBytes (s @ t) = asciiBytes s @ asciiBytes t"
  by (simp add: asciiBytes_def)

lemma digit_byte: "n < 10 \<Longrightarrow> asciiBytes [char_of (48 + n)] = [48 + n]"
  by (simp add: asciiBytes_def)

lemma showNat_rec:
  "asciiBytes (showNat n) =
     (if n < 10 then [48 + n] else asciiBytes (showNat (n div 10)) @ [48 + n mod 10])"
proof (cases "n < 10")
  case True
  then show ?thesis by (subst showNat.simps) (simp add: digit_byte)
next
  case False
  have "asciiBytes [char_of (48 + n mod 10)] = [48 + n mod 10]" by (rule digit_byte) simp
  with False show ?thesis by (subst showNat.simps) simp
qed

lemma showNat_digits:
  "list_all isDig (asciiBytes (showNat n)) \<and> asciiBytes (showNat n) \<noteq> [] \<and>
   digitsVal (asciiBytes (showNat n)) = n \<and>
   (hd (asciiBytes (showNat n)) = 48 \<longrightarrow> n = 0)"
proof (induction n rule: less_induct)
  case (less n)
  show ?case
  proof (cases "n < 10")
    case True
    then have "asciiBytes (showNat n) = [48 + n]" using showNat_rec [of n] by simp
    with True show ?thesis by (simp add: isDig_def digitsVal_def)
  next
    case False
    then have "asciiBytes (showNat n) = asciiBytes (showNat (n div 10)) @ [48 + n mod 10]"
      using showNat_rec [of n] by simp
    moreover have "n div 10 < n" using False by simp
    note less [OF this]
    ultimately show ?thesis using False by (auto simp: isDig_def digitsVal_def)
  qed
qed

lemma showNat_zero: "asciiBytes (showNat 0) = [48]"
  using showNat_rec [of 0] by simp

definition notNumeric :: "nat list \<Rightarrow> bool" where
  "notNumeric s \<longleftrightarrow> (case s of [] \<Rightarrow> True | c # _ \<Rightarrow> \<not> isDig c \<and> c \<noteq> 46 \<and> c \<noteq> 101 \<and> c \<noteq> 69)"

lemma intPart_showNat:
  assumes "notNumeric rest"
  shows "intPart (asciiBytes (showNat n) @ rest) = Some (asciiBytes (showNat n), rest)"
proof -
  let ?d = "asciiBytes (showNat n)"
  from showNat_digits [of n] obtain c cs where d: "?d = c # cs" "list_all isDig (c # cs)" "c = 48 \<longrightarrow> n = 0"
    by (cases ?d) auto
  show ?thesis
  proof (cases "c = 48")
    case True
    then show ?thesis using d(3) by (simp add: showNat_zero intPart_def)
  next
    case False
    have "takeWhile isDig (?d @ rest) = ?d" "dropWhile isDig (?d @ rest) = rest"
      using d assms by (auto simp: list_all_iff notNumeric_def split: list.splits)
    then show ?thesis using False d by (simp add: intPart_def spanDig_def)
  qed
qed

lemma frac_exp_none: "notNumeric rest \<Longrightarrow> fracPart rest = Some ([], rest) \<and> expPart rest = Some ([], rest)"
  by (auto simp: notNumeric_def fracPart_def expPart_def split: list.splits)

lemma asciiBytes_minus: "asciiBytes (CHR ''-'' # s) = 45 # asciiBytes s"
  by (simp add: asciiBytes_def)

lemma parseNum_jsonInt:
  assumes "notNumeric rest"
  shows "parseNum (jsonInt i @ rest) = Some (jsonInt i, rest)"
proof (cases "i < 0")
  case True
  then show ?thesis
    using intPart_showNat [OF assms, of "nat (- i)"] frac_exp_none [OF assms]
    by (simp add: jsonInt_def showInt_def asciiBytes_minus parseNum_def)
next
  case False
  let ?d = "asciiBytes (showNat (nat i))"
  from showNat_digits [of "nat i"] obtain c cs where d: "?d = c # cs" "isDig c" by (cases ?d) auto
  then have "c \<noteq> 45" by (auto simp: isDig_def)
  with False d show ?thesis
    using intPart_showNat [OF assms, of "nat i"] frac_exp_none [OF assms]
    by (simp add: jsonInt_def showInt_def parseNum_def)
qed

lemma parseInt64_jsonInt:
  assumes "- (2 ^ 63) \<le> i" and "i < 2 ^ 63"
  shows "parseInt64 (jsonInt i) = Some i"
proof (cases "i < 0")
  case True
  then show ?thesis
    using showNat_digits [of "nat (- i)"] assms
    by (simp add: jsonInt_def showInt_def asciiBytes_minus parseInt64_def)
next
  case False
  let ?d = "asciiBytes (showNat (nat i))"
  from showNat_digits [of "nat i"] obtain c cs where d: "?d = c # cs" "isDig c" by (cases ?d) auto
  then have "c \<noteq> 45" by (auto simp: isDig_def)
  with False d show ?thesis
    using showNat_digits [of "nat i"] assms by (simp add: jsonInt_def showInt_def parseInt64_def)
qed

section \<open>Objects round trip\<close>

text \<open>\<open>"k":\<close> for a field name of plain ASCII characters.\<close>

definition jsonKey :: "string \<Rightarrow> nat list" where
  "jsonKey k = 34 # asciiBytes k @ [34, 58]"

definition plainName :: "string \<Rightarrow> bool" where
  "plainName k \<longleftrightarrow> list_all (\<lambda>b. 32 \<le> b \<and> b < 0x80 \<and> b \<noteq> 34 \<and> b \<noteq> 92) (asciiBytes k)"

lemma parseStr_plain:
  "list_all (\<lambda>b. 32 \<le> b \<and> b < 0x80 \<and> b \<noteq> 34 \<and> b \<noteq> 92) bs \<Longrightarrow>
   parseStr (bs @ 34 # r) = Some (bs, r)"
  by (induction bs) (auto simp: parseStr.simps(2))

lemma skipWs_cons: "\<not> isSpace b \<Longrightarrow> skipWs (b # s) = b # s"
  by (simp add: skipWs_def)

lemma parseMembers_key:
  assumes "plainName k" and "parseValue n d s = Some (v, c # rest)" and "c = 44 \<or> c = 125"
  shows "parseMembers (Suc n) d (jsonKey k @ s) =
    (if c = 44 then map_option (\<lambda>(ms, q). ((asciiBytes k, v) # ms, q)) (parseMembers n d rest)
     else Some ([(asciiBytes k, v)], rest))"
proof -
  have "parseStr (asciiBytes k @ 34 # 58 # s) = Some (asciiBytes k, 58 # s)"
    using assms(1) by (simp add: plainName_def parseStr_plain)
  moreover have "\<not> isSpace c" using assms(3) by (auto simp: isSpace_def)
  ultimately show ?thesis
    using assms(2,3) by (auto simp: jsonKey_def skipWs_cons isSpace_def)
qed

lemma parseValue_string:
  "validUtf8 bs \<Longrightarrow> parseValue (Suc n) d (jsonString bs @ rest) = Some (JStr bs, rest)"
  using parseStr_jsonBody [of bs rest] by (simp add: jsonString_def skipWs_cons isSpace_def)

lemma parseValue_int:
  assumes "notNumeric rest"
  shows "parseValue (Suc n) d (jsonInt i @ rest) = Some (JNum (jsonInt i), rest)"
proof -
  from showNat_digits [of "nat i"] showNat_digits [of "nat (- i)"]
  obtain c cs where c: "jsonInt i = c # cs" "c = 45 \<or> isDig c"
    by (cases "i < 0"; cases "asciiBytes (showNat (nat i))")
      (auto simp: jsonInt_def showInt_def asciiBytes_minus)
  then have "\<not> isSpace c" "c \<noteq> 34" "c \<noteq> 123" "c \<noteq> 91" by (auto simp: isSpace_def isDig_def)
  with c parseNum_jsonInt [OF assms, of i] show ?thesis by (auto simp: skipWs_cons)
qed

text \<open>An object with one string member.\<close>

definition singleMember :: "string \<Rightarrow> nat list \<Rightarrow> nat list" where
  "singleMember k v = [123] @ jsonKey k @ jsonString v @ [125]"

lemma parseValue_single:
  assumes "plainName k" and "validUtf8 v"
  shows "parseValue (Suc (Suc (Suc n))) 0 (singleMember k v @ rest) = Some (JObj [(asciiBytes k, JStr v)], rest)"
proof -
  let ?m = "jsonKey k @ jsonString v @ 125 # rest"
  have "parseMembers (Suc (Suc n)) 1 ?m = Some ([(asciiBytes k, JStr v)], rest)"
    by (subst parseMembers_key [OF assms(1) parseValue_string [OF assms(2)]]) simp_all
  then show ?thesis
    by (simp add: singleMember_def skipWs_cons isSpace_def maxNestingDepth_def jsonKey_def)
qed

lemma parseJson_single:
  assumes "plainName k" and "validUtf8 v" and "skipWs rest = []"
  shows "parseJson (singleMember k v @ rest) = Some (JObj [(asciiBytes k, JStr v)])"
proof -
  obtain n where fuel: "2 * length (singleMember k v @ rest) + 2 = Suc (Suc (Suc n))"
    by (rule that [of "2 * length (singleMember k v @ rest) - 1"]) (simp add: singleMember_def)
  show ?thesis unfolding parseJson_def fuel parseValue_single [OF assms(1,2)] using assms(3) by simp
qed

end
