(* ===== verification/Token.thy ===== *)
theory Token
  imports Codec Json
begin

text \<open>
  internal/runner/token.go: the signed state tokens that authorise the callbacks of Kubernetes
  jobs.  \<open>now\<close> is what the call of \<open>time.Now\<close> returns.
\<close>

section \<open>Claims\<close>

record TokenPayload =
  tp_ExecID :: string
  tp_State :: string
  tp_Attempt :: int
  tp_ExpiresAt :: time

record tokenClaims =
  tc_ExecID :: string
  tc_StateName :: string
  tc_Attempt :: int
  tc_ExpiresAt :: int

definition tokenTTL :: duration where
  "tokenTTL = 24 * Hour"

definition zeroClaims :: tokenClaims where
  "zeroClaims = \<lparr>tc_ExecID = '''', tc_StateName = '''', tc_Attempt = 0, tc_ExpiresAt = 0\<rparr>"

definition marshalClaims :: "tokenClaims \<Rightarrow> nat list" where
  "marshalClaims c =
     [123] @ jsonKey ''eid'' @ jsonString (asciiBytes (tc_ExecID c)) @
     [44] @ jsonKey ''sn'' @ jsonString (asciiBytes (tc_StateName c)) @
     [44] @ jsonKey ''att'' @ jsonInt (tc_Attempt c) @
     [44] @ jsonKey ''exp'' @ jsonInt (tc_ExpiresAt c) @ [125]"

definition setString :: "(string \<Rightarrow> 'c) \<Rightarrow> jvalue \<Rightarrow> 'c \<Rightarrow> 'c option" where
  "setString upd v c = (case v of JNull \<Rightarrow> Some c | JStr t \<Rightarrow> Some (upd (map char_of t)) | _ \<Rightarrow> None)"

definition setInt :: "(int \<Rightarrow> 'c) \<Rightarrow> jvalue \<Rightarrow> 'c \<Rightarrow> 'c option" where
  "setInt upd v c =
     (case v of JNull \<Rightarrow> Some c | JNum t \<Rightarrow> map_option upd (parseInt64 t) | _ \<Rightarrow> None)"

definition setClaim :: "tokenClaims \<Rightarrow> nat list \<times> jvalue \<Rightarrow> tokenClaims option" where
  "setClaim c kv =
     (case fieldOf [''eid'', ''sn'', ''att'', ''exp''] (fst kv) of
        None \<Rightarrow> Some c
      | Some f \<Rightarrow>
          if f = ''eid'' then setString (\<lambda>s. c\<lparr>tc_ExecID := s\<rparr>) (snd kv) c
          else if f = ''sn'' then setString (\<lambda>s. c\<lparr>tc_StateName := s\<rparr>) (snd kv) c
          else if f = ''att'' then setInt (\<lambda>i. c\<lparr>tc_Attempt := i\<rparr>) (snd kv) c
          else setInt (\<lambda>i. c\<lparr>tc_ExpiresAt := i\<rparr>) (snd kv) c)"

text \<open>A member that does not fit its field makes the whole call fail.\<close>

fun setClaims :: "tokenClaims \<Rightarrow> (nat list \<times> jvalue) list \<Rightarrow> tokenClaims option" where
  "setClaims c [] = Some c"
| "setClaims c (kv # kvs) = (case setClaim c kv of None \<Rightarrow> None | Some c1 \<Rightarrow> setClaims c1 kvs)"

definition unmarshalClaims :: "nat list \<Rightarrow> tokenClaims option" where
  "unmarshalClaims raw =
     (case parseJson raw of
        None \<Rightarrow> None
      | Some v \<Rightarrow>
          (case v of JNull \<Rightarrow> Some zeroClaims | JObj ms \<Rightarrow> setClaims zeroClaims ms | _ \<Rightarrow> None))"

section \<open>Tokens\<close>

definition computeHMAC :: "string \<Rightarrow> string \<Rightarrow> string" where
  "computeHMAC secret data = b64encode (hmacSHA256 secret data)"

definition GenerateStateToken ::
    "time \<Rightarrow> string \<Rightarrow> string \<Rightarrow> int \<Rightarrow> string \<Rightarrow> string res" where
  "GenerateStateToken now execID stateName attempt secret =
     (if length secret < 32
      then Err (Errorf [FL ''runner: token secret must be at least 32 bytes''])
      else
        (let claims = \<lparr>tc_ExecID = execID, tc_StateName = stateName, tc_Attempt = attempt,
                       tc_ExpiresAt = Unix (now + tokenTTL)\<rparr>;
             payload = marshalClaims claims;
             encoded = b64encode (map char_of payload);
             sig = computeHMAC secret encoded
         in Ok (encoded @ ''.'' @ sig)))"

text \<open>\<open>strings.SplitN (s, ".", 2)\<close>, when the separator is there.\<close>

definition splitDot :: "string \<Rightarrow> (string \<times> string) option" where
  "splitDot s =
     (if CHR ''.'' \<in> set s
      then Some (takeWhile (\<lambda>c. c \<noteq> CHR ''.'') s, tl (dropWhile (\<lambda>c. c \<noteq> CHR ''.'') s))
      else None)"

definition ValidateStateToken :: "time \<Rightarrow> string \<Rightarrow> string \<Rightarrow> TokenPayload res" where
  "ValidateStateToken now token secret =
     (case splitDot token of
        None \<Rightarrow> Err ErrInvalidToken
      | Some (encoded, sig) \<Rightarrow>
          (let expected = computeHMAC secret encoded in
           if sig \<noteq> expected then Err ErrInvalidToken
           else
             (case b64decode encoded of
                None \<Rightarrow> Err ErrInvalidToken
              | Some raw \<Rightarrow>
                  (case unmarshalClaims (asciiBytes raw) of
                     None \<Rightarrow> Err ErrInvalidToken
                   | Some claims \<Rightarrow>
                       if Unix now > tc_ExpiresAt claims then Err ErrInvalidToken
                       else Ok \<lparr>tp_ExecID = tc_ExecID claims, tp_State = tc_StateName claims,
                                tp_Attempt = tc_Attempt claims,
                                tp_ExpiresAt = timeFromUnix (tc_ExpiresAt claims)\<rparr>))))"

section \<open>Claims round trip\<close>

definition int64Range :: "int \<Rightarrow> bool" where
  "int64Range i \<longleftrightarrow> - (2 ^ 63) \<le> i \<and> i < 2 ^ 63"

definition validText :: "string \<Rightarrow> bool" where
  "validText s \<longleftrightarrow> validUtf8 (asciiBytes s)"

lemma validText_ascii: "list_all (\<lambda>c. (of_char c :: nat) < 0x80) s \<Longrightarrow> validText s"
  by (induction s) (simp_all add: validText_def asciiBytes_def validUtf8_ascii)

lemma char_of_asciiBytes [simp]: "map char_of (asciiBytes s) = s"
  by (simp add: asciiBytes_def map_idI)

lemma field_names:
  "plainName ''eid''" "plainName ''sn''" "plainName ''att''" "plainName ''exp''"
  "fieldOf [''eid'', ''sn'', ''att'', ''exp''] (asciiBytes ''eid'') = Some ''eid''"
  "fieldOf [''eid'', ''sn'', ''att'', ''exp''] (asciiBytes ''sn'') = Some ''sn''"
  "fieldOf [''eid'', ''sn'', ''att'', ''exp''] (asciiBytes ''att'') = Some ''att''"
  "fieldOf [''eid'', ''sn'', ''att'', ''exp''] (asciiBytes ''exp'') = Some ''exp''"
  by (simp_all add: plainName_def asciiBytes_def fieldOf_def)

lemma notNumeric_sep: "notNumeric (44 # s)" "notNumeric (125 # s)"
  by (simp_all add: notNumeric_def isDig_def)

lemma parse_claims:
  assumes "validText (tc_ExecID c)" and "validText (tc_StateName c)"
  shows "parseJson (marshalClaims c) =
    Some (JObj [(asciiBytes ''eid'', JStr (asciiBytes (tc_ExecID c))),
                (asciiBytes ''sn'', JStr (asciiBytes (tc_StateName c))),
                (asciiBytes ''att'', JNum (jsonInt (tc_Attempt c))),
                (asciiBytes ''exp'', JNum (jsonInt (tc_ExpiresAt c)))])"
proof -
  let ?ms = "[(asciiBytes ''eid'', JStr (asciiBytes (tc_ExecID c))),
                (asciiBytes ''sn'', JStr (asciiBytes (tc_StateName c))),
                (asciiBytes ''att'', JNum (jsonInt (tc_Attempt c))),
                (asciiBytes ''exp'', JNum (jsonInt (tc_ExpiresAt c)))]"
  let ?m4 = "jsonKey ''exp'' @ jsonInt (tc_ExpiresAt c) @ [125]"
  let ?m3 = "jsonKey ''att'' @ jsonInt (tc_Attempt c) @ 44 # ?m4"
  let ?m2 = "jsonKey ''sn'' @ jsonString (asciiBytes (tc_StateName c)) @ 44 # ?m3"
  let ?m1 = "jsonKey ''eid'' @ jsonString (asciiBytes (tc_ExecID c)) @ 44 # ?m2"
  note v = assms [unfolded validText_def]
  have m4: "parseMembers (Suc (Suc n)) d ?m4 = Some (drop 3 ?ms, [])" for n d
    by (subst parseMembers_key [OF field_names(4) parseValue_int [OF notNumeric_sep(2)]]) simp_all
  have m3: "parseMembers (Suc (Suc (Suc n))) d ?m3 = Some (drop 2 ?ms, [])" for n d
    using m4 by (subst parseMembers_key [OF field_names(3) parseValue_int [OF notNumeric_sep(1)]]) simp_all
  have m2: "parseMembers (Suc (Suc (Suc (Suc n)))) d ?m2 = Some (drop 1 ?ms, [])" for n d
    using m3 by (subst parseMembers_key [OF field_names(2) parseValue_string [OF v(2)]]) simp_all
  have m1: "parseMembers (Suc (Suc (Suc (Suc (Suc n))))) d ?m1 = Some (?ms, [])" for n d
    using m2 by (subst parseMembers_key [OF field_names(1) parseValue_string [OF v(1)]]) simp_all
  have doc: "marshalClaims c = 123 # ?m1" by (simp add: marshalClaims_def)
  obtain n where fuel: "2 * length (marshalClaims c) + 2 = Suc (Suc (Suc (Suc (Suc (Suc n)))))"
    by (rule that [of "2 * length ?m1 - 2"]) (simp add: doc jsonKey_def)
  have "parseValue (Suc (Suc (Suc (Suc (Suc (Suc n)))))) 0 (123 # ?m1) = Some (JObj ?ms, [])"
    using m1 [of n "Suc 0"]
    by (simp add: skipWs_cons isSpace_def maxNestingDepth_def jsonKey_def)
  then show ?thesis unfolding parseJson_def fuel by (simp add: doc skipWs_def)
qed

lemma unmarshal_marshal:
  assumes "validText (tc_ExecID c)" and "validText (tc_StateName c)"
    and "int64Range (tc_Attempt c)" and "int64Range (tc_ExpiresAt c)"
  shows "unmarshalClaims (marshalClaims c) = Some c"
  using assms(3,4)
  by (simp add: unmarshalClaims_def parse_claims [OF assms(1,2)] setClaim_def field_names setString_def
      setInt_def parseInt64_jsonInt int64Range_def zeroClaims_def)

section \<open>Bytes\<close>

lemma escapeAscii_byte: "b < 0x80 \<Longrightarrow> x \<in> set (escapeAscii b) \<Longrightarrow> x < 256"
  by (auto simp: escapeAscii_def hexByte_def split: if_splits)

lemma jsonBody_bytes: "\<forall>b \<in> set bs. b < 256 \<Longrightarrow> x \<in> set (jsonBody bs) \<Longrightarrow> x < 256"
proof (induction bs arbitrary: x rule: jsonBody.induct)
  case 1
  then show ?case by simp
next
  case (2 b bs)
  obtain r w where d: "decodeRune (b # bs) = (r, w)" by force
  have tk: "\<forall>y \<in> set (take w (b # bs)). y < 256" and dr: "\<forall>y \<in> set (drop w (b # bs)). y < 256"
    using 2(4) by (meson in_set_takeD, meson in_set_dropD)
  show ?case
  proof (cases "b < 0x80 \<or> badRune (b # bs)")
    case True
    then show ?thesis
      using 2(1,2,4,5) by (auto simp: jsonBody.simps(2) dest: escapeAscii_byte split: if_splits)
  next
    case False
    then have "x \<in> set (take w (b # bs)) \<or> x \<in> {92, 117, 50, 48, hexByte (r mod 16)} \<or>
        x \<in> set (jsonBody (drop w (b # bs)))"
      using 2(5) d by (auto simp: jsonBody.simps(2) split: if_splits)
    then show ?thesis using tk 2(3) [OF _ _ d [symmetric]] dr False d by (auto simp: hexByte_def)
  qed
qed

lemma asciiBytes_byte: "x \<in> set (asciiBytes s) \<Longrightarrow> x < 256"
  by (auto simp: asciiBytes_def)

lemma part_bytes:
  "list_all (\<lambda>x. x < 256) (jsonKey k)" "list_all (\<lambda>x. x < 256) (jsonInt i)"
  "list_all (\<lambda>x. x < 256) (jsonString (asciiBytes s))"
  using jsonBody_bytes [of "asciiBytes s"] asciiBytes_byte
  by (auto simp: jsonKey_def jsonInt_def jsonString_def list_all_iff)

lemma singleMember_bytes: "list_all (\<lambda>x. x < 256) (singleMember k (asciiBytes v))"
  by (simp add: singleMember_def part_bytes)

lemma marshalClaims_bytes: "list_all (\<lambda>x. x < 256) (marshalClaims c)"
  by (simp add: marshalClaims_def part_bytes)

lemma asciiBytes_char_of: "list_all (\<lambda>x. x < 256) bs \<Longrightarrow> asciiBytes (map char_of bs) = bs"
  by (simp add: asciiBytes_def map_idI list_all_iff)

lemma splitDot_append: "CHR ''.'' \<notin> set s \<Longrightarrow> splitDot (s @ ''.'' @ t) = Some (s, t)"
  by (induction s) (auto simp: splitDot_def)

lemma token_roundtrip:
  assumes "32 \<le> length secret" and "validText execID" and "validText stateName"
    and "int64Range attempt" and "int64Range (Unix (now + tokenTTL))"
    and "Unix now' \<le> Unix (now + tokenTTL)"
    and "GenerateStateToken now execID stateName attempt secret = Ok token"
  shows "ValidateStateToken now' token secret =
    Ok \<lparr>tp_ExecID = execID, tp_State = stateName, tp_Attempt = attempt,
        tp_ExpiresAt = timeFromUnix (Unix (now + tokenTTL))\<rparr>"
proof -
  let ?c = "\<lparr>tc_ExecID = execID, tc_StateName = stateName, tc_Attempt = attempt,
                       tc_ExpiresAt = Unix (now + tokenTTL)\<rparr>"
  let ?enc = "b64encode (map char_of (marshalClaims ?c))"
  have tok: "token = ?enc @ ''.'' @ computeHMAC secret ?enc"
    using assms(1,7) by (simp add: GenerateStateToken_def Let_def)
  have sp: "splitDot token = Some (?enc, computeHMAC secret ?enc)"
    unfolding tok by (rule splitDot_append [OF b64encode_no_dot])
  have um: "unmarshalClaims (asciiBytes (map char_of (marshalClaims ?c))) = Some ?c"
    unfolding asciiBytes_char_of [OF marshalClaims_bytes]
    using assms(2-5) by (intro unmarshal_marshal) simp_all
  have "ValidateStateToken now' token secret =
      (if Unix now' > tc_ExpiresAt ?c then Err ErrInvalidToken
       else Ok \<lparr>tp_ExecID = tc_ExecID ?c, tp_State = tc_StateName ?c,
                tp_Attempt = tc_Attempt ?c, tp_ExpiresAt = timeFromUnix (tc_ExpiresAt ?c)\<rparr>)"
    unfolding ValidateStateToken_def sp Let_def option.case prod.case b64decode_b64encode um by simp
  with assms(6) show ?thesis by simp
qed

lemma splitDot_Some:
  assumes "splitDot token = Some (a, b)"
  shows "token = a @ ''.'' @ b" and "CHR ''.'' \<notin> set a"
proof -
  from assms have dot: "CHR ''.'' \<in> set token"
    and a: "a = takeWhile (\<lambda>c. c \<noteq> CHR ''.'') token"
    and b: "b = tl (dropWhile (\<lambda>c. c \<noteq> CHR ''.'') token)"
    by (auto simp: splitDot_def split: if_splits)
  from dot have "dropWhile (\<lambda>c. c \<noteq> CHR ''.'') token \<noteq> []" by (simp add: dropWhile_eq_Nil_conv)
  from hd_dropWhile [OF this] this b
  have "dropWhile (\<lambda>c. c \<noteq> CHR ''.'') token = CHR ''.'' # b"
    by (cases "dropWhile (\<lambda>c. c \<noteq> CHR ''.'') token") auto
  with a show "token = a @ ''.'' @ b" by (metis append_Cons append_Nil takeWhile_dropWhile_id)
  show "CHR ''.'' \<notin> set a" by (auto simp: a dest: set_takeWhileD)
qed

lemma token_signature:
  assumes "ValidateStateToken now token secret = Ok p"
  obtains encoded where "token = encoded @ ''.'' @ computeHMAC secret encoded"
    "CHR ''.'' \<notin> set encoded"
proof -
  from assms obtain encoded where "splitDot token = Some (encoded, computeHMAC secret encoded)"
    by (auto simp: ValidateStateToken_def Let_def split: option.splits if_splits)
  from splitDot_Some [OF this] show ?thesis by (rule that)
qed

section \<open>Properties\<close>

text \<open>
  C31.  A generated token is accepted, with the claims it was generated for, until the second its 24
  hours end in, by any holder of the same secret.
\<close>

theorem StateToken_roundtrip:
  assumes "32 \<le> length secret" and "validText execID" and "validText stateName"
    and "int64Range attempt" and "int64Range (Unix (now + tokenTTL))"
    and "Unix now' \<le> Unix (now + tokenTTL)"
  shows "\<exists>token. GenerateStateToken now execID stateName attempt secret = Ok token \<and>
    ValidateStateToken now' token secret =
      Ok \<lparr>tp_ExecID = execID, tp_State = stateName, tp_Attempt = attempt,
          tp_ExpiresAt = timeFromUnix (Unix (now + tokenTTL))\<rparr>"
proof -
  obtain token where t: "GenerateStateToken now execID stateName attempt secret = Ok token"
    using assms(1) by (simp add: GenerateStateToken_def Let_def)
  with token_roundtrip [OF assms t] show ?thesis by blast
qed

theorem StateToken_roundtrip_witness:
  "\<exists>token. GenerateStateToken 0 ''e'' ''a'' 1 (replicate 32 CHR ''x'') = Ok token \<and>
     ValidateStateToken 5 token (replicate 32 CHR ''x'') =
       Ok \<lparr>tp_ExecID = ''e'', tp_State = ''a'', tp_Attempt = 1,
           tp_ExpiresAt = timeFromUnix (Unix (0 + tokenTTL))\<rparr>"
  by (rule StateToken_roundtrip)
    (simp_all add: validText_def asciiBytes_def validUtf8_ascii int64Range_def tokenTTL_def Hour_def
      Second_def Unix_def unixEpoch_def)

text \<open>
  C32.  A token is accepted only with the signature of its own payload under the secret, and never
  after its expiry: a token whose signature part differs from the MAC of its payload part is
  rejected, and so is one whose claims have expired.
\<close>

theorem StateToken_authentic:
  assumes "ValidateStateToken now token secret = Ok p"
  shows "\<exists>payload. token = payload @ ''.'' @ computeHMAC secret payload \<and> CHR ''.'' \<notin> set payload \<and>
    Unix now \<le> Unix (tp_ExpiresAt p)"
proof -
  from assms have "Unix now \<le> Unix (tp_ExpiresAt p)"
    by (auto simp: ValidateStateToken_def Let_def split: option.splits if_splits)
  with token_signature [OF assms] show ?thesis by blast
qed

theorem StateToken_authentic_witness:
  "\<exists>token payload. GenerateStateToken 0 ''e'' ''a'' 1 (replicate 32 CHR ''x'') = Ok token \<and>
     token = payload @ ''.'' @ computeHMAC (replicate 32 CHR ''x'') payload"
proof -
  let ?s = "replicate 32 CHR ''x''"
  obtain token where t: "GenerateStateToken 0 ''e'' ''a'' 1 ?s = Ok token"
    by (simp add: GenerateStateToken_def Let_def)
  have "ValidateStateToken 5 token ?s = Ok \<lparr>tp_ExecID = ''e'', tp_State = ''a'', tp_Attempt = 1,
      tp_ExpiresAt = timeFromUnix (Unix (0 + tokenTTL))\<rparr>"
    by (rule token_roundtrip [OF _ _ _ _ _ _ t])
      (simp_all add: validText_def asciiBytes_def validUtf8_ascii int64Range_def tokenTTL_def Hour_def
        Second_def Unix_def unixEpoch_def)
  from StateToken_authentic [OF this] t show ?thesis by blast
qed

end
