(* ===== verification/Runner_Server.thy ===== *)
theory Runner_Server
  imports Executor Token
begin

text \<open>
  internal/runner/server.go: the gRPC service that job containers call back.  Every call carries a
  state token; the claims of the token, not the request, say which state it is about.

  \<open>structpb\<close> is third-party code and a parameter: \<open>pb_NewStruct\<close> encodes a map (it refuses values
  it has no representation for), \<open>pb_AsMap\<close> decodes one.  The two are not inverse to each other (numbers
  come back as float64), and nothing is assumed of them.
\<close>

section \<open>Protocol buffer structs\<close>

type_synonym Struct = gmap

record Structpb =
  pb_NewStruct :: "gomap \<Rightarrow> Struct res"
  pb_AsMap :: "Struct \<Rightarrow> gmap"

definition plainStructpb :: Structpb where
  "plainStructpb = \<lparr>pb_NewStruct = (\<lambda>m. Ok (entries m)), pb_AsMap = (\<lambda>s. s)\<rparr>"

lemma plainStructpb_simps [simp]:
  "pb_NewStruct plainStructpb m = Ok (entries m)" "pb_AsMap plainStructpb s = s"
  by (simp_all add: plainStructpb_def)

section \<open>The service\<close>

record 'w RunnerServiceServer =
  rs_store :: "'w Store"
  rs_secret :: string

definition NewRunnerServiceServer :: "'w Store \<Rightarrow> string \<Rightarrow> 'w RunnerServiceServer" where
  "NewRunnerServiceServer st secret = \<lparr>rs_store = st, rs_secret = secret\<rparr>"

definition validateToken ::
    "'w Runtime \<Rightarrow> 'w RunnerServiceServer \<Rightarrow> string \<Rightarrow> 'w \<Rightarrow> TokenPayload res" where
  "validateToken rt s token w =
     (if token = '''' then Err (StatusErr ''Unauthenticated'' ''missing state token'')
      else
        (case ValidateStateToken (rt_Now rt w) token (rs_secret s) of
           Ok payload \<Rightarrow> Ok payload
         | Err err \<Rightarrow>
             Err (StatusErr ''Unauthenticated'' (Sprintf [FL ''invalid state token: '', FV err]))
         | Panic p \<Rightarrow> Panic p))"

text \<open>The loop that looks for the record of the state among the states of the execution.\<close>

fun stateInput :: "string \<Rightarrow> StateRecord list \<Rightarrow> gomap" where
  "stateInput state [] = None"
| "stateInput state (sr # srs) =
     (if sr_StateName sr = state then sr_Input sr else stateInput state srs)"

definition GetInput ::
    "'w Runtime \<Rightarrow> Structpb \<Rightarrow> 'w RunnerServiceServer \<Rightarrow> string \<Rightarrow> 'w \<Rightarrow> Struct res \<times> 'w" where
  "GetInput rt pb s token w =
     ifErr (validateToken rt s token w, w)
       (\<lambda>err w1. (Err err, w1))
       (\<lambda>payload w1.
          ifErr (st_GetExecution (rs_store s) (tp_ExecID payload) w1)
            (\<lambda>err w2.
               if err = ErrExecutionNotFound
               then (Err (StatusErr ''NotFound''
                      (Sprintf [FL ''execution '', FQ (tp_ExecID payload), FL '' not found''])), w2)
               else (Err (StatusErr ''Internal'' (Sprintf [FL ''get execution: '', FV err])), w2))
            (\<lambda>rec w2.
               (let (states, w3) = st_ListStates (rs_store s) (tp_ExecID payload) w2;
                    inputMap = (case states of Ok srs \<Rightarrow> stateInput (tp_State payload) srs | _ \<Rightarrow> None);
                    input = (case inputMap of None \<Rightarrow> er_Input rec | Some m \<Rightarrow> Some m)
                in ifErr (pb_NewStruct pb input, w3)
                     (\<lambda>err w4. (Err (StatusErr ''Internal'' (Sprintf [FL ''encode input: '', FV err])), w4))
                     (\<lambda>st w4. (Ok st, w4)))))"

definition CompleteState ::
    "'w Runtime \<Rightarrow> Structpb \<Rightarrow> 'w RunnerServiceServer \<Rightarrow> string \<Rightarrow> Struct option \<Rightarrow> 'w
     \<Rightarrow> unit res \<times> 'w" where
  "CompleteState rt pb s token reqOutput w =
     ifErr (validateToken rt s token w, w)
       (\<lambda>err w1. (Err err, w1))
       (\<lambda>payload w1.
          (let output = map_option (pb_AsMap pb) reqOutput in
           ifErr (st_CompleteState (rs_store s) (tp_ExecID payload) (tp_State payload) output w1)
             (\<lambda>err w2. (Err (StatusErr ''Internal'' (Sprintf [FL ''complete state: '', FV err])), w2))
             (\<lambda>_ w2. (Ok (), w2))))"

definition FailState ::
    "'w Runtime \<Rightarrow> 'w RunnerServiceServer \<Rightarrow> string \<Rightarrow> string \<Rightarrow> 'w \<Rightarrow> unit res \<times> 'w" where
  "FailState rt s token errorMessage w =
     ifErr (validateToken rt s token w, w)
       (\<lambda>err w1. (Err err, w1))
       (\<lambda>payload w1.
          ifErr (st_FailState (rs_store s) (tp_ExecID payload) (tp_State payload) errorMessage w1)
            (\<lambda>err w2. (Err (StatusErr ''Internal'' (Sprintf [FL ''fail state: '', FV err])), w2))
            (\<lambda>_ w2. (Ok (), w2)))"

end
