(* ===== verification/Gateway.thy ===== *)
theory Gateway
  imports Hub Wire_Format Local_Runner Runner_Server
begin

text \<open>
  internal/grpc (gateway.go, interceptors.go, token_auth.go): the public HTTP surface of the control
  plane.  An HTTP handler takes the request, the response headers set so far and the world, and
  gives the response and the world it leaves.  The services behind the REST routes act on the
  store; the code that protoc-gen-grpc-gateway generates between the two is a parameter of the
  multiplexer.

  \<open>go s.trigger (...)\<close> starts a goroutine: \<open>RunWorkflow\<close> gives back the call it starts.  A
  \<open>timestamppb.Timestamp\<close> is the time it stands for.
\<close>

section \<open>HTTP\<close>

record httpRequest =
  hq_Method :: string
  hq_Path :: string
  hq_Header :: "string \<Rightarrow> string"
  hq_Query :: "string \<Rightarrow> string"
  hq_Body :: string

record httpResponse =
  hx_Status :: int
  hx_Headers :: "(string \<times> string) list"
  hx_Body :: string

type_synonym headers = "(string \<times> string) list"
type_synonym 'w httpHandler = "httpRequest \<Rightarrow> headers \<Rightarrow> 'w \<Rightarrow> httpResponse \<times> 'w"

text \<open>\<open>http.Error\<close>.\<close>

definition httpError :: "string \<Rightarrow> int \<Rightarrow> headers \<Rightarrow> httpResponse" where
  "httpError msg code hs =
     \<lparr>hx_Status = code,
      hx_Headers = hs @ [(''Content-Type'', ''text/plain; charset=utf-8''),
                         (''X-Content-Type-Options'', ''nosniff'')],
      hx_Body = msg @ [newlineCh]\<rparr>"

definition okText :: "headers \<Rightarrow> httpResponse" where
  "okText hs = \<lparr>hx_Status = 200, hx_Headers = hs, hx_Body = ''ok''\<rparr>"

section \<open>Authentication\<close>

definition bearer :: string where
  "bearer = ''Bearer ''"

definition unauthorizedBody :: string where
  "unauthorizedBody = Sprintf [FL ''{'', FQ ''error'', FL '':'', FQ ''unauthorized'', FL ''}'']"

text \<open>The key a request presents: the bearer token of its header, else its query parameter.\<close>

definition presentedKey :: "httpRequest \<Rightarrow> string" where
  "presentedKey r =
     (let auth = hq_Header r ''Authorization'' in
      if length auth > 7 \<and> take 7 auth = bearer then drop 7 auth
      else if hq_Query r ''token'' \<noteq> '''' then hq_Query r ''token''
      else '''')"

definition authMiddleware :: "string \<Rightarrow> 'w httpHandler \<Rightarrow> 'w httpHandler" where
  "authMiddleware apiKey nxt r hs w =
     (if apiKey = '''' then nxt r hs w
      else if presentedKey r \<noteq> apiKey then (httpError unauthorizedBody 401 hs, w)
      else nxt r hs w)"

definition secureHeaders :: "'w httpHandler \<Rightarrow> 'w httpHandler" where
  "secureHeaders nxt r hs w =
     nxt r (hs @ [(''X-Content-Type-Options'', ''nosniff''), (''X-Frame-Options'', ''DENY'')]) w"

section \<open>The multiplexer\<close>

text \<open>
  The patterns registered with \<open>http.ServeMux\<close>, for requests with a canonical path: a pattern with
  the method GET also matches HEAD, and the most specific matching pattern is chosen.
\<close>

datatype route = Healthz | Readyz | AuthStatus | EventSocket | LogSocket | RestAPI

definition routeOf :: "httpRequest \<Rightarrow> route" where
  "routeOf r =
     (let get = (hq_Method r = ''GET'' \<or> hq_Method r = ''HEAD''); p = hq_Path r in
      if get \<and> p = ''/healthz'' then Healthz
      else if get \<and> p = ''/readyz'' then Readyz
      else if get \<and> p = ''/api/v1/auth/status'' then AuthStatus
      else if p = ''/api/v1/ws'' then EventSocket
      else if p = ''/api/v1/ws/logs'' then LogSocket
      else RestAPI)"

record 'w gatewayHandlers =
  gh_ServeWS :: "'w httpHandler"
  gh_ServeLogs :: "'w httpHandler"
  gh_Rest :: "'w httpHandler"

definition authStatusBody :: "string \<Rightarrow> string" where
  "authStatusBody apiKey =
     Sprintf [FL ''{'', FQ ''auth_enabled'', FL (if apiKey = '''' then '':false}'' else '':true}'')]"

definition NewGatewayMux :: "string \<Rightarrow> ('w \<Rightarrow> bool) \<Rightarrow> 'w gatewayHandlers \<Rightarrow> 'w httpHandler" where
  "NewGatewayMux apiKey ready gh r hs w =
     (case routeOf r of
        Healthz \<Rightarrow> (okText hs, w)
      | Readyz \<Rightarrow> (if \<not> ready w then httpError ''not ready'' 503 hs else okText hs, w)
      | AuthStatus \<Rightarrow>
          (\<lparr>hx_Status = 200, hx_Headers = hs @ [(''Content-Type'', ''application/json'')],
            hx_Body = authStatusBody apiKey\<rparr>, w)
      | EventSocket \<Rightarrow> authMiddleware apiKey (gh_ServeWS gh) r hs w
      | LogSocket \<Rightarrow> authMiddleware apiKey (gh_ServeLogs gh) r hs w
      | RestAPI \<Rightarrow> authMiddleware apiKey (secureHeaders (gh_Rest gh)) r hs w)"

section \<open>gRPC interceptors\<close>

text \<open>
  A unary handler; \<open>authorization\<close> is \<open>md.Get ("authorization")\<close> of the incoming metadata, and \<open>None\<close>
  when there is none.
\<close>

type_synonym ('a, 'w) unaryHandler = "'w \<Rightarrow> 'a res \<times> 'w"

definition extractBearerToken :: "string list option \<Rightarrow> string" where
  "extractBearerToken authorization =
     (case authorization of
        None \<Rightarrow> ''''
      | Some [] \<Rightarrow> ''''
      | Some (v # _) \<Rightarrow> if length v > length bearer \<and> take (length bearer) v = bearer
                      then drop (length bearer) v else '''')"

definition ValidateBearerToken :: "string \<Rightarrow> string \<Rightarrow> unit res" where
  "ValidateBearerToken provided expected =
     (if provided \<noteq> expected then Err (Errorf [FL ''grpc: invalid bearer token'']) else Ok ())"

definition UnaryAuthInterceptor ::
    "string \<Rightarrow> string list option \<Rightarrow> ('a, 'w) unaryHandler \<Rightarrow> ('a, 'w) unaryHandler" where
  "UnaryAuthInterceptor apiKey authorization handler w =
     (if apiKey = '''' then handler w
      else if extractBearerToken authorization \<noteq> apiKey
      then (Err (StatusErr ''PermissionDenied'' ''invalid or missing API key''), w)
      else handler w)"

text \<open>\<open>status.Code\<close>; \<open>showDur\<close> is the text of a duration.\<close>

definition statusCode :: "goerr \<Rightarrow> string" where
  "statusCode err = (case err of StatusErr code _ \<Rightarrow> code | _ \<Rightarrow> ''Unknown'')"

definition UnaryLoggingInterceptor ::
    "'w Runtime \<Rightarrow> (duration \<Rightarrow> string) \<Rightarrow> string \<Rightarrow> ('a, 'w) unaryHandler \<Rightarrow> ('a, 'w) unaryHandler" where
  "UnaryLoggingInterceptor rt showDur fullMethod handler w =
     (let start = rt_Now rt w; (res, w1) = handler w in
      case res of
        Panic p \<Rightarrow> (Panic p, w1)
      | _ \<Rightarrow>
          (let code = (case res of Err err \<Rightarrow> statusCode err | _ \<Rightarrow> ''OK'')
           in (res, rt_Log rt (Sprintf [FL ''grpc: method='', FS fullMethod, FL '' duration='',
                FS (showDur (rt_Now rt w1 - start)), FL '' code='', FS code]) w1)))"

text \<open>\<open>stack\<close> is the text of \<open>debug.Stack ()\<close>.\<close>

definition UnaryRecoveryInterceptor ::
    "'w Runtime \<Rightarrow> string \<Rightarrow> string \<Rightarrow> ('a, 'w) unaryHandler \<Rightarrow> ('a, 'w) unaryHandler" where
  "UnaryRecoveryInterceptor rt stack fullMethod handler w =
     (case handler w of
        (Panic p, w1) \<Rightarrow>
          (Err (StatusErr ''Internal'' ''internal server error''),
           rt_Log rt (Sprintf [FL ''grpc: PANIC in '', FS fullMethod, FL '': '', FS p,
             FL [newlineCh], FS stack]) w1)
      | (res, w1) \<Rightarrow> (res, w1))"

text \<open>The chain of the runner server: \<open>ChainUnaryInterceptor (recovery, logging)\<close>.\<close>

definition runnerChain ::
    "'w Runtime \<Rightarrow> (duration \<Rightarrow> string) \<Rightarrow> string \<Rightarrow> string \<Rightarrow> ('a, 'w) unaryHandler
     \<Rightarrow> ('a, 'w) unaryHandler" where
  "runnerChain rt showDur stack fullMethod handler =
     UnaryRecoveryInterceptor rt stack fullMethod
       (UnaryLoggingInterceptor rt showDur fullMethod handler)"

section \<open>Messages\<close>

datatype protoStatus =
    STATUS_UNSPECIFIED | STATUS_PENDING | STATUS_RUNNING | STATUS_COMPLETED | STATUS_FAILED

datatype protoServiceStatus =
    SERVICE_STATUS_UNSPECIFIED | SERVICE_STATUS_PENDING | SERVICE_STATUS_RUNNING
  | SERVICE_STATUS_FAILED | SERVICE_STATUS_STOPPED

record protoExecution =
  pe_Id :: string
  pe_Workflow :: string
  pe_Status :: protoStatus
  pe_CreatedAt :: time
  pe_UpdatedAt :: time

record protoStateRecord =
  pt_ExecutionId :: string
  pt_StateName :: string
  pt_Status :: protoStatus
  pt_Error :: string
  pt_Attempt :: int
  pt_CreatedAt :: time
  pt_UpdatedAt :: time

record protoService =
  pv_Name :: string
  pv_Mode :: string
  pv_Port :: int
  pv_MinScale :: int
  pv_MaxScale :: int
  pv_IngressHost :: string
  pv_ClusterIp :: string
  pv_Status :: protoServiceStatus
  pv_CreatedAt :: time
  pv_UpdatedAt :: time

definition statusToProto :: "Status \<Rightarrow> protoStatus" where
  "statusToProto s =
     (if s = StatusPending then STATUS_PENDING
      else if s = StatusRunning then STATUS_RUNNING
      else if s = StatusCompleted then STATUS_COMPLETED
      else if s = StatusFailed then STATUS_FAILED
      else STATUS_UNSPECIFIED)"

definition execRecordToProto :: "ExecutionRecord \<Rightarrow> protoExecution" where
  "execRecordToProto r =
     \<lparr>pe_Id = er_ID r, pe_Workflow = er_Workflow r, pe_Status = statusToProto (er_Status r),
      pe_CreatedAt = er_CreatedAt r, pe_UpdatedAt = er_UpdatedAt r\<rparr>"

definition stateRecordToProto :: "StateRecord \<Rightarrow> protoStateRecord" where
  "stateRecordToProto r =
     \<lparr>pt_ExecutionId = sr_ExecutionID r, pt_StateName = sr_StateName r,
      pt_Status = statusToProto (sr_Status r), pt_Error = sr_Error r,
      pt_Attempt = int32 (sr_Attempt r), pt_CreatedAt = sr_CreatedAt r,
      pt_UpdatedAt = sr_UpdatedAt r\<rparr>"

definition serviceStatusToProto :: "ServiceStatus \<Rightarrow> protoServiceStatus" where
  "serviceStatusToProto s =
     (if s = ServiceStatusPending then SERVICE_STATUS_PENDING
      else if s = ServiceStatusRunning then SERVICE_STATUS_RUNNING
      else if s = ServiceStatusFailed then SERVICE_STATUS_FAILED
      else if s = ServiceStatusStopped then SERVICE_STATUS_STOPPED
      else SERVICE_STATUS_UNSPECIFIED)"

definition svcRecordToProto :: "ServiceRecord \<Rightarrow> protoService" where
  "svcRecordToProto r =
     \<lparr>pv_Name = svc_Name r, pv_Mode = (if svc_Mode r = Lambda then ''lambda'' else ''deployment''),
      pv_Port = int32 (svc_Port r), pv_MinScale = int32 (svc_MinScale r),
      pv_MaxScale = int32 (svc_MaxScale r), pv_IngressHost = svc_IngressHost r,
      pv_ClusterIp = svc_ClusterIP r, pv_Status = serviceStatusToProto (svc_Status r),
      pv_CreatedAt = svc_CreatedAt r, pv_UpdatedAt = svc_UpdatedAt r\<rparr>"

definition notFound :: "string \<Rightarrow> string \<Rightarrow> goerr" where
  "notFound kind name = StatusErr ''NotFound'' (Sprintf [FL kind, FL '' '', FQ name, FL '' not found''])"

definition internalErr :: "string \<Rightarrow> goerr \<Rightarrow> goerr" where
  "internalErr what err = StatusErr ''Internal'' (Sprintf [FL what, FL '': '', FV err])"

section \<open>Workflows\<close>

type_synonym workflows = "string \<rightharpoonup> protoGraph"

definition RegisterWorkflow :: "protoGraph option \<Rightarrow> workflows \<Rightarrow> string res \<times> workflows" where
  "RegisterWorkflow req wfs =
     (case req of
        None \<Rightarrow> (Err (StatusErr ''InvalidArgument'' ''workflow name is required''), wfs)
      | Some g \<Rightarrow>
          if pg_Name g = ''''
          then (Err (StatusErr ''InvalidArgument'' ''workflow name is required''), wfs)
          else (Ok (pg_Name g), wfs(pg_Name g \<mapsto> g)))"

definition GetWorkflow :: "string \<Rightarrow> workflows \<Rightarrow> protoGraph res" where
  "GetWorkflow name wfs =
     (case wfs name of None \<Rightarrow> Err (notFound ''workflow'' name) | Some g \<Rightarrow> Ok g)"

definition ListWorkflows :: "string list \<Rightarrow> workflows \<Rightarrow> protoGraph list res" where
  "ListWorkflows ord wfs = Ok (List.map_filter wfs ord)"

text \<open>\<open>rnd\<close> fills the 16-byte buffer of \<open>genUUID\<close> from \<open>crypto/rand\<close>.\<close>

definition genUUID :: "8 word list res \<Rightarrow> string res" where
  "genUUID rnd =
     (case rnd of
        Err e \<Rightarrow> Err e
      | Panic p \<Rightarrow> Panic p
      | Ok b0 \<Rightarrow>
          (let b = uuidBits b0 in
           Ok (hexBytes (take 4 b) @ ''-'' @ hexBytes (take 2 (drop 4 b)) @ ''-'' @
               hexBytes (take 2 (drop 6 b)) @ ''-'' @ hexBytes (take 2 (drop 8 b)) @ ''-'' @
               hexBytes (drop 10 b))))"

lemma genUUID_newUUID: "genUUID = newUUID"
  by (simp add: genUUID_def newUUID_def fun_eq_iff)

text \<open>The call of \<open>trigger\<close> that \<open>RunWorkflow\<close> starts in a goroutine of its own.\<close>

type_synonym triggerCall = "string \<times> protoGraph \<times> gomap"

definition runRecord :: "string \<Rightarrow> string \<Rightarrow> gomap \<Rightarrow> ExecutionRecord" where
  "runRecord execID name input =
     \<lparr>er_ID = execID, er_Workflow = name, er_Status = '''', er_Input = input,
      er_CreatedAt = zeroTime, er_UpdatedAt = zeroTime\<rparr>"

definition RunWorkflow ::
    "Structpb \<Rightarrow> 'w Store \<Rightarrow> 8 word list res \<Rightarrow> string \<Rightarrow> Struct option \<Rightarrow> workflows \<Rightarrow> 'w
     \<Rightarrow> (string \<times> triggerCall) res \<times> 'w" where
  "RunWorkflow pb st rnd name reqInput wfs w =
     (case wfs name of
        None \<Rightarrow> (Err (notFound ''workflow'' name), w)
      | Some graph \<Rightarrow>
          (let input = map_option (pb_AsMap pb) reqInput in
           ifErr (genUUID rnd, w)
             (\<lambda>_ w1. (Err (StatusErr ''Internal'' ''failed to generate execution ID''), w1))
             (\<lambda>execID w1.
                ifErr (st_CreateExecution st (runRecord execID name input) w1)
                  (\<lambda>err w2. (Err (internalErr ''create execution'' err), w2))
                  (\<lambda>_ w2. (Ok (execID, execID, graph, input), w2)))))"

section \<open>Executions\<close>

definition gw_ListExecutions ::
    "'w Store \<Rightarrow> string \<Rightarrow> string \<Rightarrow> int \<Rightarrow> int \<Rightarrow> 'w \<Rightarrow> protoExecution list res \<times> 'w" where
  "gw_ListExecutions st workflow status reqLimit reqOffset w =
     (let limit = (if reqLimit = 0 then 50 else reqLimit) in
      ifErr (st_ListExecutions st \<lparr>ef_Workflow = workflow, ef_Status = status, ef_Limit = limit,
                                   ef_Offset = reqOffset\<rparr> w)
        (\<lambda>err w1. (Err (internalErr ''list executions'' err), w1))
        (\<lambda>recs w1. (Ok (map execRecordToProto recs), w1)))"

definition gw_GetExecution :: "'w Store \<Rightarrow> string \<Rightarrow> 'w \<Rightarrow> protoExecution res \<times> 'w" where
  "gw_GetExecution st execID w =
     ifErr (st_GetExecution st execID w)
       (\<lambda>err w1. (Err (if err = ErrExecutionNotFound then notFound ''execution'' execID
                       else internalErr ''get execution'' err), w1))
       (\<lambda>rec w1. (Ok (execRecordToProto rec), w1))"

definition listStatesOf :: "'w Store \<Rightarrow> string \<Rightarrow> 'w \<Rightarrow> protoStateRecord list res \<times> 'w" where
  "listStatesOf st execID w =
     ifErr (st_ListStates st execID w)
       (\<lambda>err w1. (Err (internalErr ''list states'' err), w1))
       (\<lambda>states w1. (Ok (map stateRecordToProto states), w1))"

definition ListExecutionStates :: "'w Store \<Rightarrow> string \<Rightarrow> 'w \<Rightarrow> protoStateRecord list res \<times> 'w" where
  "ListExecutionStates st execID w =
     ifErr (st_GetExecution st execID w)
       (\<lambda>err w1. if err = ErrExecutionNotFound then (Err (notFound ''execution'' execID), w1)
                 else listStatesOf st execID w1)
       (\<lambda>_ w1. listStatesOf st execID w1)"

section \<open>Services\<close>

record registerServiceRequest =
  rq_Name :: string
  rq_Mode :: string
  rq_Port :: int
  rq_MinScale :: int
  rq_MaxScale :: int
  rq_IngressHost :: string
  rq_TimeoutSeconds :: int

definition serviceRecordOf :: "registerServiceRequest \<Rightarrow> ServiceRecord" where
  "serviceRecordOf req =
     \<lparr>svc_Name = rq_Name req,
      svc_Mode = (if rq_Mode req = ''lambda'' then Lambda else Deployment),
      svc_Port = rq_Port req, svc_MinScale = rq_MinScale req, svc_MaxScale = rq_MaxScale req,
      svc_IngressHost = rq_IngressHost req, svc_Timeout = int64 (rq_TimeoutSeconds req * Second),
      svc_Status = '''', svc_ClusterIP = '''', svc_CreatedAt = zeroTime, svc_UpdatedAt = zeroTime\<rparr>"

definition RegisterService :: "'w Store \<Rightarrow> registerServiceRequest \<Rightarrow> 'w \<Rightarrow> string res \<times> 'w" where
  "RegisterService st req w =
     (if rq_Name req = '''' then (Err (StatusErr ''InvalidArgument'' ''service name is required''), w)
      else
        ifErr (st_CreateService st (serviceRecordOf req) w)
          (\<lambda>err w1.
             (Err (if err = ErrDuplicateServiceName
                   then StatusErr ''AlreadyExists''
                          (Sprintf [FL ''service '', FQ (rq_Name req), FL '' already registered''])
                   else internalErr ''create service'' err), w1))
          (\<lambda>_ w1. (Ok (rq_Name req), w1)))"

definition gw_GetService :: "'w Store \<Rightarrow> string \<Rightarrow> 'w \<Rightarrow> protoService res \<times> 'w" where
  "gw_GetService st name w =
     ifErr (st_GetService st name w)
       (\<lambda>err w1. (Err (if err = ErrServiceNotFound then notFound ''service'' name
                       else internalErr ''get service'' err), w1))
       (\<lambda>rec w1. (Ok (svcRecordToProto rec), w1))"

definition gw_ListServices :: "'w Store \<Rightarrow> 'w \<Rightarrow> protoService list res \<times> 'w" where
  "gw_ListServices st w =
     ifErr (st_ListServices st w)
       (\<lambda>err w1. (Err (internalErr ''list services'' err), w1))
       (\<lambda>recs w1. (Ok (map svcRecordToProto recs), w1))"

definition gw_DeleteService :: "'w Store \<Rightarrow> string \<Rightarrow> 'w \<Rightarrow> unit res \<times> 'w" where
  "gw_DeleteService st name w =
     ifErr (st_DeleteService st name w)
       (\<lambda>err w1. (Err (if err = ErrServiceNotFound then notFound ''service'' name
                       else internalErr ''delete service'' err), w1))
       (\<lambda>_ w1. (Ok (), w1))"

section \<open>Telemetry\<close>

text \<open>The row messages have the fields of the rows; a status code is widened to 32 bits.\<close>

definition eventToProto :: "EventRow \<Rightarrow> EventRow" where
  "eventToProto r =
     \<lparr>vr_EventID = vr_EventID r, vr_ExecutionID = vr_ExecutionID r, vr_StateName = vr_StateName r,
      vr_FromStatus = vr_FromStatus r, vr_ToStatus = vr_ToStatus r, vr_Error = vr_Error r,
      vr_OccurredAt = vr_OccurredAt r\<rparr>"

definition metricToProto :: "MetricRow \<Rightarrow> MetricRow" where
  "metricToProto r =
     \<lparr>mr_MetricID = mr_MetricID r, mr_ServiceName = mr_ServiceName r,
      mr_InvocationID = mr_InvocationID r, mr_DurationMs = mr_DurationMs r,
      mr_StatusCode = mr_StatusCode r mod 2 ^ 32, mr_Error = mr_Error r,
      mr_OccurredAt = mr_OccurredAt r\<rparr>"

definition logToProto :: "LogRow \<Rightarrow> LogRow" where
  "logToProto r =
     \<lparr>lr_LogID = lr_LogID r, lr_ExecutionID = lr_ExecutionID r, lr_ServiceName = lr_ServiceName r,
      lr_StateName = lr_StateName r, lr_Level = lr_Level r, lr_Message = lr_Message r,
      lr_OccurredAt = lr_OccurredAt r\<rparr>"

definition ListExecutionEvents ::
    "'w ClickHouse option \<Rightarrow> string \<Rightarrow> time option \<Rightarrow> int \<Rightarrow> 'w \<Rightarrow> EventRow list res \<times> 'w" where
  "ListExecutionEvents ch execID since limit w =
     (case ch of
        None \<Rightarrow> (Ok [], w)
      | Some c \<Rightarrow>
          ifErr (QueryExecutionEvents c execID since limit w, w)
            (\<lambda>err w1. (Err (internalErr ''query events'' err), w1))
            (\<lambda>rows w1. (Ok (map eventToProto rows), w1)))"

definition ListServiceMetrics ::
    "'w ClickHouse option \<Rightarrow> string \<Rightarrow> time option \<Rightarrow> time option \<Rightarrow> int \<Rightarrow> 'w
     \<Rightarrow> MetricRow list res \<times> 'w" where
  "ListServiceMetrics ch serviceName since until limit w =
     (case ch of
        None \<Rightarrow> (Ok [], w)
      | Some c \<Rightarrow>
          ifErr (QueryServiceMetrics c serviceName since until limit w, w)
            (\<lambda>err w1. (Err (internalErr ''query metrics'' err), w1))
            (\<lambda>rows w1. (Ok (map metricToProto rows), w1)))"

definition ListLogs ::
    "'w ClickHouse option \<Rightarrow> LogFilter \<Rightarrow> 'w \<Rightarrow> (LogRow list \<times> int) res \<times> 'w" where
  "ListLogs ch f w =
     (case ch of
        None \<Rightarrow> (Ok ([], 0), w)
      | Some c \<Rightarrow>
          ifErr (QueryLogs c f w, w)
            (\<lambda>err w1. (Err (internalErr ''query logs'' err), w1))
            (\<lambda>(rows, cnt) w1. (Ok (map logToProto rows, int32 cnt), w1)))"

section \<open>Access requires the key\<close>

definition exempt :: "httpRequest \<Rightarrow> bool" where
  "exempt r \<longleftrightarrow> (hq_Method r = ''GET'' \<or> hq_Method r = ''HEAD'') \<and>
     hq_Path r \<in> {''/healthz'', ''/readyz'', ''/api/v1/auth/status''}"

lemma exempt_route: "exempt r \<longleftrightarrow> routeOf r \<in> {Healthz, Readyz, AuthStatus}"
  by (auto simp: exempt_def routeOf_def Let_def)

lemma presentedKey_cases:
  assumes "presentedKey r = k" and "k \<noteq> ''''"
  shows "hq_Header r ''Authorization'' = bearer @ k \<or> hq_Query r ''token'' = k"
  using assms by (auto simp: presentedKey_def Let_def split: if_splits) (metis append_take_drop_id)

lemma presentedKey_header:
  assumes "hq_Header r ''Authorization'' = bearer @ k" and "k \<noteq> ''''"
  shows "presentedKey r = k"
  using assms by (simp add: presentedKey_def bearer_def)

text \<open>
  C5.  With an API key configured, nothing behind the gateway can influence the response to a
  request or the state of the control plane, unless the request is one of the three public probes
  or carries the key as its bearer token or in its query; a request with the right bearer token
  reaches the handler of its route.
\<close>

theorem gateway_requires_key:
  assumes "apiKey \<noteq> ''''"
  shows "(NewGatewayMux apiKey ready gh r hs w \<noteq> NewGatewayMux apiKey ready gh' r hs w \<or>
          snd (NewGatewayMux apiKey ready gh r hs w) \<noteq> w \<longrightarrow>
            \<not> exempt r \<and>
            (hq_Header r ''Authorization'' = bearer @ apiKey \<or> hq_Query r ''token'' = apiKey)) \<and>
         (hq_Header r ''Authorization'' = bearer @ apiKey \<longrightarrow> routeOf r = RestAPI \<longrightarrow>
            NewGatewayMux apiKey ready gh r hs w = secureHeaders (gh_Rest gh) r hs w)"
proof (intro conjI impI)
  assume "NewGatewayMux apiKey ready gh r hs w \<noteq> NewGatewayMux apiKey ready gh' r hs w \<or>
    snd (NewGatewayMux apiKey ready gh r hs w) \<noteq> w"
  then have "\<not> exempt r" and key: "presentedKey r = apiKey"
    using assms by (auto simp: exempt_route NewGatewayMux_def authMiddleware_def split: route.splits if_splits)
  then show "\<not> exempt r"
    and "hq_Header r ''Authorization'' = bearer @ apiKey \<or> hq_Query r ''token'' = apiKey"
    using presentedKey_cases [OF key assms] by blast+
next
  assume "hq_Header r ''Authorization'' = bearer @ apiKey" and "routeOf r = RestAPI"
  then show "NewGatewayMux apiKey ready gh r hs w = secureHeaders (gh_Rest gh) r hs w"
    using presentedKey_header assms by (simp add: NewGatewayMux_def authMiddleware_def)
qed

definition exampleRequest :: "string \<Rightarrow> httpRequest" where
  "exampleRequest key =
     \<lparr>hq_Method = ''POST'', hq_Path = ''/api/v1/workflows'',
      hq_Header = (\<lambda>n. if n = ''Authorization'' then bearer @ key else ''''), hq_Query = (\<lambda>_. ''''), hq_Body = ''''\<rparr>"

definition countingHandlers :: "nat gatewayHandlers" where
  "countingHandlers =
     (let count = (\<lambda>r hs w. (okText hs, Suc w))
      in \<lparr>gh_ServeWS = count, gh_ServeLogs = count, gh_Rest = count\<rparr>)"

theorem gateway_requires_key_witness:
  "snd (NewGatewayMux ''key'' (\<lambda>_. True) countingHandlers (exampleRequest ''key'') [] 0) = 1 \<and>
   snd (NewGatewayMux ''key'' (\<lambda>_. True) countingHandlers (exampleRequest ''guess'') [] 0) = 0"
proof -
  have "NewGatewayMux ''key'' (\<lambda>_. True) countingHandlers (exampleRequest ''key'') [] 0 =
      secureHeaders (gh_Rest countingHandlers) (exampleRequest ''key'') [] 0"
    using gateway_requires_key [of "''key''" "\<lambda>_. True" countingHandlers "exampleRequest ''key''" "[]" 0]
    by (simp add: exampleRequest_def routeOf_def)
  moreover have "snd (NewGatewayMux ''key'' (\<lambda>_. True) countingHandlers (exampleRequest ''guess'') [] 0) = 0"
    using gateway_requires_key [of "''key''" "\<lambda>_. True" countingHandlers "exampleRequest ''guess''" "[]" 0]
    by (auto simp: exampleRequest_def)
  ultimately show ?thesis by (simp add: secureHeaders_def countingHandlers_def Let_def)
qed

end
