(* ===== verification/K8s_Executor.thy ===== *)
theory K8s_Executor
  imports Telemetry Runner_Server
begin

text \<open>
  The two ways a state leaves the process.  internal/engine/k8s_executor.go runs a state as a
  Kubernetes Job: \<open>buildHandler\<close> is the handler that \<open>K8sExecutor.Run\<close> gives to the engine's
  executor.  internal/controller/service_dispatcher.go invokes a registered service: over gRPC for
  Deployment-mode services, as a Job for Lambda-mode ones.

  gRPC is a parameter of the dispatcher: creating a client connection and the \<open>Invoke\<close> call.
\<close>

section \<open>The Kubernetes executor\<close>

record 'w K8sExecutor =
  kx_Store :: "'w Store"
  kx_K8s :: "'w Client"
  kx_Image :: string
  kx_RunnerEndpoint :: string
  kx_RunnerTokenSecret :: string
  kx_Dispatcher :: "(string \<Rightarrow> string \<Rightarrow> string \<Rightarrow> gomap \<Rightarrow> 'w \<Rightarrow> gomap res \<times> 'w) option"
  kx_Telemetry :: "'w transition_hook option"
  kx_LogWriter :: "'w log_writer option"
  kx_Notify :: "'w transition_hook option"

definition deleteJobBestEffort :: "'w Runtime \<Rightarrow> 'w K8sExecutor \<Rightarrow> string \<Rightarrow> 'w \<Rightarrow> 'w" where
  "deleteJobBestEffort rt e name w =
     (case DeleteJob (kx_K8s e) name w of
        (Err err, w1) \<Rightarrow>
          rt_Log rt (Sprintf [FL ''k8s_executor: delete job '', FQ name, FL '' (best-effort): '', FV err]) w1
      | (_, w1) \<Rightarrow> w1)"

text \<open>The pair of hook calls that the handler makes at each transition.\<close>

definition jobTransition ::
    "'w K8sExecutor \<Rightarrow> string \<Rightarrow> string \<Rightarrow> Status \<Rightarrow> Status \<Rightarrow> string \<Rightarrow> 'w \<Rightarrow> 'w" where
  "jobTransition e execID stateName from to msg w =
     (let w1 = (case kx_Telemetry e of None \<Rightarrow> w | Some f \<Rightarrow> f execID stateName from to msg w) in
      case kx_Notify e of None \<Rightarrow> w1 | Some f \<Rightarrow> f execID stateName from to msg w1)"

definition stateJobSpec :: "'w K8sExecutor \<Rightarrow> string \<Rightarrow> string \<Rightarrow> string \<Rightarrow> string \<Rightarrow> JobSpec" where
  "stateJobSpec e execID stateName name tok =
     \<lparr>js_Name = name, js_Image = kx_Image e, js_Args = [''--state='' @ stateName],
      js_Env = [\<lparr>ev_Name = ''KFLOW_EXECUTION_ID'', ev_Value = execID\<rparr>,
                \<lparr>ev_Name = ''KFLOW_STATE_TOKEN'', ev_Value = tok\<rparr>,
                \<lparr>ev_Name = ''KFLOW_GRPC_ENDPOINT'', ev_Value = kx_RunnerEndpoint e\<rparr>],
      js_Namespace = ''''\<rparr>"

text \<open>The part of the handler after the wait has returned a result.\<close>

definition jobFinished ::
    "'w Runtime \<Rightarrow> 'w K8sExecutor \<Rightarrow> string \<Rightarrow> string \<Rightarrow> string \<Rightarrow> JobResult \<Rightarrow> 'w \<Rightarrow> gomap res \<times> 'w" where
  "jobFinished rt e execID stateName name result w =
     (let w1 = StreamJobLogs rt (cl_clientset (kx_K8s e)) (cl_namespace (kx_K8s e)) name execID
                 stateName (kx_LogWriter e) w in
      if jr_Failed result then
        (let w2 = rt_Log rt (Sprintf [FL ''k8s_executor: ['', FS execID, FL ''] job '', FQ name,
                    FL '' failed: '', FS (jr_Message result)]) w1;
             w3 = deleteJobBestEffort rt e name w2;
             w4 = jobTransition e execID stateName StatusRunning StatusFailed (jr_Message result) w3
         in (Err (Errorf [FL ''k8s_executor: job for '', FQ stateName, FL '' failed: '',
                          FS (jr_Message result)]), w4))
      else
        (let w2 = rt_Log rt (Sprintf [FL ''k8s_executor: ['', FS execID, FL ''] job '', FQ name,
                    FL '' succeeded'']) w1 in
         ifErr (st_GetStateOutput (kx_Store e) execID stateName w2)
           (\<lambda>err w3.
              (Err (Errorf [FL ''k8s_executor: get output for '', FQ stateName, FL '': '', FW err]),
               deleteJobBestEffort rt e name w3))
           (\<lambda>output w3.
              (let w4 = deleteJobBestEffort rt e name w3
               in (Ok output,
                   jobTransition e execID stateName StatusRunning StatusCompleted '''' w4)))))"

definition buildHandler ::
    "'w Runtime \<Rightarrow> unicode_table \<Rightarrow> 'w K8sExecutor \<Rightarrow> string \<Rightarrow> string \<Rightarrow> gomap \<Rightarrow> 'w
     \<Rightarrow> gomap res \<times> 'w" where
  "buildHandler rt uc e execID stateName input w =
     (let name = JobName uc execID stateName in
      ifErr (GenerateStateToken (rt_Now rt w) execID stateName 1 (kx_RunnerTokenSecret e), w)
        (\<lambda>err w1. (Err (Errorf [FL ''k8s_executor: generate token for '', FQ stateName, FL '': '',
                                FW err]), w1))
        (\<lambda>tok w1.
           (let w2 = jobTransition e execID stateName StatusPending StatusRunning '''' w1 in
            ifErr (CreateJob (kx_K8s e) (stateJobSpec e execID stateName name tok) w2)
              (\<lambda>err w3. (Err (Errorf [FL ''k8s_executor: create job for '', FQ stateName, FL '': '',
                                      FW err]), w3))
              (\<lambda>_ w3.
                 (let w4 = rt_Log rt (Sprintf [FL ''k8s_executor: ['', FS execID, FL ''] job '',
                             FQ name, FL '' created for state '', FQ stateName]) w3;
                      w5 = rt_Log rt (Sprintf [FL ''k8s_executor: ['', FS execID,
                             FL ''] waiting for job '', FQ name]) w4
                  in ifErr (WaitForJob (kx_K8s e) name w5)
                       (\<lambda>err w6.
                          (Err (Errorf [FL ''k8s_executor: wait for job '', FQ name, FL '': '', FW err]),
                           deleteJobBestEffort rt e name w6))
                       (\<lambda>result w6. jobFinished rt e execID stateName name result w6))))))"

definition K8sExecutor_Run ::
    "nat \<Rightarrow> 'w Runtime \<Rightarrow> unicode_table \<Rightarrow> 'w K8sExecutor \<Rightarrow> string \<Rightarrow> 'e Graph \<Rightarrow> gomap \<Rightarrow> 'w
     \<Rightarrow> (unit res \<times> 'w) option" where
  "K8sExecutor_Run n rt uc e execID g input w =
     (let ex = \<lparr>ex_Store = kx_Store e, ex_Handler = buildHandler rt uc e execID,
                ex_Dispatcher = kx_Dispatcher e, ex_Telemetry = kx_Telemetry e,
                ex_LogWriter = kx_LogWriter e, ex_Notify = kx_Notify e\<rparr>
      in Run n rt ex execID g input w)"

section \<open>The service dispatcher\<close>

record 'w ServiceDispatcher =
  sd_Store :: "'w Store"
  sd_K8s :: "'w Client"
  sd_Image :: string
  sd_RunnerEndpoint :: string
  sd_RunnerTokenSecret :: string
  sd_ServiceGRPCPort :: int
  sd_Metrics :: "(string \<Rightarrow> string \<Rightarrow> int \<Rightarrow> int \<Rightarrow> string \<Rightarrow> 'w \<Rightarrow> 'w) option"

record 'w Grpc =
  gr_NewClient :: "string \<Rightarrow> 'w \<Rightarrow> unit res \<times> 'w"
  gr_Invoke :: "string \<Rightarrow> Struct \<Rightarrow> 'w \<Rightarrow> Struct option res \<times> 'w"
  gr_Close :: "string \<Rightarrow> 'w \<Rightarrow> 'w"

definition closing :: "'w Grpc \<Rightarrow> string \<Rightarrow> 'a res \<times> 'w \<Rightarrow> 'a res \<times> 'w" where
  "closing gr addr r = (fst r, gr_Close gr addr (snd r))"

definition dispatchDeployment ::
    "'w Grpc \<Rightarrow> Structpb \<Rightarrow> 'w ServiceDispatcher \<Rightarrow> string \<Rightarrow> string \<Rightarrow> string \<Rightarrow> ServiceRecord \<Rightarrow> gomap
     \<Rightarrow> 'w \<Rightarrow> gomap res \<times> 'w" where
  "dispatchDeployment gr pb d execID stateName serviceName rec input w =
     (let port = (if sd_ServiceGRPCPort d = 0 then 9091 else sd_ServiceGRPCPort d);
          addr = Sprintf [FS (svc_ClusterIP rec), FL '':'', FD port]
      in ifErr (gr_NewClient gr addr w)
           (\<lambda>err w1. (Err (Errorf [FL ''dispatcher: dial service '', FQ serviceName, FL '' at '',
                                   FS addr, FL '': '', FW err]), w1))
           (\<lambda>_ w1. closing gr addr
              (ifErr ((if input \<noteq> None then pb_NewStruct pb input else Ok Map.empty), w1)
                 (\<lambda>err w2. (Err (Errorf [FL ''dispatcher: encode input for service '',
                                         FQ serviceName, FL '': '', FW err]), w2))
                 (\<lambda>payload w2.
                    ifErr (gr_Invoke gr addr payload w2)
                      (\<lambda>err w3. (Err (Errorf [FL ''dispatcher: invoke service '', FQ serviceName,
                                   FL '' (execID='', FS execID, FL '' state='', FS stateName,
                                   FL ''): '', FW err]), w3))
                      (\<lambda>resp w3.
                         (case resp of
                            None \<Rightarrow> (Ok (Some Map.empty), w3)
                          | Some result \<Rightarrow> (Ok (Some (pb_AsMap pb result)), w3)))))))"

definition sd_deleteJobBestEffort :: "'w ServiceDispatcher \<Rightarrow> string \<Rightarrow> 'w \<Rightarrow> 'w" where
  "sd_deleteJobBestEffort d name w = snd (DeleteJob (sd_K8s d) name w)"

definition lambdaJobSpec ::
    "'w ServiceDispatcher \<Rightarrow> string \<Rightarrow> string \<Rightarrow> string \<Rightarrow> string \<Rightarrow> JobSpec" where
  "lambdaJobSpec d execID serviceName jobN tok =
     \<lparr>js_Name = jobN, js_Image = sd_Image d, js_Args = [''--service='' @ serviceName],
      js_Env = [\<lparr>ev_Name = ''KFLOW_EXECUTION_ID'', ev_Value = execID\<rparr>,
                \<lparr>ev_Name = ''KFLOW_STATE_TOKEN'', ev_Value = tok\<rparr>,
                \<lparr>ev_Name = ''KFLOW_GRPC_ENDPOINT'', ev_Value = sd_RunnerEndpoint d\<rparr>],
      js_Namespace = ''''\<rparr>"

definition dispatchLambda ::
    "'w Runtime \<Rightarrow> unicode_table \<Rightarrow> 'w ServiceDispatcher \<Rightarrow> string \<Rightarrow> string \<Rightarrow> string \<Rightarrow> 'w
     \<Rightarrow> gomap res \<times> 'w" where
  "dispatchLambda rt uc d execID stateName serviceName w =
     (let jobN = JobName uc execID stateName in
      ifErr (GenerateStateToken (rt_Now rt w) execID stateName 1 (sd_RunnerTokenSecret d), w)
        (\<lambda>err w1. (Err (Errorf [FL ''dispatcher: generate token for '', FQ stateName, FL '': '',
                                FW err]), w1))
        (\<lambda>tok w1.
           ifErr (CreateJob (sd_K8s d) (lambdaJobSpec d execID serviceName jobN tok) w1)
             (\<lambda>err w2. (Err (Errorf [FL ''dispatcher: create job for service '', FQ serviceName,
                                     FL '': '', FW err]), w2))
             (\<lambda>_ w2.
                ifErr (WaitForJob (sd_K8s d) jobN w2)
                  (\<lambda>err w3. (Err (Errorf [FL ''dispatcher: wait for service job '', FQ serviceName,
                                          FL '': '', FW err]), sd_deleteJobBestEffort d jobN w3))
                  (\<lambda>result w3.
                     if jr_Failed result
                     then (Err (Errorf [FL ''dispatcher: service job '', FQ serviceName,
                                        FL '' failed: '', FS (jr_Message result)]),
                           sd_deleteJobBestEffort d jobN w3)
                     else
                       ifErr (st_GetStateOutput (sd_Store d) execID stateName w3)
                         (\<lambda>err w4. (Err (Errorf [FL ''dispatcher: get output after service '',
                                      FQ serviceName, FL '': '', FW err]),
                                    sd_deleteJobBestEffort d jobN w4))
                         (\<lambda>output w4. (Ok output, sd_deleteJobBestEffort d jobN w4))))))"

text \<open>The tail of \<open>Dispatch\<close>: log the outcome, record the metric, return.\<close>

definition recordInvocation ::
    "'w Runtime \<Rightarrow> 'w ServiceDispatcher \<Rightarrow> string \<Rightarrow> string \<Rightarrow> string \<Rightarrow> time \<Rightarrow> gomap res \<Rightarrow> 'w
     \<Rightarrow> gomap res \<times> 'w" where
  "recordInvocation rt d execID stateName serviceName start outcome w =
     (let durationMs = (rt_Now rt w - start) div 1000000 mod 2 ^ 64;
          dispErr = (case outcome of Err e \<Rightarrow> Some e | _ \<Rightarrow> None);
          w1 = rt_Log rt
                 (case dispErr of
                    Some e \<Rightarrow> Sprintf [FL ''dispatcher: service '', FQ serviceName, FL '' failed: '', FV e]
                  | None \<Rightarrow> Sprintf [FL ''dispatcher: service '', FQ serviceName, FL '' completed ('',
                                    FD durationMs, FL ''ms)'']) w;
          w2 = (case sd_Metrics d of
                  None \<Rightarrow> w1
                | Some metric \<Rightarrow>
                    metric serviceName (execID @ '':'' @ stateName) durationMs
                      (if dispErr = None then 200 else 500)
                      (case dispErr of None \<Rightarrow> '''' | Some e \<Rightarrow> Error e) w1)
      in (outcome, w2))"

definition Dispatch ::
    "'w Runtime \<Rightarrow> unicode_table \<Rightarrow> 'w Grpc \<Rightarrow> Structpb \<Rightarrow> 'w ServiceDispatcher \<Rightarrow> string \<Rightarrow> string
     \<Rightarrow> string \<Rightarrow> gomap \<Rightarrow> 'w \<Rightarrow> gomap res \<times> 'w" where
  "Dispatch rt uc gr pb d execID stateName serviceName input w =
     ifErr (st_GetService (sd_Store d) serviceName w)
       (\<lambda>err w1.
          if err = ErrServiceNotFound
          then (Err (Errorf [FL ''dispatcher: service '', FQ serviceName, FL '' not found'']), w1)
          else (Err (Errorf [FL ''dispatcher: get service '', FQ serviceName, FL '': '', FW err]), w1))
       (\<lambda>rec w1.
          if svc_Status rec \<noteq> ServiceStatusRunning
          then (Err (Errorf [FL ''dispatcher: service '', FQ serviceName, FL '' is not Running (status='',
                             FS (svc_Status rec), FL '')'']), w1)
          else
            (let modeStr = (if svc_Mode rec = Lambda then ''lambda'' else ''deployment'');
                 w2 = rt_Log rt (Sprintf [FL ''dispatcher: invoking service '', FQ serviceName,
                        FL '' (mode='', FS modeStr, FL '')'']) w1;
                 start = rt_Now rt w2
             in if svc_Mode rec = Deployment then
                  (case dispatchDeployment gr pb d execID stateName serviceName rec input w2 of
                     (Panic p, w3) \<Rightarrow> (Panic p, w3)
                   | (out, w3) \<Rightarrow> recordInvocation rt d execID stateName serviceName start out w3)
                else if svc_Mode rec = Lambda then
                  (case dispatchLambda rt uc d execID stateName serviceName w2 of
                     (Panic p, w3) \<Rightarrow> (Panic p, w3)
                   | (out, w3) \<Rightarrow> recordInvocation rt d execID stateName serviceName start out w3)
                else (Err (Errorf [FL ''dispatcher: unknown service mode '', FD (svc_Mode rec)]), w2)))"

end
