(* ===== verification/Config.thy ===== *)
theory Config
  imports K8s_Executor
begin

text \<open>
  internal/config/config.go: the configuration of the control plane, read from the environment.
  \<open>env\<close> is \<open>os.Getenv\<close>; the result comes with the lines that were logged.
\<close>

section \<open>Loading\<close>

record Config =
  cf_MongoURI :: string
  cf_MongoDB :: string
  cf_Namespace :: string
  cf_GRPCPort :: string
  cf_RunnerGRPCPort :: string
  cf_GRPCTLSCert :: string
  cf_GRPCTLSKey :: string
  cf_RunnerGRPCEndpoint :: string
  cf_RunnerTokenSecret :: string
  cf_ServiceGRPCPort :: string
  cf_APIKey :: string
  cf_ClickHouseDSN :: string
  cf_ObjectStoreURI :: string
  cf_Image :: string

definition validateMongoURI :: "string \<Rightarrow> goerr option" where
  "validateMongoURI uri =
     (if length uri < 10
      then Some (Errorf [FL ''config: KFLOW_MONGO_URI appears invalid: '', FQ uri]) else None)"

text \<open>The statement \<open>v := os.Getenv (name); if v == "" { v = dflt }\<close>.\<close>

definition envOr :: "(string \<Rightarrow> string) \<Rightarrow> string \<Rightarrow> string \<Rightarrow> string" where
  "envOr env name dflt = (if env name = '''' then dflt else env name)"

definition secretWarning :: string where
  "secretWarning = ''config: WARNING KFLOW_RUNNER_TOKEN_SECRET is not set '' @ emDash @
     '' state token security is disabled (dev mode only)''"

definition apiKeyWarning :: string where
  "apiKeyWarning = ''config: WARNING KFLOW_API_KEY is not set '' @ emDash @
     '' API authentication is disabled (dev mode only)''"

definition LoadConfig :: "(string \<Rightarrow> string) \<Rightarrow> Config res \<times> string list" where
  "LoadConfig env =
     (let mongoURI = env ''KFLOW_MONGO_URI'' in
      if mongoURI = ''''
      then (Err (Errorf [FL ''config: KFLOW_MONGO_URI is required but not set'']), [])
      else
        (let mongoDB = envOr env ''KFLOW_MONGO_DB'' ''kflow'';
             namespace = envOr env ''KFLOW_NAMESPACE'' ''kflow'';
             grpcPort = envOr env ''KFLOW_GRPC_PORT'' ''8080'';
             runnerGRPCPort = envOr env ''KFLOW_RUNNER_GRPC_PORT'' ''9090'';
             serviceGRPCPort = envOr env ''KFLOW_SERVICE_GRPC_PORT'' ''9091'';
             runnerEndpoint = envOr env ''KFLOW_RUNNER_GRPC_ENDPOINT''
                                ''kflow-cp.kflow.svc.cluster.local:9090'';
             tokenSecret = env ''KFLOW_RUNNER_TOKEN_SECRET'';
             log1 = (if length tokenSecret = 0 then [secretWarning] else [])
         in if length tokenSecret \<noteq> 0 \<and> length tokenSecret < 32
            then (Err (Errorf [FL ''config: KFLOW_RUNNER_TOKEN_SECRET must be at least 32 bytes, got '',
                               FD (int (length tokenSecret))]), log1)
            else
              (let apiKey = env ''KFLOW_API_KEY'';
                   log2 = log1 @ (if apiKey = '''' then [apiKeyWarning] else [])
               in case validateMongoURI mongoURI of
                    Some err \<Rightarrow> (Err err, log2)
                  | None \<Rightarrow>
                      (Ok \<lparr>cf_MongoURI = mongoURI, cf_MongoDB = mongoDB, cf_Namespace = namespace,
                           cf_GRPCPort = grpcPort, cf_RunnerGRPCPort = runnerGRPCPort,
                           cf_GRPCTLSCert = env ''KFLOW_GRPC_TLS_CERT'',
                           cf_GRPCTLSKey = env ''KFLOW_GRPC_TLS_KEY'',
                           cf_RunnerGRPCEndpoint = runnerEndpoint,
                           cf_RunnerTokenSecret = tokenSecret,
                           cf_ServiceGRPCPort = serviceGRPCPort, cf_APIKey = apiKey,
                           cf_ClickHouseDSN = env ''KFLOW_CLICKHOUSE_DSN'',
                           cf_ObjectStoreURI = env ''KFLOW_OBJECT_STORE_URI'',
                           cf_Image = env ''KFLOW_IMAGE''\<rparr>, log2))))"

section \<open>What a loaded configuration guarantees\<close>

lemma LoadConfig_Ok:
  assumes "LoadConfig env = (Ok cfg, log)"
  shows "cf_RunnerTokenSecret cfg = env ''KFLOW_RUNNER_TOKEN_SECRET''"
    and "cf_RunnerTokenSecret cfg = '''' \<or> 32 \<le> length (cf_RunnerTokenSecret cfg)"
    and "cf_APIKey cfg = env ''KFLOW_API_KEY''"
    and "10 \<le> length (cf_MongoURI cfg)"
    and "secretWarning \<in> set log \<longleftrightarrow> cf_RunnerTokenSecret cfg = ''''"
    and "apiKeyWarning \<in> set log \<longleftrightarrow> cf_APIKey cfg = ''''"
proof -
  have ne: "secretWarning \<noteq> apiKeyWarning" by code_simp
  show "cf_RunnerTokenSecret cfg = env ''KFLOW_RUNNER_TOKEN_SECRET''"
    "cf_RunnerTokenSecret cfg = '''' \<or> 32 \<le> length (cf_RunnerTokenSecret cfg)"
    "cf_APIKey cfg = env ''KFLOW_API_KEY''"
    "10 \<le> length (cf_MongoURI cfg)"
    "secretWarning \<in> set log \<longleftrightarrow> cf_RunnerTokenSecret cfg = ''''"
    "apiKeyWarning \<in> set log \<longleftrightarrow> cf_APIKey cfg = ''''"
    using assms ne by (auto simp: LoadConfig_def validateMongoURI_def Let_def split: if_splits)
qed

lemma LoadConfig_succeeds_iff:
  "(\<exists>cfg log. LoadConfig env = (Ok cfg, log)) \<longleftrightarrow>
     10 \<le> length (env ''KFLOW_MONGO_URI'') \<and>
     (env ''KFLOW_RUNNER_TOKEN_SECRET'' = '''' \<or> 32 \<le> length (env ''KFLOW_RUNNER_TOKEN_SECRET''))"
  by (auto simp: LoadConfig_def validateMongoURI_def Let_def)

lemma GenerateStateToken_Ok:
  "(\<exists>tok. GenerateStateToken now e s a secret = Ok tok) \<longleftrightarrow> 32 \<le> length secret"
  by (auto simp: GenerateStateToken_def Let_def)

end
