(* ===== verification/Worker.thy ===== *)
theory Worker
  imports Sdk_Local Runner_Server Wire_Format
begin

text \<open>
  The SDK side of an execution: pkg/kflow/worker.go (\<open>Dispatch\<close> and the worker that runs one state
  inside a Job container) and the registration calls of pkg/kflow/runner.go.

  The gRPC client of the runner service and the HTTP client are parameters.  The body of an HTTP
  request is kept as the value that is given to \<open>json.Marshal\<close>; \<open>ht_URLErr\<close> is the error with
  which \<open>http.NewRequest\<close> refuses a URL.  The user's functions act on the environment \<open>'e\<close>;
  \<open>call\<close> runs one of them in the world \<open>'w\<close> of the process.  A worker always ends the process,
  so its value is an exit code; a panic of a user function ends it with code 2.
\<close>

section \<open>The worker\<close>

record 'w RunnerClient =
  rc_NewClient :: "string \<Rightarrow> 'w \<Rightarrow> unit res \<times> 'w"
  rc_GetInput :: "string \<Rightarrow> 'w \<Rightarrow> Struct option res \<times> 'w"
  rc_CompleteState :: "string \<Rightarrow> Struct option \<Rightarrow> 'w \<Rightarrow> unit res \<times> 'w"
  rc_FailState :: "string \<Rightarrow> string \<Rightarrow> 'w \<Rightarrow> unit res \<times> 'w"
  rc_Stderr :: "string \<Rightarrow> 'w \<Rightarrow> 'w"

text \<open>\<open>workerFlagValue\<close>, over the arguments that are left.\<close>

fun workerFlagValue :: "string \<Rightarrow> string list \<Rightarrow> string" where
  "workerFlagValue name [] = ''''"
| "workerFlagValue name (arg # args) =
     (let pre = ''--'' @ name @ ''='' in
      if take (length pre) arg = pre then drop (length pre) arg
      else if arg = ''--'' @ name \<and> args \<noteq> [] then hd args
      else workerFlagValue name args)"

definition failAndExit :: "'w RunnerClient \<Rightarrow> string \<Rightarrow> string \<Rightarrow> 'w \<Rightarrow> int \<times> 'w" where
  "failAndExit rc token msg w = (1, snd (rc_FailState rc token msg w))"

text \<open>The part after the state's function has been found.\<close>

definition reportResult ::
    "Structpb \<Rightarrow> 'w RunnerClient \<Rightarrow> string \<Rightarrow> gomap res \<Rightarrow> 'w \<Rightarrow> int \<times> 'w" where
  "reportResult pb rc token result w =
     (case result of
        Panic p \<Rightarrow> (2, w)
      | Err handlerErr \<Rightarrow> failAndExit rc token (Error handlerErr) w
      | Ok output \<Rightarrow>
          (case pb_NewStruct pb output of
             Panic p \<Rightarrow> (2, w)
           | Err err \<Rightarrow> failAndExit rc token (Sprintf [FL ''marshal output: '', FV err]) w
           | Ok s \<Rightarrow>
               (case rc_CompleteState rc token (Some s) w of
                  (Ok _, w1) \<Rightarrow> (0, w1)
                | (Err err, w1) \<Rightarrow>
                    (1, rc_Stderr rc (Sprintf [FL ''kflow: CompleteState: '', FV err, FL [newlineCh]]) w1)
                | (Panic p, w1) \<Rightarrow> (2, w1))))"

definition dispatchWorker ::
    "(('e \<Rightarrow> gomap res \<times> 'e) \<Rightarrow> 'w \<Rightarrow> gomap res \<times> 'w) \<Rightarrow> Structpb \<Rightarrow> 'w RunnerClient \<Rightarrow> string list
     \<Rightarrow> string \<Rightarrow> 'e Workflow \<Rightarrow> string \<Rightarrow> 'w \<Rightarrow> int \<times> 'w" where
  "dispatchWorker call pb rc args endpointEnv wk token w =
     (let stateName = workerFlagValue ''state'' args in
      if stateName = '''' then
        (1, rc_Stderr rc (''kflow: worker mode: --state=<name> is required'' @ [newlineCh]) w)
      else
        (let endpoint = (if endpointEnv = '''' then ''kflow-cp.kflow.svc.cluster.local:9090''
                         else endpointEnv) in
         case rc_NewClient rc endpoint w of
           (Err err, w1) \<Rightarrow>
             (1, rc_Stderr rc (Sprintf [FL ''kflow: dial RunnerService: '', FV err, FL [newlineCh]]) w1)
         | (Panic p, w1) \<Rightarrow> (2, w1)
         | (Ok _, w1) \<Rightarrow>
             (case rc_GetInput rc token w1 of
                (Err err, w2) \<Rightarrow> failAndExit rc token (Error err) w2
              | (Panic p, w2) \<Rightarrow> (2, w2)
              | (Ok payload, w2) \<Rightarrow>
                  (let handlerInput = (case payload of None \<Rightarrow> Some Map.empty
                                       | Some s \<Rightarrow> Some (pb_AsMap pb s)) in
                   case wf_tasks wk stateName of
                     None \<Rightarrow> failAndExit rc token (Sprintf [FL ''unknown state: '', FS stateName]) w2
                   | Some td \<Rightarrow>
                       (case td_fn td of
                          None \<Rightarrow> failAndExit rc token
                            (Sprintf [FL ''state '', FQ stateName, FL '': no inline handler'']) w2
                        | Some fn \<Rightarrow>
                            (let (result, w3) = call (fn handlerInput) w2
                             in reportResult pb rc token result w3))))))"

section \<open>Registration over HTTP\<close>

datatype body =
    RegisterBody protoGraph
  | RunBody gomap
  | ServiceBody string string int int int string int

record request =
  rq_Method :: string
  rq_URL :: string
  rq_Body :: body
  rq_Headers :: "(string \<times> string) list"

record response =
  rp_StatusCode :: int
  rp_Body :: string

record 'w Http =
  ht_URLErr :: "string \<Rightarrow> goerr option"
  ht_Do :: "request \<Rightarrow> 'w \<Rightarrow> response res \<times> 'w"

definition postRequest :: "string \<Rightarrow> body \<Rightarrow> string \<Rightarrow> request" where
  "postRequest url bdy apiKey =
     \<lparr>rq_Method = ''POST'', rq_URL = url, rq_Body = bdy,
      rq_Headers = [(''Content-Type'', ''application/json'')] @
        (if apiKey \<noteq> '''' then [(''Authorization'', ''Bearer '' @ apiKey)] else [])\<rparr>"

definition registerService :: "'w Http \<Rightarrow> string \<Rightarrow> string \<Rightarrow> 'e ServiceDef \<Rightarrow> 'w \<Rightarrow> unit res \<times> 'w" where
  "registerService ht server apiKey svc w =
     (let mode = (if sd_mode svc = Lambda then ''lambda'' else ''deployment'');
          bdy = ServiceBody (sd_name svc) mode (sd_port svc) (sd_minScale svc) (sd_maxScale svc)
                  (sd_ingressHost svc) (wholeSeconds (sd_timeout svc));
          url = server @ ''/api/v1/services''
      in case ht_URLErr ht url of
           Some err \<Rightarrow> (Err (Errorf [FL ''register service: build request: '', FW err]), w)
         | None \<Rightarrow>
             ifErr (ht_Do ht (postRequest url bdy apiKey) w)
               (\<lambda>err w1. (Err (Errorf [FL ''register service: '', FW err]), w1))
               (\<lambda>resp w1.
                  if rp_StatusCode resp \<in> {200, 201, 409} then (Ok (), w1)
                  else (Err (Errorf [FL ''register service: server returned '', FD (rp_StatusCode resp),
                                     FL '': '', FS (rp_Body resp)]), w1)))"

definition registerWorkflow :: "'w Http \<Rightarrow> string \<Rightarrow> string \<Rightarrow> 'e Workflow \<Rightarrow> 'w \<Rightarrow> unit res \<times> 'w" where
  "registerWorkflow ht server apiKey wk w =
     (let url = server @ ''/api/v1/workflows'' in
      case ht_URLErr ht url of
        Some err \<Rightarrow> (Err (Errorf [FL ''build register request: '', FW err]), w)
      | None \<Rightarrow>
          ifErr (ht_Do ht (postRequest url (RegisterBody (toRegisterJSON wk)) apiKey) w)
            (\<lambda>err w1. (Err (Errorf [FL ''register workflow: '', FW err]), w1))
            (\<lambda>resp w1.
               if rp_StatusCode resp \<in> {200, 201, 409} then (Ok (), w1)
               else (Err (Errorf [FL ''register workflow: server returned '', FD (rp_StatusCode resp),
                                  FL '': '', FS (rp_Body resp)]), w1)))"

definition triggerExecution ::
    "'w Http \<Rightarrow> string \<Rightarrow> string \<Rightarrow> string \<Rightarrow> gomap \<Rightarrow> 'w \<Rightarrow> unit res \<times> 'w" where
  "triggerExecution ht server apiKey name input w =
     (let url = server @ ''/api/v1/workflows/'' @ name @ ''/run'' in
      case ht_URLErr ht url of
        Some err \<Rightarrow> (Err (Errorf [FL ''build run request: '', FW err]), w)
      | None \<Rightarrow>
          ifErr (ht_Do ht (postRequest url (RunBody input) apiKey) w)
            (\<lambda>err w1. (Err (Errorf [FL ''trigger execution: '', FW err]), w1))
            (\<lambda>resp w1.
               if rp_StatusCode resp \<noteq> 200 \<and> rp_StatusCode resp \<noteq> 202
               then (Err (Errorf [FL ''trigger execution: server returned '', FD (rp_StatusCode resp),
                                  FL '': '', FS (rp_Body resp)]), w1)
               else (Ok (), w1)))"

section \<open>Entry points\<close>

text \<open>The environment variables of the process; an unset one reads as the empty string.\<close>

type_synonym getenv = "string \<Rightarrow> string"

definition serverURL :: "getenv \<Rightarrow> string" where
  "serverURL env =
     (if env ''KFLOW_SERVER'' = '''' then ''http://localhost:8080'' else env ''KFLOW_SERVER'')"

text \<open>The common tail of \<open>Run\<close> and \<open>Dispatch\<close>: validate, register, trigger.\<close>

definition submit ::
    "string list \<Rightarrow> 'w Http \<Rightarrow> getenv \<Rightarrow> 'e Workflow \<Rightarrow> gomap \<Rightarrow> 'w \<Rightarrow> unit res \<times> 'w" where
  "submit ord ht env wk input w =
     (case Validate ord wk of
        Some err \<Rightarrow> (Err (Errorf [FL ''invalid workflow: '', FW err]), w)
      | None \<Rightarrow>
          (let server = serverURL env; apiKey = env ''KFLOW_API_KEY'' in
           ifErr (registerWorkflow ht server apiKey wk w)
             (\<lambda>err w1. (Err err, w1))
             (\<lambda>_ w1. triggerExecution ht server apiKey (wf_name wk) input w1)))"

definition sdk_Run :: "string list \<Rightarrow> 'w Http \<Rightarrow> getenv \<Rightarrow> 'e Workflow \<Rightarrow> 'w \<Rightarrow> unit res \<times> 'w" where
  "sdk_Run ord ht env wk w = submit ord ht env wk (Some Map.empty) w"

definition RunService :: "'w Http \<Rightarrow> getenv \<Rightarrow> 'e ServiceDef \<Rightarrow> 'w \<Rightarrow> unit res \<times> 'w" where
  "RunService ht env svc w =
     (case ServiceDef_Validate svc of
        Some err \<Rightarrow> (Err (Errorf [FL ''invalid service: '', FW err]), w)
      | None \<Rightarrow> registerService ht (serverURL env) (env ''KFLOW_API_KEY'') svc w)"

datatype dispatched = Exited int | Returned "unit res"

definition sdk_Dispatch ::
    "nat \<Rightarrow> string list \<Rightarrow> Structpb \<Rightarrow> 'e sdk_world RunnerClient \<Rightarrow> 'e sdk_world Http \<Rightarrow> getenv
     \<Rightarrow> string list \<Rightarrow> 'e Workflow \<Rightarrow> gomap \<Rightarrow> 'e sdk_world \<Rightarrow> (dispatched \<times> 'e sdk_world) option" where
  "sdk_Dispatch n ord pb rc ht env args wk input w =
     (if env ''KFLOW_STATE_TOKEN'' \<noteq> '''' then
        (let (code, w1) = dispatchWorker callFn pb rc args (env ''KFLOW_GRPC_ENDPOINT'') wk
                            (env ''KFLOW_STATE_TOKEN'') w
         in Some (Exited code, w1))
      else if ''--local'' \<in> set args then
        map_option (\<lambda>(r, w1). (Returned r, w1)) (sdk_RunLocal n ord wk input w)
      else
        (let (r, w1) = submit ord ht env wk input w in Some (Returned r, w1)))"

end
