(* ===== verification/Orchestrator.thy ===== *)
theory Orchestrator
  imports Gateway Config Worker
begin

text \<open>
  cmd/orchestrator/main.go: the composition of the control plane.  \<open>trigger\<close> is the function that
  the gateway starts in a goroutine for each execution; \<open>runStateMode\<close> and \<open>runServiceMode\<close> are what
  the binary does inside a container.  Connecting to the database, the cluster and ClickHouse, and
  listening on sockets, are outside the model; their results are the fields of \<open>ControlPlane\<close>.
  A panic of \<open>trigger\<close> is not recovered and ends the process.
\<close>

section \<open>The variables of the server\<close>

record 'w ControlPlane =
  cp_cfg :: Config
  cp_ms :: "'w Store"
  cp_k8s :: "'w Client option"
  cp_disp :: "string \<Rightarrow> string \<Rightarrow> string \<Rightarrow> gomap \<Rightarrow> 'w \<Rightarrow> gomap res \<times> 'w"
  cp_eventWriter :: "'w transition_hook option"
  cp_logWriter :: "'w log_writer option"
  cp_notify :: "'w transition_hook option"

text \<open>
  The methods of a nil \<open>*Client\<close> panic at their first access to a field.
\<close>

definition nilClientset :: "'w Clientset" where
  "nilClientset =
     (let np = ''invalid memory address or nil pointer dereference'' in
      \<lparr>kc_CreateJob = (\<lambda>_ _ w. (Panic np, w)), kc_DeleteJob = (\<lambda>_ _ _ w. (Panic np, w)),
       kc_WatchJobs = (\<lambda>_ _ w. (Panic np, w)), kc_CreateDeployment = (\<lambda>_ _ w. (Panic np, w)),
       kc_GetDeployment = (\<lambda>_ _ w. (Panic np, w)), kc_UpdateDeployment = (\<lambda>_ _ w. (Panic np, w)),
       kc_DeleteDeployment = (\<lambda>_ _ _ w. (Panic np, w)), kc_WatchDeployments = (\<lambda>_ _ w. (Panic np, w)),
       kc_CreateService = (\<lambda>_ _ w. (Panic np, w)), kc_GetService = (\<lambda>_ _ w. (Panic np, w)),
       kc_DeleteService = (\<lambda>_ _ _ w. (Panic np, w)), kc_CreateIngress = (\<lambda>_ _ w. (Panic np, w)),
       kc_DeleteIngress = (\<lambda>_ _ _ w. (Panic np, w)), kc_ListPods = (\<lambda>_ _ w. (Panic np, w)),
       kc_PodLogs = (\<lambda>_ _ w. (Panic np, w)), kc_StopWatch = (\<lambda>w. w), ke_IsURLError = (\<lambda>_. False),
       ke_NetOp = (\<lambda>_. None), ke_IsUnauthorized = (\<lambda>_. False), ke_IsForbidden = (\<lambda>_. False)\<rparr>)"

definition nilClient :: "'w Client" where
  "nilClient = \<lparr>cl_clientset = nilClientset, cl_namespace = ''''\<rparr>"

text \<open>The dispatcher that the server builds: the fields it does not set have their zero values.\<close>

definition serverDispatcher ::
    "Config \<Rightarrow> 'w Store \<Rightarrow> 'w Client option
     \<Rightarrow> (string \<Rightarrow> string \<Rightarrow> int \<Rightarrow> int \<Rightarrow> string \<Rightarrow> 'w \<Rightarrow> 'w) option \<Rightarrow> 'w ServiceDispatcher" where
  "serverDispatcher cfg ms k8s metricsWriter =
     \<lparr>sd_Store = ms, sd_K8s = (case k8s of None \<Rightarrow> nilClient | Some c \<Rightarrow> c), sd_Image = '''',
      sd_RunnerEndpoint = cf_RunnerGRPCEndpoint cfg,
      sd_RunnerTokenSecret = cf_RunnerTokenSecret cfg, sd_ServiceGRPCPort = 0,
      sd_Metrics = metricsWriter\<rparr>"

definition notify :: "'w Runtime \<Rightarrow> (WSEvent \<Rightarrow> 'w \<Rightarrow> 'w) \<Rightarrow> 'w transition_hook" where
  "notify rt broadcast execID stateName from to errMsg w =
     broadcast \<lparr>we_Type = ''state_transition'',
                we_Payload = StateTransitionPayload execID stateName from to errMsg,
                we_Timestamp = rt_Now rt w\<rparr> w"

section \<open>Driving an execution\<close>

definition passThrough :: "string \<Rightarrow> gomap \<Rightarrow> 'w \<Rightarrow> gomap res \<times> 'w" where
  "passThrough _ inp w = (Ok inp, w)"

definition inProcessExecutor :: "'w ControlPlane \<Rightarrow> 'w Executor" where
  "inProcessExecutor cp =
     \<lparr>ex_Store = cp_ms cp, ex_Handler = passThrough, ex_Dispatcher = Some (cp_disp cp),
      ex_Telemetry = cp_eventWriter cp, ex_LogWriter = cp_logWriter cp, ex_Notify = cp_notify cp\<rparr>"

definition jobExecutor :: "'w ControlPlane \<Rightarrow> 'w Client \<Rightarrow> string \<Rightarrow> 'w K8sExecutor" where
  "jobExecutor cp k8s img =
     \<lparr>kx_Store = cp_ms cp, kx_K8s = k8s, kx_Image = img,
      kx_RunnerEndpoint = cf_RunnerGRPCEndpoint (cp_cfg cp),
      kx_RunnerTokenSecret = cf_RunnerTokenSecret (cp_cfg cp), kx_Dispatcher = Some (cp_disp cp),
      kx_Telemetry = cp_eventWriter cp, kx_LogWriter = cp_logWriter cp, kx_Notify = cp_notify cp\<rparr>"

text \<open>Running the compiled graph: as jobs if there is a cluster and the workflow names an image.\<close>

definition runGraph ::
    "nat \<Rightarrow> 'w Runtime \<Rightarrow> unicode_table \<Rightarrow> 'w ControlPlane \<Rightarrow> string \<Rightarrow> string \<Rightarrow> unit Graph \<Rightarrow> gomap \<Rightarrow> 'w
     \<Rightarrow> (unit res \<times> 'w) option" where
  "runGraph n rt uc cp execID img g input w =
     (if cp_k8s cp \<noteq> None \<and> img \<noteq> ''''
      then K8sExecutor_Run n rt uc (jobExecutor cp (the (cp_k8s cp)) img) execID g input w
      else Run n rt (inProcessExecutor cp) execID g input w)"

text \<open>\<open>_ = ms.UpdateExecution (...)\<close>: the error is dropped.\<close>

definition settle :: "'w Store \<Rightarrow> string \<Rightarrow> Status \<Rightarrow> 'w \<Rightarrow> unit res \<times> 'w" where
  "settle ms execID status w =
     ifErr (st_UpdateExecution ms execID status w) (\<lambda>_ w1. (Ok (), w1)) (\<lambda>_ w1. (Ok (), w1))"

definition trigger ::
    "nat \<Rightarrow> 'w Runtime \<Rightarrow> unicode_table \<Rightarrow> string list \<Rightarrow> 'w ControlPlane \<Rightarrow> triggerCall \<Rightarrow> 'w
     \<Rightarrow> (unit res \<times> 'w) option" where
  "trigger n rt uc ord cp call w =
     (case call of (execID, graph, input) \<Rightarrow>
        (case BuildFromProto ord graph of
           Panic p \<Rightarrow> Some (Panic p, w)
         | Err err \<Rightarrow>
             Some (settle (cp_ms cp) execID StatusFailed
                     (rt_Log rt (Sprintf [FL ''trigger: build graph '', FQ (pg_Name graph), FL '': '',
                        FV err]) w))
         | Ok g \<Rightarrow>
             (case runGraph n rt uc cp execID (pg_Image graph) g input w of
                None \<Rightarrow> None
              | Some (Panic p, w1) \<Rightarrow> Some (Panic p, w1)
              | Some (Err runErr, w1) \<Rightarrow>
                  Some (settle (cp_ms cp) execID StatusFailed
                          (rt_Log rt (Sprintf [FL ''trigger: execution '', FS execID, FL '' failed: '',
                             FV runErr]) w1))
              | Some (Ok _, w1) \<Rightarrow> Some (settle (cp_ms cp) execID StatusCompleted w1))))"

section \<open>Container modes\<close>

datatype mode = StateMode string | ServiceMode string | ServerMode

definition mainMode :: "string \<Rightarrow> string \<Rightarrow> mode" where
  "mainMode stateName serviceName =
     (if stateName \<noteq> '''' then StateMode stateName
      else if serviceName \<noteq> '''' then ServiceMode serviceName
      else ServerMode)"

definition requireEnv ::
    "'w RunnerClient \<Rightarrow> getenv \<Rightarrow> string \<Rightarrow> (string \<Rightarrow> 'w \<Rightarrow> int \<times> 'w) \<Rightarrow> 'w \<Rightarrow> int \<times> 'w" where
  "requireEnv rc env name k w =
     (if env name = ''''
      then (1, rc_Stderr rc (''error: required environment variable '' @ name @ '' is not set'' @
                 [newlineCh]) w)
      else k (env name) w)"

text \<open>\<open>log.Fatalf\<close>: log and exit with code 1.\<close>

definition fatalf :: "'w Runtime \<Rightarrow> frag list \<Rightarrow> 'w \<Rightarrow> int \<times> 'w" where
  "fatalf rt fs w = (1, rt_Log rt (Sprintf fs) w)"

definition countKeys :: "Structpb \<Rightarrow> Struct option \<Rightarrow> int" where
  "countKeys pb payload = (case payload of None \<Rightarrow> 0 | Some s \<Rightarrow> int (card (dom (pb_AsMap pb s))))"

definition runStateMode ::
    "'w Runtime \<Rightarrow> Structpb \<Rightarrow> 'w RunnerClient \<Rightarrow> getenv \<Rightarrow> string \<Rightarrow> 'w \<Rightarrow> int \<times> 'w" where
  "runStateMode rt pb rc env stateName w =
     requireEnv rc env ''KFLOW_EXECUTION_ID'' (\<lambda>execID.
     requireEnv rc env ''KFLOW_STATE_TOKEN'' (\<lambda>stateToken.
     requireEnv rc env ''KFLOW_GRPC_ENDPOINT'' (\<lambda>endpoint w1.
       (let w2 = rt_Log rt (Sprintf [FL ''state mode: execID='', FS execID, FL '' state='', FS stateName,
                   FL '' endpoint='', FS endpoint]) w1 in
        case rc_NewClient rc endpoint w2 of
          (Err err, w3) \<Rightarrow>
            fatalf rt [FL ''state mode: dial runner endpoint '', FS endpoint, FL '': '', FV err] w3
        | (Panic p, w3) \<Rightarrow> (2, w3)
        | (Ok _, w3) \<Rightarrow>
            (case rc_GetInput rc stateToken w3 of
               (Err err, w4) \<Rightarrow> fatalf rt [FL ''state mode: GetInput: '', FV err] w4
             | (Panic p, w4) \<Rightarrow> (2, w4)
             | (Ok payload, w4) \<Rightarrow>
                 (let keys = countKeys pb payload;
                      w5 = rt_Log rt (Sprintf [FL ''state mode: got input keys='', FD keys]) w4 in
                  case rc_CompleteState rc stateToken None w5 of
                    (Err err, w6) \<Rightarrow> fatalf rt [FL ''state mode: CompleteState: '', FV err] w6
                  | (Panic p, w6) \<Rightarrow> (2, w6)
                  | (Ok _, w6) \<Rightarrow>
                      (0, rt_Log rt (Sprintf [FL ''state mode: completed state='', FS stateName,
                            FL '' execID='', FS execID, FL '' output_keys='', FD keys]) w6))))))) w"

text \<open>Service mode either runs once and exits, or serves on an address.\<close>

datatype serviceRun = Exited int | Serving string

definition runServiceMode ::
    "'w Runtime \<Rightarrow> 'w RunnerClient \<Rightarrow> (string \<Rightarrow> 'w \<Rightarrow> unit res \<times> 'w) \<Rightarrow> getenv \<Rightarrow> string \<Rightarrow> 'w
     \<Rightarrow> serviceRun \<times> 'w" where
  "runServiceMode rt rc listen env serviceName w =
     (let endpoint = env ''KFLOW_GRPC_ENDPOINT''; stateToken = env ''KFLOW_STATE_TOKEN'';
          w1 = rt_Log rt (Sprintf [FL ''service mode: name='', FS serviceName, FL '' grpcEndpoint='',
                 FS endpoint, FL '' execID='', FS (env ''KFLOW_EXECUTION_ID''), FL '' token_present='',
                 FS (if stateToken \<noteq> '''' then ''true'' else ''false'')]) w;
          exits = (\<lambda>(c, v). (Exited c, v))
      in if stateToken \<noteq> '''' \<and> endpoint \<noteq> '''' then
           (case rc_NewClient rc endpoint w1 of
              (Err err, w2) \<Rightarrow>
                exits (fatalf rt [FL ''service mode: dial '', FS endpoint, FL '': '', FV err] w2)
            | (Panic p, w2) \<Rightarrow> (Exited 2, w2)
            | (Ok _, w2) \<Rightarrow>
                (case rc_GetInput rc stateToken w2 of
                   (Err err, w3) \<Rightarrow> exits (fatalf rt [FL ''service mode: GetInput: '', FV err] w3)
                 | (Panic p, w3) \<Rightarrow> (Exited 2, w3)
                 | (Ok _, w3) \<Rightarrow>
                     (case rc_CompleteState rc stateToken None w3 of
                        (Err err, w4) \<Rightarrow>
                          exits (fatalf rt [FL ''service mode: CompleteState: '', FV err] w4)
                      | (Panic p, w4) \<Rightarrow> (Exited 2, w4)
                      | (Ok _, w4) \<Rightarrow>
                          (Exited 0, rt_Log rt (Sprintf [FL ''service mode: lambda service '',
                             FQ serviceName, FL '' completed'']) w4))))
         else
           (let servicePort = envOr env ''KFLOW_SERVICE_GRPC_PORT'' ''9091''; addr = '':'' @ servicePort in
            case listen addr w1 of
              (Err err, w2) \<Rightarrow>
                exits (fatalf rt [FL ''service mode: listen '', FS addr, FL '': '', FV err] w2)
            | (Panic p, w2) \<Rightarrow> (Exited 2, w2)
            | (Ok _, w2) \<Rightarrow>
                (Serving addr, rt_Log rt (Sprintf [FL ''service mode: deployment service '',
                   FQ serviceName, FL '' listening on '', FS addr]) w2)))"

text \<open>\<open>serviceRunnerServer.Invoke\<close>: the payload is echoed.\<close>

definition serviceRunner_Invoke ::
    "'w Runtime \<Rightarrow> Structpb \<Rightarrow> string \<Rightarrow> Struct option \<Rightarrow> 'w \<Rightarrow> Struct option res \<times> 'w" where
  "serviceRunner_Invoke rt pb name payload w =
     (Ok payload, rt_Log rt (Sprintf [FL ''service '', FQ name, FL '': Invoke called with payload keys='',
        FD (countKeys pb payload)]) w)"

end
