(* ===== verification/Runner_Correct.thy ===== *)
theory Runner_Correct
  imports Runner_Server Memory_Store
begin

text \<open>
  What the callback service guarantees over the memory store: a state record changes only for the
  holder of a token signed for that state, and the input handed out is the recorded one.
\<close>

section \<open>Authority\<close>

lemma validateToken_Ok:
  "validateToken rt s token w = Ok p \<longleftrightarrow>
     token \<noteq> '''' \<and> ValidateStateToken (rt_Now rt w) token (rs_secret s) = Ok p"
  by (auto simp: validateToken_def split: res.splits)

lemma onStore_updState_view:
  "mem_view (snd (onStore (\<lambda>now. updState e' s' (f now)) w)) e s \<noteq> mem_view w e s \<Longrightarrow>
   stateKey e' s' = stateKey e s"
  by (auto simp: onStore_def mem_view_def updState_def Let_def split: option.splits if_splits)

lemma state_callbacks_view:
  assumes "srv = NewRunnerServiceServer (memoryStore ro) secret"
    and "w' = snd (CompleteState rt pb srv token out w) \<or> w' = snd (FailState rt srv token msg w)"
    and "mem_view w' e s \<noteq> mem_view w e s"
  obtains p where "validateToken rt srv token w = Ok p" "stateKey (tp_ExecID p) (tp_State p) = stateKey e s"
proof (cases "validateToken rt srv token w")
  case (Ok p)
  have "stateKey (tp_ExecID p) (tp_State p) = stateKey e s"
    using assms(2)
  proof
    let ?r = "st_CompleteState (rs_store srv) (tp_ExecID p) (tp_State p) (map_option (pb_AsMap pb) out) w"
    assume "w' = snd (CompleteState rt pb srv token out w)"
    then have "w' = snd ?r"
      using Ok by (cases ?r; cases "fst ?r") (auto simp: CompleteState_def Let_def)
    with assms(1,3) show ?thesis
      by (intro onStore_updState_view [where w = w])
        (simp add: NewRunnerServiceServer_def memoryStore_def mem_CompleteState_def)
  next
    let ?r = "st_FailState (rs_store srv) (tp_ExecID p) (tp_State p) msg w"
    assume "w' = snd (FailState rt srv token msg w)"
    then have "w' = snd ?r" using Ok by (cases ?r; cases "fst ?r") (auto simp: FailState_def)
    with assms(1,3) show ?thesis
      by (intro onStore_updState_view [where w = w])
        (simp add: NewRunnerServiceServer_def memoryStore_def mem_FailState_def)
  qed
  with Ok that show ?thesis by blast
qed (use assms in \<open>auto simp: CompleteState_def FailState_def\<close>)

text \<open>
  C17.  A callback changes the record of a state only if its token is a payload followed by the MAC of
  that payload under the server's secret, has not expired, and names that very state.
\<close>

theorem RunnerServer_authority:
  assumes "srv = NewRunnerServiceServer (memoryStore ro) secret"
    and "w' = snd (CompleteState rt pb srv token out w) \<or> w' = snd (FailState rt srv token msg w)"
    and "mem_view w' e s \<noteq> mem_view w e s"
  shows "\<exists>p payload. ValidateStateToken (rt_Now rt w) token secret = Ok p \<and>
    token = payload @ ''.'' @ computeHMAC secret payload \<and>
    Unix (rt_Now rt w) \<le> Unix (tp_ExpiresAt p) \<and> stateKey (tp_ExecID p) (tp_State p) = stateKey e s"
proof -
  obtain p where p: "validateToken rt srv token w = Ok p"
    "stateKey (tp_ExecID p) (tp_State p) = stateKey e s"
    by (rule state_callbacks_view [OF assms])
  then have v: "ValidateStateToken (rt_Now rt w) token secret = Ok p"
    using assms(1) by (simp add: validateToken_Ok NewRunnerServiceServer_def)
  moreover have "Unix (rt_Now rt w) \<le> Unix (tp_ExpiresAt p)"
    using v by (auto simp: ValidateStateToken_def Let_def split: option.splits if_splits)
  ultimately show ?thesis using p(2) token_signature [OF v] by metis
qed

section \<open>Input\<close>

lemma stateInput_unique:
  assumes "r \<in> set srs" and "sr_StateName r = s"
    and "\<And>r'. r' \<in> set srs \<Longrightarrow> sr_StateName r' = s \<Longrightarrow> r' = r"
  shows "stateInput s srs = sr_Input r"
  using assms
proof (induction srs)
  case (Cons a srs)
  show ?case
  proof (cases "sr_StateName a = s")
    case True
    then have "a = r" by (intro Cons.prems(3)) simp_all
    with True show ?thesis by simp
  next
    case False
    with Cons.prems(1,2) have "r \<in> set srs" by auto
    from Cons.IH [OF this Cons.prems(2)] have "stateInput s srs = sr_Input r"
      by (metis Cons.prems(3) list.set_intros(2))
    with False show ?thesis by simp
  qed
qed simp

lemma recorded_input:
  assumes inv: "mem_inv m" and ord: "range_order ord (ms_states m)"
    and r: "ms_states m (stateKey e s) = Some r"
    and r_e: "sr_ExecutionID r = e" and r_s: "sr_StateName r = s"
    and list: "mem_ListStates ord e m = Ok srs"
  shows "stateInput s srs = sr_Input r"
proof (rule stateInput_unique)
  have srs: "srs = filter (\<lambda>r. sr_ExecutionID r = e) (List.map_filter (ms_states m) ord)"
    using list by (simp add: mem_ListStates_def)
  show "r \<in> set srs" using r r_e range_orderD [OF ord] by (auto simp: srs map_filter_nth_set)
  show "sr_StateName r = s" by (rule r_s)
  fix r' assume "r' \<in> set srs" "sr_StateName r' = s"
  then obtain k where "ms_states m k = Some r'" "sr_ExecutionID r' = e"
    by (auto simp: srs map_filter_nth_set)
  with inv \<open>sr_StateName r' = s\<close> have "k = stateKey e s" unfolding mem_inv_def by blast
  with \<open>ms_states m k = Some r'\<close> r show "r' = r" by simp
qed

lemma GetInput_recorded:
  assumes srv: "srv = NewRunnerServiceServer (memoryStore ro) secret"
    and tok: "validateToken rt srv token w = Ok p" "tp_ExecID p = e" "tp_State p = s"
    and exec: "ms_executions (mw_store w) e = Some x"
    and inv: "mem_inv (mw_store w)" and ord: "range_order (ro_states ro (mw_store w)) (ms_states (mw_store w))"
    and r: "mem_view w e s = Some r" "sr_ExecutionID r = e" "sr_StateName r = s"
  shows "GetInput rt pb srv token w =
    ifErr (pb_NewStruct pb (case sr_Input r of None \<Rightarrow> er_Input x | Some i \<Rightarrow> Some i), w)
      (\<lambda>err w1. (Err (StatusErr ''Internal'' (Sprintf [FL ''encode input: '', FV err])), w1))
      (\<lambda>st w1. (Ok st, w1))"
proof -
  obtain srs where list: "mem_ListStates (ro_states ro (mw_store w)) e (mw_store w) = Ok srs"
    by (simp add: mem_ListStates_def)
  have "stateInput s srs = sr_Input r"
    using recorded_input [OF inv ord _ r(2,3) list] r(1) by (simp add: mem_view_def)
  with tok srv exec list show ?thesis
    by (simp add: GetInput_def NewRunnerServiceServer_def memoryStore_def readStore_def
        mem_GetExecution_def Let_def)
qed

section \<open>An example callback\<close>

definition clockRuntime :: "'e mem_world Runtime" where
  "clockRuntime =
     \<lparr>rt_Now = mw_now, rt_Sleep = (\<lambda>d w. w), rt_Log = (\<lambda>msg w. w), rt_CtxErr = (\<lambda>w. None)\<rparr>"

definition exampleSecret :: string where
  "exampleSecret = replicate 32 (CHR ''x'')"

definition recordedWorld :: "string list mem_world" where
  "recordedWorld = snd (st_WriteAheadState (memoryStore exampleOrders) exampleState exampleWorld)"

lemma example_token:
  obtains token where "GenerateStateToken 0 ''e'' ''a'' 1 exampleSecret = Ok token"
    "ValidateStateToken 0 token exampleSecret = Ok \<lparr>tp_ExecID = ''e'', tp_State = ''a'', tp_Attempt = 1,
      tp_ExpiresAt = timeFromUnix (Unix (0 + tokenTTL))\<rparr>" "token \<noteq> ''''"
proof -
  obtain token where t: "GenerateStateToken 0 ''e'' ''a'' 1 exampleSecret = Ok token"
    by (simp add: GenerateStateToken_def Let_def exampleSecret_def)
  have v: "ValidateStateToken 0 token exampleSecret = Ok \<lparr>tp_ExecID = ''e'', tp_State = ''a'',
      tp_Attempt = 1, tp_ExpiresAt = timeFromUnix (Unix (0 + tokenTTL))\<rparr>"
    by (rule token_roundtrip [OF _ _ _ _ _ _ t])
      (simp_all add: validText_def asciiBytes_def validUtf8_ascii int64Range_def tokenTTL_def Hour_def
        Second_def Unix_def unixEpoch_def exampleSecret_def)
  then have "token \<noteq> ''''" by (auto simp: ValidateStateToken_def splitDot_def)
  with t v that show ?thesis by blast
qed

theorem RunnerServer_authority_witness:
  "\<exists>token p. GenerateStateToken 0 ''e'' ''a'' 1 exampleSecret = Ok token \<and>
     mem_view (snd (CompleteState clockRuntime plainStructpb
       (NewRunnerServiceServer (memoryStore exampleOrders) exampleSecret) token None recordedWorld)) ''e'' ''a''
       \<noteq> mem_view recordedWorld ''e'' ''a'' \<and>
     ValidateStateToken 0 token exampleSecret = Ok p"
proof -
  let ?srv = "NewRunnerServiceServer (memoryStore exampleOrders) exampleSecret"
  obtain token where t: "GenerateStateToken 0 ''e'' ''a'' 1 exampleSecret = Ok token" "token \<noteq> ''''"
    "ValidateStateToken 0 token exampleSecret = Ok \<lparr>tp_ExecID = ''e'', tp_State = ''a'', tp_Attempt = 1,
      tp_ExpiresAt = timeFromUnix (Unix (0 + tokenTTL))\<rparr>" by (rule example_token)
  let ?w' = "snd (CompleteState clockRuntime plainStructpb ?srv token None recordedWorld)"
  have now: "rt_Now clockRuntime recordedWorld = 0"
    by (simp add: clockRuntime_def recordedWorld_def exampleWorld_def memoryStore_def onStore_def
        mem_WriteAheadState_def NewMemoryStore_def Let_def)
  have "validateToken clockRuntime ?srv token recordedWorld = Ok \<lparr>tp_ExecID = ''e'', tp_State = ''a'',
      tp_Attempt = 1, tp_ExpiresAt = timeFromUnix (Unix (0 + tokenTTL))\<rparr>"
    using t now by (simp add: validateToken_Ok NewRunnerServiceServer_def)
  then have ne: "mem_view ?w' ''e'' ''a'' \<noteq> mem_view recordedWorld ''e'' ''a''"
    by (simp add: CompleteState_def NewRunnerServiceServer_def memoryStore_def onStore_def
        mem_CompleteState_def updState_def recordedWorld_def exampleWorld_def exampleState_def
        mem_WriteAheadState_def NewMemoryStore_def mem_view_def stateKey_def Let_def)
  from RunnerServer_authority [OF refl disjI1 [OF refl] ne] t ne show ?thesis by blast
qed

end
