(* ===== verification/Kubernetes_Run.thy ===== *)
theory Kubernetes_Run
  imports Orchestrator Worker Runner_Correct Local_Runner
begin

text \<open>
  A state run as a Kubernetes job, from the side of its container: the arguments and the environment
  that the executor writes into the job, the SDK worker started with them, and the callback service
  that the worker calls, over any store.  The cluster that starts the container does not occur here.
  The gRPC connection is a parameter: it delivers each call to the service once, and the answer back.
\<close>

section \<open>Two faults of the worker\<close>

lemma service_flag_ignored: "workerFlagValue ''state'' [''--service='' @ n] = ''''"
  by (simp add: Let_def)

text \<open>
  The worker of the SDK does not know the \<open>--service\<close> argument that the dispatcher gives to the
  Job of a Lambda-mode service: it ends with exit code 1 before it contacts the runner service.
\<close>

theorem lambda_job_not_started:
  "dispatchWorker call pb rc (js_Args (lambdaJobSpec d execID serviceName jobN tok)) endpoint wk tok w =
     (1, rc_Stderr rc (''kflow: worker mode: --state=<name> is required'' @ [newlineCh]) w)"
  unfolding dispatchWorker_def lambdaJobSpec_def JobSpec.select_convs service_flag_ignored by simp

section \<open>The connection\<close>

definition delivered :: "Struct res \<Rightarrow> Struct option res" where
  "delivered r = (case r of Ok s \<Rightarrow> Ok (Some s) | Err e \<Rightarrow> Err e | Panic p \<Rightarrow> Panic p)"

text \<open>
  A call over the connection is a call of the service: its effect is that of the service's method,
  and so is its answer.
\<close>

definition connected ::
    "Structpb \<Rightarrow> 'w Runtime \<Rightarrow> 'w RunnerServiceServer \<Rightarrow> 'w RunnerClient \<Rightarrow> bool" where
  "connected pb rt srv rc \<longleftrightarrow>
     (\<forall>endpoint w. rc_NewClient rc endpoint w = (Ok (), w)) \<and>
     (\<forall>tok w. rc_GetInput rc tok w = apfst delivered (GetInput rt pb srv tok w)) \<and>
     (\<forall>tok out w. rc_CompleteState rc tok out w = CompleteState rt pb srv tok out w) \<and>
     (\<forall>tok msg w. rc_FailState rc tok msg w = FailState rt srv tok msg w)"

definition directClient :: "Structpb \<Rightarrow> 'w Runtime \<Rightarrow> 'w RunnerServiceServer \<Rightarrow> 'w RunnerClient" where
  "directClient pb rt srv =
     \<lparr>rc_NewClient = (\<lambda>endpoint w. (Ok (), w)),
      rc_GetInput = (\<lambda>tok w. apfst delivered (GetInput rt pb srv tok w)),
      rc_CompleteState = CompleteState rt pb srv, rc_FailState = FailState rt srv,
      rc_Stderr = (\<lambda>msg w. w)\<rparr>"

lemma directClient_connected: "connected pb rt srv (directClient pb rt srv)"
  by (simp add: connected_def directClient_def)

section \<open>The container\<close>

definition envOf :: "Container \<Rightarrow> string \<Rightarrow> string" where
  "envOf c name = (case find (\<lambda>v. ev_Name v = name) (co_Env c) of None \<Rightarrow> '''' | Some v \<Rightarrow> ev_Value v)"

text \<open>The container of the job that the executor creates for a state.\<close>

definition stateContainer :: "'w K8sExecutor \<Rightarrow> string \<Rightarrow> string \<Rightarrow> string \<Rightarrow> string \<Rightarrow> Container" where
  "stateContainer k e s name tok =
     hd (pt_Containers (job_Template (jobObject (cl_namespace (kx_K8s k)) (stateJobSpec k e s name tok))))"

text \<open>The worker as that container starts it.\<close>

definition containerRun ::
    "(('e \<Rightarrow> gomap res \<times> 'e) \<Rightarrow> 'w \<Rightarrow> gomap res \<times> 'w) \<Rightarrow> Structpb \<Rightarrow> 'w RunnerClient \<Rightarrow> 'e Workflow
     \<Rightarrow> Container \<Rightarrow> 'w \<Rightarrow> int \<times> 'w" where
  "containerRun call pb rc wk c =
     dispatchWorker call pb rc (co_Args c) (envOf c ''KFLOW_GRPC_ENDPOINT'') wk (envOf c ''KFLOW_STATE_TOKEN'')"

lemma workerFlagValue_state: "workerFlagValue ''state'' [''--state='' @ s] = s"
  by (simp add: Let_def)

lemma state_container:
  "co_Args (stateContainer k e s name tok) = [''--state='' @ s]"
  "envOf (stateContainer k e s name tok) ''KFLOW_STATE_TOKEN'' = tok"
  by (simp_all add: stateContainer_def jobObject_def stateJobSpec_def envOf_def)

text \<open>The token in the container's environment lets the worker act for its state until it expires.\<close>

lemma container_token:
  assumes "GenerateStateToken t e s 1 secret = Ok tok" and "32 \<le> length secret"
    and "validText e" and "validText s" and "int64Range (Unix (t + tokenTTL))"
  obtains p where "tp_ExecID p = e" "tp_State p = s"
    "\<And>w. Unix (rt_Now rt w) \<le> Unix (t + tokenTTL) \<Longrightarrow>
       validateToken rt (NewRunnerServiceServer st secret) tok w = Ok p"
proof -
  let ?p = "\<lparr>tp_ExecID = e, tp_State = s, tp_Attempt = 1, tp_ExpiresAt = timeFromUnix (Unix (t + tokenTTL))\<rparr>"
  have v: "ValidateStateToken now tok secret = Ok ?p" if "Unix now \<le> Unix (t + tokenTTL)" for now
    by (rule token_roundtrip [OF assms(2,3,4) _ assms(5) that assms(1)]) (simp add: int64Range_def)
  have "tok \<noteq> ''''" using v [of "t + tokenTTL"] by (auto simp: ValidateStateToken_def splitDot_def)
  with v show ?thesis
    using that [of ?p] by (simp add: validateToken_Ok NewRunnerServiceServer_def)
qed

text \<open>The input of the state as the callback service reads it from the store.\<close>

definition storedInput :: "'w Store \<Rightarrow> string \<Rightarrow> string \<Rightarrow> 'w \<Rightarrow> gomap \<Rightarrow> 'w \<Rightarrow> bool" where
  "storedInput st e s w inp w' \<longleftrightarrow>
     (\<exists>rec w1 srs. st_GetExecution st e w = (Ok rec, w1) \<and> st_ListStates st e w1 = (Ok srs, w') \<and>
        inp = (case stateInput s srs of None \<Rightarrow> er_Input rec | Some m \<Rightarrow> Some m))"

lemma GetInput_stored:
  assumes "validateToken rt srv tok w = Ok p" and "storedInput (rs_store srv) (tp_ExecID p) (tp_State p) w inp w'"
    and "pb_NewStruct pb inp = Ok x"
  shows "GetInput rt pb srv tok w = (Ok x, w')"
  using assms by (auto simp: storedInput_def GetInput_def Let_def)

lemma worker_called:
  assumes "connected pb rt srv rc" and "GetInput rt pb srv tok w = (Ok x, w')"
    and "s \<noteq> ''''" and "wf_tasks wk s = Some td" and "td_fn td = Some fn"
  shows "dispatchWorker call pb rc [''--state='' @ s] endpoint wk tok w =
    (case call (fn (Some (pb_AsMap pb x))) w' of (result, w3) \<Rightarrow> reportResult pb rc tok result w3)"
  unfolding dispatchWorker_def workerFlagValue_state
  using assms by (simp add: connected_def delivered_def Let_def)

lemma worker_reports:
  assumes "connected pb rt srv rc" and "validateToken rt srv tok w = Ok p"
  shows "reportResult pb rc tok (Err err) w =
      (1, snd (st_FailState (rs_store srv) (tp_ExecID p) (tp_State p) (Error err) w))"
    and "pb_NewStruct pb out = Ok y \<Longrightarrow>
      st_CompleteState (rs_store srv) (tp_ExecID p) (tp_State p) (Some (pb_AsMap pb y)) w = (Ok (), w') \<Longrightarrow>
      reportResult pb rc tok (Ok out) w = (0, w')"
    and "pb_NewStruct pb out = Ok y \<Longrightarrow>
      st_CompleteState (rs_store srv) (tp_ExecID p) (tp_State p) (Some (pb_AsMap pb y)) w = (Err err, w') \<Longrightarrow>
      fst (reportResult pb rc tok (Ok out) w) = 1"
proof -
  show "reportResult pb rc tok (Err err) w =
      (1, snd (st_FailState (rs_store srv) (tp_ExecID p) (tp_State p) (Error err) w))"
    using assms
    by (cases "st_FailState (rs_store srv) (tp_ExecID p) (tp_State p) (Error err) w";
        cases "fst (st_FailState (rs_store srv) (tp_ExecID p) (tp_State p) (Error err) w)")
      (simp_all add: connected_def reportResult_def failAndExit_def FailState_def)
qed (use assms in \<open>simp_all add: connected_def reportResult_def CompleteState_def\<close>)

text \<open>
  C3.  The container of a state's job runs that state.  The executor starts it with a token issued at
  time t; the store has the record of the execution and of the state, with an input that structpb can
  encode, and the workflow of the image gives the state an inline function.  Then the worker runs the
  function once, on the recorded input as structpb carries it.  If the function fails, that state of
  that execution is recorded as failed with the function's message and the exit code is 1.  If it
  returns an output that structpb can encode, that output is what the store is asked to record, and
  the exit code is 0 exactly if the store accepted it.  This holds for any store, cluster and gRPC
  connection that delivers the calls, as long as the token has not expired when the calls arrive.
\<close>

theorem job_container_runs_state:
  assumes tok: "GenerateStateToken t e s 1 secret = Ok tok" "secret = kx_RunnerTokenSecret k"
    and names: "validText e" "validText s" "s \<noteq> ''''" "int64Range (Unix (t + tokenTTL))"
    and srv: "connected pb rt (NewRunnerServiceServer st secret) rc"
    and fn: "wf_tasks wk s = Some td" "td_fn td = Some fn"
    and inp: "storedInput st e s w inp w1" "pb_NewStruct pb inp = Ok x"
    and call: "call (fn (Some (pb_AsMap pb x))) w1 = (result, w2)"
    and time: "Unix (rt_Now rt w) \<le> Unix (t + tokenTTL)" "Unix (rt_Now rt w2) \<le> Unix (t + tokenTTL)"
    and run: "containerRun call pb rc wk (stateContainer k e s name tok) w = (code, w3)"
  shows "(\<forall>err. result = Err err \<longrightarrow> code = 1 \<and> w3 = snd (st_FailState st e s (Error err) w2)) \<and>
    (\<forall>out y r w'. result = Ok out \<and> pb_NewStruct pb out = Ok y \<and>
       st_CompleteState st e s (Some (pb_AsMap pb y)) w2 = (r, w') \<longrightarrow>
       (code = 0 \<longleftrightarrow> r = Ok ()) \<and> (r = Ok () \<longrightarrow> w3 = w'))"
proof -
  let ?srv = "NewRunnerServiceServer st secret"
  have len: "32 \<le> length secret" using tok(1) by (auto simp: GenerateStateToken_def Let_def split: if_splits)
  obtain p where p: "tp_ExecID p = e" "tp_State p = s"
      "\<And>w. Unix (rt_Now rt w) \<le> Unix (t + tokenTTL) \<Longrightarrow> validateToken rt ?srv tok w = Ok p"
    using container_token [OF tok(1) len names(1,2,4)] by metis
  have store: "rs_store ?srv = st" by (simp add: NewRunnerServiceServer_def)
  have "GetInput rt pb ?srv tok w = (Ok x, w1)"
    using GetInput_stored [OF p(3) _ inp(2)] time(1) inp(1) p(1,2) store by simp
  from worker_called [OF srv this names(3) fn] call run
  have rep: "reportResult pb rc tok result w2 = (code, w3)"
    unfolding containerRun_def state_container by simp
  note reports = worker_reports [OF srv p(3) [OF time(2)], unfolded p(1,2) store]
  show ?thesis
  proof (intro conjI allI impI)
    fix out y r w' assume a: "result = Ok out \<and> pb_NewStruct pb out = Ok y \<and>
       st_CompleteState st e s (Some (pb_AsMap pb y)) w2 = (r, w')"
    have "r = Panic m \<Longrightarrow> code \<noteq> 0" for m
      using rep a srv p store time(2) by (auto simp: reportResult_def connected_def CompleteState_def)
    with a rep reports(2,3) show "code = 0 \<longleftrightarrow> r = Ok ()" "r = Ok () \<Longrightarrow> w3 = w'"
      by (cases r; fastforce)+
  qed (use rep reports(1) in auto)
qed

section \<open>An example container\<close>

definition readyWorld :: "string list mem_world" where
  "readyWorld =
     exampleWorld\<lparr>mw_store := NewMemoryStore
       \<lparr>ms_executions := [''e'' \<mapsto> newExecution ''e'' ''example'' None],
        ms_states := [stateKey ''e'' ''a'' \<mapsto>
          exampleState\<lparr>sr_Status := StatusRunning, sr_Input := Some [''k'' \<mapsto> VNum 1]\<rparr>]\<rparr>\<rparr>"

definition readyOrders :: range_orders where
  "readyOrders = exampleOrders\<lparr>ro_states := (\<lambda>_. [stateKey ''e'' ''a''])\<rparr>"

lemma ready_names: "validText ''e''" "validText ''a''"
  by (simp_all add: validText_def asciiBytes_def badRune_def RuneError_def)

text \<open>A structpb whose decoding shows which numbers have passed through it.\<close>

definition textStructpb :: Structpb where
  "textStructpb = \<lparr>pb_NewStruct = (\<lambda>m. Ok (entries m)),
     pb_AsMap = (\<lambda>s k. map_option (\<lambda>v. case v of VNum n \<Rightarrow> VStr ''float64'' | _ \<Rightarrow> v) (s k))\<rparr>"

definition readyExecutor :: "string list mem_world K8sExecutor" where
  "readyExecutor =
     \<lparr>kx_Store = memoryStore readyOrders, kx_K8s = nilClient, kx_Image = ''img:1'',
      kx_RunnerEndpoint = ''runner:9090'', kx_RunnerTokenSecret = exampleSecret,
      kx_Dispatcher = None, kx_Telemetry = None, kx_LogWriter = None, kx_Notify = None\<rparr>"

lemma ready_input:
  "storedInput (memoryStore readyOrders) ''e'' ''a'' readyWorld (Some [''k'' \<mapsto> VNum 1]) readyWorld"
  by (simp add: storedInput_def memoryStore_def readStore_def mem_GetExecution_def mem_ListStates_def readyWorld_def
      readyOrders_def exampleWorld_def NewMemoryStore_def exampleState_def)

theorem job_container_runs_state_witness:
  "\<exists>tok w r. GenerateStateToken 0 ''e'' ''a'' 1 exampleSecret = Ok tok \<and>
     containerRun onEnv textStructpb
       (directClient textStructpb clockRuntime (NewRunnerServiceServer (memoryStore readyOrders) exampleSecret))
       exampleFlow (stateContainer readyExecutor ''e'' ''a'' ''kflow-e-a'' tok) readyWorld = (0, w) \<and>
     mw_env w = [''a''] \<and> mem_view w ''e'' ''a'' = Some r \<and> sr_Status r = StatusCompleted \<and>
     sr_Output r = Some [''k'' \<mapsto> VStr ''float64'']"
proof -
  let ?st = "memoryStore readyOrders :: string list mem_world Store" and ?out = "[''k'' \<mapsto> VStr ''float64'']"
  let ?rc = "directClient textStructpb clockRuntime (NewRunnerServiceServer ?st exampleSecret)"
  let ?w2 = "readyWorld\<lparr>mw_env := [''a'']\<rparr>"
  obtain tok where t: "GenerateStateToken 0 ''e'' ''a'' 1 exampleSecret = Ok tok" by (rule example_token)
  obtain code w where run: "containerRun onEnv textStructpb ?rc exampleFlow
      (stateContainer readyExecutor ''e'' ''a'' ''kflow-e-a'' tok) readyWorld = (code, w)" by force
  have pb: "pb_NewStruct textStructpb (Some m) = Ok m" "pb_AsMap textStructpb [''k'' \<mapsto> VNum 1] = ?out"
    "pb_AsMap textStructpb ?out = ?out" for m
    by (auto simp: textStructpb_def fun_eq_iff)
  have secret: "exampleSecret = kx_RunnerTokenSecret readyExecutor" by (simp add: readyExecutor_def)
  have time: "int64Range (Unix (0 + tokenTTL))" "Unix (rt_Now clockRuntime readyWorld) \<le> Unix (0 + tokenTTL)"
    "Unix (rt_Now clockRuntime ?w2) \<le> Unix (0 + tokenTTL)"
    by (simp_all add: int64Range_def tokenTTL_def Hour_def Second_def Unix_def unixEpoch_def clockRuntime_def
        readyWorld_def exampleWorld_def)
  obtain td where fn: "wf_tasks exampleFlow ''a'' = Some td" "td_fn td = Some (logName ''a'')"
    by (simp add: exampleFlow_simps task_defs)
  have call: "onEnv (logName ''a'' (Some (pb_AsMap textStructpb [''k'' \<mapsto> VNum 1]))) readyWorld = (Ok (Some ?out), ?w2)"
    by (simp add: onEnv_def logName_def pb readyWorld_def exampleWorld_def)
  obtain w' r where done': "st_CompleteState ?st ''e'' ''a'' (Some ?out) ?w2 = (Ok (), w')"
    "mw_env w' = [''a'']" "mem_view w' ''e'' ''a'' = Some r" "sr_Status r = StatusCompleted" "sr_Output r = Some ?out"
    by (simp add: memoryStore_def onStore_def mem_CompleteState_def updState_def mem_view_def readyWorld_def
        exampleWorld_def NewMemoryStore_def Let_def)
  from job_container_runs_state [OF t secret ready_names _ time(1) directClient_connected fn ready_input
      pb(1) call time(2,3) run] pb done' t run
  show ?thesis by auto
qed

end
