(* ===== verification/Hub_Concurrent.thy ===== *)
theory Hub_Concurrent
  imports Hub
begin

text \<open>
  The hubs under concurrency.  Any number of goroutines subscribe, unsubscribe, publish and receive
  at the same time.  \<open>hub_step\<close> is one step of one of them; what may happen between the statements of
  another is decided by the read-write mutex: the two critical sections that change the set of
  subscribers run while no publisher is inside its loop, publishers run side by side, and the
  channel is closed after the mutex was released.  \<open>acc\<close> is the filter of the log hub, and accepts
  everything for the event hub.
\<close>

section \<open>Steps\<close>

text \<open>
  The channels between \<open>make\<close> and their insertion (\<open>made\<close>), in the set of subscribers (\<open>subs\<close>),
  and between their deletion and \<open>close\<close> (\<open>detached\<close>); the publishers inside their loop with what is
  left of it; whether a goroutine has panicked.
\<close>

record 'v hubRun =
  hr_heap :: "'v Heap"
  hr_made :: "nat set"
  hr_subs :: "nat set"
  hr_detached :: "nat set"
  hr_publishers :: "('v \<times> nat list) list"
  hr_panic :: bool

definition emptyHeap :: "'v Heap" where
  "emptyHeap = \<lparr>hp_next = 0, hp_chan = Map.empty\<rparr>"

definition hubStart :: "'v hubRun" where
  "hubStart = \<lparr>hr_heap = emptyHeap, hr_made = {}, hr_subs = {}, hr_detached = {},
     hr_publishers = [], hr_panic = False\<rparr>"

text \<open>The effect of a channel operation: the new heap, and a panic if it panicked.\<close>

definition onHeap :: "unit res \<times> 'v Heap \<Rightarrow> 'v hubRun \<Rightarrow> 'v hubRun" where
  "onHeap r s = s\<lparr>hr_heap := snd r, hr_panic := hr_panic s \<or> \<not> is_Ok (fst r)\<rparr>"

definition subscribeMake :: "'v hubRun \<Rightarrow> 'v hubRun" where
  "subscribeMake s =
     (case makeChan (hr_heap s) of
        (ch, hp) \<Rightarrow> s\<lparr>hr_heap := hp, hr_made := insert ch (hr_made s)\<rparr>)"

definition subscribeInsert :: "nat \<Rightarrow> 'v hubRun \<Rightarrow> 'v hubRun" where
  "subscribeInsert ch s = s\<lparr>hr_made := hr_made s - {ch}, hr_subs := insert ch (hr_subs s)\<rparr>"

definition unsubscribeDelete :: "nat \<Rightarrow> 'v hubRun \<Rightarrow> 'v hubRun" where
  "unsubscribeDelete ch s = s\<lparr>hr_subs := hr_subs s - {ch}, hr_detached := insert ch (hr_detached s)\<rparr>"

definition unsubscribeClose :: "nat \<Rightarrow> 'v hubRun \<Rightarrow> 'v hubRun" where
  "unsubscribeClose ch s =
     onHeap (closeChan ch (hr_heap s)) (s\<lparr>hr_detached := hr_detached s - {ch}\<rparr>)"

definition publishSend :: "(nat \<Rightarrow> 'v \<Rightarrow> bool) \<Rightarrow> nat \<Rightarrow> 'v \<Rightarrow> 'v hubRun \<Rightarrow> 'v hubRun" where
  "publishSend acc ch v s = (if acc ch v then onHeap (trySend ch v (hr_heap s)) s else s)"

text \<open>
  Each subscription is ended once, by the handler that made it: the delete step is taken for a
  current subscriber only.  The method \<open>unsubscribe\<close> itself does not check this.
\<close>

inductive hub_step :: "(nat \<Rightarrow> 'v \<Rightarrow> bool) \<Rightarrow> 'v hubRun \<Rightarrow> 'v hubRun \<Rightarrow> bool" for acc where
  make: "hub_step acc s (subscribeMake s)"
| insert: "ch \<in> hr_made s \<Longrightarrow> hr_publishers s = [] \<Longrightarrow> hub_step acc s (subscribeInsert ch s)"
| delete: "ch \<in> hr_subs s \<Longrightarrow> hr_publishers s = [] \<Longrightarrow> hub_step acc s (unsubscribeDelete ch s)"
| close: "ch \<in> hr_detached s \<Longrightarrow> hub_step acc s (unsubscribeClose ch s)"
| rlock: "distinct ord \<Longrightarrow> set ord = hr_subs s \<Longrightarrow>
    hub_step acc s (s\<lparr>hr_publishers := (v, ord) # hr_publishers s\<rparr>)"
| send: "hr_publishers s = ps @ (v, ch # chs) # qs \<Longrightarrow>
    hub_step acc s (publishSend acc ch v (s\<lparr>hr_publishers := ps @ (v, chs) # qs\<rparr>))"
| runlock: "hr_publishers s = ps @ (v, []) # qs \<Longrightarrow> hub_step acc s (s\<lparr>hr_publishers := ps @ qs\<rparr>)"
| receive: "ch \<in> hr_subs s \<Longrightarrow> hub_step acc s (s\<lparr>hr_heap := snd (takeChan ch (hr_heap s))\<rparr>)"

inductive hub_reachable :: "(nat \<Rightarrow> 'v \<Rightarrow> bool) \<Rightarrow> 'v hubRun \<Rightarrow> bool" for acc where
  start: "hub_reachable acc hubStart"
| step: "hub_reachable acc s \<Longrightarrow> hub_step acc s s' \<Longrightarrow> hub_reachable acc s'"

section \<open>The invariant\<close>

text \<open>
  A channel is in one phase of its life at a time and open in all but the last; a publisher is only
  ever about to send to current subscribers; no buffer is over its capacity.
\<close>

definition live :: "'v hubRun \<Rightarrow> nat set" where
  "live s = hr_made s \<union> hr_subs s \<union> hr_detached s"

definition phases :: "'v hubRun \<Rightarrow> bool" where
  "phases s \<longleftrightarrow> hr_made s \<inter> hr_subs s = {} \<and> hr_made s \<inter> hr_detached s = {} \<and>
     hr_subs s \<inter> hr_detached s = {} \<and> (\<forall>(v, chs) \<in> set (hr_publishers s). set chs \<subseteq> hr_subs s)"

definition heap_ok :: "'v Heap \<Rightarrow> bool" where
  "heap_ok hp \<longleftrightarrow>
     (\<forall>ch c. hp_chan hp ch = Some c \<longrightarrow> ch < hp_next hp \<and> length (cn_buf c) \<le> chanCap)"

definition hub_inv :: "'v hubRun \<Rightarrow> bool" where
  "hub_inv s \<longleftrightarrow> \<not> hr_panic s \<and> phases s \<and> heap_ok (hr_heap s) \<and>
     (\<forall>ch \<in> live s. openBuf (hr_heap s) ch \<noteq> None)"

lemma heap_ok_makeChan: "heap_ok hp \<Longrightarrow> heap_ok (snd (makeChan hp))"
  by (auto simp: heap_ok_def makeChan_def less_Suc_eq)

lemma heap_ok_fresh: "heap_ok hp \<Longrightarrow> openBuf hp (hp_next hp) = None"
  by (auto simp: heap_ok_def openBuf_def split: option.splits)

lemma heap_ok_trySend: "heap_ok hp \<Longrightarrow> heap_ok (snd (trySend ch v hp))"
  by (auto simp: heap_ok_def trySend_def split: option.splits)

lemma heap_ok_closeChan: "heap_ok hp \<Longrightarrow> heap_ok (snd (closeChan ch hp))"
  by (auto simp: heap_ok_def closeChan_def split: option.splits)

lemma heap_ok_takeChan:
  assumes "heap_ok hp"
  shows "heap_ok (snd (takeChan ch hp))"
proof -
  have "length vs \<le> chanCap" if "hp_chan hp ch = Some c" "cn_buf c = v # vs" for c v vs
    using assms that unfolding heap_ok_def by (metis Suc_leD length_Cons)
  with assms show ?thesis by (auto simp: heap_ok_def takeChan_def split: option.splits list.splits)
qed

lemmas heap_ok_steps = heap_ok_makeChan heap_ok_trySend heap_ok_closeChan heap_ok_takeChan

lemma openBuf_makeChan: "openBuf (snd (makeChan hp)) = (openBuf hp)(hp_next hp \<mapsto> [])"
  by (auto simp: openBuf_def makeChan_def fun_eq_iff)

lemma closeChan_open:
  "openBuf hp ch \<noteq> None \<Longrightarrow>
   \<exists>hp'. closeChan ch hp = (Ok (), hp') \<and> openBuf hp' = (openBuf hp)(ch := None)"
  by (auto simp: openBuf_def closeChan_def fun_eq_iff split: option.splits if_splits)

lemma openBuf_takeChan: "openBuf (snd (takeChan ch hp)) c = None \<longleftrightarrow> openBuf hp c = None"
  by (auto simp: openBuf_def takeChan_def split: option.splits list.splits)

lemma hub_inv_make:
  assumes "hub_inv s"
  shows "hub_inv (subscribeMake s)"
proof -
  let ?n = "hp_next (hr_heap s)"
  have eq: "subscribeMake s = s\<lparr>hr_heap := snd (makeChan (hr_heap s)), hr_made := insert ?n (hr_made s)\<rparr>"
    by (simp add: subscribeMake_def makeChan_def)
  from assms have "?n \<notin> live s" using heap_ok_fresh [of "hr_heap s"] by (auto simp: hub_inv_def)
  with assms show ?thesis
    by (auto simp: eq hub_inv_def phases_def live_def heap_ok_makeChan openBuf_makeChan)
qed

lemma hub_inv_send:
  assumes "hub_inv s" and "ch \<in> hr_subs s"
  shows "hub_inv (publishSend acc ch v s)"
proof (cases "acc ch v")
  case True
  from assms obtain b where "openBuf (hr_heap s) ch = Some b" by (auto simp: hub_inv_def live_def)
  from trySend_open [OF this] obtain hp' where hp': "trySend ch v (hr_heap s) = (Ok (), hp')"
    "openBuf hp' = (openBuf (hr_heap s))(ch := offered True v (openBuf (hr_heap s) ch))" by blast
  moreover have "heap_ok hp'"
    using heap_ok_trySend [of "hr_heap s" ch v] assms hp'(1) by (simp add: hub_inv_def)
  ultimately show ?thesis
    using assms True by (auto simp: publishSend_def onHeap_def hub_inv_def phases_def live_def)
qed (use assms in \<open>simp add: publishSend_def\<close>)

lemma hub_inv_close:
  assumes "hub_inv s" and "ch \<in> hr_detached s"
  shows "hub_inv (unsubscribeClose ch s)"
proof -
  from assms have "openBuf (hr_heap s) ch \<noteq> None" by (auto simp: hub_inv_def live_def)
  from closeChan_open [OF this] obtain hp' where hp': "closeChan ch (hr_heap s) = (Ok (), hp')"
    "openBuf hp' = (openBuf (hr_heap s))(ch := None)" by blast
  moreover have "heap_ok hp'"
    using heap_ok_closeChan [of "hr_heap s" ch] assms hp'(1) by (simp add: hub_inv_def)
  ultimately show ?thesis
    using assms by (auto simp: unsubscribeClose_def onHeap_def hub_inv_def phases_def live_def)
qed

lemma hub_inv_receive:
  "hub_inv s \<Longrightarrow> hub_inv (s\<lparr>hr_heap := snd (takeChan ch (hr_heap s))\<rparr>)"
  by (simp add: hub_inv_def phases_def live_def heap_ok_takeChan openBuf_takeChan del: not_None_eq)

lemma hub_inv_step: "hub_step acc s s' \<Longrightarrow> hub_inv s \<Longrightarrow> hub_inv s'"
proof (induction rule: hub_step.induct)
  case (send s ps v ch chs qs)
  then have "hub_inv (s\<lparr>hr_publishers := ps @ (v, chs) # qs\<rparr>)" "ch \<in> hr_subs s"
    by (auto simp: hub_inv_def phases_def live_def)
  then show ?case by (intro hub_inv_send) simp_all
next
  case (insert ch s)
  then show ?case by (auto simp: subscribeInsert_def hub_inv_def phases_def live_def)
next
  case (delete ch s)
  then show ?case by (auto simp: unsubscribeDelete_def hub_inv_def phases_def live_def)
next
  case (rlock ord s v)
  then show ?case by (simp add: hub_inv_def phases_def live_def)
next
  case (runlock s ps v qs)
  then show ?case by (auto simp: hub_inv_def phases_def live_def)
qed (simp_all add: hub_inv_make hub_inv_close hub_inv_receive)

lemma hub_inv_reachable: "hub_reachable acc s \<Longrightarrow> hub_inv s"
proof (induction rule: hub_reachable.induct)
  case start
  show ?case by (simp add: hub_inv_def hubStart_def emptyHeap_def live_def phases_def heap_ok_def)
qed (rule hub_inv_step)

section \<open>The operations of the hubs are runs\<close>

text \<open>A hub at rest: no goroutine is inside one of its operations.\<close>

definition atRest :: "nat set \<Rightarrow> 'v Heap \<Rightarrow> 'v hubRun" where
  "atRest subs hp = \<lparr>hr_heap = hp, hr_made = {}, hr_subs = subs, hr_detached = {},
     hr_publishers = [], hr_panic = False\<rparr>"

lemma subscribe_run:
  assumes "subscribe (h, hp) = (ch, h', hp')"
  shows "(hub_step acc)\<^sup>*\<^sup>* (atRest (wh_subs h) hp) (atRest (wh_subs h') hp')"
proof -
  let ?s = "subscribeMake (atRest (wh_subs h) hp)"
  have "hub_step acc (atRest (wh_subs h) hp) ?s" by (rule make)
  moreover have "hub_step acc ?s (subscribeInsert ch ?s)"
    using assms by (intro insert) (auto simp: subscribe_def subscribeMake_def atRest_def makeChan_def)
  moreover have "subscribeInsert ch ?s = atRest (wh_subs h') hp'"
    using assms by (auto simp: subscribe_def subscribeMake_def subscribeInsert_def atRest_def makeChan_def)
  ultimately show ?thesis by (metis converse_rtranclp_into_rtranclp rtranclp.rtrancl_refl)
qed

lemma unsubscribe_run:
  assumes "unsubscribe ch (h, hp) = (Ok (), h', hp')" and "ch \<in> wh_subs h"
  shows "(hub_step acc)\<^sup>*\<^sup>* (atRest (wh_subs h) hp) (atRest (wh_subs h') hp')"
proof -
  let ?s = "unsubscribeDelete ch (atRest (wh_subs h) hp)"
  have "hub_step acc (atRest (wh_subs h) hp) ?s"
    using assms(2) by (intro delete) (simp_all add: atRest_def)
  moreover have "hub_step acc ?s (unsubscribeClose ch ?s)"
    by (intro close) (simp add: unsubscribeDelete_def atRest_def)
  moreover have "unsubscribeClose ch ?s = atRest (wh_subs h') hp'"
    using assms(1)
    by (auto simp: unsubscribe_def unsubscribeClose_def unsubscribeDelete_def atRest_def onHeap_def
        split: prod.splits)
  ultimately show ?thesis by (metis converse_rtranclp_into_rtranclp rtranclp.rtrancl_refl)
qed

lemma offerAll_run:
  assumes "offerAll (\<lambda>ch. acc ch v) v chs hp = (Ok (), hp')"
  shows "(hub_step acc)\<^sup>*\<^sup>* ((atRest subs hp)\<lparr>hr_publishers := [(v, chs)]\<rparr>)
    ((atRest subs hp')\<lparr>hr_publishers := [(v, [])]\<rparr>)"
  using assms
proof (induction chs arbitrary: hp)
  case (Cons ch chs)
  let ?s = "(atRest subs hp)\<lparr>hr_publishers := [(v, ch # chs)]\<rparr>"
  obtain hp1 where hp1: "publishSend acc ch v (?s\<lparr>hr_publishers := [(v, chs)]\<rparr>) =
      (atRest subs hp1)\<lparr>hr_publishers := [(v, chs)]\<rparr>" "offerAll (\<lambda>ch. acc ch v) v chs hp1 = (Ok (), hp')"
    using Cons.prems
    by (auto simp: publishSend_def onHeap_def atRest_def split: if_splits prod.splits res.splits)
  have "hub_step acc ?s (publishSend acc ch v (?s\<lparr>hr_publishers := [] @ (v, chs) # []\<rparr>))"
    by (rule send) simp
  with hp1 Cons.IH [OF hp1(2)] show ?case by (auto intro: converse_rtranclp_into_rtranclp)
qed simp

lemma fanOut_run:
  assumes "fanOut ord v (h, hp) = (Ok (), h', hp')" and "distinct ord" and "set ord = wh_subs h"
  shows "(hub_step (\<lambda>_ _. True))\<^sup>*\<^sup>* (atRest (wh_subs h) hp) (atRest (wh_subs h') hp')"
proof -
  let ?acc = "\<lambda>(_ :: nat) (_ :: WSEvent). True"
  let ?a = "\<lambda>hp chs. (atRest (wh_subs h) hp)\<lparr>hr_publishers := [(v, chs)]\<rparr>"
  have off: "offerAll (\<lambda>ch. ?acc ch v) v ord hp = (Ok (), hp')" and h': "h' = h"
    using assms(1) by (simp_all add: fanOut_def split: prod.splits)
  have "hub_step ?acc (atRest (wh_subs h) hp)
      ((atRest (wh_subs h) hp)\<lparr>hr_publishers := (v, ord) # hr_publishers (atRest (wh_subs h) hp)\<rparr>)"
    using assms(2,3) by (intro rlock) (simp_all add: atRest_def)
  then have "hub_step ?acc (atRest (wh_subs h) hp) (?a hp ord)" by (simp add: atRest_def)
  moreover have "hub_step ?acc (?a hp' []) ((?a hp' [])\<lparr>hr_publishers := [] @ []\<rparr>)"
    by (rule runlock) simp
  then have "hub_step ?acc (?a hp' []) (atRest (wh_subs h') hp')" by (simp add: h' atRest_def)
  ultimately show ?thesis
    using offerAll_run [OF off, of "wh_subs h"]
    by (meson converse_rtranclp_into_rtranclp rtranclp.rtrancl_into_rtrancl)
qed

section \<open>No panic\<close>

text \<open>
  C27.  However many goroutines subscribe, unsubscribe, publish and receive at the same time, no
  publisher ever sends on a closed channel, no unsubscription closes a channel twice, and no buffer
  holds more than 64 values.  Each subscriber unsubscribes once, as the handlers of the program do.
\<close>

theorem hub_never_panics:
  assumes "hub_reachable acc s"
  shows "\<not> hr_panic s \<and>
    (\<forall>v ch chs. (v, ch # chs) \<in> set (hr_publishers s) \<longrightarrow> fst (trySend ch v (hr_heap s)) = Ok ()) \<and>
    (\<forall>ch \<in> hr_detached s. fst (closeChan ch (hr_heap s)) = Ok ()) \<and>
    (\<forall>ch c. hp_chan (hr_heap s) ch = Some c \<longrightarrow> length (cn_buf c) \<le> chanCap)"
proof (intro conjI)
  note inv = hub_inv_reachable [OF assms, unfolded hub_inv_def phases_def live_def heap_ok_def]
  show "\<not> hr_panic s" and "\<forall>ch c. hp_chan (hr_heap s) ch = Some c \<longrightarrow> length (cn_buf c) \<le> chanCap"
    using inv by blast+
  show "\<forall>ch \<in> hr_detached s. fst (closeChan ch (hr_heap s)) = Ok ()"
    using inv closeChan_open by (metis UnI2 fst_conv)
  show "\<forall>v ch chs. (v, ch # chs) \<in> set (hr_publishers s) \<longrightarrow> fst (trySend ch v (hr_heap s)) = Ok ()"
  proof (intro allI impI)
    fix v ch chs
    assume "(v, ch # chs) \<in> set (hr_publishers s)"
    with inv obtain b where "openBuf (hr_heap s) ch = Some b" by fastforce
    from trySend_open [OF this] show "fst (trySend ch v (hr_heap s)) = Ok ()" by (metis fst_conv)
  qed
qed

text \<open>A subscriber and a publisher that is about to send to it.\<close>

definition exampleRun :: "nat hubRun" where
  "exampleRun =
     (let s = subscribeInsert 0 (subscribeMake hubStart) in s\<lparr>hr_publishers := [(7, [0])]\<rparr>)"

lemma exampleRun_reachable: "hub_reachable (\<lambda>_ _. True) exampleRun"
proof -
  let ?acc = "\<lambda>(_ :: nat) (_ :: nat). True"
  let ?s1 = "subscribeMake (hubStart :: nat hubRun)"
  let ?s2 = "subscribeInsert 0 ?s1"
  have "hub_reachable ?acc ?s1" by (rule step [OF start make])
  moreover have "hub_step ?acc ?s1 ?s2"
    by (rule insert) (simp_all add: subscribeMake_def makeChan_def hubStart_def emptyHeap_def)
  ultimately have "hub_reachable ?acc ?s2" by (rule step)
  moreover have "hub_step ?acc ?s2 (?s2\<lparr>hr_publishers := (7, [0]) # hr_publishers ?s2\<rparr>)"
    by (rule rlock) (simp_all add: subscribeInsert_def subscribeMake_def makeChan_def hubStart_def emptyHeap_def)
  ultimately have "hub_reachable ?acc (?s2\<lparr>hr_publishers := (7, [0]) # hr_publishers ?s2\<rparr>)" by (rule step)
  then show ?thesis
    by (simp add: exampleRun_def subscribeInsert_def subscribeMake_def makeChan_def hubStart_def emptyHeap_def)
qed

theorem hub_never_panics_witness:
  "(7, [0]) \<in> set (hr_publishers exampleRun) \<and> fst (trySend 0 7 (hr_heap exampleRun)) = Ok ()"
proof -
  have p: "(7, [0]) \<in> set (hr_publishers exampleRun)" by (simp add: exampleRun_def Let_def)
  with hub_never_panics [OF exampleRun_reachable] show ?thesis by blast
qed

section \<open>Writing to connections\<close>

text \<open>
  The first half of \<open>Broadcast\<close>, by several goroutines: each takes a snapshot of the connections
  under the mutex and then writes to them, the first of its list at a time, without it.
\<close>

record writeRun =
  wr_clients :: "nat set"
  wr_writers :: "(WSEvent \<times> nat list) list"

inductive write_step :: "writeRun \<Rightarrow> writeRun \<Rightarrow> bool" where
  register: "write_step s (s\<lparr>wr_clients := insert conn (wr_clients s)\<rparr>)"
| unregister: "write_step s (s\<lparr>wr_clients := wr_clients s - {conn}\<rparr>)"
| snapshot: "distinct ord \<Longrightarrow> set ord = wr_clients s \<Longrightarrow>
    write_step s (s\<lparr>wr_writers := (event, ord) # wr_writers s\<rparr>)"
| written: "wr_writers s = ps @ (event, c # cs) # qs \<Longrightarrow>
    write_step s (s\<lparr>wr_writers := ps @ (event, cs) # qs\<rparr>)"
| finished: "wr_writers s = ps @ (event, []) # qs \<Longrightarrow> write_step s (s\<lparr>wr_writers := ps @ qs\<rparr>)"

text \<open>
  Two transitions that are announced at the same time are written to the same connection at the
  same time: nothing serialises the writers of a connection.
\<close>

lemma Broadcast_overlapping_writes:
  "\<exists>s c. write_step\<^sup>*\<^sup>* \<lparr>wr_clients = {}, wr_writers = []\<rparr> s \<and> wr_writers s = [(e2, [c]), (e1, [c])]"
proof -
  let ?s1 = "\<lparr>wr_clients = {1}, wr_writers = []\<rparr>"
  let ?s2 = "\<lparr>wr_clients = {1}, wr_writers = [(e1, [1])]\<rparr>"
  let ?s3 = "\<lparr>wr_clients = {1}, wr_writers = [(e2, [1]), (e1, [1])]\<rparr>"
  have "write_step \<lparr>wr_clients = {}, wr_writers = []\<rparr> ?s1"
    using register [of "\<lparr>wr_clients = {}, wr_writers = []\<rparr>" 1] by simp
  moreover have "write_step ?s1 ?s2" using snapshot [of "[1]" ?s1 e1] by simp
  moreover have "write_step ?s2 ?s3" using snapshot [of "[1]" ?s2 e2] by simp
  ultimately have "write_step\<^sup>*\<^sup>* \<lparr>wr_clients = {}, wr_writers = []\<rparr> ?s3"
    by (meson rtranclp.rtrancl_into_rtrancl rtranclp.rtrancl_refl)
  then show ?thesis by (intro exI [of _ ?s3] exI [of _ 1]) simp
qed

end
