(* ===== verification/Mongo_Store.thy ===== *)
theory Mongo_Store
  imports Store_Interface
begin

text \<open>
  internal/store/mongo_store.go and object_store.go: the production store.  Every attempt of a state
  is a document of its own; the methods act on the latest attempt.  Outputs over one mebibyte go to
  an object store and leave a reference behind.

  Parameters: the MongoDB driver (\<open>Mongo\<close>: one field per driver call, over the Go structs the code
  passes, with filters and updates as the key-value lists it builds), the S3 client (\<open>S3\<close>) and, for
  the values of outputs, the JSON encoding of arbitrary maps (\<open>jsonCodec\<close>, whose numbers are floats).
\<close>

section \<open>Documents\<close>

record executionDoc =
  xd_ID :: string
  xd_Workflow :: string
  xd_Status :: string
  xd_Input :: gomap
  xd_CreatedAt :: time
  xd_UpdatedAt :: time

record stateDoc =
  td_ID :: string
  td_ExecutionID :: string
  td_StateName :: string
  td_Status :: string
  td_Input :: gomap
  td_Output :: gomap
  td_Error :: string
  td_Attempt :: int
  td_CreatedAt :: time
  td_UpdatedAt :: time

record serviceDoc =
  vd_Name :: string
  vd_Mode :: int
  vd_Port :: int
  vd_MinScale :: int
  vd_MaxScale :: int
  vd_IngressHost :: string
  vd_TimeoutNs :: int
  vd_Status :: string
  vd_ClusterIP :: string
  vd_CreatedAt :: time
  vd_UpdatedAt :: time

datatype bval = BStr string | BInt int | BTime time | BDoc gmap

type_synonym bdoc = "(string \<times> bval) list"
type_synonym bsort = "(string \<times> int) list"

record indexModel =
  ix_Keys :: bsort
  ix_Name :: string

section \<open>The driver\<close>

record 'w Mongo =
  mg_Connect :: "string \<Rightarrow> 'w \<Rightarrow> unit res \<times> 'w"
  mg_Ping :: "'w \<Rightarrow> unit res \<times> 'w"
  mg_CreateIndexes :: "string \<Rightarrow> indexModel list \<Rightarrow> 'w \<Rightarrow> unit res \<times> 'w"
  mg_InsertExecution :: "executionDoc \<Rightarrow> 'w \<Rightarrow> unit res \<times> 'w"
  mg_InsertState :: "stateDoc \<Rightarrow> 'w \<Rightarrow> unit res \<times> 'w"
  mg_InsertService :: "serviceDoc \<Rightarrow> 'w \<Rightarrow> unit res \<times> 'w"
  mg_FindOneExecution :: "bdoc \<Rightarrow> 'w \<Rightarrow> executionDoc res \<times> 'w"
  mg_FindOneState :: "bdoc \<Rightarrow> bsort \<Rightarrow> 'w \<Rightarrow> stateDoc res \<times> 'w"
  mg_FindOneService :: "bdoc \<Rightarrow> 'w \<Rightarrow> serviceDoc res \<times> 'w"
  mg_FindExecutions :: "bdoc \<Rightarrow> bsort \<Rightarrow> int \<Rightarrow> int \<Rightarrow> 'w \<Rightarrow> executionDoc list res res \<times> 'w"
  mg_FindStates :: "bdoc \<Rightarrow> bsort \<Rightarrow> 'w \<Rightarrow> stateDoc list res res \<times> 'w"
  mg_FindServices :: "bdoc \<Rightarrow> 'w \<Rightarrow> serviceDoc list res res \<times> 'w"
  mg_UpdateOne :: "string \<Rightarrow> bdoc \<Rightarrow> bdoc \<Rightarrow> 'w \<Rightarrow> int res \<times> 'w"
  mg_DeleteOne :: "string \<Rightarrow> bdoc \<Rightarrow> 'w \<Rightarrow> int res \<times> 'w"
  mg_Drop :: "'w \<Rightarrow> unit res \<times> 'w"
  mg_ErrNoDocuments :: goerr
  mg_IsDuplicateKeyError :: "goerr \<Rightarrow> bool"

record 'w S3 =
  s3_PutObject :: "string \<Rightarrow> string \<Rightarrow> string \<Rightarrow> 'w \<Rightarrow> unit res \<times> 'w"
  s3_GetObject :: "string \<Rightarrow> string \<Rightarrow> 'w \<Rightarrow> string res \<times> 'w"
  s3_IsNoSuchKey :: "goerr \<Rightarrow> bool"
  s3_LoadConfig :: "'w \<Rightarrow> unit res \<times> 'w"

record jsonCodec =
  jn_Marshal :: "gomap \<Rightarrow> string res"
  jn_Unmarshal :: "string \<Rightarrow> gomap res"

section \<open>The object store\<close>

record 'w ObjectStore =
  os_client :: "'w S3"
  os_bucketName :: string

definition trimRightSlashes :: "string \<Rightarrow> string" where
  "trimRightSlashes s = rev (dropWhile (\<lambda>c. c = CHR ''/'') (rev s))"

definition NewObjectStore :: "'w S3 \<Rightarrow> string \<Rightarrow> 'w \<Rightarrow> 'w ObjectStore res \<times> 'w" where
  "NewObjectStore s3 uri w =
     (if take 5 uri \<noteq> ''s3://''
      then (Err (Errorf [FL ''object store: URI must start with s3://, got '', FQ uri]), w)
      else
        (let bucket = trimRightSlashes (drop 5 uri) in
         if bucket = ''''
         then (Err (Errorf [FL ''object store: bucket name is empty in URI '', FQ uri]), w)
         else
           ifErr (s3_LoadConfig s3 w)
             (\<lambda>err w1. (Err (Errorf [FL ''object store: load AWS config: '', FW err]), w1))
             (\<lambda>_ w1. (Ok \<lparr>os_client = s3, os_bucketName = bucket\<rparr>, w1))))"

definition Put :: "'w ObjectStore \<Rightarrow> string \<Rightarrow> string \<Rightarrow> 'w \<Rightarrow> unit res \<times> 'w" where
  "Put os key data w =
     ifErr (s3_PutObject (os_client os) (os_bucketName os) key data w)
       (\<lambda>err w1. (Err (Errorf [FL ''object store: put '', FQ key, FL '': '', FW err]), w1))
       (\<lambda>_ w1. (Ok (), w1))"

text \<open>
  \<open>Get\<close>: \<open>s3_GetObject\<close> gives the bytes that reading the body delivers; the loop stops at any read
  error and returns what it has.
\<close>

definition Get :: "'w ObjectStore \<Rightarrow> string \<Rightarrow> 'w \<Rightarrow> string res \<times> 'w" where
  "Get os key w =
     ifErr (s3_GetObject (os_client os) (os_bucketName os) key w)
       (\<lambda>err w1.
          if s3_IsNoSuchKey (os_client os) err then (Err ErrObjectNotFound, w1)
          else (Err (Errorf [FL ''object store: get '', FQ key, FL '': '', FW err]), w1))
       (\<lambda>body w1. (Ok body, w1))"

section \<open>The store\<close>

definition collExecutions :: string where
  "collExecutions = ''kflow_executions''"

definition collStates :: string where
  "collStates = ''kflow_states''"

definition collServices :: string where
  "collServices = ''kflow_services''"

record 'w MongoStore =
  mo_db :: "'w Mongo"
  mo_ObjectStore :: "'w ObjectStore option"
  mo_json :: jsonCodec
  mo_now :: "'w \<Rightarrow> time"

definition stateDocID :: "string \<Rightarrow> string \<Rightarrow> int \<Rightarrow> string" where
  "stateDocID execID stateName attempt = Sprintf [FS execID, FL '':'', FS stateName, FL '':'', FD attempt]"

definition inputToM :: "gomap \<Rightarrow> gmap" where
  "inputToM i = (case i of None \<Rightarrow> Map.empty | Some m \<Rightarrow> m)"

definition mToInput :: "gomap \<Rightarrow> gomap" where
  "mToInput m = (case m of None \<Rightarrow> Some Map.empty | Some f \<Rightarrow> Some f)"

definition ensureIndex ::
    "'w MongoStore \<Rightarrow> string \<Rightarrow> indexModel list \<Rightarrow> string \<Rightarrow> ('w \<Rightarrow> unit res \<times> 'w) \<Rightarrow> 'w \<Rightarrow> unit res \<times> 'w" where
  "ensureIndex s coll ixs what k w =
     ifErr (mg_CreateIndexes (mo_db s) coll ixs w)
       (\<lambda>err w1. (Err (Errorf [FL ''store: ensure '', FL what, FL '' indexes: '', FW err]), w1))
       (\<lambda>_ w1. k w1)"

definition EnsureIndexes :: "'w MongoStore \<Rightarrow> 'w \<Rightarrow> unit res \<times> 'w" where
  "EnsureIndexes s =
     ensureIndex s collExecutions
       [\<lparr>ix_Keys = [(''status'', 1)], ix_Name = ''executions_status_idx''\<rparr>,
        \<lparr>ix_Keys = [(''workflow'', 1), (''created_at'', - 1)], ix_Name = ''executions_workflow_created_idx''\<rparr>]
       ''execution''
    (ensureIndex s collStates
       [\<lparr>ix_Keys = [(''execution_id'', 1), (''state_name'', 1)], ix_Name = ''states_exec_state_idx''\<rparr>,
        \<lparr>ix_Keys = [(''execution_id'', 1), (''status'', 1)], ix_Name = ''states_exec_status_idx''\<rparr>]
       ''state''
    (ensureIndex s collServices
       [\<lparr>ix_Keys = [(''status'', 1)], ix_Name = ''services_status_idx''\<rparr>] ''service''
    (\<lambda>w. (Ok (), w))))"

definition NewMongoStore ::
    "'w Mongo \<Rightarrow> jsonCodec \<Rightarrow> ('w \<Rightarrow> time) \<Rightarrow> string \<Rightarrow> 'w \<Rightarrow> 'w MongoStore res \<times> 'w" where
  "NewMongoStore db jn now uri w =
     ifErr (mg_Connect db uri w)
       (\<lambda>err w1. (Err (Errorf [FL ''store: mongo connect: '', FW err]), w1))
       (\<lambda>_ w1.
          ifErr (mg_Ping db w1)
            (\<lambda>err w2. (Err (Errorf [FL ''store: mongo ping: '', FW err]), w2))
            (\<lambda>_ w2.
               (let s = \<lparr>mo_db = db, mo_ObjectStore = None, mo_json = jn, mo_now = now\<rparr> in
                ifErr (EnsureIndexes s w2) (\<lambda>err w3. (Err err, w3)) (\<lambda>_ w3. (Ok s, w3)))))"

subsection \<open>Executions\<close>

definition mongo_CreateExecution :: "'w MongoStore \<Rightarrow> ExecutionRecord \<Rightarrow> 'w \<Rightarrow> unit res \<times> 'w" where
  "mongo_CreateExecution s rcd w =
     (let now = mo_now s w;
          doc = \<lparr>xd_ID = er_ID rcd, xd_Workflow = er_Workflow rcd, xd_Status = StatusPending,
                 xd_Input = Some (inputToM (er_Input rcd)), xd_CreatedAt = now, xd_UpdatedAt = now\<rparr>
      in ifErr (mg_InsertExecution (mo_db s) doc w)
           (\<lambda>err w1.
              if mg_IsDuplicateKeyError (mo_db s) err
              then (Err (Errorf [FL ''store: execution '', FQ (er_ID rcd), FL '' already exists'']), w1)
              else (Err (Errorf [FL ''store: create execution: '', FW err]), w1))
           (\<lambda>_ w1. (Ok (), w1)))"

definition docToExecutionRecord :: "executionDoc \<Rightarrow> ExecutionRecord" where
  "docToExecutionRecord d =
     \<lparr>er_ID = xd_ID d, er_Workflow = xd_Workflow d, er_Status = xd_Status d,
      er_Input = mToInput (xd_Input d), er_CreatedAt = xd_CreatedAt d, er_UpdatedAt = xd_UpdatedAt d\<rparr>"

definition mongo_GetExecution :: "'w MongoStore \<Rightarrow> string \<Rightarrow> 'w \<Rightarrow> ExecutionRecord res \<times> 'w" where
  "mongo_GetExecution s execID w =
     ifErr (mg_FindOneExecution (mo_db s) [(''_id'', BStr execID)] w)
       (\<lambda>err w1.
          if err = mg_ErrNoDocuments (mo_db s) then (Err ErrExecutionNotFound, w1)
          else (Err (Errorf [FL ''store: get execution: '', FW err]), w1))
       (\<lambda>doc w1. (Ok (docToExecutionRecord doc), w1))"

definition mongo_UpdateExecution :: "'w MongoStore \<Rightarrow> string \<Rightarrow> Status \<Rightarrow> 'w \<Rightarrow> unit res \<times> 'w" where
  "mongo_UpdateExecution s execID status w =
     ifErr (mg_UpdateOne (mo_db s) collExecutions [(''_id'', BStr execID)]
              [(''status'', BStr status), (''updated_at'', BTime (mo_now s w))] w)
       (\<lambda>err w1. (Err (Errorf [FL ''store: update execution: '', FW err]), w1))
       (\<lambda>matched w1. if matched = 0 then (Err ErrExecutionNotFound, w1) else (Ok (), w1))"

definition cursorAll :: "string \<Rightarrow> string \<Rightarrow> 'd list res res \<times> 'w \<Rightarrow> ('d \<Rightarrow> 'r) \<Rightarrow> 'r list res \<times> 'w" where
  "cursorAll findMsg decodeMsg found f =
     ifErr found
       (\<lambda>err w1. (Err (Errorf [FL findMsg, FW err]), w1))
       (\<lambda>cursor w1.
          ifErr (cursor, w1)
            (\<lambda>err w2. (Err (Errorf [FL decodeMsg, FW err]), w2))
            (\<lambda>docs w2. (Ok (map f docs), w2)))"

definition mongo_ListExecutions :: "'w MongoStore \<Rightarrow> ExecutionFilter \<Rightarrow> 'w \<Rightarrow> ExecutionRecord list res \<times> 'w" where
  "mongo_ListExecutions s f w =
     (let q = (if ef_Workflow f \<noteq> '''' then [(''workflow'', BStr (ef_Workflow f))] else []) @
              (if ef_Status f \<noteq> '''' then [(''status'', BStr (ef_Status f))] else []);
          limit = (if ef_Limit f \<le> 0 then 50 else ef_Limit f)
      in cursorAll ''store: list executions: '' ''store: decode executions: ''
           (mg_FindExecutions (mo_db s) q [(''created_at'', - 1)] limit (ef_Offset f) w)
           docToExecutionRecord)"

subsection \<open>States\<close>

definition pendingDoc :: "time \<Rightarrow> StateRecord \<Rightarrow> stateDoc" where
  "pendingDoc now rcd =
     \<lparr>td_ID = stateDocID (sr_ExecutionID rcd) (sr_StateName rcd) (sr_Attempt rcd),
      td_ExecutionID = sr_ExecutionID rcd, td_StateName = sr_StateName rcd,
      td_Status = StatusPending, td_Input = Some (inputToM (sr_Input rcd)), td_Output = None,
      td_Error = '''', td_Attempt = sr_Attempt rcd, td_CreatedAt = now, td_UpdatedAt = now\<rparr>"

definition mongo_WriteAheadState :: "'w MongoStore \<Rightarrow> StateRecord \<Rightarrow> 'w \<Rightarrow> unit res \<times> 'w" where
  "mongo_WriteAheadState s rcd w =
     (case mg_FindOneState (mo_db s)
            [(''execution_id'', BStr (sr_ExecutionID rcd)), (''state_name'', BStr (sr_StateName rcd)),
             (''status'', BStr StatusCompleted)] [] w of
        (Panic p, w1) \<Rightarrow> (Panic p, w1)
      | (Ok existing, w1) \<Rightarrow> (Err ErrStateAlreadyTerminal, w1)
      | (Err err, w1) \<Rightarrow>
          if err \<noteq> mg_ErrNoDocuments (mo_db s)
          then (Err (Errorf [FL ''store: write-ahead check: '', FW err]), w1)
          else
            ifErr (mg_InsertState (mo_db s) (pendingDoc (mo_now s w1) rcd) w1)
              (\<lambda>err w2.
                 if mg_IsDuplicateKeyError (mo_db s) err then (Err ErrStateAlreadyTerminal, w2)
                 else (Err (Errorf [FL ''store: write-ahead insert: '', FW err]), w2))
              (\<lambda>_ w2. (Ok (), w2)))"

text \<open>The lookup of the latest attempt that four methods make.\<close>

definition findLatest ::
    "'w MongoStore \<Rightarrow> string \<Rightarrow> string \<Rightarrow> string \<Rightarrow> (stateDoc \<Rightarrow> 'w \<Rightarrow> 'a res \<times> 'w) \<Rightarrow> 'w \<Rightarrow> 'a res \<times> 'w" where
  "findLatest s msg execID stateName k w =
     ifErr (mg_FindOneState (mo_db s)
              [(''execution_id'', BStr execID), (''state_name'', BStr stateName)] [(''attempt'', - 1)] w)
       (\<lambda>err w1.
          if err = mg_ErrNoDocuments (mo_db s) then (Err ErrStateNotFound, w1)
          else (Err (Errorf [FL msg, FW err]), w1))
       k"

definition updateLatestState :: "'w MongoStore \<Rightarrow> string \<Rightarrow> string \<Rightarrow> bdoc \<Rightarrow> 'w \<Rightarrow> unit res \<times> 'w" where
  "updateLatestState s execID stateName upd =
     findLatest s ''store: find state for update: '' execID stateName
       (\<lambda>doc w1.
          ifErr (mg_UpdateOne (mo_db s) collStates [(''_id'', BStr (td_ID doc))] upd w1)
            (\<lambda>err w2. (Err (Errorf [FL ''store: update state: '', FW err]), w2))
            (\<lambda>matched w2. if matched = 0 then (Err ErrStateNotFound, w2) else (Ok (), w2)))"

definition mongo_MarkRunning :: "'w MongoStore \<Rightarrow> string \<Rightarrow> string \<Rightarrow> 'w \<Rightarrow> unit res \<times> 'w" where
  "mongo_MarkRunning s execID stateName w =
     updateLatestState s execID stateName
       [(''status'', BStr StatusRunning), (''updated_at'', BTime (mo_now s w))] w"

definition completeLatest :: "'w MongoStore \<Rightarrow> string \<Rightarrow> string \<Rightarrow> gmap \<Rightarrow> 'w \<Rightarrow> unit res \<times> 'w" where
  "completeLatest s execID stateName outputBSON w =
     updateLatestState s execID stateName
       [(''status'', BStr StatusCompleted), (''output'', BDoc outputBSON),
        (''updated_at'', BTime (mo_now s w))] w"

definition outputKey :: "string \<Rightarrow> string \<Rightarrow> int \<Rightarrow> string" where
  "outputKey execID stateName attempt =
     Sprintf [FL ''executions/'', FS execID, FL ''/states/'', FS stateName, FL ''/attempt-'', FD attempt,
              FL ''.json'']"

definition mongo_CompleteState ::
    "'w MongoStore \<Rightarrow> string \<Rightarrow> string \<Rightarrow> gomap \<Rightarrow> 'w \<Rightarrow> unit res \<times> 'w" where
  "mongo_CompleteState s execID stateName output w =
     ifErr (jn_Marshal (mo_json s) output, w)
       (\<lambda>err w1. (Err (Errorf [FL ''store: marshal output: '', FW err]), w1))
       (\<lambda>outputBytes w1.
          if length outputBytes > 2 ^ 20 then
            (case mo_ObjectStore s of
               None \<Rightarrow> (Err ErrOutputTooLarge, w1)
             | Some os \<Rightarrow>
                 findLatest s ''store: find state for large output: '' execID stateName
                   (\<lambda>doc w2.
                      (let key = outputKey execID stateName (td_Attempt doc) in
                       ifErr (Put os key outputBytes w2)
                         (\<lambda>err w3. (Err (Errorf [FL ''store: upload large output: '', FW err]), w3))
                         (\<lambda>_ w3.
                            completeLatest s execID stateName
                              [''_ref'' \<mapsto> VStr (''s3://'' @ os_bucketName os @ ''/'' @ key)] w3)))
                   w1)
          else completeLatest s execID stateName (inputToM output) w1)"

definition mongo_FailState :: "'w MongoStore \<Rightarrow> string \<Rightarrow> string \<Rightarrow> string \<Rightarrow> 'w \<Rightarrow> unit res \<times> 'w" where
  "mongo_FailState s execID stateName errMsg w =
     updateLatestState s execID stateName
       [(''status'', BStr StatusFailed), (''error'', BStr errMsg), (''updated_at'', BTime (mo_now s w))] w"

definition extractS3Key :: "string \<Rightarrow> string" where
  "extractS3Key ref =
     (let withoutScheme = (if take 5 ref = ''s3://'' then drop 5 ref else ref) in
      if CHR ''/'' \<in> set withoutScheme
      then tl (dropWhile (\<lambda>c. c \<noteq> CHR ''/'') withoutScheme)
      else withoutScheme)"

text \<open>\<open>len(output) == 1\<close> and \<open>output["_ref"]\<close> a non-empty string.\<close>

definition outputRef :: "gmap \<Rightarrow> string option" where
  "outputRef m =
     (case m ''_ref'' of
        Some (VStr ref) \<Rightarrow> if dom m = {''_ref''} \<and> ref \<noteq> '''' then Some ref else None
      | _ \<Rightarrow> None)"

definition mongo_GetStateOutput :: "'w MongoStore \<Rightarrow> string \<Rightarrow> string \<Rightarrow> 'w \<Rightarrow> gomap res \<times> 'w" where
  "mongo_GetStateOutput s execID stateName =
     findLatest s ''store: get state output: '' execID stateName
       (\<lambda>doc w1.
          if td_Status doc \<noteq> StatusCompleted then (Err ErrStateNotCompleted, w1)
          else
            (let output = mToInput (td_Output doc) in
             case outputRef (entries output) of
               None \<Rightarrow> (Ok output, w1)
             | Some ref \<Rightarrow>
                 (case mo_ObjectStore s of
                    None \<Rightarrow> (Panic ''nil pointer dereference'', w1)
                  | Some os \<Rightarrow>
                      ifErr (Get os (extractS3Key ref) w1)
                        (\<lambda>err w2. (Err (Errorf [FL ''store: dereference large output: '', FW err]), w2))
                        (\<lambda>data w2.
                           ifErr (jn_Unmarshal (mo_json s) data, w2)
                             (\<lambda>err w3. (Err (Errorf [FL ''store: unmarshal large output: '', FW err]), w3))
                             (\<lambda>result w3. (Ok result, w3))))))"

definition docToStateRecord :: "stateDoc \<Rightarrow> StateRecord" where
  "docToStateRecord d =
     \<lparr>sr_ExecutionID = td_ExecutionID d, sr_StateName = td_StateName d, sr_Status = td_Status d,
      sr_Input = mToInput (td_Input d), sr_Output = mToInput (td_Output d), sr_Error = td_Error d,
      sr_Attempt = td_Attempt d, sr_ResumeAt = None, sr_CreatedAt = td_CreatedAt d,
      sr_UpdatedAt = td_UpdatedAt d\<rparr>"

definition mongo_ListStates :: "'w MongoStore \<Rightarrow> string \<Rightarrow> 'w \<Rightarrow> StateRecord list res \<times> 'w" where
  "mongo_ListStates s execID w =
     cursorAll ''store: list states: '' ''store: decode states: ''
       (mg_FindStates (mo_db s) [(''execution_id'', BStr execID)] [(''attempt'', 1)] w) docToStateRecord"

subsection \<open>Services\<close>

definition mongo_CreateService :: "'w MongoStore \<Rightarrow> ServiceRecord \<Rightarrow> 'w \<Rightarrow> unit res \<times> 'w" where
  "mongo_CreateService s rcd w =
     (let now = mo_now s w;
          doc = \<lparr>vd_Name = svc_Name rcd, vd_Mode = svc_Mode rcd, vd_Port = svc_Port rcd,
                 vd_MinScale = svc_MinScale rcd, vd_MaxScale = svc_MaxScale rcd,
                 vd_IngressHost = svc_IngressHost rcd, vd_TimeoutNs = svc_Timeout rcd,
                 vd_Status = ServiceStatusPending, vd_ClusterIP = svc_ClusterIP rcd,
                 vd_CreatedAt = now, vd_UpdatedAt = now\<rparr>
      in ifErr (mg_InsertService (mo_db s) doc w)
           (\<lambda>err w1.
              if mg_IsDuplicateKeyError (mo_db s) err then (Err ErrDuplicateServiceName, w1)
              else (Err (Errorf [FL ''store: create service: '', FW err]), w1))
           (\<lambda>_ w1. (Ok (), w1)))"

definition docToServiceRecord :: "serviceDoc \<Rightarrow> ServiceRecord" where
  "docToServiceRecord d =
     \<lparr>svc_Name = vd_Name d, svc_Mode = vd_Mode d, svc_Port = vd_Port d, svc_MinScale = vd_MinScale d,
      svc_MaxScale = vd_MaxScale d, svc_IngressHost = vd_IngressHost d, svc_Timeout = vd_TimeoutNs d,
      svc_Status = vd_Status d, svc_ClusterIP = vd_ClusterIP d, svc_CreatedAt = vd_CreatedAt d,
      svc_UpdatedAt = vd_UpdatedAt d\<rparr>"

definition mongo_GetService :: "'w MongoStore \<Rightarrow> string \<Rightarrow> 'w \<Rightarrow> ServiceRecord res \<times> 'w" where
  "mongo_GetService s name w =
     ifErr (mg_FindOneService (mo_db s) [(''_id'', BStr name)] w)
       (\<lambda>err w1.
          if err = mg_ErrNoDocuments (mo_db s) then (Err ErrServiceNotFound, w1)
          else (Err (Errorf [FL ''store: get service: '', FW err]), w1))
       (\<lambda>doc w1. (Ok (docToServiceRecord doc), w1))"

definition mongo_ListServices :: "'w MongoStore \<Rightarrow> 'w \<Rightarrow> ServiceRecord list res \<times> 'w" where
  "mongo_ListServices s w =
     cursorAll ''store: list services: '' ''store: decode services: ''
       (mg_FindServices (mo_db s) [] w) docToServiceRecord"

definition mongo_UpdateServiceStatus ::
    "'w MongoStore \<Rightarrow> string \<Rightarrow> ServiceStatus \<Rightarrow> string \<Rightarrow> 'w \<Rightarrow> unit res \<times> 'w" where
  "mongo_UpdateServiceStatus s name status clusterIP w =
     (let upd = [(''status'', BStr status), (''updated_at'', BTime (mo_now s w))] @
                   (if clusterIP \<noteq> '''' then [(''cluster_ip'', BStr clusterIP)] else [])
      in ifErr (mg_UpdateOne (mo_db s) collServices [(''_id'', BStr name)] upd w)
           (\<lambda>err w1. (Err (Errorf [FL ''store: update service status: '', FW err]), w1))
           (\<lambda>matched w1. if matched = 0 then (Err ErrServiceNotFound, w1) else (Ok (), w1)))"

definition mongo_DeleteService :: "'w MongoStore \<Rightarrow> string \<Rightarrow> 'w \<Rightarrow> unit res \<times> 'w" where
  "mongo_DeleteService s name w =
     ifErr (mg_DeleteOne (mo_db s) collServices [(''_id'', BStr name)] w)
       (\<lambda>err w1. (Err (Errorf [FL ''store: delete service: '', FW err]), w1))
       (\<lambda>deleted w1. if deleted = 0 then (Err ErrServiceNotFound, w1) else (Ok (), w1))"

definition DropDatabase :: "'w MongoStore \<Rightarrow> 'w \<Rightarrow> unit res \<times> 'w" where
  "DropDatabase s w = mg_Drop (mo_db s) w"

definition mongoStore :: "'w MongoStore \<Rightarrow> 'w Store" where
  "mongoStore s =
     \<lparr>st_CreateExecution = mongo_CreateExecution s, st_GetExecution = mongo_GetExecution s,
      st_UpdateExecution = mongo_UpdateExecution s, st_ListExecutions = mongo_ListExecutions s,
      st_WriteAheadState = mongo_WriteAheadState s, st_MarkRunning = mongo_MarkRunning s,
      st_CompleteState = mongo_CompleteState s, st_FailState = mongo_FailState s,
      st_GetStateOutput = mongo_GetStateOutput s, st_ListStates = mongo_ListStates s,
      st_CreateService = mongo_CreateService s, st_GetService = mongo_GetService s,
      st_ListServices = mongo_ListServices s, st_UpdateServiceStatus = mongo_UpdateServiceStatus s,
      st_DeleteService = mongo_DeleteService s\<rparr>"

section \<open>What the store relies on\<close>

text \<open>
  What the driver decodes from what it has encoded.  A document keeps its keys; \<open>bv v\<close> is the value
  that \<open>v\<close> comes back as.  Strings, booleans and null come back as they are; numbers, arrays and
  nested documents come back as the driver's own types, so nothing is said of them.  Times are kept
  in milliseconds.
\<close>

definition bson_values :: "(gvalue \<Rightarrow> gvalue) \<Rightarrow> bool" where
  "bson_values bv \<longleftrightarrow> (\<forall>x. bv (VStr x) = VStr x) \<and> (\<forall>b. bv (VBool b) = VBool b) \<and> bv VNull = VNull"

definition bsonMap :: "(gvalue \<Rightarrow> gvalue) \<Rightarrow> gmap \<Rightarrow> gmap" where
  "bsonMap bv m = (\<lambda>k. map_option bv (m k))"

definition bsonTime :: "time \<Rightarrow> time" where
  "bsonTime t = t div 1000000 * 1000000"

definition decodedState :: "(gvalue \<Rightarrow> gvalue) \<Rightarrow> stateDoc \<Rightarrow> stateDoc" where
  "decodedState bv d =
     d\<lparr>td_Input := map_option (bsonMap bv) (td_Input d), td_Output := map_option (bsonMap bv) (td_Output d),
       td_CreatedAt := bsonTime (td_CreatedAt d), td_UpdatedAt := bsonTime (td_UpdatedAt d)\<rparr>"

lemma decodedState_simps [simp]:
  "td_ID (decodedState bv d) = td_ID d" "td_ExecutionID (decodedState bv d) = td_ExecutionID d"
  "td_StateName (decodedState bv d) = td_StateName d" "td_Attempt (decodedState bv d) = td_Attempt d"
  "td_Status (decodedState bv d) = td_Status d" "td_Error (decodedState bv d) = td_Error d"
  by (simp_all add: decodedState_def)

lemma bsonMap_simps [simp]: "bsonMap bv Map.empty = Map.empty" "dom (bsonMap bv m) = dom m"
  by (auto simp: bsonMap_def)

lemma bsonMap_string: "bson_values bv \<Longrightarrow> bsonMap bv [k \<mapsto> VStr x] = [k \<mapsto> VStr x]"
  by (auto simp: bsonMap_def bson_values_def)

text \<open>
  The semantics of the driver calls on the collection of states, over its documents \<open>docs w\<close> as they
  are decoded, for a database that can be reached, so that no call fails for another reason: an
  insert succeeds for a fresh \<open>_id\<close> and reports a duplicate key otherwise; a find returns a matching
  document, the one with the greatest attempt when it sorts by it, or that there is none; an update
  by \<open>_id\<close> sets the given fields.
\<close>

definition stateField :: "stateDoc \<Rightarrow> string \<Rightarrow> bval option" where
  "stateField d k =
     (if k = ''_id'' then Some (BStr (td_ID d))
      else if k = ''execution_id'' then Some (BStr (td_ExecutionID d))
      else if k = ''state_name'' then Some (BStr (td_StateName d))
      else if k = ''status'' then Some (BStr (td_Status d))
      else if k = ''attempt'' then Some (BInt (td_Attempt d))
      else None)"

definition matches :: "bdoc \<Rightarrow> stateDoc \<Rightarrow> bool" where
  "matches f d \<longleftrightarrow> list_all (\<lambda>(k, v). stateField d k = Some v) f"

definition setField :: "(gvalue \<Rightarrow> gvalue) \<Rightarrow> string \<times> bval \<Rightarrow> stateDoc \<Rightarrow> stateDoc" where
  "setField bv kv d =
     (case snd kv of
        BStr x \<Rightarrow> if fst kv = ''status'' then d\<lparr>td_Status := x\<rparr>
                 else if fst kv = ''error'' then d\<lparr>td_Error := x\<rparr> else d
      | BDoc m \<Rightarrow> if fst kv = ''output'' then d\<lparr>td_Output := Some (bsonMap bv m)\<rparr> else d
      | BTime t \<Rightarrow> if fst kv = ''updated_at'' then d\<lparr>td_UpdatedAt := bsonTime t\<rparr> else d
      | BInt i \<Rightarrow> d)"

definition setFields :: "(gvalue \<Rightarrow> gvalue) \<Rightarrow> bdoc \<Rightarrow> stateDoc \<Rightarrow> stateDoc" where
  "setFields bv upd = fold (setField bv) upd"

definition found :: "bdoc \<Rightarrow> bsort \<Rightarrow> stateDoc list \<Rightarrow> stateDoc \<Rightarrow> bool" where
  "found f srt ds d \<longleftrightarrow>
     d \<in> set ds \<and> matches f d \<and>
     (srt = [(''attempt'', - 1)] \<longrightarrow> (\<forall>d' \<in> set ds. matches f d' \<longrightarrow> td_Attempt d' \<le> td_Attempt d))"

definition mongo_laws :: "'w Mongo \<Rightarrow> (gvalue \<Rightarrow> gvalue) \<Rightarrow> ('w \<Rightarrow> stateDoc list) \<Rightarrow> bool" where
  "mongo_laws D bv docs \<longleftrightarrow> bson_values bv \<and>
     (\<forall>d w. if td_ID d \<in> td_ID ` set (docs w)
        then \<exists>e. mg_InsertState D d w = (Err e, w) \<and> mg_IsDuplicateKeyError D e
        else \<exists>w'. mg_InsertState D d w = (Ok (), w') \<and> docs w' = docs w @ [decodedState bv d]) \<and>
     (\<forall>f srt w. if \<exists>d \<in> set (docs w). matches f d
        then \<exists>d. mg_FindOneState D f srt w = (Ok d, w) \<and> found f srt (docs w) d
        else mg_FindOneState D f srt w = (Err (mg_ErrNoDocuments D), w)) \<and>
     (\<forall>i upd w. \<exists>w'. mg_UpdateOne D collStates [(''_id'', BStr i)] upd w =
          (Ok (if i \<in> td_ID ` set (docs w) then 1 else 0), w') \<and>
        docs w' = map (\<lambda>d. if td_ID d = i then setFields bv upd d else d) (docs w))"

lemma mongo_insert:
  assumes "mongo_laws D bv docs"
  shows "td_ID d \<in> td_ID ` set (docs w) \<Longrightarrow>
      \<exists>e. mg_InsertState D d w = (Err e, w) \<and> mg_IsDuplicateKeyError D e"
    and "td_ID d \<notin> td_ID ` set (docs w) \<Longrightarrow>
      \<exists>w'. mg_InsertState D d w = (Ok (), w') \<and> docs w' = docs w @ [decodedState bv d]"
  using assms unfolding mongo_laws_def by (metis (no_types, lifting))+

lemma mongo_find:
  assumes "mongo_laws D bv docs"
  shows "d' \<in> set (docs w) \<Longrightarrow> matches f d' \<Longrightarrow>
      \<exists>d. mg_FindOneState D f srt w = (Ok d, w) \<and> found f srt (docs w) d"
    and "(\<And>d. d \<in> set (docs w) \<Longrightarrow> \<not> matches f d) \<Longrightarrow>
      mg_FindOneState D f srt w = (Err (mg_ErrNoDocuments D), w)"
  using assms unfolding mongo_laws_def by (metis (no_types, lifting))+

lemma mongo_update:
  assumes "mongo_laws D bv docs"
  obtains w' where "mg_UpdateOne D collStates [(''_id'', BStr i)] upd w =
      (Ok (if i \<in> td_ID ` set (docs w) then 1 else 0), w')"
    "docs w' = map (\<lambda>d. if td_ID d = i then setFields bv upd d else d) (docs w)"
  using assms unfolding mongo_laws_def by (metis (no_types, lifting))

text \<open>The documents as the store writes them: one for each execution, state and attempt.\<close>

definition docs_ok :: "stateDoc list \<Rightarrow> bool" where
  "docs_ok ds \<longleftrightarrow> distinct (map td_ID ds) \<and>
     (\<forall>d \<in> set ds. td_ID d = stateDocID (td_ExecutionID d) (td_StateName d) (td_Attempt d))"

lemma setField_keys [simp]:
  "td_ID (setField bv kv d) = td_ID d" "td_ExecutionID (setField bv kv d) = td_ExecutionID d"
  "td_StateName (setField bv kv d) = td_StateName d" "td_Attempt (setField bv kv d) = td_Attempt d"
  by (simp_all add: setField_def split: bval.splits)

lemma setFields_keys [simp]:
  "td_ID (setFields bv upd d) = td_ID d" "td_ExecutionID (setFields bv upd d) = td_ExecutionID d"
  "td_StateName (setFields bv upd d) = td_StateName d" "td_Attempt (setFields bv upd d) = td_Attempt d"
  by (induction upd arbitrary: d) (simp_all add: setFields_def)

abbreviation stateFilter :: "string \<Rightarrow> string \<Rightarrow> bdoc" where
  "stateFilter e s \<equiv> [(''execution_id'', BStr e), (''state_name'', BStr s)]"

lemma matches_state [simp]:
  "matches (stateFilter e s) d \<longleftrightarrow> td_ExecutionID d = e \<and> td_StateName d = s"
  by (simp add: matches_def stateField_def)

lemma docs_ok_inj:
  "docs_ok ds \<Longrightarrow> d \<in> set ds \<Longrightarrow> d' \<in> set ds \<Longrightarrow> td_ID d' = td_ID d \<longleftrightarrow> d' = d"
  unfolding docs_ok_def distinct_map by (metis inj_onD)

lemma docs_ok_unique:
  assumes "docs_ok ds" and "d \<in> set ds" and "d' \<in> set ds" and "td_ExecutionID d' = td_ExecutionID d"
    and "td_StateName d' = td_StateName d" and "td_Attempt d' = td_Attempt d"
  shows "d' = d"
proof -
  have "td_ID d' = td_ID d" using assms by (simp add: docs_ok_def)
  with docs_ok_inj [OF assms(1-3)] show ?thesis by simp
qed

lemma docs_ok_update:
  "docs_ok ds \<Longrightarrow> docs_ok (map (\<lambda>d. if td_ID d = i then setFields bv upd d else d) ds)"
  by (auto simp: docs_ok_def comp_def if_distrib cong: if_cong)

lemma findLatest_none:
  assumes "mongo_laws (mo_db s) bv docs"
    and "\<And>d. d \<in> set (docs w) \<Longrightarrow> \<not> (td_ExecutionID d = e \<and> td_StateName d = st)"
  shows "findLatest s msg e st k w = (Err ErrStateNotFound, w)"
proof -
  have "mg_FindOneState (mo_db s) (stateFilter e st) [(''attempt'', - 1)] w =
      (Err (mg_ErrNoDocuments (mo_db s)), w)"
    by (rule mongo_find(2) [OF assms(1)]) (use assms(2) in simp)
  then show ?thesis by (simp add: findLatest_def)
qed

text \<open>The latest attempt: what the methods that look for it act on.\<close>

definition latest :: "stateDoc list \<Rightarrow> string \<Rightarrow> string \<Rightarrow> stateDoc \<Rightarrow> bool" where
  "latest ds e s d \<longleftrightarrow> found (stateFilter e s) [(''attempt'', - 1)] ds d"

lemma findLatest_some:
  assumes "mongo_laws (mo_db s) bv docs" and "docs_ok (docs w)" and "latest (docs w) e st d"
  shows "findLatest s msg e st k w = k d w"
proof -
  have d: "d \<in> set (docs w)" "td_ExecutionID d = e" "td_StateName d = st"
    using assms(3) by (auto simp: latest_def found_def)
  then obtain d1 where 1: "mg_FindOneState (mo_db s) (stateFilter e st) [(''attempt'', - 1)] w = (Ok d1, w)"
      "found (stateFilter e st) [(''attempt'', - 1)] (docs w) d1"
    using mongo_find(1) [OF assms(1) d(1), of "stateFilter e st" "[(''attempt'', - 1)]"] by auto
  have "td_Attempt d1 = td_Attempt d"
    using 1(2) assms(3) d by (auto simp: latest_def found_def intro: antisym)
  then have "d1 = d" using docs_ok_unique [OF assms(2) d(1), of d1] 1(2) d by (auto simp: found_def)
  with 1 show ?thesis by (simp add: findLatest_def)
qed

lemma latest_exists:
  assumes "d \<in> set ds" and "td_ExecutionID d = e" and "td_StateName d = s"
  obtains d' where "latest ds e s d'"
proof -
  let ?ms = "filter (\<lambda>d. td_ExecutionID d = e \<and> td_StateName d = s) ds"
  have "Max (td_Attempt ` set ?ms) \<in> td_Attempt ` set ?ms" using assms by (intro Max_in) auto
  then obtain d' where d': "d' \<in> set ?ms" "td_Attempt d' = Max (td_Attempt ` set ?ms)" by auto
  then have "latest ds e s d'" by (auto simp: latest_def found_def)
  with that show thesis .
qed

lemma updateLatest_effect:
  assumes laws: "mongo_laws (mo_db s) bv docs" and ok: "docs_ok (docs w)" and d: "latest (docs w) e st d"
  obtains w' where "updateLatestState s e st upd w = (Ok (), w')" "docs_ok (docs w')"
    "latest (docs w') e st (setFields bv upd d)"
    "docs w' = map (\<lambda>x. if x = d then setFields bv upd x else x) (docs w)"
proof -
  have in_docs: "d \<in> set (docs w)" using d by (simp add: latest_def found_def)
  obtain w' where u: "mg_UpdateOne (mo_db s) collStates [(''_id'', BStr (td_ID d))] upd w =
      (Ok (if td_ID d \<in> td_ID ` set (docs w) then 1 else 0), w')"
    and docs': "docs w' = map (\<lambda>x. if td_ID x = td_ID d then setFields bv upd x else x) (docs w)"
    by (rule mongo_update [OF laws])
  have "(td_ID x = td_ID d) = (x = d)" if "x \<in> set (docs w)" for x
    by (rule docs_ok_inj [OF ok in_docs that])
  then have eq: "docs w' = map (\<lambda>x. if x = d then setFields bv upd x else x) (docs w)"
    by (simp add: docs')
  have "latest (docs w') e st (setFields bv upd d)"
    using d in_docs by (auto simp: latest_def found_def eq image_iff intro: bexI [of _ d])
  moreover have "updateLatestState s e st upd w = (Ok (), w')"
    using in_docs by (simp add: updateLatestState_def findLatest_some [OF laws ok d] u)
  ultimately show thesis using that eq docs_ok_update [OF ok] docs' by metis
qed

end
