(* ===== verification/Mongo_Correct.thy ===== *)
theory Mongo_Correct
  imports Mongo_Store Executor Token
begin

text \<open>
  What holds of the MongoDB store when the driver keeps its documented semantics (\<open>mongo_laws\<close>): the
  outcome of write-ahead, the round trip of outputs through the database and through the object
  store, and two situations the store handles badly.
\<close>

section \<open>Write-ahead\<close>

abbreviation completedFilter :: "string \<Rightarrow> string \<Rightarrow> bdoc" where
  "completedFilter e st \<equiv> [(''execution_id'', BStr e), (''state_name'', BStr st), (''status'', BStr StatusCompleted)]"

lemma matches_completed [simp]:
  "matches (completedFilter e st) d \<longleftrightarrow>
     td_ExecutionID d = e \<and> td_StateName d = st \<and> td_Status d = StatusCompleted"
  by (simp add: matches_def stateField_def)

definition completedDoc :: "stateDoc list \<Rightarrow> string \<Rightarrow> string \<Rightarrow> bool" where
  "completedDoc ds e st \<longleftrightarrow>
     (\<exists>d \<in> set ds. td_ExecutionID d = e \<and> td_StateName d = st \<and> td_Status d = StatusCompleted)"

lemma WriteAhead_cases:
  fixes s :: "'w MongoStore" and docs :: "'w \<Rightarrow> stateDoc list"
  assumes laws: "mongo_laws (mo_db s) bv docs"
  defines "i r \<equiv> stateDocID (sr_ExecutionID r) (sr_StateName r) (sr_Attempt r)"
  shows "completedDoc (docs w) (sr_ExecutionID r) (sr_StateName r) \<or> i r \<in> td_ID ` set (docs w) \<Longrightarrow>
      mongo_WriteAheadState s r w = (Err ErrStateAlreadyTerminal, w)"
    and "\<not> completedDoc (docs w) (sr_ExecutionID r) (sr_StateName r) \<Longrightarrow> i r \<notin> td_ID ` set (docs w) \<Longrightarrow>
      \<exists>w'. mongo_WriteAheadState s r w = (Ok (), w') \<and> docs w' = docs w @ [decodedState bv (pendingDoc (mo_now s w) r)]"
proof -
  let ?f = "completedFilter (sr_ExecutionID r) (sr_StateName r)"
  have id: "td_ID (pendingDoc t r) = i r" for t by (simp add: pendingDoc_def i_def)
  have none: "mg_FindOneState (mo_db s) ?f [] w = (Err (mg_ErrNoDocuments (mo_db s)), w)"
    if "\<not> completedDoc (docs w) (sr_ExecutionID r) (sr_StateName r)"
    by (rule mongo_find(2) [OF laws]) (use that in \<open>auto simp: completedDoc_def\<close>)
  show "mongo_WriteAheadState s r w = (Err ErrStateAlreadyTerminal, w)"
    if "completedDoc (docs w) (sr_ExecutionID r) (sr_StateName r) \<or> i r \<in> td_ID ` set (docs w)"
  proof (cases "completedDoc (docs w) (sr_ExecutionID r) (sr_StateName r)")
    case True
    then obtain d' where "d' \<in> set (docs w)" "matches ?f d'" by (auto simp: completedDoc_def)
    then show ?thesis
      using mongo_find(1) [OF laws, of d' w ?f "[]"] by (auto simp: mongo_WriteAheadState_def)
  next
    case False
    with that mongo_insert(1) [OF laws, of "pendingDoc (mo_now s w) r" w] none show ?thesis
      by (auto simp: mongo_WriteAheadState_def id)
  qed
  assume "\<not> completedDoc (docs w) (sr_ExecutionID r) (sr_StateName r)" "i r \<notin> td_ID ` set (docs w)"
  with mongo_insert(2) [OF laws, of "pendingDoc (mo_now s w) r" w] none
  show "\<exists>w'. mongo_WriteAheadState s r w = (Ok (), w') \<and> docs w' = docs w @ [decodedState bv (pendingDoc (mo_now s w) r)]"
    by (auto simp: mongo_WriteAheadState_def id)
qed

section \<open>The other collections\<close>

text \<open>
  The calls on the collection of executions, for a database that can be reached: \<open>xdocs w i\<close> is the
  document with \<open>_id\<close> \<open>i\<close> as it is decoded.  The calls on one collection do not touch the other.
\<close>

definition decodedExecution :: "(gvalue \<Rightarrow> gvalue) \<Rightarrow> executionDoc \<Rightarrow> executionDoc" where
  "decodedExecution bv d =
     d\<lparr>xd_Input := map_option (bsonMap bv) (xd_Input d), xd_CreatedAt := bsonTime (xd_CreatedAt d),
       xd_UpdatedAt := bsonTime (xd_UpdatedAt d)\<rparr>"

definition execution_laws ::
    "'w Mongo \<Rightarrow> (gvalue \<Rightarrow> gvalue) \<Rightarrow> ('w \<Rightarrow> stateDoc list) \<Rightarrow> ('w \<Rightarrow> string \<Rightarrow> executionDoc option) \<Rightarrow> bool" where
  "execution_laws D bv docs xdocs \<longleftrightarrow>
     (\<forall>d w. if xdocs w (xd_ID d) \<noteq> None
        then \<exists>e. mg_InsertExecution D d w = (Err e, w) \<and> mg_IsDuplicateKeyError D e
        else \<exists>w'. mg_InsertExecution D d w = (Ok (), w') \<and> docs w' = docs w \<and>
               xdocs w' = (xdocs w)(xd_ID d \<mapsto> decodedExecution bv d)) \<and>
     (\<forall>i w. mg_FindOneExecution D [(''_id'', BStr i)] w =
        (case xdocs w i of None \<Rightarrow> Err (mg_ErrNoDocuments D) | Some d \<Rightarrow> Ok d, w)) \<and>
     (\<forall>i st t w. \<exists>w'. mg_UpdateOne D collExecutions [(''_id'', BStr i)]
          [(''status'', BStr st), (''updated_at'', BTime t)] w = (Ok (if xdocs w i = None then 0 else 1), w') \<and>
        docs w' = docs w \<and>
        xdocs w' = (case xdocs w i of None \<Rightarrow> xdocs w
                    | Some d \<Rightarrow> (xdocs w)(i \<mapsto> d\<lparr>xd_Status := st, xd_UpdatedAt := bsonTime t\<rparr>))) \<and>
     (\<forall>d w. xdocs (snd (mg_InsertState D d w)) = xdocs w) \<and>
     (\<forall>f upd w. xdocs (snd (mg_UpdateOne D collStates f upd w)) = xdocs w)"

text \<open>
  The collection of services, whether or not the calls succeed: \<open>svcs w\<close> are its documents.  Inserting
  adds the document or nothing, deleting only removes documents, and only an update of this
  collection changes one.
\<close>

definition decodedService :: "serviceDoc \<Rightarrow> serviceDoc" where
  "decodedService d = d\<lparr>vd_CreatedAt := bsonTime (vd_CreatedAt d), vd_UpdatedAt := bsonTime (vd_UpdatedAt d)\<rparr>"

definition service_laws :: "'w MongoStore \<Rightarrow> ('w \<Rightarrow> serviceDoc set) \<Rightarrow> bool" where
  "service_laws s svcs \<longleftrightarrow>
     (\<forall>d w. svcs (snd (mg_InsertService (mo_db s) d w)) \<subseteq> insert (decodedService d) (svcs w)) \<and>
     (\<forall>c f w. svcs (snd (mg_DeleteOne (mo_db s) c f w)) \<subseteq> svcs w) \<and>
     (\<forall>f d w w'. mg_FindOneService (mo_db s) f w = (Ok d, w') \<longrightarrow> d \<in> svcs w) \<and>
     (\<forall>c f upd w. c \<noteq> collServices \<longrightarrow> svcs (snd (mg_UpdateOne (mo_db s) c f upd w)) = svcs w) \<and>
     (\<forall>d w. svcs (snd (mg_InsertExecution (mo_db s) d w)) = svcs w) \<and>
     (\<forall>d w. svcs (snd (mg_InsertState (mo_db s) d w)) = svcs w) \<and>
     (\<forall>f w. svcs (snd (mg_FindOneExecution (mo_db s) f w)) = svcs w) \<and>
     (\<forall>f srt w. svcs (snd (mg_FindOneState (mo_db s) f srt w)) = svcs w) \<and>
     (\<forall>f w. svcs (snd (mg_FindOneService (mo_db s) f w)) = svcs w) \<and>
     (\<forall>f srt l o' w. svcs (snd (mg_FindExecutions (mo_db s) f srt l o' w)) = svcs w) \<and>
     (\<forall>f srt w. svcs (snd (mg_FindStates (mo_db s) f srt w)) = svcs w) \<and>
     (\<forall>f w. svcs (snd (mg_FindServices (mo_db s) f w)) = svcs w) \<and>
     (\<forall>os b k data w. mo_ObjectStore s = Some os \<longrightarrow>
        svcs (snd (s3_PutObject (os_client os) b k data w)) = svcs w \<and>
        svcs (snd (s3_GetObject (os_client os) b k w)) = svcs w)"

section \<open>A database in memory\<close>

text \<open>A database that satisfies the laws; numbers come back as their decimal text.\<close>

record simDb =
  db_states :: "stateDoc list"
  db_executions :: "string \<rightharpoonup> executionDoc"
  db_services :: "string \<rightharpoonup> serviceDoc"
  db_objects :: "string \<times> string \<rightharpoonup> string"

definition simValue :: "gvalue \<Rightarrow> gvalue" where
  "simValue v = (case v of VNum i \<Rightarrow> VStr (showInt i) | _ \<Rightarrow> v)"

lemma simValue_ok: "bson_values simValue"
  by (simp add: bson_values_def simValue_def)

definition noDocuments :: goerr where
  "noDocuments = Errorf [FL ''mongo: no documents in result'']"

definition duplicateKey :: goerr where
  "duplicateKey = Errorf [FL ''E11000 duplicate key error'']"

definition simFind :: "bdoc \<Rightarrow> bsort \<Rightarrow> simDb \<Rightarrow> stateDoc res \<times> simDb" where
  "simFind f srt w =
     (case sort_key (\<lambda>d. - td_Attempt d) (filter (matches f) (db_states w)) of
        [] \<Rightarrow> (Err noDocuments, w)
      | d # ds \<Rightarrow> (Ok d, w))"

definition byId :: "bdoc \<Rightarrow> (string \<rightharpoonup> 'd) \<Rightarrow> 'd res" where
  "byId f coll =
     (case f of
        [(_, BStr i)] \<Rightarrow> (case coll i of None \<Rightarrow> Err noDocuments | Some d \<Rightarrow> Ok d)
      | _ \<Rightarrow> Err noDocuments)"

definition simSetExecution :: "bdoc \<Rightarrow> executionDoc \<Rightarrow> executionDoc" where
  "simSetExecution upd d =
     (case upd of
        [(_, BStr st), (_, BTime t)] \<Rightarrow> d\<lparr>xd_Status := st, xd_UpdatedAt := bsonTime t\<rparr>
      | _ \<Rightarrow> d)"

definition simUpdate :: "string \<Rightarrow> bdoc \<Rightarrow> bdoc \<Rightarrow> simDb \<Rightarrow> int res \<times> simDb" where
  "simUpdate c f upd w =
     (case f of
        [(_, BStr i)] \<Rightarrow>
          if c = collStates
          then (Ok (if i \<in> td_ID ` set (db_states w) then 1 else 0),
                w\<lparr>db_states := map (\<lambda>d. if td_ID d = i then setFields simValue upd d else d) (db_states w)\<rparr>)
          else if c = collExecutions
          then (case db_executions w i of
                  None \<Rightarrow> (Ok 0, w)
                | Some d \<Rightarrow>
                    (Ok 1, w\<lparr>db_executions := (db_executions w)(i \<mapsto> simSetExecution upd d)\<rparr>))
          else (Ok 0, w)
      | _ \<Rightarrow> (Ok 0, w))"

definition simMongo :: "simDb Mongo" where
  "simMongo =
     \<lparr>mg_Connect = (\<lambda>uri w. (Ok (), w)), mg_Ping = (\<lambda>w. (Ok (), w)),
      mg_CreateIndexes = (\<lambda>c ixs w. (Ok (), w)),
      mg_InsertExecution = (\<lambda>d w. if db_executions w (xd_ID d) \<noteq> None then (Err duplicateKey, w)
        else (Ok (), w\<lparr>db_executions := (db_executions w)(xd_ID d \<mapsto> decodedExecution simValue d)\<rparr>)),
      mg_InsertState = (\<lambda>d w. if td_ID d \<in> td_ID ` set (db_states w) then (Err duplicateKey, w)
        else (Ok (), w\<lparr>db_states := db_states w @ [decodedState simValue d]\<rparr>)),
      mg_InsertService = (\<lambda>d w. if db_services w (vd_Name d) \<noteq> None then (Err duplicateKey, w)
        else (Ok (), w\<lparr>db_services := (db_services w)(vd_Name d \<mapsto> decodedService d)\<rparr>)),
      mg_FindOneExecution = (\<lambda>f w. (byId f (db_executions w), w)),
      mg_FindOneState = simFind,
      mg_FindOneService = (\<lambda>f w. (byId f (db_services w), w)),
      mg_FindExecutions = (\<lambda>f srt l o' w. (Ok (Ok []), w)),
      mg_FindStates = (\<lambda>f srt w. (Ok (Ok (filter (matches f) (db_states w))), w)),
      mg_FindServices = (\<lambda>f w. (Ok (Ok []), w)),
      mg_UpdateOne = simUpdate,
      mg_DeleteOne = (\<lambda>c f w. (Ok 0, w)), mg_Drop = (\<lambda>w. (Ok (), w)),
      mg_ErrNoDocuments = noDocuments, mg_IsDuplicateKeyError = (\<lambda>e. e = duplicateKey)\<rparr>"

lemma simFind_laws:
  "\<exists>d \<in> set (db_states w). matches f d \<Longrightarrow>
     \<exists>d. simFind f srt w = (Ok d, w) \<and> found f srt (db_states w) d"
  "\<not> (\<exists>d \<in> set (db_states w). matches f d) \<Longrightarrow> simFind f srt w = (Err noDocuments, w)"
proof -
  let ?ms = "filter (matches f) (db_states w)"
  let ?ss = "sort_key (\<lambda>d. - td_Attempt d) ?ms"
  have set: "set ?ss = set ?ms" by simp
  show "simFind f srt w = (Err noDocuments, w)" if "\<not> (\<exists>d \<in> set (db_states w). matches f d)"
    using that by (simp add: simFind_def filter_empty_conv)
  assume "\<exists>d \<in> set (db_states w). matches f d"
  then have "?ss \<noteq> []" using set by (metis empty_set filter_empty_conv set_empty)
  then obtain d ds where dds: "?ss = d # ds" by (cases ?ss) auto
  have "sorted (map (\<lambda>d. - td_Attempt d) ?ss)" by simp
  then have "\<forall>d' \<in> set ?ss. td_Attempt d' \<le> td_Attempt d" unfolding dds by auto
  then have "found f srt (db_states w) d"
    using set dds by (auto simp: found_def)
  then show "\<exists>d. simFind f srt w = (Ok d, w) \<and> found f srt (db_states w) d"
    by (simp add: simFind_def dds)
qed

lemma simMongo_laws: "mongo_laws simMongo simValue db_states"
  unfolding mongo_laws_def using simFind_laws simValue_ok by (auto simp: simMongo_def simUpdate_def)

lemma simMongo_executions: "execution_laws simMongo simValue db_states db_executions"
  unfolding execution_laws_def
  by (auto simp: simMongo_def simUpdate_def simSetExecution_def byId_def collExecutions_def collStates_def
      split: option.splits list.splits bval.splits)

definition codec1 :: jsonCodec where
  "codec1 = \<lparr>jn_Marshal = (\<lambda>m. Ok ''{}''), jn_Unmarshal = (\<lambda>s. Ok None)\<rparr>"

definition simMongoStore :: "simDb MongoStore" where
  "simMongoStore = \<lparr>mo_db = simMongo, mo_ObjectStore = None, mo_json = codec1, mo_now = (\<lambda>w. 0)\<rparr>"

definition runningRecord :: StateRecord where
  "runningRecord =
     \<lparr>sr_ExecutionID = ''e'', sr_StateName = ''a'', sr_Status = '''', sr_Input = None, sr_Output = None,
      sr_Error = '''', sr_Attempt = 1, sr_ResumeAt = None, sr_CreatedAt = 0, sr_UpdatedAt = 0\<rparr>"

definition runningDb :: simDb where
  "runningDb = \<lparr>db_states = [(pendingDoc 0 runningRecord)\<lparr>td_Status := StatusRunning\<rparr>],
     db_executions = Map.empty, db_services = Map.empty, db_objects = Map.empty\<rparr>"

lemma runningDb_ok: "docs_ok (db_states runningDb)" "mongo_laws (mo_db simMongoStore) simValue db_states"
  by (simp_all add: docs_ok_def runningDb_def pendingDoc_def simMongoStore_def simMongo_laws)

lemma runningDb_latest:
  "latest (db_states runningDb) ''e'' ''a'' ((pendingDoc 0 runningRecord)\<lparr>td_Status := StatusRunning\<rparr>)"
  by (simp add: latest_def found_def runningDb_def pendingDoc_def runningRecord_def)

section \<open>Properties\<close>



text \<open>
  C19.  An output that is at most one mebibyte as JSON and is not a single entry \<open>_ref\<close> is stored and
  read back from the latest attempt of its state, as long as the calls of the driver succeed: with
  the same keys and, at each key, the value that the driver decodes from the one that was stored.
  Strings, booleans and null come back as they were; a nil output comes back as an empty one.
\<close>

theorem Mongo_output_roundtrip:
  fixes s :: "'w MongoStore" and docs :: "'w \<Rightarrow> stateDoc list"
  assumes laws: "mongo_laws (mo_db s) bv docs" and ok: "docs_ok (docs w)"
    and there: "\<exists>d \<in> set (docs w). td_ExecutionID d = e \<and> td_StateName d = st"
    and small: "jn_Marshal (mo_json s) out = Ok bytes" "length bytes \<le> 2 ^ 20"
    and plain: "dom (entries out) \<noteq> {''_ref''}"
  shows "\<exists>w' got. mongo_CompleteState s e st out w = (Ok (), w') \<and>
    mongo_GetStateOutput s e st w' = (Ok (Some got), w') \<and>
    dom got = dom (entries out) \<and> (\<forall>k v. entries out k = Some v \<longrightarrow> got k = Some (bv v)) \<and>
    (\<forall>k x b. entries out k \<in> {Some (VStr x), Some (VBool b), Some VNull} \<longrightarrow> got k = entries out k)"
proof -
  obtain d where d: "latest (docs w) e st d" using there latest_exists by metis
  let ?upd = "[(''status'', BStr StatusCompleted), (''output'', BDoc (inputToM out)),
        (''updated_at'', BTime (mo_now s w))]"
  let ?got = "bsonMap bv (entries out)"
  obtain w' where w': "updateLatestState s e st ?upd w = (Ok (), w')" "docs_ok (docs w')"
      "latest (docs w') e st (setFields bv ?upd d)"
    by (rule updateLatest_effect [OF laws ok d])
  have doc: "td_Status (setFields bv ?upd d) = StatusCompleted"
      "td_Output (setFields bv ?upd d) = Some ?got"
    by (simp_all add: setFields_def setField_def inputToM_def entries_def)
  have ref: "outputRef ?got = None"
    using plain by (auto simp: outputRef_def split: option.splits gvalue.splits)
  have "mongo_CompleteState s e st out w = (Ok (), w')"
    using small w'(1) by (simp add: mongo_CompleteState_def completeLatest_def)
  moreover have "mongo_GetStateOutput s e st w' = (Ok (Some ?got), w')"
    unfolding mongo_GetStateOutput_def findLatest_some [OF laws w'(2,3)]
    using ref by (simp add: doc mToInput_def)
  moreover have "bson_values bv" using laws by (simp add: mongo_laws_def)
  ultimately show ?thesis
    by (intro exI [of _ w'] exI [of _ ?got]) (auto simp: bsonMap_def bson_values_def)
qed

theorem Mongo_output_roundtrip_witness:
  "\<exists>w' got. mongo_CompleteState simMongoStore ''e'' ''a'' (Some [''k'' \<mapsto> VStr ''x'', ''n'' \<mapsto> VNum 7]) runningDb =
       (Ok (), w') \<and>
     mongo_GetStateOutput simMongoStore ''e'' ''a'' w' = (Ok (Some got), w') \<and>
     got ''k'' = Some (VStr ''x'') \<and> got ''n'' = Some (VStr ''7'')"
proof -
  let ?out = "Some [''k'' \<mapsto> VStr ''x'', ''n'' \<mapsto> VNum 7]"
  have there: "\<exists>d \<in> set (db_states runningDb). td_ExecutionID d = ''e'' \<and> td_StateName d = ''a''"
    by (simp add: runningDb_def pendingDoc_def runningRecord_def)
  have small: "jn_Marshal (mo_json simMongoStore) ?out = Ok ''{}''"
    "length ''{}'' \<le> 2 ^ 20" by (simp_all add: simMongoStore_def codec1_def)
  have plain: "dom (entries ?out) \<noteq> {''_ref''}" by auto
  have "showInt 7 = ''7''" by code_simp
  with Mongo_output_roundtrip [OF runningDb_ok(2,1) there small plain] show ?thesis
    by (fastforce simp: simValue_def)
qed

text \<open>
  C39.  The store cannot resume a state that was interrupted: when the first attempt of a state is
  recorded and no attempt has completed (the process stopped while the state was running, or the
  execution is started again after it failed), the executor's write-ahead step ends with
  \<open>ErrStateNotCompleted\<close> and the handler is not called.
\<close>

theorem Mongo_resume_refused:
  fixes s :: "'w MongoStore" and docs :: "'w \<Rightarrow> stateDoc list"
  assumes laws: "mongo_laws (mo_db s) bv docs" and ok: "docs_ok (docs w)"
    and store: "ex_Store ex = mongoStore s"
    and first: "\<exists>d \<in> set (docs w). td_ExecutionID d = e \<and> td_StateName d = nd_Name node \<and> td_Attempt d = 1"
    and open_state: "\<forall>d \<in> set (docs w). td_ExecutionID d = e \<and> td_StateName d = nd_Name node \<longrightarrow>
      td_Status d \<noteq> StatusCompleted"
  shows "admitState ex e node input resumeAt w = (Settled (Err ErrStateNotCompleted), w)"
proof -
  let ?r = "newStateRecord e (nd_Name node) input 1 resumeAt"
  obtain d1 where d1: "d1 \<in> set (docs w)" "td_ExecutionID d1 = e" "td_StateName d1 = nd_Name node"
      "td_Attempt d1 = 1" using first by blast
  then obtain d where d: "latest (docs w) e (nd_Name node) d" using latest_exists by metis
  have "stateDocID (sr_ExecutionID ?r) (sr_StateName ?r) (sr_Attempt ?r) = td_ID d1"
    using ok d1 by (simp add: docs_ok_def newStateRecord_def)
  then have "mongo_WriteAheadState s ?r w = (Err ErrStateAlreadyTerminal, w)"
    using WriteAhead_cases(1) [OF laws, of w ?r] d1(1) by auto
  moreover have "mongo_GetStateOutput s e (nd_Name node) w = (Err ErrStateNotCompleted, w)"
    unfolding mongo_GetStateOutput_def findLatest_some [OF laws ok d]
    using d open_state by (auto simp: latest_def found_def)
  ultimately show ?thesis by (simp add: admitState_def store mongoStore_def)
qed

definition mongoExecutor :: "simDb Executor" where
  "mongoExecutor =
     \<lparr>ex_Store = mongoStore simMongoStore, ex_Handler = (\<lambda>s inp w. (Ok inp, w)), ex_Dispatcher = None,
      ex_Telemetry = None, ex_LogWriter = None, ex_Notify = None\<rparr>"

theorem Mongo_resume_refused_witness:
  "admitState mongoExecutor ''e'' (mkNode (blankTask ''a'' taskState :: unit TaskDef) (Step_End (Step ''a''))) None None
     runningDb = (Settled (Err ErrStateNotCompleted), runningDb)"
  by (rule Mongo_resume_refused [OF runningDb_ok(2,1)])
    (simp_all add: mongoExecutor_def runningDb_def pendingDoc_def runningRecord_def step_defs)

text \<open>
  An output of the form \<open>{"_ref": "..."}\<close> that a handler returns is taken for a reference: reading
  it back without an object store panics.
\<close>

theorem Mongo_ref_output_panics:
  fixes s :: "'w MongoStore" and docs :: "'w \<Rightarrow> stateDoc list"
  assumes laws: "mongo_laws (mo_db s) bv docs" and ok: "docs_ok (docs w)"
    and there: "\<exists>d \<in> set (docs w). td_ExecutionID d = e \<and> td_StateName d = st"
    and small: "jn_Marshal (mo_json s) (Some [''_ref'' \<mapsto> VStr ref]) = Ok bytes" "length bytes \<le> 2 ^ 20"
    and ref: "ref \<noteq> ''''" and no_store: "mo_ObjectStore s = None"
  shows "\<exists>w'. mongo_CompleteState s e st (Some [''_ref'' \<mapsto> VStr ref]) w = (Ok (), w') \<and>
    mongo_GetStateOutput s e st w' = (Panic ''nil pointer dereference'', w')"
proof -
  obtain d where d: "latest (docs w) e st d" using there latest_exists by metis
  let ?upd = "[(''status'', BStr StatusCompleted), (''output'', BDoc (inputToM (Some [''_ref'' \<mapsto> VStr ref]))),
        (''updated_at'', BTime (mo_now s w))]"
  obtain w' where w': "updateLatestState s e st ?upd w = (Ok (), w')" "docs_ok (docs w')"
      "latest (docs w') e st (setFields bv ?upd d)"
    by (rule updateLatest_effect [OF laws ok d])
  have "mongo_CompleteState s e st (Some [''_ref'' \<mapsto> VStr ref]) w = (Ok (), w')"
    using small w'(1) by (simp add: mongo_CompleteState_def completeLatest_def)
  moreover have "mongo_GetStateOutput s e st w' = (Panic ''nil pointer dereference'', w')"
    unfolding mongo_GetStateOutput_def findLatest_some [OF laws w'(2,3)]
    using ref no_store bsonMap_string [of bv "''_ref''" ref] laws
    by (simp add: setFields_def setField_def inputToM_def mToInput_def outputRef_def mongo_laws_def)
  ultimately show ?thesis by blast
qed

theorem Mongo_ref_output_panics_witness:
  "\<exists>w'. mongo_CompleteState simMongoStore ''e'' ''a'' (Some [''_ref'' \<mapsto> VStr ''x'']) runningDb = (Ok (), w') \<and>
     mongo_GetStateOutput simMongoStore ''e'' ''a'' w' = (Panic ''nil pointer dereference'', w')"
  by (rule Mongo_ref_output_panics [where bytes = "''{}''", OF runningDb_ok(2,1)])
    (simp_all add: runningDb_def pendingDoc_def runningRecord_def simMongoStore_def codec1_def)

section \<open>Large outputs\<close>

lemma dropWhile_sep: "c \<notin> set xs \<Longrightarrow> dropWhile (\<lambda>x. x \<noteq> c) (xs @ c # ys) = c # ys"
  by (induction xs) auto

lemma extractS3Key_ref:
  "extractS3Key (''s3://'' @ bucket @ ''/'' @ key) =
     tl (dropWhile (\<lambda>c. c \<noteq> CHR ''/'') (bucket @ ''/'' @ key))"
  by (simp add: extractS3Key_def Let_def)

text \<open>
  The key of a stored reference is recovered exactly for buckets without a slash.  \<open>NewObjectStore\<close>
  accepts a URI with a path behind the bucket and keeps both as the bucket name, so the outputs of
  such a store cannot be read back.
\<close>

theorem extractS3Key_inverse:
  "(extractS3Key (''s3://'' @ bucket @ ''/'' @ key) = key \<longleftrightarrow> CHR ''/'' \<notin> set bucket) \<and>
   (\<exists>os. fst (NewObjectStore (s3\<lparr>s3_LoadConfig := (\<lambda>w. (Ok (), w))\<rparr>) ''s3://b/p'' w) = Ok os \<and>
         os_bucketName os = ''b/p'')"
proof
  show "extractS3Key (''s3://'' @ bucket @ ''/'' @ key) = key \<longleftrightarrow> CHR ''/'' \<notin> set bucket"
  proof (cases "CHR ''/'' \<in> set bucket")
    case True
    then obtain b p where b: "bucket = b @ CHR ''/'' # p" "CHR ''/'' \<notin> set b"
      by (meson split_list_first)
    then have "extractS3Key (''s3://'' @ bucket @ ''/'' @ key) = p @ ''/'' @ key"
      unfolding extractS3Key_ref by (simp add: dropWhile_sep)
    then have "length (extractS3Key (''s3://'' @ bucket @ ''/'' @ key)) > length key" by simp
    with True show ?thesis by force
  next
    case False
    then show ?thesis unfolding extractS3Key_ref by (simp add: dropWhile_sep)
  qed
  show "\<exists>os. fst (NewObjectStore (s3\<lparr>s3_LoadConfig := (\<lambda>w. (Ok (), w))\<rparr>) ''s3://b/p'' w) = Ok os \<and>
      os_bucketName os = ''b/p''"
    by (simp add: NewObjectStore_def trimRightSlashes_def)
qed

text \<open>
  The object store as the code relies on it: an object that was put is there to be got, and the
  calls to the two stores do not disturb each other.
\<close>

definition object_laws ::
    "'w MongoStore \<Rightarrow> ('w \<Rightarrow> stateDoc list) \<Rightarrow> 'w ObjectStore \<Rightarrow> ('w \<Rightarrow> string \<Rightarrow> string option) \<Rightarrow> bool" where
  "object_laws s docs os obj \<longleftrightarrow>
     (\<forall>k data w. \<exists>w'. s3_PutObject (os_client os) (os_bucketName os) k data w = (Ok (), w') \<and>
        docs w' = docs w \<and> obj w' k = Some data) \<and>
     (\<forall>k data w. obj w k = Some data \<longrightarrow>
        s3_GetObject (os_client os) (os_bucketName os) k w = (Ok data, w)) \<and>
     (\<forall>c f upd w. obj (snd (mg_UpdateOne (mo_db s) c f upd w)) = obj w)"

lemma updateLatest_objects:
  assumes "mongo_laws (mo_db s) bv docs" and "docs_ok (docs w)" and "latest (docs w) e st d"
    and "object_laws s docs os obj" and "updateLatestState s e st upd w = (r, w')"
  shows "obj w' = obj w"
proof -
  let ?u = "mg_UpdateOne (mo_db s) collStates [(''_id'', BStr (td_ID d))] upd w"
  have "w' = snd ?u"
    using assms(5) unfolding updateLatestState_def findLatest_some [OF assms(1-3)]
    by (cases ?u; cases "fst ?u") (auto split: if_splits)
  with assms(4) show ?thesis by (auto simp: object_laws_def)
qed

text \<open>
  C24.  An output whose JSON text is over one mebibyte goes through the object store: with a bucket
  name without a slash, and as long as the calls of the driver and of the S3 client succeed,
  \<open>GetStateOutput\<close> gives what \<open>json.Unmarshal\<close> makes of exactly the text that \<open>json.Marshal\<close> gave for it.
\<close>

theorem Mongo_large_output_text:
  fixes s :: "'w MongoStore" and docs :: "'w \<Rightarrow> stateDoc list"
  assumes laws: "mongo_laws (mo_db s) bv docs" and ok: "docs_ok (docs w)"
    and there: "\<exists>d \<in> set (docs w). td_ExecutionID d = e \<and> td_StateName d = st"
    and large: "jn_Marshal (mo_json s) out = Ok bytes" "2 ^ 20 < length bytes"
    and os: "mo_ObjectStore s = Some os" "CHR ''/'' \<notin> set (os_bucketName os)" "object_laws s docs os obj"
  shows "\<exists>w'. mongo_CompleteState s e st out w = (Ok (), w') \<and>
    mongo_GetStateOutput s e st w' =
      (case jn_Unmarshal (mo_json s) bytes of
         Ok got \<Rightarrow> Ok got
       | Err err \<Rightarrow> Err (Errorf [FL ''store: unmarshal large output: '', FW err])
       | Panic p \<Rightarrow> Panic p, w')"
proof -
  obtain d where d: "latest (docs w) e st d" using there latest_exists by metis
  let ?key = "outputKey e st (td_Attempt d)"
  let ?ref = "''s3://'' @ os_bucketName os @ ''/'' @ ?key"
  obtain w1 where put: "s3_PutObject (os_client os) (os_bucketName os) ?key bytes w = (Ok (), w1)"
      "docs w1 = docs w" "obj w1 ?key = Some bytes"
    using os(3) unfolding object_laws_def by blast
  let ?upd = "[(''status'', BStr StatusCompleted), (''output'', BDoc [''_ref'' \<mapsto> VStr ?ref]),
        (''updated_at'', BTime (mo_now s w1))]"
  have ok1: "docs_ok (docs w1)" and d1: "latest (docs w1) e st d" using ok d put(2) by simp_all
  obtain w' where w': "updateLatestState s e st ?upd w1 = (Ok (), w')" "docs_ok (docs w')"
      "latest (docs w') e st (setFields bv ?upd d)"
    by (rule updateLatest_effect [OF laws ok1 d1])
  have obj: "obj w' ?key = Some bytes"
    using updateLatest_objects [OF laws ok1 d1 os(3) w'(1)] put(3) by simp
  have key: "extractS3Key ?ref = ?key"
    using os(2) unfolding extractS3Key_ref by (simp add: dropWhile_sep)
  have get: "Get os ?key w' = (Ok bytes, w')"
    using os(3) obj by (simp add: Get_def object_laws_def)
  have "mongo_CompleteState s e st out w = (Ok (), w')"
    using large w'(1) os(1) put(1)
    by (simp add: mongo_CompleteState_def completeLatest_def findLatest_some [OF laws ok d] Put_def Let_def)
  moreover have "bson_values bv" using laws by (simp add: mongo_laws_def)
  from bsonMap_string [OF this, of "''_ref''" ?ref]
  have doc: "td_Status (setFields bv ?upd d) = StatusCompleted"
      "td_Output (setFields bv ?upd d) = Some [''_ref'' \<mapsto> VStr ?ref]"
    by (simp_all add: setFields_def setField_def)
  have "outputRef [''_ref'' \<mapsto> VStr ?ref] = Some ?ref" by (simp add: outputRef_def)
  then have "mongo_GetStateOutput s e st w' =
      (case jn_Unmarshal (mo_json s) bytes of
         Ok got \<Rightarrow> Ok got
       | Err err \<Rightarrow> Err (Errorf [FL ''store: unmarshal large output: '', FW err])
       | Panic p \<Rightarrow> Panic p, w')"
    unfolding mongo_GetStateOutput_def findLatest_some [OF laws w'(2,3)] doc mToInput_def
    using os(1) get by (simp only: key option.case if_False entries_simps Let_def) (simp split: res.split)
  ultimately show ?thesis by blast
qed

definition simS3 :: "simDb S3" where
  "simS3 =
     \<lparr>s3_PutObject = (\<lambda>b k data w. (Ok (), w\<lparr>db_objects := (db_objects w)((b, k) \<mapsto> data)\<rparr>)),
      s3_GetObject = (\<lambda>b k w. (case db_objects w (b, k) of None \<Rightarrow> (Err ErrObjectNotFound, w) | Some x \<Rightarrow> (Ok x, w))),
      s3_IsNoSuchKey = (\<lambda>e. e = ErrObjectNotFound), s3_LoadConfig = (\<lambda>w. (Ok (), w))\<rparr>"

text \<open>The JSON of maps with one string entry.\<close>

definition stringCodec :: jsonCodec where
  "stringCodec =
     \<lparr>jn_Marshal = (\<lambda>m. case entries m ''k'' of
        Some (VStr x) \<Rightarrow> Ok (map char_of (singleMember ''k'' (asciiBytes x))) | _ \<Rightarrow> Ok ''{}''),
      jn_Unmarshal = (\<lambda>t. case parseJson (asciiBytes t) of
        Some (JObj [(k, JStr v)]) \<Rightarrow> Ok (Some [map char_of k \<mapsto> VStr (map char_of v)])
      | _ \<Rightarrow> Err (Errorf [FL ''invalid JSON'']))\<rparr>"

definition simBucket :: "simDb ObjectStore" where
  "simBucket = \<lparr>os_client = simS3, os_bucketName = ''outputs''\<rparr>"

definition largeStore :: "simDb MongoStore" where
  "largeStore = simMongoStore\<lparr>mo_ObjectStore := Some simBucket, mo_json := stringCodec\<rparr>"

lemma simUpdate_objects [simp]: "db_objects (snd (simUpdate c f upd w)) = db_objects w"
  by (simp add: simUpdate_def split: list.split prod.split bval.split option.split)

lemma simObject_laws: "object_laws largeStore db_states simBucket (\<lambda>w k. db_objects w (''outputs'', k))"
  by (auto simp: object_laws_def largeStore_def simMongoStore_def simMongo_def simBucket_def simS3_def)

definition largeText :: string where
  "largeText = replicate (2 ^ 20) (CHR ''x'')"

lemma jsonBody_plain: "jsonBody (replicate n 120) = replicate n 120"
  by (induction n) (simp_all add: jsonBody.simps(2) escapeAscii_def)

lemma largeText_json:
  "length (singleMember ''k'' (asciiBytes largeText)) > 2 ^ 20" "validUtf8 (asciiBytes largeText)"
proof -
  have bytes: "asciiBytes (replicate n (CHR ''x'')) = replicate n 120" for n
    by (simp add: asciiBytes_def)
  then show "length (singleMember ''k'' (asciiBytes largeText)) > 2 ^ 20"
    by (simp add: largeText_def singleMember_def jsonString_def jsonBody_plain del: replicate.simps)
  have "validText (replicate n (CHR ''x''))" for n
    by (rule validText_ascii) (simp add: list_all_iff)
  then show "validUtf8 (asciiBytes largeText)" by (simp add: largeText_def validText_def)
qed

theorem Mongo_large_output_text_witness:
  "\<exists>w'. mongo_CompleteState largeStore ''e'' ''a'' (Some [''k'' \<mapsto> VStr largeText]) runningDb = (Ok (), w') \<and>
     mongo_GetStateOutput largeStore ''e'' ''a'' w' = (Ok (Some [''k'' \<mapsto> VStr largeText]), w')"
proof -
  let ?out = "Some [''k'' \<mapsto> VStr largeText]" and ?t = "map char_of (singleMember ''k'' (asciiBytes largeText)) :: string"
  have laws: "mongo_laws (mo_db largeStore) simValue db_states"
    by (simp add: largeStore_def simMongoStore_def simMongo_laws)
  have there: "\<exists>d \<in> set (db_states runningDb). td_ExecutionID d = ''e'' \<and> td_StateName d = ''a''"
    by (simp add: runningDb_def pendingDoc_def runningRecord_def)
  have large: "jn_Marshal (mo_json largeStore) ?out = Ok ?t" "2 ^ 20 < length ?t"
    using largeText_json(1) by (simp_all add: largeStore_def stringCodec_def)
  have name: "plainName ''k''" by (simp add: plainName_def asciiBytes_def)
  have "parseJson (asciiBytes ?t) = Some (JObj [(asciiBytes ''k'', JStr (asciiBytes largeText))])"
    using parseJson_single [OF name largeText_json(2), of "[]"] asciiBytes_char_of [OF singleMember_bytes]
    by (simp add: skipWs_def)
  then have json: "jn_Unmarshal (mo_json largeStore) ?t = Ok ?out"
    by (simp add: largeStore_def stringCodec_def)
  have os: "mo_ObjectStore largeStore = Some simBucket" "CHR ''/'' \<notin> set (os_bucketName simBucket)"
    by (simp_all add: largeStore_def simBucket_def)
  from Mongo_large_output_text [OF laws runningDb_ok(1) there large os simObject_laws] json
  show ?thesis by simp
qed

end
