(* ===== verification/Mongo_Execution.thy ===== *)
theory Mongo_Execution
  imports Orchestrator Mongo_Correct
begin

text \<open>
  An in-process execution over the MongoDB store: a state that has no document yet is admitted, its
  output passes through and is stored, and the documents of the other states and of the executions
  stay as they are.  The hypotheses about the driver are \<open>mongo_laws\<close> and \<open>execution_laws\<close>.
\<close>

section \<open>What the methods leave alone\<close>

text \<open>\<open>obs\<close> is what the other calls of the driver do not change.\<close>

lemma obs_ifErr:
  assumes "\<And>e w. obs (snd (f e w)) = obs w" and "\<And>x w. obs (snd (k x w)) = obs w"
  shows "obs (snd (ifErr r f k)) = obs (snd r)"
  by (cases r f k rule: ifErr_cases) (simp_all add: assms)

lemma findLatest_obs:
  assumes "\<And>f srt w. obs (snd (mg_FindOneState (mo_db s) f srt w)) = obs w"
    and "\<And>d w. obs (snd (k d w)) = obs w"
  shows "obs (snd (findLatest s msg e st k w)) = obs w"
  unfolding findLatest_def by (subst obs_ifErr) (simp_all add: assms)

lemma updateLatest_obs:
  assumes "\<And>f srt w. obs (snd (mg_FindOneState (mo_db s) f srt w)) = obs w"
    and "\<And>f upd w. obs (snd (mg_UpdateOne (mo_db s) collStates f upd w)) = obs w"
  shows "obs (snd (updateLatestState s e st upd w)) = obs w"
  unfolding updateLatestState_def
  by (rule findLatest_obs [OF assms(1)], subst obs_ifErr) (simp_all add: assms(2))

lemma WriteAhead_obs:
  assumes "\<And>f srt w. obs (snd (mg_FindOneState (mo_db s) f srt w)) = obs w"
    and "\<And>d w. obs (snd (mg_InsertState (mo_db s) d w)) = obs w"
  shows "obs (snd (mongo_WriteAheadState s r w)) = obs w"
proof -
  let ?f = "[(''execution_id'', BStr (sr_ExecutionID r)), (''state_name'', BStr (sr_StateName r)),
             (''status'', BStr StatusCompleted)]"
  obtain x v where x: "mg_FindOneState (mo_db s) ?f [] w = (x, v)" by force
  with assms(1) [of ?f "[]" w] have "obs v = obs w" by simp
  with x show ?thesis
    by (cases x) (auto simp: mongo_WriteAheadState_def obs_ifErr [where obs = obs] assms(2))
qed

lemma Complete_obs:
  assumes "\<And>f srt w. obs (snd (mg_FindOneState (mo_db s) f srt w)) = obs w"
    and "\<And>f upd w. obs (snd (mg_UpdateOne (mo_db s) collStates f upd w)) = obs w"
    and "\<And>os b k d w. mo_ObjectStore s = Some os \<Longrightarrow> obs (snd (s3_PutObject (os_client os) b k d w)) = obs w"
  shows "obs (snd (mongo_CompleteState s e st out w)) = obs w"
proof -
  have put: "obs (snd (Put os k d w)) = obs w" if "mo_ObjectStore s = Some os" for os k d w
    unfolding Put_def by (subst obs_ifErr) (simp_all add: assms(3) that)
  have upd: "obs (snd (completeLatest s e st m w)) = obs w" for m w
    unfolding completeLatest_def by (rule updateLatest_obs [OF assms(1,2)])
  have large: "obs (snd (findLatest s msg e st (\<lambda>d v. ifErr (Put os (key d) b v) (\<lambda>e v. (Err (er e), v))
      (\<lambda>_ v. completeLatest s e st (m d) v)) w)) = obs w"
    if "mo_ObjectStore s = Some os" for os msg key b er m w
    by (rule findLatest_obs [OF assms(1)], subst obs_ifErr) (simp_all add: put that upd)
  show ?thesis
    unfolding mongo_CompleteState_def Let_def
    by (subst obs_ifErr) (auto simp: upd large split: option.split)
qed

section \<open>Fresh states\<close>

definition fresh :: "string \<Rightarrow> string \<Rightarrow> stateDoc list \<Rightarrow> bool" where
  "fresh e n ds \<longleftrightarrow>
     (\<forall>d \<in> set ds. \<not> (td_ExecutionID d = e \<and> td_StateName d = n)) \<and> stateDocID e n 1 \<notin> td_ID ` set ds"

lemma fresh_update:
  "fresh e n ds \<Longrightarrow> fresh e n (map (\<lambda>x. if x = d then setFields bv upd x else x) ds)"
  by (auto simp: fresh_def image_iff split: if_splits)

lemma stateDocID_inj [simp]: "stateDocID e n a = stateDocID e n' a \<longleftrightarrow> n = n'"
  by (simp add: stateDocID_def Sprintf_def)

lemma fresh_append:
  "n \<noteq> n' \<Longrightarrow> fresh e n ds \<Longrightarrow>
   fresh e n (ds @ [decodedState bv (pendingDoc t (newStateRecord e n' inp 1 ra))])"
  by (auto simp: fresh_def pendingDoc_def newStateRecord_def)

definition fits :: "'w MongoStore \<Rightarrow> gomap \<Rightarrow> bool" where
  "fits s m \<longleftrightarrow> (\<exists>bytes. jn_Marshal (mo_json s) m = Ok bytes \<and> length bytes \<le> 2 ^ 20)"

text \<open>
  The hooks and the runtime of an in-process execution write to ClickHouse, to the hubs and to the
  log, not to the collections \<open>docs\<close> and \<open>xdocs\<close>; its context is the background context, which is never
  cancelled.
\<close>

definition quiet :: "'w Runtime \<Rightarrow> 'w Executor \<Rightarrow> ('w \<Rightarrow> 'v) \<Rightarrow> bool" where
  "quiet rt ex obs \<longleftrightarrow>
     (\<forall>f x s a b m w. ex_Telemetry ex = Some f \<longrightarrow> obs (f x s a b m w) = obs w) \<and>
     (\<forall>f x s a b m w. ex_Notify ex = Some f \<longrightarrow> obs (f x s a b m w) = obs w) \<and>
     (\<forall>f x v s l m w. ex_LogWriter ex = Some f \<longrightarrow> obs (f x v s l m w) = obs w) \<and>
     (\<forall>msg w. obs (rt_Log rt msg w) = obs w) \<and> (\<forall>d w. obs (rt_Sleep rt d w) = obs w) \<and>
     (\<forall>w. rt_CtxErr rt w = None)"

lemma quiet_effects:
  assumes "quiet rt ex obs"
  shows "obs (logLine rt ex x s l fs w) = obs w" and "obs (recordTransition ex x s a b m w) = obs w"
    and "obs (rt_Sleep rt d w) = obs w"
  using assms by (simp_all add: quiet_def logLine_def recordTransition_def Let_def split: option.splits)

definition passing ::
    "'w Runtime \<Rightarrow> 'w Executor \<Rightarrow> 'w MongoStore \<Rightarrow> (gvalue \<Rightarrow> gvalue) \<Rightarrow> ('w \<Rightarrow> stateDoc list)
     \<Rightarrow> ('w \<Rightarrow> string \<Rightarrow> executionDoc option) \<Rightarrow> bool" where
  "passing rt ex s bv docs xdocs \<longleftrightarrow>
     ex_Store ex = mongoStore s \<and> ex_Handler ex = passThrough \<and> quiet rt ex (\<lambda>w. (docs w, xdocs w)) \<and>
     mongo_laws (mo_db s) bv docs \<and> execution_laws (mo_db s) bv docs xdocs"

section \<open>One state\<close>

lemma passing_laws:
  assumes "passing rt ex s bv docs xdocs"
  shows "mongo_laws (mo_db s) bv docs" and "ex_Store ex = mongoStore s"
    and "xdocs (snd (mongo_WriteAheadState s r w)) = xdocs w"
    and "xdocs (snd (updateLatestState s e st upd w)) = xdocs w"
    and "docs (recordTransition ex x n a b m w) = docs w" and "xdocs (recordTransition ex x n a b m w) = xdocs w"
    and "docs (logLine rt ex x n l fs w) = docs w" and "xdocs (logLine rt ex x n l fs w) = xdocs w"
    and "docs (rt_Sleep rt d w) = docs w" and "xdocs (rt_Sleep rt d w) = xdocs w"
    and "rt_CtxErr rt w = None"
proof -
  have laws: "mongo_laws (mo_db s) bv docs" "execution_laws (mo_db s) bv docs xdocs"
    and q: "quiet rt ex (\<lambda>w. (docs w, xdocs w))"
    using assms by (simp_all add: passing_def)
  have find: "snd (mg_FindOneState (mo_db s) f srt w) = w" for f srt w
    using laws(1) unfolding mongo_laws_def by (metis snd_conv)
  have ins: "xdocs (snd (mg_InsertState (mo_db s) d w)) = xdocs w"
    and upd: "xdocs (snd (mg_UpdateOne (mo_db s) collStates f upd w)) = xdocs w" for d f upd w
    using laws(2) by (simp_all add: execution_laws_def)
  show "xdocs (snd (mongo_WriteAheadState s r w)) = xdocs w"
    by (rule WriteAhead_obs [where obs = xdocs]) (simp_all add: find ins)
  show "xdocs (snd (updateLatestState s e st upd w)) = xdocs w"
    by (rule updateLatest_obs [where obs = xdocs]) (simp_all add: find upd)
  show "docs (recordTransition ex x n a b m w) = docs w" "xdocs (recordTransition ex x n a b m w) = xdocs w"
    "docs (logLine rt ex x n l fs w) = docs w" "xdocs (logLine rt ex x n l fs w) = xdocs w"
    "docs (rt_Sleep rt d w) = docs w" "xdocs (rt_Sleep rt d w) = xdocs w"
    using quiet_effects [OF q] by simp_all
  show "rt_CtxErr rt w = None" using q by (simp add: quiet_def)
  show "mongo_laws (mo_db s) bv docs" "ex_Store ex = mongoStore s" using assms by (simp_all add: passing_def)
qed

text \<open>The states of an execution that have a document, and the documents of the executions.\<close>

definition recorded :: "string \<Rightarrow> string \<Rightarrow> stateDoc list \<Rightarrow> bool" where
  "recorded e n ds \<longleftrightarrow> docs_ok ds \<and> (\<exists>d. latest ds e n d)"

lemma update_recorded:
  assumes "passing rt ex s bv docs xdocs" and "recorded e n (docs w)"
  obtains w' where "updateLatestState s e n upd w = (Ok (), w')" "recorded e n (docs w')" "xdocs w' = xdocs w"
    "\<And>m. fresh e m (docs w) \<Longrightarrow> fresh e m (docs w')"
proof -
  from assms(2) obtain d where d: "docs_ok (docs w)" "latest (docs w) e n d" by (auto simp: recorded_def)
  obtain w' where w': "updateLatestState s e n upd w = (Ok (), w')" "docs_ok (docs w')"
    "latest (docs w') e n (setFields bv upd d)"
    "docs w' = map (\<lambda>x. if x = d then setFields bv upd x else x) (docs w)"
    by (rule updateLatest_effect [OF passing_laws(1) [OF assms(1)] d])
  have "xdocs w' = xdocs w" using passing_laws(4) [OF assms(1), of e n upd w] w'(1) by simp
  with w' that show thesis by (auto simp: recorded_def fresh_update)
qed

lemma admitState_fresh:
  assumes pass: "passing rt ex s bv docs xdocs" and ok: "docs_ok (docs w)" and new: "fresh e (nd_Name node) (docs w)"
  obtains w' where "admitState ex e node inp ra w = (Admitted, w')" "recorded e (nd_Name node) (docs w')"
    "xdocs w' = xdocs w" "\<And>m. m \<noteq> nd_Name node \<Longrightarrow> fresh e m (docs w) \<Longrightarrow> fresh e m (docs w')"
proof -
  let ?r = "newStateRecord e (nd_Name node) inp 1 ra" and ?n = "nd_Name node"
  note laws = passing_laws [OF pass]
  have r: "sr_ExecutionID ?r = e" "sr_StateName ?r = ?n" "sr_Attempt ?r = 1" by (simp_all add: newStateRecord_def)
  let ?d = "decodedState bv (pendingDoc (mo_now s w) ?r)"
  obtain w1 where w1: "mongo_WriteAheadState s ?r w = (Ok (), w1)" "docs w1 = docs w @ [?d]"
    using WriteAhead_cases(2) [OF laws(1), of w ?r] new by (auto simp: r fresh_def completedDoc_def)
  have x1: "xdocs w1 = xdocs w" using laws(3) [of ?r w] w1(1) by simp
  have "docs_ok (docs w1)" using ok new by (auto simp: docs_ok_def w1(2) pendingDoc_def r fresh_def)
  moreover obtain d where "latest (docs w1) e ?n d"
    by (rule latest_exists [of ?d "docs w1" e ?n]) (simp_all add: w1(2) pendingDoc_def r)
  ultimately have "recorded e ?n (docs w1)" by (auto simp: recorded_def)
  from update_recorded [OF pass this, of "[(''status'', BStr StatusRunning), (''updated_at'', BTime (mo_now s w1))]"]
  obtain w2 where w2: "mongo_MarkRunning s e ?n w1 = (Ok (), w2)" "recorded e ?n (docs w2)" "xdocs w2 = xdocs w1"
    "\<And>m. fresh e m (docs w1) \<Longrightarrow> fresh e m (docs w2)"
    by (auto simp: mongo_MarkRunning_def)
  show thesis
  proof (rule that)
    show "admitState ex e node inp ra w =
        (Admitted, recordTransition ex e ?n StatusPending StatusRunning '''' w2)"
      using w1(1) w2(1) by (simp add: admitState_def laws(2) mongoStore_def)
  qed (use w2 x1 w1(2) fresh_append in \<open>simp_all add: laws(5,6)\<close>)
qed

lemma completeState_fits:
  assumes pass: "passing rt ex s bv docs xdocs" and "recorded e (nd_Name node) (docs w)" and "fits s out"
  obtains w' where "completeState rt ex e node out w = (Ok out, w')" "docs_ok (docs w')" "xdocs w' = xdocs w"
    "\<And>m. fresh e m (docs w) \<Longrightarrow> fresh e m (docs w')"
proof -
  note laws = passing_laws [OF pass]
  from update_recorded [OF pass assms(2), of "[(''status'', BStr StatusCompleted), (''output'', BDoc (inputToM out)),
      (''updated_at'', BTime (mo_now s w))]"]
  obtain w1 where w1: "completeLatest s e (nd_Name node) (inputToM out) w = (Ok (), w1)"
    "recorded e (nd_Name node) (docs w1)" "xdocs w1 = xdocs w" "\<And>m. fresh e m (docs w) \<Longrightarrow> fresh e m (docs w1)"
    by (auto simp: completeLatest_def)
  have "mongo_CompleteState s e (nd_Name node) out w = (Ok (), w1)"
    using assms(3) w1(1) by (auto simp: fits_def mongo_CompleteState_def)
  with w1 show thesis
    by (intro that [of "logLine rt ex e (nd_Name node) ''INFO''
          [FL ''executor: ['', FS e, FL ''] state '', FQ (nd_Name node), FL '' completed'']
          (recordTransition ex e (nd_Name node) StatusRunning StatusCompleted '''' w1)"])
      (simp_all add: completeState_def laws(2,5-8) mongoStore_def recorded_def)
qed

lemma applyRetry_passing:
  assumes "passing rt ex s bv docs xdocs"
  shows "applyRetry rt ex e node inp w = (Ok inp, w)"
proof -
  have "1 \<le> retryAttempts (nd_Retry node)" by (simp add: retryAttempts_def split: option.splits)
  then have "[1..retryAttempts (nd_Retry node)] = 1 # [2..retryAttempts (nd_Retry node)]"
    by (subst upto.simps) simp
  then show ?thesis using assms by (simp add: applyRetry_def passing_def passThrough_def)
qed

lemma executeState_passing:
  assumes pass: "passing rt ex s bv docs xdocs" and "docs_ok (docs w)" and "fresh e (nd_Name node) (docs w)"
    and task: "IsWait (nd_TaskDef node) \<or> td_serviceTarget (nd_TaskDef node) = ''''"
    and fit: "fits s inp" "fits s (Some Map.empty)"
  obtains out w' where "executeState (Suc n) rt ex e g node inp w = Some (Ok out, w')"
    "out = inp \<or> out = Some Map.empty" "docs_ok (docs w')" "xdocs w' = xdocs w"
    "\<And>m. m \<noteq> nd_Name node \<Longrightarrow> fresh e m (docs w) \<Longrightarrow> fresh e m (docs w')"
proof -
  note laws = passing_laws [OF pass]
  let ?w0 = "logStarting rt ex e node w"
  let ?ra = "stateResumeAt rt node ?w0"
  have w0: "docs ?w0 = docs w" "xdocs ?w0 = xdocs w" by (simp_all add: logStarting_def laws(7,8))
  obtain w1 where w1: "admitState ex e node inp ?ra ?w0 = (Admitted, w1)" "recorded e (nd_Name node) (docs w1)"
    "xdocs w1 = xdocs w" "\<And>m. m \<noteq> nd_Name node \<Longrightarrow> fresh e m (docs w) \<Longrightarrow> fresh e m (docs w1)"
    using admitState_fresh [OF pass, of ?w0 e node inp ?ra] assms(2,3) w0 by metis
  obtain out w2 where w2: "invokeState rt ex e node inp ?ra w1 = (Ok out, w2)" "docs w2 = docs w1"
    "xdocs w2 = xdocs w1" "out = inp \<or> out = Some Map.empty"
    using task
    by (cases "IsWait (nd_TaskDef node)") (simp_all add: invokeState_def stateResumeAt_def applyRetry_passing [OF pass] laws(9,10))
  have "fits s out" using fit w2(4) by auto
  from completeState_fits [OF pass _ this, of e node w2] w1(2) w2(2)
  obtain w3 where w3: "completeState rt ex e node out w2 = (Ok out, w3)" "docs_ok (docs w3)" "xdocs w3 = xdocs w2"
    "\<And>m. fresh e m (docs w2) \<Longrightarrow> fresh e m (docs w3)" by metis
  show thesis by (rule that [of out w3]) (use w1 w2 w3 in simp_all)
qed

section \<open>The main loop\<close>

lemma runLoop_fresh:
  assumes pass: "passing rt ex s bv docs xdocs" and rank: "next_ranked g \<rho>"
    and task: "\<And>n nd. g_nodes g n = Some nd \<Longrightarrow> IsWait (nd_TaskDef nd) \<or> td_serviceTarget (nd_TaskDef nd) = ''''"
    and named: "\<And>n nd. g_nodes g n = Some nd \<Longrightarrow> nd_Name nd = n"
    and succ: "\<And>n nd. g_nodes g n = Some nd \<Longrightarrow> \<not> nd_Terminal nd \<Longrightarrow> g_nodes g (nd_Next nd) \<noteq> None"
    and empty: "fits s (Some Map.empty)"
  shows "g_nodes g nm = Some node \<Longrightarrow> Suc (\<rho> nm) < n \<Longrightarrow> fits s (cloneInput cur) \<Longrightarrow> docs_ok (docs w) \<Longrightarrow>
    \<forall>m. \<rho> m \<le> \<rho> nm \<longrightarrow> fresh e m (docs w) \<Longrightarrow>
    \<exists>w'. runLoop n rt ex e g (Some node) cur w = Some (Ok (), w') \<and> xdocs w' = xdocs w"
proof (induction n arbitrary: nm node cur w)
  case (Suc n)
  note laws = passing_laws [OF pass]
  from Suc.prems(2) obtain k where k: "n = Suc k" by (cases n) auto
  have nm: "nd_Name node = nm" using named [OF Suc.prems(1)] .
  obtain out w1 where ex: "executeState n rt ex e g node (cloneInput cur) w = Some (Ok out, w1)"
    "out = cloneInput cur \<or> out = Some Map.empty" "docs_ok (docs w1)" "xdocs w1 = xdocs w"
    "\<And>m. m \<noteq> nm \<Longrightarrow> fresh e m (docs w) \<Longrightarrow> fresh e m (docs w1)"
    unfolding k
    by (rule executeState_passing [OF pass Suc.prems(4) _ task [OF Suc.prems(1)] Suc.prems(3) empty, of e k g])
      (use Suc.prems(5) nm in auto)
  show ?case
  proof (cases "nd_Terminal node")
    case True
    with ex show ?thesis by (simp add: Graph_Next_def laws(8,11))
  next
    case False
    with succ [OF Suc.prems(1)] obtain c where c: "g_nodes g (nd_Next node) = Some c" by auto
    have nc: "\<not> IsChoice (nd_TaskDef node)" and lt: "\<rho> (nd_Next node) < \<rho> nm"
      using rank Suc.prems(1) False c by (auto simp: next_ranked_def)
    have "fits s (cloneInput out)" using ex(2) Suc.prems(3) empty by (auto simp: cloneInput_def)
    moreover have "\<forall>m. \<rho> m \<le> \<rho> (nd_Next node) \<longrightarrow> fresh e m (docs w1)"
      using ex(5) Suc.prems(5) lt by (metis leD le_trans nat_less_le)
    ultimately obtain w2 where "runLoop n rt ex e g (Some c) out w1 = Some (Ok (), w2)" "xdocs w2 = xdocs w1"
      using Suc.IH [OF c _ _ ex(3), of out] lt Suc.prems(2) by auto
    with ex False nc c show ?thesis by (simp add: Graph_Next_def laws(11))
  qed
qed simp

end
