(* ===== verification/Orchestrator_Correct.thy ===== *)
theory Orchestrator_Correct
  imports Mongo_Execution
begin

text \<open>
  What holds of the composed control plane over the MongoDB store: an execution of an acyclic
  workflow ends and is marked completed; a registered service is never invoked; without a token
  secret no job is started.
\<close>

section \<open>The execution records\<close>

text \<open>
  What the gateway and \<open>trigger\<close> rely on: \<open>xview w e\<close> is the record of execution \<open>e\<close>, and \<open>norm\<close> what the
  store makes of an input.
\<close>

locale execution_store =
  fixes st :: "'w Store" and xview :: "'w \<Rightarrow> string \<Rightarrow> ExecutionRecord option"
    and norm :: "gomap \<Rightarrow> gomap"
  assumes create_ok:
      "st_CreateExecution st r w = (Ok u, w') \<Longrightarrow>
       xview w (er_ID r) = None \<and>
       (\<exists>now. xview w' = (xview w)(er_ID r \<mapsto>
          r\<lparr>er_Status := StatusPending, er_Input := norm (er_Input r), er_CreatedAt := now, er_UpdatedAt := now\<rparr>))"
    and update_total:
      "xview w e = Some r \<Longrightarrow>
       \<exists>w' now. st_UpdateExecution st e status w = (Ok (), w') \<and>
         xview w' = (xview w)(e \<mapsto> r\<lparr>er_Status := status, er_UpdatedAt := now\<rparr>)"
    and get_total: "xview w e = Some r \<Longrightarrow> st_GetExecution st e w = (Ok r, w)"
begin

lemma settle_total:
  assumes "xview w e = Some r"
  shows "\<exists>w' now. settle st e status w = (Ok (), w') \<and>
    xview w' = (xview w)(e \<mapsto> r\<lparr>er_Status := status, er_UpdatedAt := now\<rparr>)"
proof -
  from update_total [OF assms] obtain w' now where "st_UpdateExecution st e status w = (Ok (), w')"
    "xview w' = (xview w)(e \<mapsto> r\<lparr>er_Status := status, er_UpdatedAt := now\<rparr>)" by blast
  then show ?thesis by (auto simp: settle_def)
qed

lemma RunWorkflow_record:
  assumes "RunWorkflow pb st rnd name inp wfs w = (Ok (execID, call), w')"
  shows "\<exists>graph now. wfs name = Some graph \<and> call = (execID, graph, map_option (pb_AsMap pb) inp) \<and>
    genUUID rnd = Ok execID \<and> xview w execID = None \<and>
    xview w' = (xview w)(execID \<mapsto> (runRecord execID name (map_option (pb_AsMap pb) inp))
      \<lparr>er_Status := StatusPending, er_Input := norm (map_option (pb_AsMap pb) inp), er_CreatedAt := now,
       er_UpdatedAt := now\<rparr>)"
proof -
  let ?input = "map_option (pb_AsMap pb) inp"
  from assms obtain graph where g: "wfs name = Some graph" "call = (execID, graph, ?input)"
      "genUUID rnd = Ok execID" "st_CreateExecution st (runRecord execID name ?input) w = (Ok (), w')"
    by (auto simp: RunWorkflow_def ifErr_def Let_def split: option.splits res.splits prod.splits)
  from create_ok [OF g(4)] g show ?thesis by (auto simp: runRecord_def)
qed

text \<open>An execution that was started is reported with the status that \<open>trigger\<close> gave it last.\<close>

lemma gw_GetExecution_record:
  "xview w e = Some r \<Longrightarrow> gw_GetExecution st e w = (Ok (execRecordToProto r), w)"
  by (simp add: gw_GetExecution_def get_total)

end

definition mem_xview :: "'e mem_world \<Rightarrow> string \<Rightarrow> ExecutionRecord option" where
  "mem_xview w = ms_executions (mw_store w)"

interpretation mx: execution_store "memoryStore ro" mem_xview "\<lambda>i. i" for ro
  by unfold_locales
    (auto simp: mem_xview_def mem_world_defs mem_defs Let_def split: option.splits)

text \<open>The MongoDB store keeps the contract as far as the driver keeps its laws.\<close>

definition mongo_xview :: "('w \<Rightarrow> string \<Rightarrow> executionDoc option) \<Rightarrow> 'w \<Rightarrow> string \<Rightarrow> ExecutionRecord option" where
  "mongo_xview xdocs w e = map_option docToExecutionRecord (xdocs w e)"

lemma mongo_execution_store:
  assumes laws: "execution_laws (mo_db s) bv docs xdocs"
  shows "execution_store (mongoStore s) (mongo_xview xdocs) (\<lambda>i. Some (bsonMap bv (inputToM i)))"
proof
  let ?D = "mo_db s"
  fix r w u w'
  assume call: "st_CreateExecution (mongoStore s) r w = (Ok u, w')"
  define d where "d = \<lparr>xd_ID = er_ID r, xd_Workflow = er_Workflow r, xd_Status = StatusPending,
    xd_Input = Some (inputToM (er_Input r)), xd_CreatedAt = mo_now s w, xd_UpdatedAt = mo_now s w\<rparr>"
  have new: "xdocs w (xd_ID d) = None"
  proof (rule ccontr)
    assume "xdocs w (xd_ID d) \<noteq> None"
    then obtain e where "mg_InsertExecution ?D d w = (Err e, w)" using laws unfolding execution_laws_def by metis
    with call show False by (simp add: mongoStore_def mongo_CreateExecution_def d_def split: if_splits)
  qed
  then obtain w1 where "mg_InsertExecution ?D d w = (Ok (), w1)"
    "xdocs w1 = (xdocs w)(xd_ID d \<mapsto> decodedExecution bv d)"
    using laws unfolding execution_laws_def by metis
  then have "xdocs w' = (xdocs w)(er_ID r \<mapsto> decodedExecution bv d)"
    using call by (simp add: mongoStore_def mongo_CreateExecution_def d_def)
  then show "mongo_xview xdocs w (er_ID r) = None \<and>
      (\<exists>now. mongo_xview xdocs w' = (mongo_xview xdocs w)(er_ID r \<mapsto>
         r\<lparr>er_Status := StatusPending, er_Input := Some (bsonMap bv (inputToM (er_Input r))),
           er_CreatedAt := now, er_UpdatedAt := now\<rparr>))"
    using new
    by (auto simp: mongo_xview_def fun_eq_iff docToExecutionRecord_def decodedExecution_def d_def mToInput_def
        intro!: exI [of _ "bsonTime (mo_now s w)"])
next
  fix w e r status
  assume "mongo_xview xdocs w e = Some r"
  then obtain d where d: "xdocs w e = Some d" "r = docToExecutionRecord d" by (auto simp: mongo_xview_def)
  from laws obtain w' where "mg_UpdateOne (mo_db s) collExecutions [(''_id'', BStr e)]
      [(''status'', BStr status), (''updated_at'', BTime (mo_now s w))] w = (Ok (if xdocs w e = None then 0 else 1), w')"
    "xdocs w' = (case xdocs w e of None \<Rightarrow> xdocs w
       | Some d \<Rightarrow> (xdocs w)(e \<mapsto> d\<lparr>xd_Status := status, xd_UpdatedAt := bsonTime (mo_now s w)\<rparr>))"
    unfolding execution_laws_def by metis
  with d show "\<exists>w' now. st_UpdateExecution (mongoStore s) e status w = (Ok (), w') \<and>
      mongo_xview xdocs w' = (mongo_xview xdocs w)(e \<mapsto> r\<lparr>er_Status := status, er_UpdatedAt := now\<rparr>)"
    by (auto simp: mongoStore_def mongo_UpdateExecution_def mongo_xview_def fun_eq_iff docToExecutionRecord_def)
next
  fix w e r
  assume "mongo_xview xdocs w e = Some r"
  then show "st_GetExecution (mongoStore s) e w = (Ok r, w)"
    using laws by (auto simp: execution_laws_def mongoStore_def mongo_GetExecution_def mongo_xview_def)
qed

lemma RunWorkflow_docs:
  assumes laws: "execution_laws (mo_db s) bv docs xdocs"
    and "RunWorkflow pb (mongoStore s) rnd name inp wfs w = (Ok (execID, call), w')"
  shows "docs w' = docs w"
proof -
  have "docs (snd (mg_InsertExecution (mo_db s) d w)) = docs w" for d w
    using laws unfolding execution_laws_def by (metis snd_conv)
  then have "docs (snd (mongo_CreateExecution s r w)) = docs w" for r w
    unfolding mongo_CreateExecution_def Let_def by (subst obs_ifErr [where obs = docs]) simp_all
  then have "docs (snd (RunWorkflow pb (mongoStore s) rnd name inp wfs w)) = docs w"
    by (cases "genUUID rnd")
      (simp_all add: RunWorkflow_def Let_def mongoStore_def obs_ifErr [where obs = docs] split: option.split)
  with assms(2) show ?thesis by simp
qed

section \<open>Workflows that go forward\<close>

text \<open>
  A registered workflow whose steps have distinct names and whose next and catch targets come later
  in the list of steps, or are no steps; and one in which every step that is not an end has its
  successor among the steps.
\<close>

definition stepTargets :: "protoGraph \<Rightarrow> protoStep \<Rightarrow> string set" where
  "stepTargets pg p =
     {pp_Next p, pp_Catch p} \<union> ps_CatchState ` {s \<in> set (pg_States pg). ps_Name s = pp_Name p}"

fun forwardFrom :: "protoGraph \<Rightarrow> string set \<Rightarrow> protoStep list \<Rightarrow> bool" where
  "forwardFrom pg seen [] = True"
| "forwardFrom pg seen (p # ps) =
     (pp_Name p \<notin> seen \<and> stepTargets pg p \<inter> insert (pp_Name p) seen = {} \<and>
      forwardFrom pg (insert (pp_Name p) seen) ps)"

definition linked :: "protoGraph \<Rightarrow> bool" where
  "linked pg \<longleftrightarrow>
     (\<forall>p \<in> set (pg_Steps pg). pp_IsEnd p \<or> isSentinel (pp_Next p) \<or> pp_Next p \<in> pp_Name ` set (pg_Steps pg))"

fun stepRank :: "protoStep list \<Rightarrow> string \<Rightarrow> nat" where
  "stepRank [] n = 0"
| "stepRank (p # ps) n = (if pp_Name p = n then Suc (length ps) else stepRank ps n)"

lemma stepRank_le: "stepRank ps n \<le> length ps"
  by (induction ps) auto

lemma forwardFrom_seen:
  "forwardFrom pg seen ps \<Longrightarrow> p \<in> set ps \<Longrightarrow> pp_Name p \<notin> seen \<and> stepTargets pg p \<inter> seen = {}"
  by (induction ps arbitrary: seen) auto

lemma forwardFrom_rank:
  assumes "forwardFrom pg seen ps" and "p \<in> set ps" and "t \<in> stepTargets pg p" and "t \<in> pp_Name ` set ps"
  shows "stepRank ps t < stepRank ps (pp_Name p)"
  using assms
proof (induction ps arbitrary: seen)
  case (Cons q ps)
  let ?seen = "insert (pp_Name q) seen"
  show ?case
  proof (cases "p = q")
    case True
    with Cons.prems have "t \<noteq> pp_Name q" by auto
    with True show ?thesis using stepRank_le [of ps t] by simp
  next
    case False
    with Cons.prems have p: "p \<in> set ps" and fw: "forwardFrom pg ?seen ps" by auto
    from forwardFrom_seen [OF fw p] Cons.prems(3) have ne: "pp_Name p \<noteq> pp_Name q" "t \<noteq> pp_Name q" by auto
    with Cons.prems(4) have "t \<in> pp_Name ` set ps" by auto
    from Cons.IH [OF fw p Cons.prems(3) this] ne show ?thesis by auto
  qed
qed simp

text \<open>The nodes of a compiled message come from its steps.\<close>

lemma readStep_name [simp]: "sb_name (readStep p) = pp_Name p"
  by (simp add: readStep_def step_defs Let_def)

lemma readStep_next:
  "sb_next (readStep p) = (if pp_IsEnd p then Succeed else pp_Next p)" "sb_catch (readStep p) = pp_Catch p"
  by (auto simp: readStep_def step_defs Let_def)

lemma proto_node:
  fixes g :: "'e Graph"
  assumes "BuildFromProto ord pg = Ok g" and "g_nodes g n = Some nd"
  obtains p s where "p \<in> set (pg_Steps pg)" "pp_Name p = n" "s \<in> set (pg_States pg)" "ps_Name s = n"
    "nd = mkNode (readTask s) (readStep p)"
proof -
  let ?w = "protoWorkflow pg :: 'e Workflow"
  from assms(1) have b: "list_all (compilable (wf_tasks ?w)) (wf_steps ?w)"
      "g_nodes g = stepNodes (wf_tasks ?w) (wf_steps ?w)"
    by (simp_all add: BuildFromProto_def Build_Ok_iff)
  from assms(2) [unfolded b(2)] obtain st where st: "st \<in> set (wf_steps ?w)" "sb_name st = n"
      "nd = mkNode (the (wf_tasks ?w n)) st"
    by (blast dest: stepNodes_Some)
  with b(1) obtain td where td: "wf_tasks ?w n = Some td" by (auto simp: list_all_iff compilable_def)
  from st(1) obtain p where p: "p \<in> set (pg_Steps pg)" "st = readStep p" by (auto simp: protoWorkflow_simps)
  from protoWorkflow_taskD [OF td] p st td that show thesis by auto
qed

lemma proto_names: "BuildFromProto ord pg = Ok g \<Longrightarrow> dom (g_nodes g) = pp_Name ` set (pg_Steps pg)"
  by (auto simp: BuildFromProto_def Build_Ok_iff protoWorkflow_simps dom_stepNodes image_image)

lemma readTask_simps:
  "td_catch (readTask s) = ps_CatchState s" "\<not> IsChoice (readTask s)"
  "td_serviceTarget (readTask s) = ps_ServiceTarget s" "IsWait (readTask s) \<longleftrightarrow> ps_Kind s = ''wait''"
  by (auto simp: readTask_def task_defs)

lemma mkNode_catch: "nd_Catch (mkNode td st) = (if sb_catch st = '''' then td_catch td else sb_catch st)"
  by (simp add: mkNode_def split: option.splits)

lemma proto_ranked:
  fixes g :: "'a Graph"
  assumes "BuildFromProto ord pg = Ok g" and "forwardFrom pg {} (pg_Steps pg)"
  shows "catch_ranked g (stepRank (pg_Steps pg))" and "next_ranked g (stepRank (pg_Steps pg))"
proof -
  have rank: "stepRank (pg_Steps pg) t < stepRank (pg_Steps pg) (pp_Name p)"
    if "p \<in> set (pg_Steps pg)" "t \<in> stepTargets pg p" "g_nodes g t = Some c" for p t c
    using forwardFrom_rank [OF assms(2) that(1,2)] proto_names [OF assms(1)] that(3) by blast
  have tgt: "nd_Catch nd \<in> stepTargets pg p" "\<not> nd_Terminal nd \<Longrightarrow> nd_Next nd \<in> stepTargets pg p"
    if "nd = mkNode (readTask s) (readStep p)" "s \<in> set (pg_States pg)" "ps_Name s = pp_Name p"
    for nd :: "'a Node" and s p
    using that by (auto simp: stepTargets_def mkNode_catch readStep_next readTask_simps isSentinel_def)
  show "catch_ranked g (stepRank (pg_Steps pg))"
    unfolding catch_ranked_def by (metis proto_node [OF assms(1)] rank tgt(1))
  show "next_ranked g (stepRank (pg_Steps pg))"
    unfolding next_ranked_def
    by (metis proto_node [OF assms(1)] rank tgt(2) mkNode_simps(2) readTask_simps(2))
qed

text \<open>A compiled message has no state that invokes a service.\<close>

lemma proto_no_service:
  assumes "BuildFromProto ord pg = Ok g" and "range_order ord (wf_tasks (protoWorkflow pg :: unit Workflow))"
    and "g_nodes (g :: unit Graph) n = Some nd"
  shows "IsWait (nd_TaskDef nd) \<or> td_serviceTarget (nd_TaskDef nd) = ''''"
proof -
  let ?w = "protoWorkflow pg :: unit Workflow"
  from assms(3) obtain st where st: "st \<in> set (wf_steps ?w)" "sb_name st = n"
      "nd_TaskDef nd = the (wf_tasks ?w n)"
    using assms(1) by (auto simp: BuildFromProto_def Build_Ok_iff dest!: stepNodes_Some)
  with assms(1) obtain td where td: "wf_tasks ?w n = Some td"
    by (auto simp: BuildFromProto_def Build_Ok_iff list_all_iff compilable_def)
  from protoWorkflow_taskD [OF td] obtain s where s: "td = readTask s" by blast
  have "valid_workflow ?w"
    using assms(1,2) by (simp add: BuildFromProto_def Build_Ok_iff Validate_None_iff)
  with td have "td_kind td = taskState \<Longrightarrow> (td_fn td = None) = (td_serviceTarget td \<noteq> '''')"
    by (auto simp: valid_workflow_def)
  with s st(3) td show ?thesis by (auto simp: readTask_def task_defs split: if_splits)
qed

section \<open>Executions complete\<close>

lemma trigger_passing:
  assumes pass: "passing rt (inProcessExecutor cp) s bv docs xdocs"
    and "cp_k8s cp = None \<or> pg_Image graph = ''''"
    and g: "BuildFromProto ord graph = Ok (g :: unit Graph)"
    and "range_order ord (wf_tasks (protoWorkflow graph :: unit Workflow))"
    and "forwardFrom graph {} (pg_Steps graph)" and "linked graph"
    and "Suc (length (pg_Steps graph)) < n" and x: "mongo_xview xdocs w execID = Some r"
    and "docs_ok (docs w)" and "\<forall>m. fresh execID m (docs w)"
    and "fits s (cloneInput input)" "fits s (Some Map.empty)"
  shows "\<exists>w' now. (\<forall>m \<ge> n. trigger m rt uc ord cp (execID, graph, input) w = Some (Ok (), w')) \<and>
    mongo_xview xdocs w' = (mongo_xview xdocs w)(execID \<mapsto> r\<lparr>er_Status := StatusCompleted, er_UpdatedAt := now\<rparr>)"
proof -
  let ?ex = "inProcessExecutor cp"
  let ?w0 = "logLine rt ?ex execID '''' ''INFO'' [FL ''executor: execution '', FQ execID, FL '' started''] w"
  have ms: "cp_ms cp = mongoStore s" using passing_laws(2) [OF pass] by (simp add: inProcessExecutor_def)
  have w0: "docs ?w0 = docs w" "xdocs ?w0 = xdocs w" by (simp_all add: passing_laws(7,8) [OF pass])
  obtain nd where en: "EntryNode g = Some nd"
    using Build_graph_wf g unfolding BuildFromProto_def graph_wf_def by blast
  have succ: "g_nodes g (nd_Next nd) \<noteq> None" if "g_nodes g nm = Some nd" "\<not> nd_Terminal nd" for nm nd
  proof -
    from proto_node [OF g that(1)] obtain p s where p: "p \<in> set (pg_Steps graph)"
      "nd = mkNode (readTask s) (readStep p)" by blast
    with that(2) assms(6) have "nd_Next nd \<in> dom (g_nodes g)"
      unfolding proto_names [OF g] by (auto simp: linked_def readStep_next isSentinel_def)
    then show ?thesis by auto
  qed
  have named: "nd_Name nd = nm" if "g_nodes g nm = Some nd" for nm nd
    using proto_node [OF g that] by (metis mkNode_simps(1) readStep_name)
  have rank: "Suc (stepRank (pg_Steps graph) (g_entry g)) < n"
    using stepRank_le [of "pg_Steps graph" "g_entry g"] assms(7) by simp
  have "\<exists>w1. runLoop n rt ?ex execID g (Some nd) input ?w0 = Some (Ok (), w1) \<and> xdocs w1 = xdocs ?w0"
    by (rule runLoop_fresh [OF pass proto_ranked(2) [OF g assms(5)] _ _ _ assms(12) en [unfolded EntryNode_def] rank])
      (use assms(9-11) w0 in \<open>simp_all add: proto_no_service [OF g assms(4)] succ named\<close>)
  then obtain w1 where w1: "runLoop n rt ?ex execID g (Some nd) input ?w0 = Some (Ok (), w1)"
      "xdocs w1 = xdocs w" using w0 by auto
  have "Run m rt ?ex execID g input w = Some (Ok (), w1)" if "n \<le> m" for m
    by (rule Run_mono [OF _ that]) (simp add: Run_def en w1(1))
  then have run: "runGraph m rt uc cp execID (pg_Image graph) g input w = Some (Ok (), w1)"
    if "n \<le> m" for m using that assms(2) by (auto simp: runGraph_def)
  have laws: "execution_laws (mo_db s) bv docs xdocs" using pass by (simp add: passing_def)
  have same: "mongo_xview xdocs w1 = mongo_xview xdocs w" by (simp add: mongo_xview_def w1(2) fun_eq_iff)
  with execution_store.settle_total [OF mongo_execution_store [OF laws], of w1 execID r StatusCompleted] x
  obtain w2 now where "settle (mongoStore s) execID StatusCompleted w1 = (Ok (), w2)"
    "mongo_xview xdocs w2 = (mongo_xview xdocs w)(execID \<mapsto> r\<lparr>er_Status := StatusCompleted, er_UpdatedAt := now\<rparr>)"
    by auto
  with run g ms show ?thesis by (auto simp: trigger_def intro!: exI [of _ w2] exI [of _ now])
qed

text \<open>
  C4.  Over the MongoDB store, as long as the calls of the driver succeed and the hooks do not write to
  the database: a workflow that was registered with the control plane, compiles, and only goes forward
  to states that exist is run to its end.  When \<open>RunWorkflow\<close> has accepted it under a new ID, with an
  input of at most one mebibyte as JSON, the goroutine it starts returns, and the execution is
  reported as completed under its ID and workflow name; every other execution keeps its record.
  (In-process mode: no cluster, or no image.)
\<close>

theorem execution_completes:
  assumes "passing rt (inProcessExecutor cp) s bv docs xdocs"
    and "cp_k8s cp = None \<or> pg_Image graph = ''''"
    and "BuildFromProto ord graph = Ok (g :: unit Graph)"
    and "range_order ord (wf_tasks (protoWorkflow graph :: unit Workflow))"
    and "forwardFrom graph {} (pg_Steps graph)" and "linked graph"
    and "wfs name = Some graph"
    and "RunWorkflow pb (mongoStore s) rnd name inp wfs w = (Ok (execID, call), w1)"
    and "docs_ok (docs w)" and "\<forall>m. fresh execID m (docs w)"
    and "fits s (cloneInput (map_option (pb_AsMap pb) inp))" and "fits s (Some Map.empty)"
    and "Suc (length (pg_Steps graph)) < n"
  shows "\<exists>w2 p. (\<forall>m \<ge> n. trigger m rt uc ord cp call w1 = Some (Ok (), w2)) \<and>
    gw_GetExecution (mongoStore s) execID w2 = (Ok p, w2) \<and> pe_Id p = execID \<and> pe_Workflow p = name \<and>
    pe_Status p = STATUS_COMPLETED \<and>
    (\<forall>e. e \<noteq> execID \<longrightarrow> mongo_GetExecution s e w2 = (fst (mongo_GetExecution s e w), w2))"
proof -
  let ?input = "map_option (pb_AsMap pb) inp" and ?x = "mongo_xview xdocs"
  have laws: "execution_laws (mo_db s) bv docs xdocs" using assms(1) by (simp add: passing_def)
  note xs = mongo_execution_store [OF laws]
  from execution_store.RunWorkflow_record [OF xs assms(8)] assms(7) obtain now where
    call: "call = (execID, graph, ?input)" and
    x1: "?x w1 = (?x w)(execID \<mapsto> (runRecord execID name ?input)
      \<lparr>er_Status := StatusPending, er_Input := Some (bsonMap bv (inputToM ?input)), er_CreatedAt := now,
       er_UpdatedAt := now\<rparr>)"
    (is "_ = _(_ \<mapsto> ?r1)") by auto
  then have "?x w1 execID = Some ?r1" by simp
  moreover have docs: "docs w1 = docs w" by (rule RunWorkflow_docs [OF laws assms(8)])
  ultimately obtain w2 now' where
    w2: "\<forall>m \<ge> n. trigger m rt uc ord cp call w1 = Some (Ok (), w2)"
      "?x w2 = (?x w1)(execID \<mapsto> ?r1\<lparr>er_Status := StatusCompleted, er_UpdatedAt := now'\<rparr>)"
    using trigger_passing [OF assms(1-6,13), of w1 execID ?r1 ?input uc] assms(9-12) unfolding call by auto
  have "gw_GetExecution (mongoStore s) execID w2 =
      (Ok (execRecordToProto (?r1\<lparr>er_Status := StatusCompleted, er_UpdatedAt := now'\<rparr>)), w2)"
    by (rule execution_store.gw_GetExecution_record [OF xs]) (simp add: w2(2))
  moreover have "mongo_GetExecution s e w2 = (fst (mongo_GetExecution s e w), w2)" if "e \<noteq> execID" for e
  proof -
    have "?x w2 e = ?x w e" using w2(2) x1 that by simp
    then show ?thesis
      using laws by (auto simp: execution_laws_def mongo_GetExecution_def mongo_xview_def split: option.splits)
  qed
  ultimately show ?thesis
    using w2(1) by (auto simp: execRecordToProto_def statusToProto_def runRecord_def)
qed

definition exampleConfig :: Config where
  "exampleConfig =
     \<lparr>cf_MongoURI = ''mongodb://localhost'', cf_MongoDB = ''kflow'', cf_Namespace = ''kflow'',
      cf_GRPCPort = ''8080'', cf_RunnerGRPCPort = ''9090'', cf_GRPCTLSCert = '''', cf_GRPCTLSKey = '''',
      cf_RunnerGRPCEndpoint = '''', cf_RunnerTokenSecret = '''', cf_ServiceGRPCPort = ''9091'',
      cf_APIKey = '''', cf_ClickHouseDSN = '''', cf_ObjectStoreURI = '''', cf_Image = ''''\<rparr>"

definition planeRuntime :: "simDb Runtime" where
  "planeRuntime = \<lparr>rt_Now = (\<lambda>w. 0), rt_Sleep = (\<lambda>d w. w), rt_Log = (\<lambda>msg w. w), rt_CtxErr = (\<lambda>w. None)\<rparr>"

definition examplePlane :: "simDb ControlPlane" where
  "examplePlane =
     \<lparr>cp_cfg = exampleConfig, cp_ms = mongoStore simMongoStore, cp_k8s = None,
      cp_disp = (\<lambda>_ _ _ _ w. (Err ErrServiceNotFound, w)), cp_eventWriter = None,
      cp_logWriter = None, cp_notify = None\<rparr>"

definition emptyDb :: simDb where
  "emptyDb = \<lparr>db_states = [], db_executions = Map.empty, db_services = Map.empty, db_objects = Map.empty\<rparr>"

definition exampleMessage :: protoGraph where
  "exampleMessage =
     (let task = (\<lambda>n. \<lparr>ps_Name = n, ps_Kind = ''task'', ps_ServiceTarget = '''', ps_WaitSeconds = 0,
                      ps_CatchState = ''''\<rparr>)
      in \<lparr>pg_Name = ''flow'', pg_States = [task ''a'', task ''b''],
          pg_Steps = [\<lparr>pp_Name = ''a'', pp_Next = ''b'', pp_Catch = '''', pp_IsEnd = False\<rparr>,
                      \<lparr>pp_Name = ''b'', pp_Next = '''', pp_Catch = '''', pp_IsEnd = True\<rparr>],
          pg_Image = ''''\<rparr>)"

lemma exampleMessage_ok:
  "range_order [''a'', ''b''] (wf_tasks (protoWorkflow exampleMessage :: unit Workflow))"
  "\<exists>g :: unit Graph. BuildFromProto [''a'', ''b''] exampleMessage = Ok g"
  "forwardFrom exampleMessage {} (pg_Steps exampleMessage)" "linked exampleMessage"
  by (auto simp: range_order_def protoWorkflow_simps exampleMessage_def BuildFromProto_def Build_Ok_iff
      Validate_def handlerLoop_def handlerRule_def readTask_def task_defs stepRule_def knownTarget_def
      readStep_def step_defs compilable_def linked_def stepTargets_def isSentinel_def Let_def)

lemma examplePlane_passing:
  "passing planeRuntime (inProcessExecutor examplePlane) simMongoStore simValue db_states db_executions"
  by (simp add: passing_def quiet_def inProcessExecutor_def examplePlane_def planeRuntime_def simMongoStore_def
      simMongo_laws simMongo_executions)

lemma simMongoStore_fits: "fits simMongoStore m"
  by (simp add: fits_def simMongoStore_def codec1_def)

theorem execution_completes_witness:
  "\<exists>execID call w1 w2 p.
     RunWorkflow plainStructpb (mongoStore simMongoStore) (Ok (replicate 16 0xAB)) ''flow'' None
       [''flow'' \<mapsto> exampleMessage] emptyDb = (Ok (execID, call), w1) \<and>
     trigger 4 planeRuntime asciiTable [''a'', ''b''] examplePlane call w1 = Some (Ok (), w2) \<and>
     gw_GetExecution (mongoStore simMongoStore) execID w2 = (Ok p, w2) \<and> pe_Status p = STATUS_COMPLETED"
proof -
  let ?wfs = "[''flow'' \<mapsto> exampleMessage]"
  obtain g :: "unit Graph" where g: "BuildFromProto [''a'', ''b''] exampleMessage = Ok g"
    using exampleMessage_ok(2) by blast
  obtain execID where e: "genUUID (Ok (replicate 16 (0xAB :: 8 word))) = Ok execID"
    by (simp add: genUUID_def Let_def)
  then obtain call w1 where run: "RunWorkflow plainStructpb (mongoStore simMongoStore)
      (Ok (replicate 16 0xAB)) ''flow'' None ?wfs emptyDb = (Ok (execID, call), w1)"
    by (simp add: RunWorkflow_def Let_def mongoStore_def mongo_CreateExecution_def simMongoStore_def simMongo_def
        emptyDb_def)
  have db: "docs_ok (db_states emptyDb)" "\<forall>m. fresh execID m (db_states emptyDb)"
    by (simp_all add: docs_ok_def fresh_def emptyDb_def)
  have k8s: "cp_k8s examplePlane = None \<or> pg_Image exampleMessage = ''''" by (simp add: examplePlane_def)
  have "Suc (length (pg_Steps exampleMessage)) < 4" by (simp add: exampleMessage_def)
  from execution_completes [OF examplePlane_passing k8s g exampleMessage_ok(1,3,4) _ run db simMongoStore_fits
      simMongoStore_fits this, of asciiTable] run
  show ?thesis by (simp, blast)
qed

section \<open>Services are never invoked\<close>

text \<open>
  The calls of the methods of the store, by whichever goroutine, with the steps of the program that
  leave the services alone.  No part of the program calls \<open>UpdateServiceStatus\<close>.
\<close>

inductive store_call :: "'w Store \<Rightarrow> ('w \<Rightarrow> 'v) \<Rightarrow> 'w \<Rightarrow> 'w \<Rightarrow> bool" for st obs where
  create_execution: "store_call st obs w (snd (st_CreateExecution st r w))"
| get_execution: "store_call st obs w (snd (st_GetExecution st e w))"
| update_execution: "store_call st obs w (snd (st_UpdateExecution st e status w))"
| list_executions: "store_call st obs w (snd (st_ListExecutions st f w))"
| write_ahead: "store_call st obs w (snd (st_WriteAheadState st sr w))"
| mark_running: "store_call st obs w (snd (st_MarkRunning st e s w))"
| complete_state: "store_call st obs w (snd (st_CompleteState st e s out w))"
| fail_state: "store_call st obs w (snd (st_FailState st e s msg w))"
| get_output: "store_call st obs w (snd (st_GetStateOutput st e s w))"
| list_states: "store_call st obs w (snd (st_ListStates st e w))"
| create_service: "store_call st obs w (snd (st_CreateService st sv w))"
| get_service: "store_call st obs w (snd (st_GetService st name w))"
| list_services: "store_call st obs w (snd (st_ListServices st w))"
| delete_service: "store_call st obs w (snd (st_DeleteService st name w))"
| environment: "obs w' = obs w \<Longrightarrow> store_call st obs w w'"

definition none_running :: "serviceDoc set \<Rightarrow> bool" where
  "none_running ds \<longleftrightarrow> (\<forall>d \<in> ds. vd_Status d \<noteq> ServiceStatusRunning)"

inductive control_reachable :: "'w MongoStore \<Rightarrow> ('w \<Rightarrow> serviceDoc set) \<Rightarrow> 'w \<Rightarrow> bool" for s svcs where
  start: "none_running (svcs w) \<Longrightarrow> control_reachable s svcs w"
| step: "control_reachable s svcs w \<Longrightarrow> store_call (mongoStore s) svcs w w' \<Longrightarrow> control_reachable s svcs w'"

lemma cursor_obs: "obs (snd (cursorAll a b res f)) = obs (snd res)"
  unfolding cursorAll_def by (subst obs_ifErr) (simp_all add: obs_ifErr)

lemma service_found:
  assumes "service_laws s svcs" and "mg_FindOneService (mo_db s) f w = (Ok d, w')"
  shows "d \<in> svcs w"
  using assms(1) [unfolded service_laws_def, THEN conjunct2, THEN conjunct2, THEN conjunct1] assms(2) by blast

lemma service_frames:
  fixes s :: "'w MongoStore" and svcs :: "'w \<Rightarrow> serviceDoc set"
  assumes "service_laws s svcs"
  shows "svcs (snd (mongo_CreateExecution s r w)) = svcs w" "svcs (snd (mongo_GetExecution s e w)) = svcs w"
    "svcs (snd (mongo_UpdateExecution s e status w)) = svcs w" "svcs (snd (mongo_ListExecutions s f w)) = svcs w"
    "svcs (snd (mongo_WriteAheadState s sr w)) = svcs w" "svcs (snd (mongo_MarkRunning s e st w)) = svcs w"
    "svcs (snd (mongo_CompleteState s e st out w)) = svcs w" "svcs (snd (mongo_FailState s e st msg w)) = svcs w"
    "svcs (snd (mongo_GetStateOutput s e st w)) = svcs w" "svcs (snd (mongo_ListStates s e w)) = svcs w"
    "svcs (snd (mongo_GetService s name w)) = svcs w" "svcs (snd (mongo_ListServices s w)) = svcs w"
proof -
  note laws = assms [unfolded service_laws_def]
  note frame = obs_ifErr [where obs = svcs]
  have colls: "collStates \<noteq> collServices" "collExecutions \<noteq> collServices"
    by (simp_all add: collStates_def collServices_def collExecutions_def)
  have find: "svcs (snd (mg_FindOneState (mo_db s) f srt w)) = svcs w" for f srt w using laws by simp
  have upd: "svcs (snd (mg_UpdateOne (mo_db s) collStates f upd w)) = svcs w" for f upd w
    using laws colls(1) by simp
  show "svcs (snd (mongo_CreateExecution s r w)) = svcs w"
    unfolding mongo_CreateExecution_def Let_def by (subst frame) (use laws in simp_all)
  show "svcs (snd (mongo_GetExecution s e w)) = svcs w"
    unfolding mongo_GetExecution_def by (subst frame) (use laws in simp_all)
  show "svcs (snd (mongo_UpdateExecution s e status w)) = svcs w"
    unfolding mongo_UpdateExecution_def by (subst frame) (use laws colls(2) in simp_all)
  show "svcs (snd (mongo_ListExecutions s f w)) = svcs w" "svcs (snd (mongo_ListStates s e w)) = svcs w"
    "svcs (snd (mongo_ListServices s w)) = svcs w"
    unfolding mongo_ListExecutions_def mongo_ListStates_def mongo_ListServices_def Let_def
    by (simp_all add: cursor_obs [where obs = svcs]) (use laws in simp_all)
  show "svcs (snd (mongo_WriteAheadState s sr w)) = svcs w"
    by (rule WriteAhead_obs [where obs = svcs]) (use laws in simp_all)
  show "svcs (snd (mongo_MarkRunning s e st w)) = svcs w" "svcs (snd (mongo_FailState s e st msg w)) = svcs w"
    unfolding mongo_MarkRunning_def mongo_FailState_def
    by (rule updateLatest_obs [where obs = svcs, OF find upd])+
  show "svcs (snd (mongo_CompleteState s e st out w)) = svcs w"
    by (rule Complete_obs [where obs = svcs, OF find upd]) (use laws in simp)
  show "svcs (snd (mongo_GetService s name w)) = svcs w"
    unfolding mongo_GetService_def by (subst frame) (use laws in simp_all)
  have get: "svcs (snd (Get os k w)) = svcs w" if "mo_ObjectStore s = Some os" for os k w
    unfolding Get_def by (subst frame) (use laws that in simp_all)
  show "svcs (snd (mongo_GetStateOutput s e st w)) = svcs w"
    unfolding mongo_GetStateOutput_def
    by (rule findLatest_obs [where obs = svcs, OF find])
      (auto simp: Let_def frame get split: option.split)
qed

lemma CreateService_pending:
  assumes "service_laws s svcs" and "none_running (svcs w)"
  shows "none_running (svcs (snd (mongo_CreateService s r w)))"
proof -
  define d where "d = \<lparr>vd_Name = svc_Name r, vd_Mode = svc_Mode r, vd_Port = svc_Port r,
     vd_MinScale = svc_MinScale r, vd_MaxScale = svc_MaxScale r, vd_IngressHost = svc_IngressHost r,
     vd_TimeoutNs = svc_Timeout r, vd_Status = ServiceStatusPending, vd_ClusterIP = svc_ClusterIP r,
     vd_CreatedAt = mo_now s w, vd_UpdatedAt = mo_now s w\<rparr>"
  have "svcs (snd (mongo_CreateService s r w)) = svcs (snd (mg_InsertService (mo_db s) d w))"
    unfolding mongo_CreateService_def Let_def d_def by (subst obs_ifErr [where obs = svcs]) simp_all
  also have "\<dots> \<subseteq> insert (decodedService d) (svcs w)" using assms(1) unfolding service_laws_def by simp
  finally show ?thesis
    using assms(2) by (auto simp: none_running_def decodedService_def d_def service_status_defs dest!: subsetD)
qed

lemma none_running_step:
  assumes laws: "service_laws s svcs"
  shows "store_call (mongoStore s) svcs w w' \<Longrightarrow> none_running (svcs w) \<Longrightarrow> none_running (svcs w')"
proof (induction rule: store_call.induct)
  case (create_service w sv)
  then show ?case using CreateService_pending [OF laws] by (simp add: mongoStore_def)
next
  case (delete_service w name)
  have "svcs (snd (mongo_DeleteService s name w)) = svcs (snd (mg_DeleteOne (mo_db s) collServices [(''_id'', BStr name)] w))"
    unfolding mongo_DeleteService_def by (subst obs_ifErr [where obs = svcs]) simp_all
  also have "\<dots> \<subseteq> svcs w" using laws unfolding service_laws_def by simp
  finally show ?case using delete_service by (auto simp: none_running_def mongoStore_def)
qed (simp_all add: mongoStore_def service_frames [OF laws])

text \<open>
  C37.  No service is ever invoked.  A service is registered as pending, and no part of the program
  calls \<open>UpdateServiceStatus\<close>: in every state of the MongoDB store that any sequence of calls of its other
  methods can reach, successful or not, from a database in which no service is running, the
  dispatcher of the control plane looks the service up, refuses it and does nothing else.
\<close>

theorem services_never_invoked:
  assumes "service_laws s svcs" and "control_reachable s svcs w"
  shows "\<exists>r. Dispatch rt uc gr pb (serverDispatcher cfg (mongoStore s) k8s metrics) execID stateName
     serviceName input w = (r, snd (mongo_GetService s serviceName w)) \<and> \<not> is_Ok r"
proof -
  have none: "none_running (svcs w)"
    using assms(2)
    by (induction rule: control_reachable.induct) (auto intro: none_running_step [OF assms(1)])
  have "svc_Status r \<noteq> ServiceStatusRunning" if "mongo_GetService s serviceName w = (Ok r, w')" for r w'
  proof -
    obtain x v where x: "mg_FindOneService (mo_db s) [(''_id'', BStr serviceName)] w = (x, v)" by force
    with that obtain d where d: "x = Ok d" "r = docToServiceRecord d"
      by (cases x) (auto simp: mongo_GetService_def split: if_splits)
    with x assms(1) have "d \<in> svcs w" by (blast intro: service_found)
    with none d(2) show ?thesis by (auto simp: none_running_def docToServiceRecord_def)
  qed
  then show ?thesis
    by (cases "mongo_GetService s serviceName w"; cases "fst (mongo_GetService s serviceName w)")
      (auto simp: Dispatch_def serverDispatcher_def mongoStore_def)
qed

definition noGrpc :: "'w Grpc" where
  "noGrpc = \<lparr>gr_NewClient = (\<lambda>_ w. (Ok (), w)), gr_Invoke = (\<lambda>_ _ w. (Ok None, w)), gr_Close = (\<lambda>_ w. w)\<rparr>"

definition paymentService :: registerServiceRequest where
  "paymentService = \<lparr>rq_Name = ''payments'', rq_Mode = ''deployment'', rq_Port = 8080, rq_MinScale = 1,
     rq_MaxScale = 1, rq_IngressHost = '''', rq_TimeoutSeconds = 30\<rparr>"

lemma simUpdate_services [simp]: "db_services (snd (simUpdate c f upd w)) = db_services w"
  by (simp add: simUpdate_def split: list.split prod.split bval.split option.split)

lemma simFind_world [simp]: "snd (simFind f srt w) = w"
  by (simp add: simFind_def split: list.split)

lemma byId_Ok: "byId f coll = Ok d \<Longrightarrow> d \<in> ran coll"
  by (auto simp: byId_def ran_def split: list.splits prod.splits bval.splits option.splits)

lemma simMongo_services: "service_laws simMongoStore (\<lambda>w. ran (db_services w))"
  by (auto simp: service_laws_def simMongoStore_def simMongo_def byId_Ok ran_def [of "f(x \<mapsto> y)" for f x y]
      split: if_splits) (auto simp: ran_def)

theorem services_never_invoked_witness:
  "\<exists>w r. RegisterService (mongoStore simMongoStore) paymentService emptyDb = (Ok ''payments'', w) \<and>
     Dispatch planeRuntime asciiTable noGrpc plainStructpb
       (serverDispatcher exampleConfig (mongoStore simMongoStore) None None) ''e'' ''s'' ''payments'' None w
       = (r, w) \<and> \<not> is_Ok r"
proof -
  let ?svcs = "\<lambda>w. ran (db_services w)"
  obtain w where w: "RegisterService (mongoStore simMongoStore) paymentService emptyDb = (Ok ''payments'', w)"
    "w = snd (st_CreateService (mongoStore simMongoStore) (serviceRecordOf paymentService) emptyDb)"
    by (simp add: RegisterService_def paymentService_def serviceRecordOf_def mongoStore_def
        mongo_CreateService_def simMongoStore_def simMongo_def emptyDb_def Let_def)
  have "control_reachable simMongoStore ?svcs emptyDb"
    by (rule start) (simp add: none_running_def emptyDb_def)
  then have "control_reachable simMongoStore ?svcs w"
    unfolding w(2) by (rule step) (rule create_service)
  moreover have "snd (mongo_GetService simMongoStore ''payments'' w) = w"
    by (simp add: mongo_GetService_def simMongoStore_def simMongo_def obs_ifErr [where obs = "\<lambda>w. w"])
  ultimately show ?thesis
    using services_never_invoked [OF simMongo_services, of w planeRuntime asciiTable noGrpc plainStructpb
        exampleConfig None None "''e''" "''s''" "''payments''" None] w(1) by auto
qed

section \<open>Without a token secret\<close>

text \<open>
  C38.  A configuration that \<open>LoadConfig\<close> accepted either has a secret with which state tokens can be
  issued, or was accepted with the warning that token security is disabled; then the control plane
  starts no job, since the handler of every state fails before it reaches the cluster.
\<close>

theorem no_secret_no_jobs:
  assumes "LoadConfig env = (Ok cfg, log)" and "cp_cfg cp = cfg"
  shows "if secretWarning \<in> set log
    then \<exists>err. buildHandler rt uc (jobExecutor cp k8s img) execID stateName input w = (Err err, w)
    else \<exists>tok. GenerateStateToken now execID stateName 1 (cf_RunnerTokenSecret cfg) = Ok tok"
proof (cases "cf_RunnerTokenSecret cfg = ''''")
  case True
  with LoadConfig_Ok(5) [OF assms(1)] assms(2) show ?thesis
    by (simp add: buildHandler_def jobExecutor_def GenerateStateToken_def Let_def)
next
  case False
  with LoadConfig_Ok(2,5) [OF assms(1)] show ?thesis by (simp add: GenerateStateToken_Ok)
qed

definition devEnv :: "string \<Rightarrow> string" where
  "devEnv n = (if n = ''KFLOW_MONGO_URI'' then ''mongodb://localhost'' else '''')"

theorem no_secret_no_jobs_witness:
  "\<exists>cfg log err. LoadConfig devEnv = (Ok cfg, log) \<and> secretWarning \<in> set log \<and>
     buildHandler planeRuntime asciiTable
       (jobExecutor (examplePlane\<lparr>cp_cfg := cfg\<rparr>) nilClient ''img'') ''e'' ''s'' None emptyDb
       = (Err err, emptyDb)"
proof -
  obtain cfg log where l: "LoadConfig devEnv = (Ok cfg, log)" "secretWarning \<in> set log"
    by (simp add: LoadConfig_def devEnv_def validateMongoURI_def envOr_def)
  let ?cp = "examplePlane\<lparr>cp_cfg := cfg\<rparr>"
  have "cp_cfg ?cp = cfg" by simp
  from no_secret_no_jobs [OF l(1) this, of planeRuntime asciiTable nilClient "''img''" "''e''" "''s''" None emptyDb]
  show ?thesis using l by auto
qed

end
