(* ===== verification/Startup.thy ===== *)
theory Startup
  imports Orchestrator Mongo_Store
begin

text \<open>
  How the control plane comes up: the connections of internal/k8s/client.go and
  internal/telemetry/clickhouse.go, the telemetry writers (events.go, metrics.go), the wiring of
  \<open>NewGRPCServer\<close> (internal/grpc/server.go) and \<open>runServerMode\<close> (cmd/orchestrator/main.go).  The
  libraries behind the connections are the fields of \<open>Platform\<close>.  A log line goes through
  \<open>rt_Log\<close>; \<open>log.Fatalf\<close> ends the process.
\<close>

section \<open>The libraries\<close>

text \<open>
  \<open>'h\<close> is a handle of client-go's configuration; its \<open>Host\<close> is \<open>pf_Host\<close>.  \<open>pf_ChExec\<close> is \<open>Exec\<close> of an
  open ClickHouse connection, whose queries are \<open>pf_ChQuery\<close>.
\<close>

record ('w, 'h) Platform =
  pf_Mongo :: "'w Mongo"
  pf_Json :: jsonCodec
  pf_S3 :: "'w S3"
  pf_InClusterConfig :: "'w \<Rightarrow> 'h res \<times> 'w"
  pf_BuildConfig :: "string \<Rightarrow> 'w \<Rightarrow> 'h res \<times> 'w"
  pf_Host :: "'h \<Rightarrow> string"
  pf_NewForConfig :: "'h \<Rightarrow> 'w \<Rightarrow> 'w Clientset res \<times> 'w"
  pf_ServerVersion :: "'h \<Rightarrow> 'w \<Rightarrow> unit res \<times> 'w"
  pf_HomeDir :: string
  pf_ParseDSN :: "string \<Rightarrow> 'w \<Rightarrow> unit res \<times> 'w"
  pf_ChOpen :: "'w \<Rightarrow> unit res \<times> 'w"
  pf_ChPing :: "'w \<Rightarrow> unit res \<times> 'w"
  pf_ChClose :: "'w \<Rightarrow> unit res \<times> 'w"
  pf_ChExec :: "string \<Rightarrow> sqlArg list \<Rightarrow> 'w \<Rightarrow> goerr option \<times> 'w"
  pf_ChQuery :: "'w ClickHouse"
  pf_LoadX509 :: "string \<Rightarrow> string \<Rightarrow> 'w \<Rightarrow> unit res \<times> 'w"
  pf_NewUUID :: "'w \<Rightarrow> string \<times> 'w"

section \<open>The Kubernetes client\<close>

definition kubeconfigPath :: "('w, 'h) Platform \<Rightarrow> getenv \<Rightarrow> string" where
  "kubeconfigPath pf env =
     (if env ''KUBECONFIG'' = '''' then pf_HomeDir pf @ ''/.kube/config'' else env ''KUBECONFIG'')"

definition k8s_NewClient :: "('w, 'h) Platform \<Rightarrow> getenv \<Rightarrow> string \<Rightarrow> 'w \<Rightarrow> 'w Client res \<times> 'w" where
  "k8s_NewClient pf env namespace w =
     (let connect = (\<lambda>cfg w1.
            ifErr (pf_NewForConfig pf cfg w1)
              (\<lambda>err w2. (Err (Errorf [FL ''k8s: cannot create clientset: '', FW err]), w2))
              (\<lambda>cs w2.
                 ifErr (pf_ServerVersion pf cfg w2)
                   (\<lambda>err w3. (Err (Errorf [FL ''k8s: cannot reach API server at '', FS (pf_Host pf cfg),
                                           FL '': '', FW err]), w3))
                   (\<lambda>_ w3. (Ok \<lparr>cl_clientset = cs, cl_namespace = namespace\<rparr>, w3))))
      in ifErr (pf_InClusterConfig pf w)
           (\<lambda>_ w1.
              ifErr (pf_BuildConfig pf (kubeconfigPath pf env) w1)
                (\<lambda>err w2. (Err (Errorf [FL ''k8s: cannot build kubeconfig: '', FW err]), w2))
                connect)
           connect)"

section \<open>The ClickHouse client\<close>

definition ch_NewClient :: "('w, 'h) Platform \<Rightarrow> string \<Rightarrow> 'w \<Rightarrow> unit res \<times> 'w" where
  "ch_NewClient pf dsn w =
     ifErr (pf_ParseDSN pf dsn w)
       (\<lambda>err w1. (Err (Errorf [FL ''telemetry: parse ClickHouse DSN: '', FW err]), w1))
       (\<lambda>_ w1.
          ifErr (pf_ChOpen pf w1)
            (\<lambda>err w2. (Err (Errorf [FL ''telemetry: open ClickHouse connection: '', FW err]), w2))
            (\<lambda>_ w2.
               ifErr (pf_ChPing pf w2)
                 (\<lambda>err w3. (Err (Errorf [FL ''telemetry: ping ClickHouse: '', FW err]),
                            snd (pf_ChClose pf w3)))
                 (\<lambda>_ w3. (Ok (), w3))))"

text \<open>
  A table of the schema: its columns with their types, the columns it is ordered by and the days a
  row is kept.  \<open>ddlText\<close> is the statement up to white space.
\<close>

record table =
  tb_Name :: string
  tb_Columns :: "(string \<times> string) list"
  tb_OrderBy :: "string list"
  tb_Days :: nat

definition executionEventsTable :: table where
  "executionEventsTable =
     \<lparr>tb_Name = ''execution_events'',
      tb_Columns = [(''event_id'', ''UUID DEFAULT generateUUIDv4()''), (''execution_id'', ''String''),
        (''state_name'', ''String''), (''from_status'', ''String''), (''to_status'', ''String''),
        (''error'', ''String''), (''occurred_at'', ''DateTime64(3) DEFAULT now64()'')],
      tb_OrderBy = [''execution_id'', ''occurred_at''], tb_Days = 90\<rparr>"

definition serviceMetricsTable :: table where
  "serviceMetricsTable =
     \<lparr>tb_Name = ''service_metrics'',
      tb_Columns = [(''metric_id'', ''UUID DEFAULT generateUUIDv4()''), (''service_name'', ''String''),
        (''invocation_id'', ''String''), (''duration_ms'', ''UInt64''), (''status_code'', ''UInt16''),
        (''error'', ''String''), (''occurred_at'', ''DateTime64(3) DEFAULT now64()'')],
      tb_OrderBy = [''service_name'', ''occurred_at''], tb_Days = 90\<rparr>"

definition logsTable :: table where
  "logsTable =
     \<lparr>tb_Name = ''logs'',
      tb_Columns = [(''log_id'', ''UUID DEFAULT generateUUIDv4()''), (''execution_id'', ''String''),
        (''service_name'', ''String''), (''state_name'', ''String''), (''level'', ''String''),
        (''message'', ''String''), (''occurred_at'', ''DateTime64(3) DEFAULT now64()'')],
      tb_OrderBy = [''execution_id'', ''occurred_at''], tb_Days = 30\<rparr>"

definition commaSep :: "string list \<Rightarrow> string" where
  "commaSep xs = (case xs of [] \<Rightarrow> [] | x # rest \<Rightarrow> x @ concat (map (\<lambda>y. '', '' @ y) rest))"

definition ddlText :: "table \<Rightarrow> string" where
  "ddlText t =
     ''CREATE TABLE IF NOT EXISTS '' @ tb_Name t @ '' ('' @
     commaSep (map (\<lambda>(c, ty). c @ '' '' @ ty) (tb_Columns t)) @ '') ENGINE = MergeTree() ORDER BY ('' @
     commaSep (tb_OrderBy t) @ '') TTL toDateTime(occurred_at) + INTERVAL '' @ showNat (tb_Days t) @
     '' DAY SETTINGS index_granularity = 8192''"

fun execAll :: "('w, 'h) Platform \<Rightarrow> string list \<Rightarrow> 'w \<Rightarrow> unit res \<times> 'w" where
  "execAll pf [] w = (Ok (), w)"
| "execAll pf (ddl # ddls) w =
     (case pf_ChExec pf ddl [] w of
        (Some err, w1) \<Rightarrow> (Err (Errorf [FL ''telemetry: init schema: '', FW err]), w1)
      | (None, w1) \<Rightarrow> execAll pf ddls w1)"

definition InitSchema :: "('w, 'h) Platform \<Rightarrow> 'w \<Rightarrow> unit res \<times> 'w" where
  "InitSchema pf w = execAll pf (map ddlText [executionEventsTable, serviceMetricsTable, logsTable]) w"

section \<open>The writers\<close>

text \<open>
  A writer starts a goroutine that inserts one row; a failure is logged.  The writers are nil without
  ClickHouse, and then do nothing.
\<close>

definition insertText :: "string \<Rightarrow> string list \<Rightarrow> string" where
  "insertText tbl cols =
     ''INSERT INTO '' @ tbl @ '' ('' @ commaSep cols @ '') VALUES ('' @ commaSep (map (\<lambda>_. ''?'') cols) @ '')''"

definition RecordStateTransition :: "'w Runtime \<Rightarrow> ('w, 'h) Platform \<Rightarrow> 'w transition_hook" where
  "RecordStateTransition rt pf execID stateName fromStatus toStatus errMsg w =
     (case pf_ChExec pf
             (insertText ''execution_events'' [''execution_id'', ''state_name'', ''from_status'', ''to_status'', ''error''])
             [SqlString execID, SqlString stateName, SqlString fromStatus, SqlString toStatus, SqlString errMsg] w of
        (None, w1) \<Rightarrow> w1
      | (Some err, w1) \<Rightarrow>
          rt_Log rt (Sprintf [FL ''telemetry WARN: record state transition execID='', FS execID,
            FL '' state='', FS stateName, FL '': '', FV err]) w1)"

definition RecordServiceInvocation ::
    "'w Runtime \<Rightarrow> ('w, 'h) Platform \<Rightarrow> string \<Rightarrow> string \<Rightarrow> int \<Rightarrow> int \<Rightarrow> string \<Rightarrow> 'w \<Rightarrow> 'w" where
  "RecordServiceInvocation rt pf serviceName invocationID durationMs code errMsg w =
     (case pf_ChExec pf
             (insertText ''service_metrics'' [''service_name'', ''invocation_id'', ''duration_ms'', ''status_code'', ''error''])
             [SqlString serviceName, SqlString invocationID, SqlInt durationMs, SqlInt code, SqlString errMsg] w of
        (None, w1) \<Rightarrow> w1
      | (Some err, w1) \<Rightarrow>
          rt_Log rt (Sprintf [FL ''telemetry WARN: record service invocation service='', FS serviceName,
            FL '': '', FV err]) w1)"

definition insertLogRow :: "('w, 'h) Platform \<Rightarrow> LogRow \<Rightarrow> 'w \<Rightarrow> goerr option \<times> 'w" where
  "insertLogRow pf row =
     pf_ChExec pf
       (insertText ''logs'' [''log_id'', ''execution_id'', ''service_name'', ''state_name'', ''level'', ''message'', ''occurred_at''])
       [SqlString (lr_LogID row), SqlString (lr_ExecutionID row), SqlString (lr_ServiceName row),
        SqlString (lr_StateName row), SqlString (lr_Level row), SqlString (lr_Message row),
        SqlTime (lr_OccurredAt row)]"

text \<open>\<open>NewLogWriter\<close> with \<open>OnWrite\<close> set to publish to the log hub.\<close>

definition serverLogWriter ::
    "'w Runtime \<Rightarrow> ('w, 'h) Platform \<Rightarrow> bool \<Rightarrow> (LogRow \<Rightarrow> 'w \<Rightarrow> 'w) \<Rightarrow> 'w log_writer" where
  "serverLogWriter rt pf chUp publish execID serviceName stateName level message w =
     (case pf_NewUUID pf w of
        (logID, w1) \<Rightarrow>
          LogWriter_Write rt (if chUp then Some (insertLogRow pf) else None) (Some publish) logID
            execID serviceName stateName level message w1)"

section \<open>The servers\<close>

text \<open>
  What \<open>NewGRPCServer\<close> builds: whether the runner server uses TLS, the address of the public
  server and its readiness flag.  The handler of the public server is \<open>NewGatewayMux\<close> (in \<open>Gateway\<close>).
\<close>

record GRPCServer =
  gs_cfg :: Config
  gs_TLS :: bool
  gs_Addr :: string
  gs_ready :: bool

definition tlsWarning :: string where
  "tlsWarning = ''grpc: WARNING runner TLS not configured '' @ emDash @ '' running in dev mode (insecure)''"

definition loadTLSCredentials :: "('w, 'h) Platform \<Rightarrow> string \<Rightarrow> string \<Rightarrow> 'w \<Rightarrow> unit res \<times> 'w" where
  "loadTLSCredentials pf certFile keyFile w = pf_LoadX509 pf certFile keyFile w"

definition NewGRPCServer ::
    "'w Runtime \<Rightarrow> ('w, 'h) Platform \<Rightarrow> Config \<Rightarrow> 'w \<Rightarrow> GRPCServer res \<times> 'w" where
  "NewGRPCServer rt pf cfg w =
     (let srv = (\<lambda>tls. \<lparr>gs_cfg = cfg, gs_TLS = tls, gs_Addr = '':'' @ cf_GRPCPort cfg, gs_ready = False\<rparr>) in
      if cf_GRPCTLSCert cfg \<noteq> '''' \<and> cf_GRPCTLSKey cfg \<noteq> ''''
      then ifErr (loadTLSCredentials pf (cf_GRPCTLSCert cfg) (cf_GRPCTLSKey cfg) w)
             (\<lambda>err w1. (Err (Errorf [FL ''grpc: load runner TLS credentials: '', FW err]), w1))
             (\<lambda>_ w1. (Ok (srv True), w1))
      else (Ok (srv False), rt_Log rt tlsWarning w))"

definition GRPCServer_MarkReady :: "GRPCServer \<Rightarrow> GRPCServer" where
  "GRPCServer_MarkReady s = s\<lparr>gs_ready := True\<rparr>"

section \<open>Bringing the control plane up\<close>

text \<open>The end of the process with code 1, or the result of a step of the startup.\<close>

datatype 'a startup = Fatal string | Up 'a

definition orFatal ::
    "'w Runtime \<Rightarrow> string \<Rightarrow> 'a res \<times> 'w \<Rightarrow> ('a \<Rightarrow> 'w \<Rightarrow> 'b startup \<times> 'w) \<Rightarrow> 'b startup \<times> 'w" where
  "orFatal rt what r k =
     (case r of
        (Ok x, w) \<Rightarrow> k x w
      | (Err err, w) \<Rightarrow>
          (let msg = Sprintf [FL what, FL '': '', FV err] in (Fatal msg, rt_Log rt msg w))
      | (Panic p, w) \<Rightarrow> (Fatal p, w))"

definition andThen :: "'a startup \<times> 'w \<Rightarrow> ('a \<Rightarrow> 'w \<Rightarrow> 'b startup \<times> 'w) \<Rightarrow> 'b startup \<times> 'w" where
  "andThen r k = (case r of (Fatal msg, w) \<Rightarrow> (Fatal msg, w) | (Up x, w) \<Rightarrow> k x w)"

definition connectObjectStore ::
    "'w Runtime \<Rightarrow> ('w, 'h) Platform \<Rightarrow> Config \<Rightarrow> 'w MongoStore \<Rightarrow> 'w \<Rightarrow> 'w MongoStore startup \<times> 'w" where
  "connectObjectStore rt pf cfg ms w =
     (if cf_ObjectStoreURI cfg \<noteq> ''''
      then orFatal rt ''object store'' (NewObjectStore (pf_S3 pf) (cf_ObjectStoreURI cfg) w)
             (\<lambda>os w1.
                (Up (ms\<lparr>mo_ObjectStore := Some os\<rparr>),
                 rt_Log rt (Sprintf [FL ''object store: connected (uri='', FS (cf_ObjectStoreURI cfg), FL '')'']) w1))
      else (Up ms, rt_Log rt (''object store: KFLOW_OBJECT_STORE_URI not set '' @ emDash @
              '' large output offload disabled'') w))"

text \<open>The cluster is optional: an error leaves the client nil.\<close>

definition connectCluster ::
    "'w Runtime \<Rightarrow> ('w, 'h) Platform \<Rightarrow> getenv \<Rightarrow> Config \<Rightarrow> 'w \<Rightarrow> 'w Client option startup \<times> 'w" where
  "connectCluster rt pf env cfg w =
     (case k8s_NewClient pf env (cf_Namespace cfg) w of
        (Ok c, w1) \<Rightarrow>
          (Up (Some c), rt_Log rt (Sprintf [FL ''k8s: client initialised (namespace='', FS (cl_namespace c), FL '')'']) w1)
      | (Err err, w1) \<Rightarrow>
          (Up None, rt_Log rt (Sprintf [FL ''k8s: WARNING cannot init client: '', FV err,
                   FL '' (running without K8s)'']) w1)
      | (Panic p, w1) \<Rightarrow> (Fatal p, w1))"

text \<open>So is ClickHouse; the result says whether there is a client.\<close>

definition connectClickHouse :: "'w Runtime \<Rightarrow> ('w, 'h) Platform \<Rightarrow> Config \<Rightarrow> 'w \<Rightarrow> bool startup \<times> 'w" where
  "connectClickHouse rt pf cfg w =
     (if cf_ClickHouseDSN cfg = ''''
      then (Up False, rt_Log rt (''telemetry: KFLOW_CLICKHOUSE_DSN not set '' @ emDash @ '' telemetry disabled'') w)
      else
        (case ch_NewClient pf (cf_ClickHouseDSN cfg) w of
           (Ok _, w1) \<Rightarrow>
             (case InitSchema pf w1 of
                (Ok _, w2) \<Rightarrow> (Up True, rt_Log rt ''telemetry: connected to ClickHouse'' w2)
              | (Err err, w2) \<Rightarrow>
                  (Up False, rt_Log rt (Sprintf [FL ''telemetry: WARNING failed to init schema: '', FV err,
                            FL '' (continuing without telemetry)'']) w2)
              | (Panic p, w2) \<Rightarrow> (Fatal p, w2))
         | (Err err, w1) \<Rightarrow>
             (Up False, rt_Log rt (Sprintf [FL ''telemetry: WARNING failed to connect to ClickHouse: '', FV err,
                       FL '' (continuing without telemetry)'']) w1)
         | (Panic p, w1) \<Rightarrow> (Fatal p, w1)))"

text \<open>The variables of the server: the store, the optional parts and the hooks.\<close>

definition controlPlane ::
    "'w Runtime \<Rightarrow> ('w, 'h) Platform \<Rightarrow> ('w ServiceDispatcher \<Rightarrow> string \<Rightarrow> string \<Rightarrow> string \<Rightarrow> gomap \<Rightarrow> 'w \<Rightarrow> gomap res \<times> 'w)
     \<Rightarrow> (WSEvent \<Rightarrow> 'w \<Rightarrow> 'w) \<Rightarrow> (LogRow \<Rightarrow> 'w \<Rightarrow> 'w) \<Rightarrow> Config \<Rightarrow> 'w MongoStore \<Rightarrow> 'w Client option \<Rightarrow> bool
     \<Rightarrow> 'w ControlPlane" where
  "controlPlane rt pf dispatch broadcast publish cfg ms k8s chUp =
     (let st = mongoStore ms in
      \<lparr>cp_cfg = cfg, cp_ms = st, cp_k8s = k8s,
       cp_disp = dispatch (serverDispatcher cfg st k8s (if chUp then Some (RecordServiceInvocation rt pf) else None)),
       cp_eventWriter = (if chUp then Some (RecordStateTransition rt pf) else None),
       cp_logWriter = Some (serverLogWriter rt pf chUp publish),
       cp_notify = Some (notify rt broadcast)\<rparr>)"

text \<open>
  \<open>runServerMode\<close> up to the call of \<open>Serve\<close>: the control plane, the server that is marked ready, and
  the telemetry client that the gateway queries.
\<close>

definition runServerMode ::
    "'w Runtime \<Rightarrow> ('w, 'h) Platform \<Rightarrow> ('w ServiceDispatcher \<Rightarrow> string \<Rightarrow> string \<Rightarrow> string \<Rightarrow> gomap \<Rightarrow> 'w \<Rightarrow> gomap res \<times> 'w)
     \<Rightarrow> (WSEvent \<Rightarrow> 'w \<Rightarrow> 'w) \<Rightarrow> (LogRow \<Rightarrow> 'w \<Rightarrow> 'w) \<Rightarrow> getenv \<Rightarrow> 'w
     \<Rightarrow> ('w ControlPlane \<times> GRPCServer \<times> 'w ClickHouse option) startup \<times> 'w" where
  "runServerMode rt pf dispatch broadcast publish env w =
     (case LoadConfig env of (cfgRes, warnings) \<Rightarrow>
        orFatal rt ''config'' (cfgRes, fold (rt_Log rt) warnings w) (\<lambda>cfg w1.
        orFatal rt ''store: connect'' (NewMongoStore (pf_Mongo pf) (pf_Json pf) (rt_Now rt) (cf_MongoURI cfg) w1) (\<lambda>ms0 w2.
        orFatal rt ''store: ensure indexes'' (EnsureIndexes ms0 w2) (\<lambda>_ w3.
        andThen (connectObjectStore rt pf cfg ms0 (rt_Log rt ''store: connected to MongoDB'' w3)) (\<lambda>ms w4.
        andThen (connectCluster rt pf env cfg w4) (\<lambda>k8s w5.
        andThen (connectClickHouse rt pf cfg w5) (\<lambda>chUp w6.
          (let cp = controlPlane rt pf dispatch broadcast publish cfg ms k8s chUp in
           orFatal rt ''grpc: create server'' (NewGRPCServer rt pf cfg w6) (\<lambda>srv w7.
             (Up (cp, GRPCServer_MarkReady srv, if chUp then Some (pf_ChQuery pf) else None), w7))))))))))"

end
