(* ===== verification/Startup_Correct.thy ===== *)
theory Startup_Correct
  imports Startup Mongo_Correct
begin

text \<open>
  What the control plane needs to come up, and how it goes down: a cluster and ClickHouse are
  optional, and \<open>Serve\<close> (internal/grpc/server.go) returns without an error only when both servers
  have stopped.  \<open>Serve\<close> runs next to the goroutines of its two servers; \<open>serve_step\<close> interleaves
  them.
\<close>

section \<open>Optional parts\<close>

lemma orFatal_Ok [simp]: "orFatal rt what (Ok x, w) k = k x w"
  by (simp add: orFatal_def)

lemma andThen_Up [simp]: "andThen (Up x, w) k = k x w"
  by (simp add: andThen_def)

text \<open>Whether the cluster and ClickHouse can be used, and that their libraries do not panic.\<close>

definition clusterUp :: "('w, 'h) Platform \<Rightarrow> getenv \<Rightarrow> Config \<Rightarrow> 'w \<Rightarrow> bool" where
  "clusterUp pf env cfg w \<longleftrightarrow> is_Ok (fst (k8s_NewClient pf env (cf_Namespace cfg) w))"

definition clickHouseUp :: "('w, 'h) Platform \<Rightarrow> Config \<Rightarrow> 'w \<Rightarrow> bool" where
  "clickHouseUp pf cfg w \<longleftrightarrow>
     cf_ClickHouseDSN cfg \<noteq> '''' \<and>
     (\<exists>w1. ch_NewClient pf (cf_ClickHouseDSN cfg) w = (Ok (), w1) \<and> is_Ok (fst (InitSchema pf w1)))"

definition calm :: "('w, 'h) Platform \<Rightarrow> bool" where
  "calm pf \<longleftrightarrow>
     (\<forall>w p. fst (pf_InClusterConfig pf w) \<noteq> Panic p) \<and> (\<forall>f w p. fst (pf_BuildConfig pf f w) \<noteq> Panic p) \<and>
     (\<forall>h w p. fst (pf_NewForConfig pf h w) \<noteq> Panic p) \<and> (\<forall>h w p. fst (pf_ServerVersion pf h w) \<noteq> Panic p) \<and>
     (\<forall>d w p. fst (pf_ParseDSN pf d w) \<noteq> Panic p) \<and> (\<forall>w p. fst (pf_ChOpen pf w) \<noteq> Panic p) \<and>
     (\<forall>w p. fst (pf_ChPing pf w) \<noteq> Panic p)"

lemma ifErr_no_panic:
  assumes "\<And>p. fst r \<noteq> Panic p" and "\<And>e w p. fst (f e w) \<noteq> Panic p" and "\<And>x w p. fst (k x w) \<noteq> Panic p"
  shows "fst (ifErr r f k) \<noteq> Panic p"
  using assms by (cases r rule: prod.exhaust; cases "fst r") auto

lemma k8s_NewClient_no_panic: "calm pf \<Longrightarrow> fst (k8s_NewClient pf env ns w) \<noteq> Panic p"
  unfolding k8s_NewClient_def Let_def by (intro ifErr_no_panic) (simp_all add: calm_def)

lemma ch_NewClient_no_panic: "calm pf \<Longrightarrow> fst (ch_NewClient pf dsn w) \<noteq> Panic p"
  unfolding ch_NewClient_def by (intro ifErr_no_panic) (simp_all add: calm_def)

lemma execAll_no_panic: "fst (execAll pf ddls w) \<noteq> Panic p"
  by (induction ddls arbitrary: w) (auto split: prod.splits option.splits)

lemma connectCluster_total:
  assumes "calm pf"
  shows "\<exists>k w'. connectCluster rt pf env cfg w = (Up k, w') \<and> (k \<noteq> None \<longleftrightarrow> clusterUp pf env cfg w)"
proof -
  obtain r w1 where r: "k8s_NewClient pf env (cf_Namespace cfg) w = (r, w1)" by force
  with k8s_NewClient_no_panic [OF assms, of env "cf_Namespace cfg" w] have "r \<noteq> Panic p" for p by auto
  with r show ?thesis by (cases r) (auto simp: connectCluster_def clusterUp_def)
qed

lemma connectClickHouse_total:
  assumes "calm pf"
  shows "\<exists>w'. connectClickHouse rt pf cfg w = (Up (clickHouseUp pf cfg w), w')"
proof (cases "cf_ClickHouseDSN cfg = ''''")
  case True
  then show ?thesis by (simp add: connectClickHouse_def clickHouseUp_def)
next
  case dsn: False
  obtain r w1 where r: "ch_NewClient pf (cf_ClickHouseDSN cfg) w = (r, w1)" by force
  obtain q w2 where q: "InitSchema pf w1 = (q, w2)" by force
  have "r \<noteq> Panic p" for p using ch_NewClient_no_panic [OF assms, of "cf_ClickHouseDSN cfg" w] r by auto
  moreover have "q \<noteq> Panic p" for p using execAll_no_panic q unfolding InitSchema_def by (metis fst_conv)
  ultimately show ?thesis
    using dsn r q by (cases r; cases q) (auto simp: connectClickHouse_def clickHouseUp_def)
qed

text \<open>
  C9.  With a valid configuration, a database that accepts the connection and the indexes, the object
  store if one is configured, and no TLS files, the control plane comes up whatever the cluster and
  ClickHouse answer.  It is then ready and works on that database; it has a client of the cluster
  exactly if that could be reached, and the event writer and the telemetry queries exactly if
  ClickHouse could be reached and its tables created.
\<close>

theorem runServerMode_degrades:
  assumes "calm pf" and "LoadConfig env = (Ok cfg, warnings)"
    and "NewMongoStore (pf_Mongo pf) (pf_Json pf) (rt_Now rt) (cf_MongoURI cfg) (fold (rt_Log rt) warnings w) = (Ok ms0, w2)"
    and "EnsureIndexes ms0 w2 = (Ok (), w3)"
    and "connectObjectStore rt pf cfg ms0 (rt_Log rt ''store: connected to MongoDB'' w3) = (Up ms, w4)"
    and "cf_GRPCTLSCert cfg = '''' \<or> cf_GRPCTLSKey cfg = ''''"
  shows "\<exists>cp srv ch w'. runServerMode rt pf dispatch broadcast publish env w = (Up (cp, srv, ch), w') \<and>
    gs_ready srv \<and> \<not> gs_TLS srv \<and> gs_Addr srv = '':'' @ cf_GRPCPort cfg \<and> cp_ms cp = mongoStore ms \<and>
    (cp_k8s cp \<noteq> None \<longleftrightarrow> clusterUp pf env cfg w4) \<and>
    (ch \<noteq> None \<longleftrightarrow> clickHouseUp pf cfg (snd (connectCluster rt pf env cfg w4))) \<and>
    (cp_eventWriter cp \<noteq> None \<longleftrightarrow> ch \<noteq> None) \<and>
    cp_logWriter cp \<noteq> None \<and> cp_notify cp \<noteq> None"
proof -
  obtain k w5 where k: "connectCluster rt pf env cfg w4 = (Up k, w5)" "k \<noteq> None \<longleftrightarrow> clusterUp pf env cfg w4"
    using connectCluster_total [OF assms(1)] by blast
  obtain w6 where c: "connectClickHouse rt pf cfg w5 = (Up (clickHouseUp pf cfg w5), w6)"
    using connectClickHouse_total [OF assms(1)] by blast
  let ?up = "clickHouseUp pf cfg w5"
  let ?cp = "controlPlane rt pf dispatch broadcast publish cfg ms k ?up"
  let ?srv = "\<lparr>gs_cfg = cfg, gs_TLS = False, gs_Addr = '':'' @ cf_GRPCPort cfg, gs_ready = True\<rparr>"
  have srv: "NewGRPCServer rt pf cfg w6 = (Ok (?srv\<lparr>gs_ready := False\<rparr>), rt_Log rt tlsWarning w6)"
    using assms(6) by (auto simp: NewGRPCServer_def)
  have "runServerMode rt pf dispatch broadcast publish env w =
      (Up (?cp, ?srv, if ?up then Some (pf_ChQuery pf) else None), rt_Log rt tlsWarning w6)"
    by (simp only: runServerMode_def assms(2-5) k(1) c srv prod.case orFatal_Ok andThen_Up Let_def)
      (simp add: GRPCServer_MarkReady_def)
  with k show ?thesis
    by (intro exI [of _ ?cp] exI [of _ ?srv] exI [of _ "if ?up then Some (pf_ChQuery pf) else None"]
        exI [of _ "rt_Log rt tlsWarning w6"]) (simp add: controlPlane_def Let_def)
qed

text \<open>A platform without a cluster and without ClickHouse.\<close>

definition barePlatform :: "(simDb, unit) Platform" where
  "barePlatform =
     (let down = Errorf [FL ''connection refused''] in
      \<lparr>pf_Mongo = simMongo, pf_Json = codec1,
       pf_S3 = \<lparr>s3_PutObject = (\<lambda>_ _ _ w. (Err down, w)), s3_GetObject = (\<lambda>_ _ w. (Err down, w)),
                 s3_IsNoSuchKey = (\<lambda>_. False), s3_LoadConfig = (\<lambda>w. (Err down, w))\<rparr>,
       pf_InClusterConfig = (\<lambda>w. (Err down, w)), pf_BuildConfig = (\<lambda>_ w. (Err down, w)),
       pf_Host = (\<lambda>_. ''''), pf_NewForConfig = (\<lambda>_ w. (Err down, w)), pf_ServerVersion = (\<lambda>_ w. (Err down, w)),
       pf_HomeDir = ''/root'', pf_ParseDSN = (\<lambda>_ w. (Ok (), w)), pf_ChOpen = (\<lambda>w. (Err down, w)),
       pf_ChPing = (\<lambda>w. (Err down, w)), pf_ChClose = (\<lambda>w. (Ok (), w)), pf_ChExec = (\<lambda>_ _ w. (Some down, w)),
       pf_ChQuery = \<lparr>ch_Count = (\<lambda>_ _ _. Err down), ch_LogRows = (\<lambda>_ _ _. Err down),
                      ch_EventRows = (\<lambda>_ _ _. Err down), ch_MetricRows = (\<lambda>_ _ _. Err down)\<rparr>,
       pf_LoadX509 = (\<lambda>_ _ w. (Err down, w)), pf_NewUUID = (\<lambda>w. (''u'', w))\<rparr>)"

definition bareEnv :: getenv where
  "bareEnv n =
     (if n = ''KFLOW_MONGO_URI'' then ''mongodb://db'' else if n = ''KFLOW_CLICKHOUSE_DSN'' then ''clickhouse://ch''
      else '''')"

definition bareRuntime :: "simDb Runtime" where
  "bareRuntime = \<lparr>rt_Now = (\<lambda>_. 0), rt_Sleep = (\<lambda>_ w. w), rt_Log = (\<lambda>_ w. w), rt_CtxErr = (\<lambda>_. None)\<rparr>"

theorem runServerMode_degrades_witness:
  "\<exists>cp srv ch w'. runServerMode bareRuntime barePlatform (\<lambda>_ _ _ _ inp w. (Ok inp, w)) (\<lambda>_ w. w) (\<lambda>_ w. w)
      bareEnv runningDb = (Up (cp, srv, ch), w') \<and> gs_ready srv \<and> cp_k8s cp = None"
proof -
  obtain cfg warnings where cfg: "LoadConfig bareEnv = (Ok cfg, warnings)"
    and f: "cf_MongoURI cfg = ''mongodb://db''" "cf_ObjectStoreURI cfg = ''''" "cf_GRPCTLSCert cfg = ''''"
    by (simp add: LoadConfig_def bareEnv_def validateMongoURI_def Let_def)
  have log: "fold (rt_Log bareRuntime) ws w = w" for ws w
    by (induction ws) (simp_all add: bareRuntime_def)
  have down: "\<not> clusterUp barePlatform bareEnv cfg runningDb"
    by (simp add: clusterUp_def k8s_NewClient_def barePlatform_def Let_def)
  have "\<exists>cp srv ch w'. runServerMode bareRuntime barePlatform (\<lambda>_ _ _ _ inp w. (Ok inp, w)) (\<lambda>_ w. w) (\<lambda>_ w. w)
      bareEnv runningDb = (Up (cp, srv, ch), w') \<and>
    gs_ready srv \<and> \<not> gs_TLS srv \<and> gs_Addr srv = '':'' @ cf_GRPCPort cfg \<and>
    cp_ms cp = mongoStore (simMongoStore\<lparr>mo_now := rt_Now bareRuntime\<rparr>) \<and>
    (cp_k8s cp \<noteq> None \<longleftrightarrow> clusterUp barePlatform bareEnv cfg runningDb) \<and>
    (ch \<noteq> None \<longleftrightarrow> clickHouseUp barePlatform cfg (snd (connectCluster bareRuntime barePlatform bareEnv cfg runningDb))) \<and>
    (cp_eventWriter cp \<noteq> None \<longleftrightarrow> ch \<noteq> None) \<and> cp_logWriter cp \<noteq> None \<and> cp_notify cp \<noteq> None"
    by (rule runServerMode_degrades [OF _ cfg])
      (simp_all add: calm_def barePlatform_def Let_def f log NewMongoStore_def simMongo_def EnsureIndexes_def
        ensureIndex_def connectObjectStore_def simMongoStore_def, simp_all add: bareRuntime_def)
  then show ?thesis using down by metis
qed

section \<open>Serving and shutting down\<close>

text \<open>
  The goroutine of a server is not started, about to call \<open>Serve\<close>, serving, or has returned.  The
  function \<open>Serve\<close> is listening, waiting in its \<open>select\<close>, draining the runner server, shutting the
  public server down, or done.
\<close>

datatype goroutine = NotStarted | Waiting | InServe | Ended
datatype servePhase = Starting | Selecting | Draining | Drained | Done "unit res"

record serveState =
  sv_phase :: servePhase
  sv_runner :: goroutine
  sv_http :: goroutine
  sv_runnerStopped :: bool
  sv_httpClosed :: bool
  sv_cancelled :: bool
  sv_errCh :: "goerr list"

definition serveInit :: serveState where
  "serveInit = \<lparr>sv_phase = Starting, sv_runner = NotStarted, sv_http = NotStarted, sv_runnerStopped = False,
     sv_httpClosed = False, sv_cancelled = False, sv_errCh = []\<rparr>"

definition listenErr :: "GRPCServer \<Rightarrow> goerr \<Rightarrow> goerr" where
  "listenErr srv e =
     Errorf [FL ''grpc: listen runner '', FS ('':'' @ cf_RunnerGRPCPort (gs_cfg srv)), FL '': '', FW e]"

definition runnerErr :: "goerr \<Rightarrow> goerr" where
  "runnerErr e = Errorf [FL ''runner server: '', FW e]"

definition publicErr :: "goerr \<Rightarrow> goerr" where
  "publicErr e = Errorf [FL ''public server: '', FW e]"

text \<open>A stopped server makes \<open>Serve\<close> return; only the public server hides that error.\<close>

definition stopped :: "goroutine \<Rightarrow> goroutine" where
  "stopped g = (if g = InServe then Ended else g)"

inductive serve_step :: "GRPCServer \<Rightarrow> serveState \<Rightarrow> serveState \<Rightarrow> bool" for srv where
  listens: "sv_phase s = Starting \<Longrightarrow>
    serve_step srv s (s\<lparr>sv_phase := Selecting, sv_runner := Waiting, sv_http := Waiting\<rparr>)"
| cannot_listen: "sv_phase s = Starting \<Longrightarrow> serve_step srv s (s\<lparr>sv_phase := Done (Err (listenErr srv e))\<rparr>)"
| runner_serves: "sv_runner s = Waiting \<Longrightarrow> \<not> sv_runnerStopped s \<Longrightarrow> serve_step srv s (s\<lparr>sv_runner := InServe\<rparr>)"
| runner_refused: "sv_runner s = Waiting \<Longrightarrow> sv_runnerStopped s \<Longrightarrow> length (sv_errCh s) < 2 \<Longrightarrow>
    serve_step srv s (s\<lparr>sv_runner := Ended, sv_errCh := sv_errCh s @ [runnerErr e]\<rparr>)"
| runner_fails: "sv_runner s = InServe \<Longrightarrow> length (sv_errCh s) < 2 \<Longrightarrow>
    serve_step srv s (s\<lparr>sv_runner := Ended, sv_errCh := sv_errCh s @ [runnerErr e]\<rparr>)"
| http_serves: "sv_http s = Waiting \<Longrightarrow> \<not> sv_httpClosed s \<Longrightarrow> serve_step srv s (s\<lparr>sv_http := InServe\<rparr>)"
| http_refused: "sv_http s = Waiting \<Longrightarrow> sv_httpClosed s \<Longrightarrow> serve_step srv s (s\<lparr>sv_http := Ended\<rparr>)"
| http_fails: "sv_http s = Waiting \<or> sv_http s = InServe \<Longrightarrow> \<not> sv_httpClosed s \<Longrightarrow> length (sv_errCh s) < 2 \<Longrightarrow>
    serve_step srv s (s\<lparr>sv_http := Ended, sv_errCh := sv_errCh s @ [publicErr e]\<rparr>)"
| cancelled: "serve_step srv s (s\<lparr>sv_cancelled := True\<rparr>)"
| select_done: "sv_phase s = Selecting \<Longrightarrow> sv_cancelled s \<Longrightarrow> serve_step srv s (s\<lparr>sv_phase := Draining\<rparr>)"
| select_err: "sv_phase s = Selecting \<Longrightarrow> sv_errCh s = e # es \<Longrightarrow>
    serve_step srv s (s\<lparr>sv_phase := Done (Err e), sv_errCh := es\<rparr>)"
| graceful_stop: "sv_phase s = Draining \<Longrightarrow>
    serve_step srv s (s\<lparr>sv_phase := Drained, sv_runnerStopped := True, sv_runner := stopped (sv_runner s)\<rparr>)"
| shutdown: "sv_phase s = Drained \<Longrightarrow>
    serve_step srv s (s\<lparr>sv_phase := Done (Ok ()), sv_httpClosed := True, sv_http := stopped (sv_http s)\<rparr>)"

inductive serve_reach :: "GRPCServer \<Rightarrow> serveState \<Rightarrow> bool" for srv where
  initial: "serve_reach srv serveInit"
| step: "serve_reach srv s \<Longrightarrow> serve_step srv s t \<Longrightarrow> serve_reach srv t"

definition live :: "goroutine \<Rightarrow> nat" where
  "live g = (if g = Ended then 0 else 1)"

definition serverErr :: "GRPCServer \<Rightarrow> goerr \<Rightarrow> bool" where
  "serverErr srv e \<longleftrightarrow> (\<exists>x. e = listenErr srv x \<or> e = runnerErr x \<or> e = publicErr x)"

definition serveInv :: "GRPCServer \<Rightarrow> serveState \<Rightarrow> bool" where
  "serveInv srv s \<longleftrightarrow>
     length (sv_errCh s) + live (sv_runner s) + live (sv_http s) \<le> 2 \<and>
     (\<forall>e \<in> set (sv_errCh s). serverErr srv e) \<and>
     (sv_phase s = Starting \<longrightarrow> sv_runner s = NotStarted \<and> sv_http s = NotStarted) \<and>
     (sv_phase s \<in> {Draining, Drained, Done (Ok ())} \<longrightarrow> sv_cancelled s) \<and>
     (sv_phase s \<in> {Drained, Done (Ok ())} \<longrightarrow> sv_runnerStopped s) \<and>
     (sv_runnerStopped s \<longrightarrow> sv_runner s \<noteq> InServe) \<and>
     (sv_phase s = Done (Ok ()) \<longrightarrow> sv_httpClosed s) \<and> (sv_httpClosed s \<longrightarrow> sv_http s \<noteq> InServe) \<and>
     (\<forall>e. sv_phase s = Done (Err e) \<longrightarrow> serverErr srv e) \<and> (\<forall>p. sv_phase s \<noteq> Done (Panic p))"

lemma serve_step_inv: "serve_step srv s t \<Longrightarrow> serveInv srv s \<Longrightarrow> serveInv srv t"
  by (cases rule: serve_step.cases, assumption)
    (auto simp: serveInv_def live_def stopped_def serverErr_def split: if_splits)

lemma serve_reach_inv: "serve_reach srv s \<Longrightarrow> serveInv srv s"
proof (induction rule: serve_reach.induct)
  case initial
  show ?case by (simp add: serveInv_def serveInit_def live_def)
qed (rule serve_step_inv)

lemma serve_finishes:
  assumes "sv_cancelled s" and "\<And>r. sv_phase s \<noteq> Done r"
  shows "\<exists>t. (serve_step srv)\<^sup>*\<^sup>* s t \<and> sv_phase t = Done (Ok ())"
proof -
  have drained: "\<exists>t. (serve_step srv)\<^sup>*\<^sup>* u t \<and> sv_phase t = Done (Ok ())" if "sv_phase u = Drained" for u
    using serve_step.shutdown [OF that, of srv] by (intro exI conjI, rule r_into_rtranclp) simp_all
  have draining: "\<exists>t. (serve_step srv)\<^sup>*\<^sup>* u t \<and> sv_phase t = Done (Ok ())" if "sv_phase u = Draining" for u
    using serve_step.graceful_stop [OF that, of srv]
    drained [of "u\<lparr>sv_phase := Drained, sv_runnerStopped := True, sv_runner := stopped (sv_runner u)\<rparr>"]
    by (auto intro: converse_rtranclp_into_rtranclp)
  have selecting: "\<exists>t. (serve_step srv)\<^sup>*\<^sup>* u t \<and> sv_phase t = Done (Ok ())"
    if "sv_phase u = Selecting" "sv_cancelled u" for u
    using serve_step.select_done [OF that, of srv] draining [of "u\<lparr>sv_phase := Draining\<rparr>"]
    by (auto intro: converse_rtranclp_into_rtranclp)
  show ?thesis
  proof (cases "sv_phase s")
    case Starting
    from serve_step.listens [OF this, of srv]
      selecting [of "s\<lparr>sv_phase := Selecting, sv_runner := Waiting, sv_http := Waiting\<rparr>"] assms(1)
    show ?thesis by (auto intro: converse_rtranclp_into_rtranclp)
  qed (use assms drained draining selecting in auto)
qed

text \<open>
  C10.  In every state that \<open>Serve\<close> and the goroutines of its two servers can reach: if \<open>Serve\<close> has
  returned nil, the context was cancelled and neither server serves any more, or ever will; if it
  has returned an error, that is the error of the listener or of a server; a goroutine that has yet
  to report an error never blocks on the channel; and once the context is cancelled, an unfinished
  \<open>Serve\<close> can be taken to its return.
\<close>

theorem Serve_drains:
  assumes "serve_reach srv s"
  shows "(sv_phase s = Done (Ok ()) \<longrightarrow> sv_cancelled s \<and> sv_runner s \<noteq> InServe \<and> sv_http s \<noteq> InServe) \<and>
    (\<forall>e. sv_phase s = Done (Err e) \<longrightarrow> serverErr srv e) \<and>
    (sv_runner s \<noteq> Ended \<or> sv_http s \<noteq> Ended \<longrightarrow> length (sv_errCh s) < 2) \<and>
    (sv_cancelled s \<and> (\<forall>r. sv_phase s \<noteq> Done r) \<longrightarrow>
       (\<exists>t. (serve_step srv)\<^sup>*\<^sup>* s t \<and> sv_phase t = Done (Ok ())))"
proof -
  have inv: "serveInv srv s" using serve_reach_inv [OF assms] .
  then have "sv_runner s \<noteq> Ended \<or> sv_http s \<noteq> Ended \<longrightarrow> length (sv_errCh s) < 2"
    by (auto simp: serveInv_def live_def split: if_splits)
  with inv serve_finishes [of s srv] show ?thesis by (auto simp: serveInv_def)
qed

definition exampleConfig :: Config where
  "exampleConfig = (case LoadConfig bareEnv of (Ok cfg, _) \<Rightarrow> cfg)"

theorem Serve_drains_witness:
  "\<exists>t. (serve_step \<lparr>gs_cfg = exampleConfig, gs_TLS = False, gs_Addr = '':8080'', gs_ready = True\<rparr>)\<^sup>*\<^sup>*
     (serveInit\<lparr>sv_cancelled := True\<rparr>) t \<and> sv_phase t = Done (Ok ())"
proof -
  let ?srv = "\<lparr>gs_cfg = exampleConfig, gs_TLS = False, gs_Addr = '':8080'', gs_ready = True\<rparr>"
  have "serve_reach ?srv (serveInit\<lparr>sv_cancelled := True\<rparr>)"
    by (rule serve_reach.step [OF serve_reach.initial serve_step.cancelled])
  from Serve_drains [OF this] show ?thesis by (simp add: serveInit_def)
qed

end
