(* ===== verification/Time_Format.thy ===== *)
theory Time_Format
  imports Json "HOL-Library.Monad_Syntax"
begin

text \<open>
  Times in JSON: package time writes a UTC time as RFC 3339 with a fraction of up to nine digits and
  reads such a text back.  The calendar is the proleptic Gregorian one, counted from 1 January of
  year 1, which is Go's zero time.
\<close>

section \<open>The calendar\<close>

definition leap :: "nat \<Rightarrow> bool" where
  "leap y \<longleftrightarrow> 4 dvd y \<and> (\<not> 100 dvd y \<or> 400 dvd y)"

definition yearDays :: "nat \<Rightarrow> nat" where
  "yearDays y = (if leap y then 366 else 365)"

definition monthDays :: "nat \<Rightarrow> nat list" where
  "monthDays y = [31, if leap y then 29 else 28, 31, 30, 31, 30, 31, 31, 30, 31, 30, 31]"

text \<open>The days before a year, from year 1 on; negative for year 0.\<close>

definition daysBefore :: "nat \<Rightarrow> int" where
  "daysBefore y =
     365 * (int y - 1) + (int y - 1) div 4 - (int y - 1) div 100 + (int y - 1) div 400"

text \<open>The year and the day in it, counted from year \<open>y\<close>; the month and the day in it.\<close>

function splitYear :: "nat \<Rightarrow> nat \<Rightarrow> nat \<times> nat" where
  "splitYear y d = (if d < yearDays y then (y, d) else splitYear (Suc y) (d - yearDays y))"
  by pat_completeness auto
termination by (relation "measure snd") (auto simp: yearDays_def)

declare splitYear.simps [simp del]

fun splitMonth :: "nat \<Rightarrow> nat list \<Rightarrow> nat \<Rightarrow> nat \<times> nat" where
  "splitMonth m [] d = (m, d)"
| "splitMonth m (l # ls) d = (if d < l then (m, d) else splitMonth (Suc m) ls (d - l))"

section \<open>Writing\<close>

fun padDigits :: "nat \<Rightarrow> nat \<Rightarrow> nat list" where
  "padDigits 0 n = []"
| "padDigits (Suc k) n = padDigits k (n div 10) @ [48 + n mod 10]"

definition stripZeros :: "nat list \<Rightarrow> nat list" where
  "stripZeros ds = rev (dropWhile (\<lambda>d. d = 48) (rev ds))"

definition fraction :: "nat \<Rightarrow> nat list" where
  "fraction ns = (let ds = stripZeros (padDigits 9 ns) in if ds = [] then [] else 46 # ds)"

text \<open>
  \<open>Time.MarshalJSON\<close> of a UTC time, without the quotes; a year past 9999 is an error.
\<close>

definition marshalTime :: "time \<Rightarrow> nat list option" where
  "marshalTime t =
     (let secs = nat (t div Second); ns = nat (t mod Second);
          (y, yd) = splitYear 1 (secs div 86400);
          (mo, md) = splitMonth 1 (monthDays y) yd;
          sod = secs mod 86400
      in if y > 9999 then None
         else Some (padDigits 4 y @ [45] @ padDigits 2 mo @ [45] @ padDigits 2 (Suc md) @ [84] @
                    padDigits 2 (sod div 3600) @ [58] @ padDigits 2 (sod div 60 mod 60) @ [58] @
                    padDigits 2 (sod mod 60) @ fraction ns @ [90]))"

section \<open>Reading\<close>

definition parseUint :: "nat list \<Rightarrow> nat \<Rightarrow> nat \<Rightarrow> nat option" where
  "parseUint s mn mx =
     (if list_all isDig s \<and> mn \<le> digitsVal s \<and> digitsVal s \<le> mx then Some (digitsVal s) else None)"

definition slice :: "nat \<Rightarrow> nat \<Rightarrow> nat list \<Rightarrow> nat list" where
  "slice i j s = take (j - i) (drop i s)"

definition dateSeconds :: "nat \<Rightarrow> nat \<Rightarrow> nat \<Rightarrow> nat \<Rightarrow> nat \<Rightarrow> nat \<Rightarrow> int" where
  "dateSeconds y mo d h mi s =
     (daysBefore y + int (sum_list (take (mo - 1) (monthDays y))) + int d - 1) * 86400 +
     int h * 3600 + int mi * 60 + int s"

text \<open>At most nine digits of a fraction count.\<close>

definition nanoseconds :: "nat list \<Rightarrow> nat" where
  "nanoseconds ds = digitsVal (take 9 ds) * 10 ^ (9 - length (take 9 ds))"

text \<open>The zone: Z or an offset, in seconds east of UTC.\<close>

definition parseZone :: "nat list \<Rightarrow> int option" where
  "parseZone s =
     (if s = [90] then Some 0
      else if length s \<noteq> 6 \<or> s ! 0 \<notin> {43, 45} \<or> s ! 3 \<noteq> 58 then None
      else
        (case parseUint (slice 1 3 s) 0 23 of
           None \<Rightarrow> None
         | Some hr \<Rightarrow>
             (case parseUint (slice 4 6 s) 0 59 of
                None \<Rightarrow> None
              | Some mm \<Rightarrow>
                  (let off = int ((hr * 60 + mm) * 60) in Some (if s ! 0 = 45 then - off else off)))))"

definition parseClock :: "nat list \<Rightarrow> int option" where
  "parseClock s =
     (if length s < 19 \<or> s ! 4 \<noteq> 45 \<or> s ! 7 \<noteq> 45 \<or> s ! 10 \<noteq> 84 \<or> s ! 13 \<noteq> 58 \<or> s ! 16 \<noteq> 58 then None
      else
        (case parseUint (slice 0 4 s) 0 9999 of None \<Rightarrow> None | Some y \<Rightarrow>
        (case parseUint (slice 5 7 s) 1 12 of None \<Rightarrow> None | Some mo \<Rightarrow>
        (case parseUint (slice 8 10 s) 1 (monthDays y ! (mo - 1)) of None \<Rightarrow> None | Some d \<Rightarrow>
        (case parseUint (slice 11 13 s) 0 23 of None \<Rightarrow> None | Some h \<Rightarrow>
        (case parseUint (slice 14 16 s) 0 59 of None \<Rightarrow> None | Some mi \<Rightarrow>
        (case parseUint (slice 17 19 s) 0 59 of None \<Rightarrow> None | Some sec \<Rightarrow>
           Some (dateSeconds y mo d h mi sec))))))))"

definition parseTime :: "nat list \<Rightarrow> time option" where
  "parseTime s =
     (case parseClock s of
        None \<Rightarrow> None
      | Some secs \<Rightarrow>
          (let rest = drop 19 s;
               ds = (if take 1 rest = [46] then takeWhile isDig (drop 1 rest) else []);
               rest1 = (if ds = [] then rest else drop (Suc (length ds)) rest)
           in case parseZone rest1 of
                None \<Rightarrow> None
              | Some off \<Rightarrow> Some ((secs - off) * Second + int (nanoseconds ds))))"

section \<open>Reading what was written\<close>

lemma div_Suc_dvd: "0 < k \<Longrightarrow> int (Suc n) div int k = int n div int k + (if k dvd Suc n then 1 else 0)"
  unfolding zdiv_int [symmetric] by (simp add: div_Suc dvd_eq_mod_eq_0)

lemma daysBefore_Suc:
  assumes "0 < y"
  shows "daysBefore (Suc y) = daysBefore y + int (yearDays y)"
proof -
  obtain n where n: "y = Suc n" using assms by (cases y) auto
  have 1: "daysBefore (Suc y) = 365 * int y + int y div 4 - int y div 100 + int y div 400"
    by (simp add: daysBefore_def)
  have 2: "daysBefore y = 365 * int n + int n div 4 - int n div 100 + int n div 400"
    by (simp add: daysBefore_def n)
  have 3: "int y = int n + 1" by (simp add: n)
  have d: "int y div 4 = int n div 4 + (if 4 dvd y then 1 else 0)"
    "int y div 100 = int n div 100 + (if 100 dvd y then 1 else 0)"
    "int y div 400 = int n div 400 + (if 400 dvd y then 1 else 0)"
    using div_Suc_dvd [of 4 n] div_Suc_dvd [of 100 n] div_Suc_dvd [of 400 n] by (simp_all add: n)
  have dv: "100 dvd y \<Longrightarrow> 4 dvd y" "400 dvd y \<Longrightarrow> 100 dvd y" by presburger+
  show ?thesis
    unfolding 1 2 d yearDays_def leap_def using dv 3
    by (cases "4 dvd y"; cases "100 dvd y"; cases "400 dvd y") simp_all
qed

lemma daysBefore_1 [simp]: "daysBefore 1 = 0" "daysBefore (Suc 0) = 0"
  by (simp_all add: daysBefore_def)

lemma splitYear_days:
  "splitYear y d = (y', d') \<Longrightarrow> 0 < y \<Longrightarrow>
   d' < yearDays y' \<and> y \<le> y' \<and> daysBefore y' + int d' = daysBefore y + int d"
proof (induction y d rule: splitYear.induct)
  case (1 y d)
  show ?case
  proof (cases "d < yearDays y")
    case True
    with 1(2) show ?thesis by (simp add: splitYear.simps)
  next
    case False
    with 1 have "d' < yearDays y' \<and> Suc y \<le> y' \<and> daysBefore y' + int d' = daysBefore (Suc y) + int (d - yearDays y)"
      by (simp add: splitYear.simps [of y d])
    with False 1(3) daysBefore_Suc [of y] show ?thesis by simp
  qed
qed

lemma splitMonth_days:
  "splitMonth m ls d = (m', d') \<Longrightarrow> d < sum_list ls \<Longrightarrow>
   m \<le> m' \<and> m' < m + length ls \<and> d' < ls ! (m' - m) \<and> sum_list (take (m' - m) ls) + d' = d"
proof (induction ls arbitrary: m d)
  case (Cons l ls)
  show ?case
  proof (cases "d < l")
    case False
    with Cons.IH [of "Suc m" "d - l"] Cons.prems have
      "Suc m \<le> m'" "m' < Suc m + length ls" "d' < ls ! (m' - Suc m)"
      "sum_list (take (m' - Suc m) ls) + d' = d - l" by auto
    moreover from this(1) have "m' - m = Suc (m' - Suc m)" by simp
    ultimately show ?thesis using False by auto
  qed (use Cons.prems in simp)
qed simp

lemma monthDays_sum: "sum_list (monthDays y) = yearDays y" "length (monthDays y) = 12"
  by (simp_all add: monthDays_def yearDays_def)

lemma monthDays_le: "i < 12 \<Longrightarrow> monthDays y ! i \<le> 31"
  by (auto simp: monthDays_def less_Suc_eq numeral_eq_Suc)

lemma digitsVal_append: "digitsVal (xs @ [x]) = digitsVal xs * 10 + (x - 48)"
  by (simp add: digitsVal_def)

lemma padDigits_props: "length (padDigits k n) = k" "list_all isDig (padDigits k n)"
  "digitsVal (padDigits k n) = n mod 10 ^ k"
proof -
  show "length (padDigits k n) = k" by (induction k arbitrary: n) simp_all
  show "list_all isDig (padDigits k n)" by (induction k arbitrary: n) (auto simp: isDig_def)
  show "digitsVal (padDigits k n) = n mod 10 ^ k"
  proof (induction k arbitrary: n)
    case 0
    show ?case by (simp add: digitsVal_def)
  next
    case (Suc k)
    have "n div 10 mod 10 ^ k * 10 + n mod 10 = n mod 10 ^ Suc k"
      using mod_mult2_eq [of n 10 "10 ^ k"] by (simp add: mult.commute)
    then show ?case by (simp add: digitsVal_append Suc)
  qed
qed

lemma parseUint_pad: "n < 10 ^ k \<Longrightarrow> mn \<le> n \<Longrightarrow> n \<le> mx \<Longrightarrow> parseUint (padDigits k n) mn mx = Some n"
  by (simp add: parseUint_def padDigits_props)

lemma slice_append:
  "i = length xs \<Longrightarrow> j = i + length ys \<Longrightarrow> slice i j (xs @ ys @ zs) = ys"
  by (simp add: slice_def)

lemma stripZeros_snoc: "stripZeros (xs @ [x]) = (if x = 48 then stripZeros xs else xs @ [x])"
  by (simp add: stripZeros_def)

lemma stripZeros_val:
  "digitsVal (stripZeros ds) * 10 ^ (length ds - length (stripZeros ds)) = digitsVal ds \<and>
   length (stripZeros ds) \<le> length ds \<and> (list_all isDig ds \<longrightarrow> list_all isDig (stripZeros ds))"
proof (induction ds rule: rev_induct)
  case Nil
  show ?case by (simp add: stripZeros_def digitsVal_def)
next
  case (snoc x xs)
  show ?case
  proof (cases "x = 48")
    case True
    from snoc have "Suc (length xs) - length (stripZeros xs) = Suc (length xs - length (stripZeros xs))"
      by (blast intro: Suc_diff_le)
    with snoc True show ?thesis by (auto simp: stripZeros_snoc digitsVal_append)
  qed (simp add: stripZeros_snoc)
qed

lemma nanoseconds_strip: "ns < 10 ^ 9 \<Longrightarrow> nanoseconds (stripZeros (padDigits 9 ns)) = ns"
  using stripZeros_val [of "padDigits 9 ns"] by (simp add: nanoseconds_def padDigits_props)

lemma take_drop_fraction:
  assumes "ns < 10 ^ 9" and "rest = fraction ns @ [90]"
  defines "ds \<equiv> if take 1 rest = [46] then takeWhile isDig (drop 1 rest) else []"
  shows "(if ds = [] then rest else drop (Suc (length ds)) rest) = [90]" and "nanoseconds ds = ns"
proof -
  let ?z = "stripZeros (padDigits 9 ns)"
  have dig: "list_all isDig ?z" using stripZeros_val [of "padDigits 9 ns"] padDigits_props(2) by blast
  then have tw: "takeWhile isDig (?z @ [90]) = ?z"
    by (subst takeWhile_append2) (simp_all add: list_all_iff isDig_def)
  have ds: "ds = ?z"
    using tw by (simp add: ds_def assms(2) fraction_def Let_def)
  then show "nanoseconds ds = ns" using nanoseconds_strip [OF assms(1)] by simp
  show "(if ds = [] then rest else drop (Suc (length ds)) rest) = [90]"
    by (simp add: ds assms(2) fraction_def Let_def)
qed

lemma list_lengths:
  "length xs = 2 \<Longrightarrow> \<exists>a b. xs = [a, b]" "length xs = 4 \<Longrightarrow> \<exists>a b c d. xs = [a, b, c, d]"
  by (auto simp: length_Suc_conv eval_nat_numeral)

lemma parseClock_written:
  assumes "y \<le> 9999" and "1 \<le> mo" and "mo \<le> 12" and "1 \<le> d" and "d \<le> monthDays y ! (mo - 1)"
    and "h < 24" and "mi < 60" and "sec < 60"
  shows "parseClock (padDigits 4 y @ [45] @ padDigits 2 mo @ [45] @ padDigits 2 d @ [84] @
    padDigits 2 h @ [58] @ padDigits 2 mi @ [58] @ padDigits 2 sec @ rest) = Some (dateSeconds y mo d h mi sec)"
proof -
  have two: "\<exists>a b. padDigits 2 n = [a, b]" for n by (rule list_lengths(1)) (rule padDigits_props(1))
  obtain a0 a1 a2 a3 where A: "padDigits 4 y = [a0, a1, a2, a3]"
    using list_lengths(2) [OF padDigits_props(1) [of 4 y]] by blast
  obtain b0 b1 where B: "padDigits 2 mo = [b0, b1]" using two by blast
  obtain c0 c1 where C: "padDigits 2 d = [c0, c1]" using two by blast
  obtain d0 d1 where D: "padDigits 2 h = [d0, d1]" using two by blast
  obtain e0 e1 where E: "padDigits 2 mi = [e0, e1]" using two by blast
  obtain f0 f1 where F: "padDigits 2 sec = [f0, f1]" using two by blast
  have "mo - 1 < 12" using assms(2,3) by linarith
  then have "d \<le> 31" using assms(5) monthDays_le [of "mo - 1" y] by linarith
  with assms have u: "parseUint [a0, a1, a2, a3] 0 9999 = Some y" "parseUint [b0, b1] 1 12 = Some mo"
    "parseUint [c0, c1] 1 (monthDays y ! (mo - 1)) = Some d" "parseUint [d0, d1] 0 23 = Some h"
    "parseUint [e0, e1] 0 59 = Some mi" "parseUint [f0, f1] 0 59 = Some sec"
    unfolding A [symmetric] B [symmetric] C [symmetric] D [symmetric] E [symmetric] F [symmetric]
    by (simp_all add: parseUint_pad)
  show ?thesis unfolding A B C D E F parseClock_def slice_def using u by simp
qed

lemma parseTime_marshalTime:
  assumes "marshalTime t = Some s" and "0 \<le> t"
  shows "parseTime s = Some t"
proof -
  define secs ns where "secs = nat (t div Second)" and "ns = nat (t mod Second)"
  obtain y yd where y: "splitYear 1 (secs div 86400) = (y, yd)" by force
  obtain mo md where m: "splitMonth 1 (monthDays y) yd = (mo, md)" by force
  define sod where "sod = secs mod 86400"
  let ?h = "sod div 3600" and ?mi = "sod div 60 mod 60" and ?sec = "sod mod 60"
  have s: "s = padDigits 4 y @ [45] @ padDigits 2 mo @ [45] @ padDigits 2 (Suc md) @ [84] @
      padDigits 2 ?h @ [58] @ padDigits 2 ?mi @ [58] @ padDigits 2 ?sec @ fraction ns @ [90]"
    and le: "y \<le> 9999"
    using assms(1) y m by (simp_all add: marshalTime_def secs_def ns_def sod_def Let_def split: if_splits)
  have yy: "yd < yearDays y" "daysBefore y + int yd = int (secs div 86400)"
    using splitYear_days [OF y] by auto
  then have mm: "1 \<le> mo" "mo \<le> 12" "md < monthDays y ! (mo - 1)" "sum_list (take (mo - 1) (monthDays y)) + md = yd"
    using splitMonth_days [OF m] by (auto simp: monthDays_sum)
  have sod: "sod < 86400" by (simp add: sod_def)
  then have h: "?h < 24" by (simp add: less_mult_imp_div_less)
  have ck: "parseClock s = Some (dateSeconds y mo (Suc md) ?h ?mi ?sec)"
    unfolding s using le mm h by (intro parseClock_written) simp_all
  define q where "q = sod div 60"
  have "?h = q div 60" using div_mult2_eq [of sod 60 60] by (simp add: q_def)
  moreover have "q div 60 * 60 + q mod 60 = q" "q * 60 + ?sec = sod" by (simp_all add: q_def)
  ultimately have "?h * 3600 + ?mi * 60 + ?sec = sod" unfolding q_def [symmetric] by linarith
  then have hms: "int ?h * 3600 + int ?mi * 60 + int ?sec = int sod" by linarith
  have "dateSeconds y mo (Suc md) ?h ?mi ?sec = (daysBefore y + int yd) * 86400 + int sod"
    unfolding dateSeconds_def hms [symmetric] mm(4) [symmetric] by simp
  also have "\<dots> = int secs"
    unfolding yy(2) sod_def using div_mult_mod_eq [of secs 86400] by (metis of_nat_add of_nat_mult of_nat_numeral)
  finally have ds: "dateSeconds y mo (Suc md) ?h ?mi ?sec = int secs" .
  have ns: "ns < 10 ^ 9"
  proof -
    have "t mod Second < 10 ^ 9" "0 \<le> t mod Second" by (simp_all add: Second_def)
    then show ?thesis by (simp add: ns_def)
  qed
  have rest: "drop 19 s = fraction ns @ [90]" by (simp add: s padDigits_props)
  have "int secs * Second + int ns = t"
    using assms(2) div_mult_mod_eq [of t Second] by (simp add: secs_def ns_def Second_def pos_imp_zdiv_nonneg_iff)
  moreover have "parseZone [90] = Some 0" by (simp add: parseZone_def)
  ultimately show ?thesis
    unfolding parseTime_def ck option.case Let_def take_drop_fraction [OF ns rest] ds by simp
qed

lemma daysBefore_mono: "0 < y \<Longrightarrow> daysBefore y \<le> daysBefore (y + k)"
  by (induction k) (simp_all add: daysBefore_Suc)

text \<open>The first nanosecond of the year 10000.\<close>

definition endOfTime :: time where
  "endOfTime = 3652059 * 86400 * Second"

lemma marshalTime_total:
  assumes "0 \<le> t" and "t < endOfTime"
  shows "\<exists>s. marshalTime t = Some s"
proof -
  let ?secs = "nat (t div Second)"
  obtain y yd where y: "splitYear 1 (?secs div 86400) = (y, yd)" by force
  have "t div Second < 3652059 * 86400"
    using assms(2) by (simp add: endOfTime_def Second_def)
  then have "?secs < 3652059 * 86400" by simp
  then have "?secs div 86400 < 3652059" by (rule less_mult_imp_div_less)
  then have "daysBefore y < 3652059" using splitYear_days [OF y] by simp
  moreover have "3652059 \<le> daysBefore (10000 + k)" for k
    using daysBefore_mono [of 10000 k] by (simp add: daysBefore_def)
  moreover have "y = 10000 + (y - 10000)" if "\<not> y \<le> 9999" using that by linarith
  ultimately have "y \<le> 9999" by (metis not_le)
  then show ?thesis using y by (simp add: marshalTime_def Let_def split: prod.splits)
qed

section \<open>time.Parse with the layout RFC3339\<close>

text \<open>
  The general parser is more lenient than the one for JSON: the hour may have one digit, a comma may
  start the fraction, and an offset may have 24 hours or 60 minutes.
\<close>

definition getnum :: "bool \<Rightarrow> nat list \<Rightarrow> (nat \<times> nat list) option" where
  "getnum fixed s =
     (case s of
        [] \<Rightarrow> None
      | a # r \<Rightarrow>
          if \<not> isDig a then None
          else if r \<noteq> [] \<and> isDig (hd r) then Some ((a - 48) * 10 + (hd r - 48), tl r)
          else if fixed then None else Some (a - 48, r))"

definition skipByte :: "nat \<Rightarrow> nat list \<Rightarrow> nat list option" where
  "skipByte c s = (case s of [] \<Rightarrow> None | b # r \<Rightarrow> if b = c then Some r else None)"

definition getYear :: "nat list \<Rightarrow> (nat \<times> nat list) option" where
  "getYear s =
     (if length s < 4 \<or> \<not> list_all isDig (take 4 s) then None else Some (digitsVal (take 4 s), drop 4 s))"

definition getFraction :: "nat list \<Rightarrow> nat \<times> nat list" where
  "getFraction s =
     (if take 1 s = [46] \<or> take 1 s = [44]
      then (let ds = takeWhile isDig (drop 1 s)
            in if ds = [] then (0, s) else (nanoseconds ds, drop (Suc (length ds)) s))
      else (0, s))"

definition getOffset :: "nat list \<Rightarrow> int option" where
  "getOffset s =
     (if s = [90] then Some 0
      else if length s \<noteq> 6 \<or> s ! 3 \<noteq> 58 then None
      else
        do { (hr, _) \<leftarrow> getnum True (slice 1 3 s);
             (mm, _) \<leftarrow> getnum True (slice 4 6 s);
             if hr > 24 \<or> mm > 60 then None
             else if s ! 0 = 43 then Some (int ((hr * 60 + mm) * 60))
             else if s ! 0 = 45 then Some (- int ((hr * 60 + mm) * 60)) else None })"

definition parseRFC3339 :: "nat list \<Rightarrow> time option" where
  "parseRFC3339 s =
     do { (y, s1) \<leftarrow> getYear s;
          s2 \<leftarrow> skipByte 45 s1;
          (mo, s3) \<leftarrow> getnum True s2;
          s4 \<leftarrow> skipByte 45 s3;
          (d, s5) \<leftarrow> getnum True s4;
          s6 \<leftarrow> skipByte 84 s5;
          (h, s7) \<leftarrow> getnum False s6;
          s8 \<leftarrow> skipByte 58 s7;
          (mi, s9) \<leftarrow> getnum True s8;
          s10 \<leftarrow> skipByte 58 s9;
          (sec, s11) \<leftarrow> getnum True s10;
          (let (ns, s12) = getFraction s11 in
           do { off \<leftarrow> getOffset s12;
                if mo < 1 \<or> 12 < mo \<or> 24 \<le> h \<or> 60 \<le> mi \<or> 60 \<le> sec \<or> d < 1 \<or> monthDays y ! (mo - 1) < d
                then None
                else Some ((dateSeconds y mo d h mi sec - off) * Second + int ns) }) }"

lemma getnum_pad: "n < 100 \<Longrightarrow> getnum b (padDigits 2 n @ s) = Some (n, s)"
  by (simp add: getnum_def numeral_2_eq_2 isDig_def) presburger

text \<open>Whatever is written by \<open>marshalTime\<close> is read back by this parser too.\<close>

lemma parseRFC3339_written:
  assumes "y \<le> 9999" and "1 \<le> mo" and "mo \<le> 12" and "1 \<le> d" and "d \<le> monthDays y ! (mo - 1)"
    and "h < 24" and "mi < 60" and "sec < 60" and "ns < 10 ^ 9"
  shows "parseRFC3339 (padDigits 4 y @ [45] @ padDigits 2 mo @ [45] @ padDigits 2 d @ [84] @
    padDigits 2 h @ [58] @ padDigits 2 mi @ [58] @ padDigits 2 sec @ fraction ns @ [90]) =
    Some (dateSeconds y mo d h mi sec * Second + int ns)"
proof -
  have year: "getYear (padDigits 4 y @ s) = Some (y, s)" for s
    using assms(1) by (simp add: getYear_def padDigits_props)
  have "mo - 1 < 12" using assms(2,3) by linarith
  then have "d \<le> 31" using assms(5) monthDays_le [of "mo - 1" y] by linarith
  moreover have "getFraction (fraction ns @ [90]) = (ns, [90])"
  proof -
    let ?z = "stripZeros (padDigits 9 ns)"
    have "list_all isDig ?z" using stripZeros_val [of "padDigits 9 ns"] padDigits_props(2) by blast
    then have "takeWhile isDig (?z @ [90]) = ?z"
      by (subst takeWhile_append2) (simp_all add: list_all_iff isDig_def)
    moreover have "?z = [] \<Longrightarrow> ns = 0" using nanoseconds_strip [OF assms(9)] by (auto simp: nanoseconds_def digitsVal_def)
    ultimately show ?thesis
      using nanoseconds_strip [OF assms(9)] by (simp add: getFraction_def fraction_def Let_def)
  qed
  ultimately show ?thesis
    using assms by (simp add: parseRFC3339_def year skipByte_def getnum_pad getOffset_def)
qed

end
