(* ===== verification/Session.thy ===== *)
theory Session
  imports Time_Format Token
begin

text \<open>
  internal/api (auth_middleware.go, auth_handler.go): session tokens, which a client gets for the API
  key and presents instead of it.  \<open>now\<close> is what \<open>time.Now\<close> returns.
\<close>

section \<open>The payload of a token\<close>

record sessionPayload =
  sp_IssuedAt :: time
  sp_ExpiresAt :: time

definition quoted :: "nat list \<Rightarrow> nat list" where
  "quoted bs = 34 # bs @ [34]"

text \<open>\<open>json.Marshal\<close>: the texts of times need no escapes.\<close>

definition marshalSession :: "sessionPayload \<Rightarrow> nat list option" where
  "marshalSession p =
     (case marshalTime (sp_IssuedAt p) of
        None \<Rightarrow> None
      | Some a \<Rightarrow>
          (case marshalTime (sp_ExpiresAt p) of
             None \<Rightarrow> None
           | Some b \<Rightarrow>
               Some ([123] @ jsonKey ''issued_at'' @ quoted a @ [44] @
                     jsonKey ''expires_at'' @ quoted b @ [125])))"

text \<open>
  The members of an object with the bytes of their values, which \<open>Time.UnmarshalJSON\<close> reads as they
  stand; \<open>n\<close> bounds the recursion as for \<open>parseMembers\<close>.
\<close>

fun rawMembers :: "nat \<Rightarrow> nat list \<Rightarrow> (nat list \<times> nat list) list option" where
  "rawMembers 0 s = None"
| "rawMembers (Suc n) s =
     (case skipWs s of
        [] \<Rightarrow> None
      | b # bs \<Rightarrow>
          if b = 125 then Some []
          else if b \<noteq> 34 then None
          else
            (case parseStr bs of
               None \<Rightarrow> None
             | Some (k, r) \<Rightarrow>
                 (let s1 = skipWs (drop 1 (skipWs r)) in
                  case parseValue n 1 s1 of
                    None \<Rightarrow> None
                  | Some (v, r1) \<Rightarrow>
                      (let raw = take (length s1 - length r1) s1 in
                       case skipWs r1 of
                         [] \<Rightarrow> None
                       | c # r2 \<Rightarrow>
                           if c = 44 then map_option (\<lambda>ms. (k, raw) # ms) (rawMembers n r2)
                           else if c = 125 then Some [(k, raw)] else None))))"

text \<open>\<open>Time.UnmarshalJSON\<close>.\<close>

definition unmarshalTime :: "nat list \<Rightarrow> time \<Rightarrow> time option" where
  "unmarshalTime raw t =
     (if raw = asciiBytes ''null'' then Some t
      else if length raw < 2 \<or> hd raw \<noteq> 34 \<or> last raw \<noteq> 34 then None
      else parseTime (butlast (tl raw)))"

definition setSession :: "sessionPayload \<Rightarrow> nat list \<times> nat list \<Rightarrow> sessionPayload option" where
  "setSession p kv =
     (case fieldOf [''issued_at'', ''expires_at''] (fst kv) of
        None \<Rightarrow> Some p
      | Some f \<Rightarrow>
          if f = ''issued_at''
          then map_option (\<lambda>t. p\<lparr>sp_IssuedAt := t\<rparr>) (unmarshalTime (snd kv) (sp_IssuedAt p))
          else map_option (\<lambda>t. p\<lparr>sp_ExpiresAt := t\<rparr>) (unmarshalTime (snd kv) (sp_ExpiresAt p)))"

fun setSessions :: "sessionPayload \<Rightarrow> (nat list \<times> nat list) list \<Rightarrow> sessionPayload option" where
  "setSessions p [] = Some p"
| "setSessions p (kv # kvs) = (case setSession p kv of None \<Rightarrow> None | Some p1 \<Rightarrow> setSessions p1 kvs)"

definition zeroSession :: sessionPayload where
  "zeroSession = \<lparr>sp_IssuedAt = zeroTime, sp_ExpiresAt = zeroTime\<rparr>"

definition unmarshalSession :: "nat list \<Rightarrow> sessionPayload option" where
  "unmarshalSession raw =
     (case parseJson raw of
        Some JNull \<Rightarrow> Some zeroSession
      | Some (JObj _) \<Rightarrow>
          (case rawMembers (2 * length raw + 2) (drop 1 (skipWs raw)) of
             None \<Rightarrow> None
           | Some ms \<Rightarrow> setSessions zeroSession ms)
      | _ \<Rightarrow> None)"

section \<open>Tokens\<close>

definition signPayload :: "string \<Rightarrow> string \<Rightarrow> string" where
  "signPayload pl apiKey = hmacSHA256 apiKey pl"

definition issueSessionToken :: "time \<Rightarrow> string \<Rightarrow> string res" where
  "issueSessionToken now apiKey =
     (let p = \<lparr>sp_IssuedAt = now, sp_ExpiresAt = now + 24 * Hour\<rparr> in
      case marshalSession p of
        None \<Rightarrow> Err (Errorf [FL ''json: error calling MarshalJSON for type time.Time: Time.MarshalJSON: year outside of range [0,9999]''])
      | Some bs \<Rightarrow>
          (let pl = map char_of bs
           in Ok (b64encode pl @ ''.'' @ b64encode (signPayload pl apiKey))))"

definition api_validateToken :: "time \<Rightarrow> string \<Rightarrow> string \<Rightarrow> bool" where
  "api_validateToken now token apiKey =
     (if token = apiKey then True
      else
        (case splitDot token of
           None \<Rightarrow> False
         | Some (p0, p1) \<Rightarrow>
             (case b64decode p0 of
                None \<Rightarrow> False
              | Some pl \<Rightarrow>
                  (case b64decode p1 of
                     None \<Rightarrow> False
                   | Some actualSig \<Rightarrow>
                       if signPayload pl apiKey \<noteq> actualSig then False
                       else
                         (case unmarshalSession (asciiBytes pl) of
                            None \<Rightarrow> False
                          | Some p \<Rightarrow> now < sp_ExpiresAt p)))))"

section \<open>Round trip\<close>

definition plainByte :: "nat \<Rightarrow> bool" where
  "plainByte b \<longleftrightarrow> 32 \<le> b \<and> b < 0x80 \<and> b \<noteq> 34 \<and> b \<noteq> 92"

lemma padDigits_plain: "list_all plainByte (padDigits k n)"
  using padDigits_props(2) [of k n] by (auto simp: list_all_iff isDig_def plainByte_def)

lemma fraction_plain: "list_all plainByte (fraction n)"
  using stripZeros_val [of "padDigits 9 n"] padDigits_props(2) [of 9 n]
  by (auto simp: fraction_def Let_def list_all_iff isDig_def plainByte_def)

lemma marshalTime_plain: "marshalTime t = Some s \<Longrightarrow> list_all plainByte s"
  by (auto simp: marshalTime_def Let_def padDigits_plain fraction_plain plainByte_def split: prod.splits if_splits)

lemma parseStr_quoted: "list_all plainByte bs \<Longrightarrow> parseStr (bs @ 34 # r) = Some (bs, r)"
  by (rule parseStr_plain) (simp add: plainByte_def [abs_def])

lemma parseValue_quoted:
  "list_all plainByte bs \<Longrightarrow> parseValue (Suc n) d (quoted bs @ rest) = Some (JStr bs, rest)"
  by (simp add: quoted_def skipWs_cons isSpace_def parseStr_quoted)

lemma session_fields:
  "plainName ''issued_at''" "plainName ''expires_at''"
  "fieldOf [''issued_at'', ''expires_at''] (asciiBytes ''issued_at'') = Some ''issued_at''"
  "fieldOf [''issued_at'', ''expires_at''] (asciiBytes ''expires_at'') = Some ''expires_at''"
  by (simp_all add: plainName_def asciiBytes_def fieldOf_def)

lemma rawMembers_key:
  assumes "plainName k" and "list_all plainByte bs" and "c = 44 \<or> c = 125"
  shows "rawMembers (Suc (Suc n)) (jsonKey k @ quoted bs @ c # rest) =
    (if c = 44 then map_option (\<lambda>ms. (asciiBytes k, quoted bs) # ms) (rawMembers (Suc n) rest)
     else Some [(asciiBytes k, quoted bs)])"
proof -
  have k: "parseStr (asciiBytes k @ 34 # s) = Some (asciiBytes k, s)" for s
    using assms(1) by (intro parseStr_plain) (simp add: plainName_def)
  have ws: "skipWs (c # rest) = c # rest" "skipWs (quoted bs @ s) = quoted bs @ s" for s
    using assms(3) by (auto simp: skipWs_cons isSpace_def quoted_def)
  have len: "length (quoted bs @ c # rest) - length (c # rest) = length (quoted bs)" by simp
  show ?thesis
    unfolding rawMembers.simps jsonKey_def
    using assms(3) parseValue_quoted [OF assms(2), of n 1 "c # rest"]
    by (auto simp: skipWs_cons isSpace_def k ws Let_def simp del: parseValue.simps)
qed

lemma quoted_bytes: "list_all plainByte bs \<Longrightarrow> list_all (\<lambda>x. x < 256) (quoted bs)"
  by (auto simp: quoted_def plainByte_def list_all_iff)

lemma parse_session:
  assumes "list_all plainByte a" and "list_all plainByte b"
  defines "doc \<equiv> [123] @ jsonKey ''issued_at'' @ quoted a @ [44] @ jsonKey ''expires_at'' @ quoted b @ [125]"
  shows "parseJson doc = Some (JObj [(asciiBytes ''issued_at'', JStr a), (asciiBytes ''expires_at'', JStr b)])"
    and "rawMembers (2 * length doc + 2) (drop 1 (skipWs doc)) =
      Some [(asciiBytes ''issued_at'', quoted a), (asciiBytes ''expires_at'', quoted b)]"
proof -
  let ?m2 = "jsonKey ''expires_at'' @ quoted b @ [125]"
  let ?m1 = "jsonKey ''issued_at'' @ quoted a @ 44 # ?m2"
  have doc: "doc = 123 # ?m1" by (simp add: doc_def)
  obtain n where fuel: "2 * length doc + 2 = Suc (Suc (Suc (Suc n)))"
    by (rule that [of "2 * length ?m1"]) (simp add: doc)
  have m2: "parseMembers (Suc (Suc k)) d ?m2 = Some ([(asciiBytes ''expires_at'', JStr b)], [])" for k d
    by (subst parseMembers_key [OF session_fields(2) parseValue_quoted [OF assms(2)]]) simp_all
  have m1: "parseMembers (Suc (Suc (Suc k))) d ?m1 =
      Some ([(asciiBytes ''issued_at'', JStr a), (asciiBytes ''expires_at'', JStr b)], [])" for k d
    using m2 by (subst parseMembers_key [OF session_fields(1) parseValue_quoted [OF assms(1)]]) simp_all
  have "parseValue (Suc (Suc (Suc (Suc n)))) 0 (123 # ?m1) =
      Some (JObj [(asciiBytes ''issued_at'', JStr a), (asciiBytes ''expires_at'', JStr b)], [])"
    using m1 [of n "Suc 0"] by (simp add: skipWs_cons isSpace_def maxNestingDepth_def jsonKey_def)
  then show "parseJson doc = Some (JObj [(asciiBytes ''issued_at'', JStr a), (asciiBytes ''expires_at'', JStr b)])"
    unfolding parseJson_def fuel by (simp add: doc skipWs_def)
  have "rawMembers (Suc (Suc (Suc (Suc n)))) ?m1 =
      Some [(asciiBytes ''issued_at'', quoted a), (asciiBytes ''expires_at'', quoted b)]"
    by (subst rawMembers_key [OF session_fields(1) assms(1)], simp)
      (subst rawMembers_key [OF session_fields(2) assms(2)], simp_all del: rawMembers.simps)
  then show "rawMembers (2 * length doc + 2) (drop 1 (skipWs doc)) =
      Some [(asciiBytes ''issued_at'', quoted a), (asciiBytes ''expires_at'', quoted b)]"
    unfolding fuel by (simp add: doc skipWs_cons isSpace_def)
qed

lemma unmarshalTime_quoted: "unmarshalTime (quoted bs) t = parseTime bs"
  by (simp add: unmarshalTime_def quoted_def asciiBytes_def butlast_append)

lemma unmarshal_marshalSession:
  assumes "marshalSession p = Some bs" and "0 \<le> sp_IssuedAt p" and "0 \<le> sp_ExpiresAt p"
  shows "unmarshalSession bs = Some p" and "list_all (\<lambda>x. x < 256) bs"
proof -
  from assms(1) obtain a b where a: "marshalTime (sp_IssuedAt p) = Some a"
    and b: "marshalTime (sp_ExpiresAt p) = Some b"
    and bs: "bs = [123] @ jsonKey ''issued_at'' @ quoted a @ [44] @ jsonKey ''expires_at'' @ quoted b @ [125]"
    by (auto simp: marshalSession_def split: option.splits)
  note pl = marshalTime_plain [OF a] marshalTime_plain [OF b]
  show "list_all (\<lambda>x. x < 256) bs" by (simp add: bs part_bytes quoted_bytes pl)
  show "unmarshalSession bs = Some p"
    unfolding unmarshalSession_def bs parse_session [OF pl]
    using parseTime_marshalTime [OF a assms(2)] parseTime_marshalTime [OF b assms(3)]
    by (simp add: setSession_def session_fields unmarshalTime_quoted)
qed

lemma session_token_valid:
  assumes "issueSessionToken now apiKey = Ok tok" and "0 \<le> now"
  shows "api_validateToken now' tok apiKey \<longleftrightarrow> tok = apiKey \<or> now' < now + 24 * Hour"
proof -
  let ?p = "\<lparr>sp_IssuedAt = now, sp_ExpiresAt = now + 24 * Hour\<rparr>"
  from assms(1) obtain bs where bs: "marshalSession ?p = Some bs"
    and tok: "tok = b64encode (map char_of bs) @ ''.'' @ b64encode (signPayload (map char_of bs) apiKey)"
    by (auto simp: issueSessionToken_def Let_def split: option.splits)
  have um: "unmarshalSession bs = Some ?p" "list_all (\<lambda>x. x < 256) bs"
    using unmarshal_marshalSession [OF bs] assms(2) by (simp_all add: Hour_def Second_def)
  have sp: "splitDot tok = Some (b64encode (map char_of bs), b64encode (signPayload (map char_of bs) apiKey))"
    unfolding tok by (rule splitDot_append [OF b64encode_no_dot])
  show ?thesis
    unfolding api_validateToken_def sp option.case prod.case b64decode_b64encode asciiBytes_char_of [OF um(2)] um(1)
    by simp
qed

end
