(* ===== verification/Api.thy ===== *)
theory Api
  imports Session Gateway K8s_Client
begin

text \<open>
  internal/api: the HTTP server of the control plane (server.go and the handlers).  A handler takes
  the request, the response headers set so far and the state of the server, and gives the response
  and the state it leaves.  The body of a response is the value that is handed to the JSON encoder.
  A goroutine started by a handler is recorded in \<open>ap_spawned\<close>.  A request that opens a stream ends
  here with the stream set up; the loop of the stream is the step after it.
\<close>

section \<open>Requests and responses\<close>

record retryPolicy =
  rp_MaxAttempts :: int
  rp_BackoffSeconds :: int
  rp_MaxBackoffSeconds :: int

record stateNode =
  sn_Name :: string
  sn_Type :: string
  sn_HandlerRef :: string
  sn_ServiceTarget :: string
  sn_Catch :: string
  sn_Retry :: "retryPolicy option"

record flowEntry =
  fe_Name :: string
  fe_Next :: string
  fe_Catch :: string
  fe_IsEnd :: bool
  fe_Retry :: "retryPolicy option"

record workflowGraph =
  wg_Name :: string
  wg_States :: "stateNode list"
  wg_Flow :: "flowEntry list"

text \<open>\<open>aq_Flusher\<close>: the response writer of the request is an \<open>http.Flusher\<close>.\<close>

record apiRequest = httpRequest +
  aq_Flusher :: bool

datatype apiBody =
    NoBody | TextBody string | ErrorBody string string | AuthEnabledBody bool | TokenBody string
  | WorkflowsBody "string list" | NameBody string | GraphBody workflowGraph | ExecutionIDBody string
  | ExecutionsBody "ExecutionRecord list" | ExecutionBody ExecutionRecord
  | StatesBody "StateRecord list" | ServicesBody "ServiceRecord list" | ServiceBody ServiceRecord
  | EventsBody "EventRow list" | MetricsBody "MetricRow list" | LogsBody "LogRow list" int
  | StreamBody nat | SocketBody nat "nat option"

record apiResponse =
  ar_Status :: int
  ar_Headers :: headers
  ar_Body :: apiBody

section \<open>The server\<close>

text \<open>
  \<open>json.NewDecoder (...).Decode\<close> into a zero value of each type: the numbers of an input are floats,
  whose text is not modelled.
\<close>

record bodyDecoders =
  bd_Input :: "string \<Rightarrow> gomap res"
  bd_Graph :: "string \<Rightarrow> workflowGraph res"
  bd_Service :: "string \<Rightarrow> ServiceRecord res"

text \<open>
  The fields of \<open>Server\<close> that no request changes, with the clock, the random source and the WebSocket
  library.  \<open>as_Upgrade\<close> gives the connection, or the error and the response that the library wrote.
\<close>

record 'w apiServer =
  as_Store :: "'w Store"
  as_K8s :: "'w Client option"
  as_Telemetry :: "'w ClickHouse option"
  as_Workflows :: "string list"
  as_HasTrigger :: bool
  as_APIKey :: string
  as_Decode :: bodyDecoders
  as_Runtime :: "'w Runtime"
  as_Rand :: "'w \<Rightarrow> 8 word list res \<times> 'w"
  as_Upgrade :: "apiRequest \<Rightarrow> 'w \<Rightarrow> (nat + goerr \<times> apiResponse) \<times> 'w"
  as_Websocket :: "'w Websocket"

record 'w apiState =
  ap_graphs :: "string \<rightharpoonup> workflowGraph"
  ap_ready :: bool
  ap_hub :: "WSHub \<times> WSEvent Heap"
  ap_spawned :: "(string \<times> string \<times> gomap) list"
  ap_world :: 'w

type_synonym 'w apiResult = "apiResponse res \<times> 'w apiState"
type_synonym 'w apiHandler = "apiRequest \<Rightarrow> headers \<Rightarrow> 'w apiState \<Rightarrow> 'w apiResult"

definition onWorld :: "('w \<Rightarrow> 'a res \<times> 'w) \<Rightarrow> 'w apiState \<Rightarrow> 'a res \<times> 'w apiState" where
  "onWorld f s = (case f (ap_world s) of (r, w) \<Rightarrow> (r, s\<lparr>ap_world := w\<rparr>))"

definition NewServer :: "WSHub \<times> WSEvent Heap \<Rightarrow> 'w \<Rightarrow> 'w apiState" where
  "NewServer hub w =
     \<lparr>ap_graphs = Map.empty, ap_ready = False, ap_hub = hub, ap_spawned = [], ap_world = w\<rparr>"

definition MarkReady :: "'w apiState \<Rightarrow> 'w apiState" where
  "MarkReady s = s\<lparr>ap_ready := True\<rparr>"

definition writeJSON :: "int \<Rightarrow> apiBody \<Rightarrow> headers \<Rightarrow> apiResponse" where
  "writeJSON code v hs =
     \<lparr>ar_Status = code, ar_Headers = hs @ [(''Content-Type'', ''application/json'')], ar_Body = v\<rparr>"

definition writeError :: "int \<Rightarrow> string \<Rightarrow> string \<Rightarrow> headers \<Rightarrow> apiResponse" where
  "writeError code msg errCode hs = writeJSON code (ErrorBody msg errCode) hs"

definition apiText :: "int \<Rightarrow> string \<Rightarrow> headers \<Rightarrow> apiResponse" where
  "apiText code txt hs = \<lparr>ar_Status = code, ar_Headers = hs, ar_Body = TextBody txt\<rparr>"

definition apiHttpError :: "string \<Rightarrow> int \<Rightarrow> headers \<Rightarrow> apiResponse" where
  "apiHttpError msg code hs =
     apiText code (msg @ [newlineCh])
       (hs @ [(''Content-Type'', ''text/plain; charset=utf-8''), (''X-Content-Type-Options'', ''nosniff'')])"

text \<open>\<open>http.MaxBytesReader\<close>: nothing after the limit is read.\<close>

definition MaxBytesReader :: "nat \<Rightarrow> string \<Rightarrow> string" where
  "MaxBytesReader n body = take n body"

section \<open>Probes\<close>

definition handleHealthz :: "headers \<Rightarrow> 'w apiState \<Rightarrow> 'w apiResult" where
  "handleHealthz hs s = (Ok (apiText 200 ''ok'' hs), s)"

definition handleReadyz :: "headers \<Rightarrow> 'w apiState \<Rightarrow> 'w apiResult" where
  "handleReadyz hs s =
     (if \<not> ap_ready s then (Ok (writeError 503 ''not ready'' ''not_ready'' hs), s)
      else (Ok (apiText 200 ''ok'' hs), s))"

section \<open>Logging in\<close>

definition handleAuthStatus :: "'w apiServer \<Rightarrow> headers \<Rightarrow> 'w apiState \<Rightarrow> 'w apiResult" where
  "handleAuthStatus srv hs s = (Ok (writeJSON 200 (AuthEnabledBody (as_APIKey srv \<noteq> '''')) hs), s)"

text \<open>The body of a login, \<open>struct { APIKey string `json:"api_key"` }\<close>; bytes after the value are left.\<close>

fun setApiKey :: "string \<Rightarrow> (nat list \<times> jvalue) list \<Rightarrow> string option" where
  "setApiKey k [] = Some k"
| "setApiKey k (kv # kvs) =
     (case (if fieldOf [''api_key''] (fst kv) = None then Some k else setString (\<lambda>t. t) (snd kv) k) of
        None \<Rightarrow> None
      | Some k1 \<Rightarrow> setApiKey k1 kvs)"

definition decodeApiKey :: "string \<Rightarrow> string option" where
  "decodeApiKey body =
     (case parseValue (2 * length body + 2) 0 (asciiBytes body) of
        Some (JNull, _) \<Rightarrow> Some ''''
      | Some (JObj ms, _) \<Rightarrow> setApiKey '''' ms
      | _ \<Rightarrow> None)"

definition handleAuthToken :: "'w apiServer \<Rightarrow> 'w apiHandler" where
  "handleAuthToken srv r hs s =
     (case decodeApiKey (MaxBytesReader (2 ^ 20) (hq_Body r)) of
        None \<Rightarrow> (Ok (writeError 400 ''invalid request body'' ''bad_request'' hs), s)
      | Some key \<Rightarrow>
          if key \<noteq> as_APIKey srv
          then (Ok (writeError 401 ''invalid api key'' ''auth_invalid'' hs), s)
          else
            (case issueSessionToken (rt_Now (as_Runtime srv) (ap_world s)) (as_APIKey srv) of
               Ok token \<Rightarrow> (Ok (writeJSON 200 (TokenBody token) hs), s)
             | Err _ \<Rightarrow> (Ok (writeError 500 ''failed to issue token'' ''internal'' hs), s)
             | Panic p \<Rightarrow> (Panic p, s)))"

section \<open>Workflows\<close>

definition handleListWorkflows :: "'w apiServer \<Rightarrow> headers \<Rightarrow> 'w apiState \<Rightarrow> 'w apiResult" where
  "handleListWorkflows srv hs s = (Ok (writeJSON 200 (WorkflowsBody (as_Workflows srv)) hs), s)"

definition workflowRegistered :: "'w apiServer \<Rightarrow> string \<Rightarrow> 'w apiState \<Rightarrow> bool" where
  "workflowRegistered srv name s \<longleftrightarrow> name \<in> set (as_Workflows srv) \<or> ap_graphs s name \<noteq> None"

text \<open>The regular expression \<open>^[a-z0-9-]+$\<close>.\<close>

definition workflowNameChar :: "char \<Rightarrow> bool" where
  "workflowNameChar c \<longleftrightarrow>
     (let n = of_char c :: nat in 97 \<le> n \<and> n \<le> 122 \<or> 48 \<le> n \<and> n \<le> 57 \<or> n = 45)"

definition workflowNameRe :: "string \<Rightarrow> bool" where
  "workflowNameRe s \<longleftrightarrow> s \<noteq> '''' \<and> list_all workflowNameChar s"

text \<open>The loop over the states: the set of their names, or the first name that comes again.\<close>

fun stateSetOf :: "string set \<Rightarrow> stateNode list \<Rightarrow> string + string set" where
  "stateSetOf seen [] = Inr seen"
| "stateSetOf seen (st # sts) =
     (if sn_Name st \<in> seen then Inl (sn_Name st) else stateSetOf (insert (sn_Name st) seen) sts)"

fun unknownFlow :: "string set \<Rightarrow> flowEntry list \<Rightarrow> string option" where
  "unknownFlow known [] = None"
| "unknownFlow known (fe # fes) = (if fe_Name fe \<notin> known then Some (fe_Name fe) else unknownFlow known fes)"

definition handleRegisterWorkflow :: "'w apiServer \<Rightarrow> 'w apiHandler" where
  "handleRegisterWorkflow srv r hs s =
     (let invalid = (\<lambda>msg. (Ok (writeError 400 msg ''invalid_graph'' hs), s)) in
      ifErr (bd_Graph (as_Decode srv) (MaxBytesReader (2 ^ 20) (hq_Body r)), s)
        (\<lambda>_ _. invalid ''invalid JSON body'')
        (\<lambda>g _.
           if \<not> workflowNameRe (wg_Name g) then invalid ''name must match ^[a-z0-9-]+$''
           else if wg_States g = [] then invalid ''states must not be empty''
           else if wg_Flow g = [] then invalid ''flow must not be empty''
           else
             (case stateSetOf {} (wg_States g) of
                Inl dup \<Rightarrow> invalid (''duplicate state name: '' @ dup)
              | Inr stateSet \<Rightarrow>
                  (case unknownFlow stateSet (wg_Flow g) of
                     Some n \<Rightarrow> invalid (''flow references unknown state: '' @ n)
                   | None \<Rightarrow>
                       if ap_graphs s (wg_Name g) \<noteq> None
                       then (Ok (writeError 409 ''workflow already registered'' ''conflict'' hs), s)
                       else (Ok (writeJSON 201 (NameBody (wg_Name g)) hs),
                             s\<lparr>ap_graphs := (ap_graphs s)(wg_Name g \<mapsto> g)\<rparr>)))))"

definition handleGetWorkflow :: "string \<Rightarrow> headers \<Rightarrow> 'w apiState \<Rightarrow> 'w apiResult" where
  "handleGetWorkflow name hs s =
     (case ap_graphs s name of
        None \<Rightarrow> (Ok (writeError 404 ''workflow not found'' ''not_found'' hs), s)
      | Some g \<Rightarrow> (Ok (writeJSON 200 (GraphBody g) hs), s))"

definition handleRunWorkflow :: "'w apiServer \<Rightarrow> string \<Rightarrow> 'w apiHandler" where
  "handleRunWorkflow srv name r hs s =
     (if \<not> workflowRegistered srv name s
      then (Ok (writeError 404 ''workflow not found'' ''not_found'' hs), s)
      else
        ifErr (bd_Input (as_Decode srv) (MaxBytesReader (10 * 2 ^ 20) (hq_Body r)), s)
          (\<lambda>_ s1. (Ok (writeError 400 ''invalid request body'' ''bad_request'' hs), s1))
          (\<lambda>input s1.
             ifErr (onWorld (\<lambda>w. (case as_Rand srv w of (rnd, w1) \<Rightarrow> (genUUID rnd, w1))) s1)
               (\<lambda>_ s2. (Ok (writeError 500 ''failed to generate execution ID'' ''internal'' hs), s2))
               (\<lambda>execID s2.
                  ifErr (onWorld (st_CreateExecution (as_Store srv) (runRecord execID name input)) s2)
                    (\<lambda>_ s3. (Ok (writeError 500 ''failed to create execution'' ''internal'' hs), s3))
                    (\<lambda>_ s3.
                       (Ok (writeJSON 202 (ExecutionIDBody execID) hs),
                        if as_HasTrigger srv
                        then s3\<lparr>ap_spawned := ap_spawned s3 @ [(execID, name, input)]\<rparr> else s3)))))"

section \<open>Executions\<close>

definition handleListExecutions :: "'w apiServer \<Rightarrow> 'w apiHandler" where
  "handleListExecutions srv r hs s =
     (let q = hq_Query r;
          filt = \<lparr>ef_Workflow = q ''workflow'', ef_Status = q ''status'',
                    ef_Limit = parseIntParam (q ''limit'') 50, ef_Offset = parseIntParam (q ''offset'') 0\<rparr>
      in ifErr (onWorld (st_ListExecutions (as_Store srv) filt) s)
           (\<lambda>_ s1. (Ok (writeError 500 ''failed to list executions'' ''internal'' hs), s1))
           (\<lambda>execs s1. (Ok (writeJSON 200 (ExecutionsBody execs) hs), s1)))"

definition handleGetExecution :: "'w apiServer \<Rightarrow> string \<Rightarrow> headers \<Rightarrow> 'w apiState \<Rightarrow> 'w apiResult" where
  "handleGetExecution srv execID hs s =
     ifErr (onWorld (st_GetExecution (as_Store srv) execID) s)
       (\<lambda>err s1.
          if err = ErrExecutionNotFound
          then (Ok (writeError 404 ''execution not found'' ''not_found'' hs), s1)
          else (Ok (writeError 500 ''failed to get execution'' ''internal'' hs), s1))
       (\<lambda>rec s1. (Ok (writeJSON 200 (ExecutionBody rec) hs), s1))"

text \<open>An error of \<open>GetExecution\<close> other than \<open>ErrExecutionNotFound\<close> is passed over.\<close>

definition handleListStates :: "'w apiServer \<Rightarrow> string \<Rightarrow> headers \<Rightarrow> 'w apiState \<Rightarrow> 'w apiResult" where
  "handleListStates srv execID hs s =
     (let list = (\<lambda>s1. ifErr (onWorld (st_ListStates (as_Store srv) execID) s1)
                    (\<lambda>_ s2. (Ok (writeError 500 ''failed to list states'' ''internal'' hs), s2))
                    (\<lambda>states s2. (Ok (writeJSON 200 (StatesBody states) hs), s2)))
      in ifErr (onWorld (st_GetExecution (as_Store srv) execID) s)
           (\<lambda>err s1. if err = ErrExecutionNotFound
                     then (Ok (writeError 404 ''execution not found'' ''not_found'' hs), s1)
                     else list s1)
           (\<lambda>_ s1. list s1))"

section \<open>Services\<close>

definition handleListServices :: "'w apiServer \<Rightarrow> headers \<Rightarrow> 'w apiState \<Rightarrow> 'w apiResult" where
  "handleListServices srv hs s =
     ifErr (onWorld (st_ListServices (as_Store srv)) s)
       (\<lambda>_ s1. (Ok (writeError 500 ''failed to list services'' ''internal'' hs), s1))
       (\<lambda>svcs s1. (Ok (writeJSON 200 (ServicesBody svcs) hs), s1))"

text \<open>After the check for a live service of the same name.\<close>

definition createService :: "'w apiServer \<Rightarrow> ServiceRecord \<Rightarrow> headers \<Rightarrow> 'w apiState \<Rightarrow> 'w apiResult" where
  "createService srv rec hs s =
     ifErr (onWorld (st_CreateService (as_Store srv) rec) s)
       (\<lambda>err s1.
          if err = ErrDuplicateServiceName
          then (Ok (writeError 409 ''service name already registered'' ''name_collision'' hs), s1)
          else (Ok (writeError 500 ''failed to create service'' ''internal'' hs), s1))
       (\<lambda>_ s1. (Ok (writeJSON 201 (NameBody (svc_Name rec)) hs), s1))"

definition handleCreateService :: "'w apiServer \<Rightarrow> 'w apiHandler" where
  "handleCreateService srv r hs s =
     ifErr (bd_Service (as_Decode srv) (MaxBytesReader (10 * 2 ^ 20) (hq_Body r)), s)
       (\<lambda>_ s1. (Ok (writeError 400 ''invalid request body'' ''bad_request'' hs), s1))
       (\<lambda>rec s1.
          if svc_Name rec = ''''
          then (Ok (writeError 400 ''service name is required'' ''bad_request'' hs), s1)
          else
            ifErr (onWorld (st_GetService (as_Store srv) (svc_Name rec)) s1)
              (\<lambda>_ s2. createService srv rec hs s2)
              (\<lambda>existing s2.
                 if svc_Status existing \<noteq> ServiceStatusStopped
                 then (Ok (writeError 409 ''service name already registered'' ''name_collision'' hs), s2)
                 else createService srv rec hs s2))"

definition handleGetService :: "'w apiServer \<Rightarrow> string \<Rightarrow> headers \<Rightarrow> 'w apiState \<Rightarrow> 'w apiResult" where
  "handleGetService srv name hs s =
     ifErr (onWorld (st_GetService (as_Store srv) name) s)
       (\<lambda>err s1.
          if err = ErrServiceNotFound
          then (Ok (writeError 404 ''service not found'' ''not_found'' hs), s1)
          else (Ok (writeError 500 ''failed to get service'' ''internal'' hs), s1))
       (\<lambda>rec s1. (Ok (writeJSON 200 (ServiceBody rec) hs), s1))"

text \<open>\<open>_ = call\<close>: the error is dropped.\<close>

definition ignoreErr :: "unit res \<times> 'w \<Rightarrow> unit res \<times> 'w" where
  "ignoreErr r = ifErr r (\<lambda>_ w. (Ok (), w)) (\<lambda>_ w. (Ok (), w))"

text \<open>Nothing is returned here; the result says whether a call panicked.\<close>

definition tearDownService :: "'w Client option \<Rightarrow> ServiceRecord \<Rightarrow> 'w \<Rightarrow> unit res \<times> 'w" where
  "tearDownService k8s rec w =
     (case k8s of
        None \<Rightarrow> (Ok (), w)
      | Some c \<Rightarrow>
          (let svcName = svc_Name rec in
           ifErr (ignoreErr (DeleteDeployment c svcName w))
             (\<lambda>err w1. (Err err, w1))
             (\<lambda>_ w1. if svc_IngressHost rec \<noteq> '''' then ignoreErr (DeleteIngress c svcName w1)
                     else (Ok (), w1))))"

definition handleDeleteService :: "'w apiServer \<Rightarrow> string \<Rightarrow> headers \<Rightarrow> 'w apiState \<Rightarrow> 'w apiResult" where
  "handleDeleteService srv name hs s =
     (let internal = (\<lambda>msg s1. (Ok (writeError 500 msg ''internal'' hs), s1)) in
      ifErr (onWorld (st_GetService (as_Store srv) name) s)
        (\<lambda>err s1.
           if err = ErrServiceNotFound
           then (Ok (writeError 404 ''service not found'' ''not_found'' hs), s1)
           else internal ''failed to get service'' s1)
        (\<lambda>rec s1.
           ifErr (onWorld (tearDownService (as_K8s srv) rec) s1)
             (\<lambda>_ s2. internal ''failed to delete service'' s2)
             (\<lambda>_ s2.
                ifErr (onWorld (st_DeleteService (as_Store srv) name) s2)
                  (\<lambda>_ s3. internal ''failed to delete service'' s3)
                  (\<lambda>_ s3. (Ok \<lparr>ar_Status = 204, ar_Headers = hs, ar_Body = NoBody\<rparr>, s3)))))"

section \<open>Telemetry\<close>

text \<open>A time in the query: absent, or parsed, or an error (\<open>None\<close>).\<close>

definition timeParam :: "string \<Rightarrow> time option option" where
  "timeParam v =
     (if v = '''' then Some None
      else (case parseRFC3339 (asciiBytes v) of None \<Rightarrow> None | Some t \<Rightarrow> Some (Some t)))"

definition badTime :: "string \<Rightarrow> headers \<Rightarrow> apiResponse" where
  "badTime field hs = writeError 400 (''invalid '' @ field @ '' timestamp'') ''bad_request'' hs"

definition handleListEvents :: "'w apiServer \<Rightarrow> string \<Rightarrow> 'w apiHandler" where
  "handleListEvents srv execID r hs s =
     (case as_Telemetry srv of
        None \<Rightarrow> (Ok (writeJSON 200 (EventsBody []) hs), s)
      | Some ch \<Rightarrow>
          (case timeParam (hq_Query r ''since'') of
             None \<Rightarrow> (Ok (badTime ''since'' hs), s)
           | Some since \<Rightarrow>
               ifErr (onWorld (\<lambda>w. (QueryExecutionEvents ch execID since
                        (parseIntParam (hq_Query r ''limit'') 100) w, w)) s)
                 (\<lambda>_ s1. (Ok (writeError 500 ''failed to query events'' ''internal'' hs), s1))
                 (\<lambda>events s1. (Ok (writeJSON 200 (EventsBody events) hs), s1))))"

definition handleListMetrics :: "'w apiServer \<Rightarrow> string \<Rightarrow> 'w apiHandler" where
  "handleListMetrics srv name r hs s =
     (case as_Telemetry srv of
        None \<Rightarrow> (Ok (writeJSON 200 (MetricsBody []) hs), s)
      | Some ch \<Rightarrow>
          (case timeParam (hq_Query r ''since'') of
             None \<Rightarrow> (Ok (badTime ''since'' hs), s)
           | Some since \<Rightarrow>
               (case timeParam (hq_Query r ''until'') of
                  None \<Rightarrow> (Ok (badTime ''until'' hs), s)
                | Some until \<Rightarrow>
                    ifErr (onWorld (\<lambda>w. (QueryServiceMetrics ch name since until
                             (parseIntParam (hq_Query r ''limit'') 100) w, w)) s)
                      (\<lambda>_ s1. (Ok (writeError 500 ''failed to query metrics'' ''internal'' hs), s1))
                      (\<lambda>metrics s1. (Ok (writeJSON 200 (MetricsBody metrics) hs), s1)))))"

text \<open>The filter of a log query; the rows made from state records are those of the log hub.\<close>

definition logFilterOf :: "(string \<Rightarrow> string) \<Rightarrow> time option \<Rightarrow> time option \<Rightarrow> LogFilter" where
  "logFilterOf q since until =
     \<lparr>lf_ExecutionID = q ''execution_id'', lf_ServiceName = q ''service_name'',
      lf_StateName = q ''state_name'', lf_Level = q ''level'', lf_Since = since, lf_Until = until,
      lf_Query = q ''q'', lf_Limit = parseIntParam (q ''limit'') 100,
      lf_Offset = parseIntParam (q ''offset'') 0\<rparr>"

definition listStateLogs :: "'w apiServer \<Rightarrow> string \<Rightarrow> headers \<Rightarrow> 'w apiState \<Rightarrow> 'w apiResult" where
  "listStateLogs srv execID hs s =
     (if execID = '''' then (Ok (writeJSON 200 (LogsBody [] 0) hs), s)
      else
        ifErr (onWorld (st_ListStates (as_Store srv) execID) s)
          (\<lambda>_ s1. (Ok (writeJSON 200 (LogsBody [] 0) hs), s1))
          (\<lambda>states s1.
             (let rows = concat (map stateLogs states)
              in (Ok (writeJSON 200 (LogsBody rows (int (length rows))) hs), s1))))"

definition handleListLogs :: "'w apiServer \<Rightarrow> 'w apiHandler" where
  "handleListLogs srv r hs s =
     (case as_Telemetry srv of
        None \<Rightarrow> listStateLogs srv (hq_Query r ''execution_id'') hs s
      | Some ch \<Rightarrow>
          (case timeParam (hq_Query r ''since'') of
             None \<Rightarrow> (Ok (badTime ''since'' hs), s)
           | Some since \<Rightarrow>
               (case timeParam (hq_Query r ''until'') of
                  None \<Rightarrow> (Ok (badTime ''until'' hs), s)
                | Some until \<Rightarrow>
                    ifErr (onWorld (\<lambda>w. (QueryLogs ch (logFilterOf (hq_Query r) since until) w, w)) s)
                      (\<lambda>_ s1. (Ok (writeError 500 ''failed to query logs'' ''internal'' hs), s1))
                      (\<lambda>(logs, cnt) s1. (Ok (writeJSON 200 (LogsBody logs cnt) hs), s1)))))"

section \<open>Server-sent events\<close>

text \<open>The regular expression \<open>^[a-zA-Z0-9_-]{1,128}$\<close>.\<close>

definition execIDChar :: "char \<Rightarrow> bool" where
  "execIDChar c \<longleftrightarrow>
     (let n = of_char c :: nat in
      97 \<le> n \<and> n \<le> 122 \<or> 65 \<le> n \<and> n \<le> 90 \<or> 48 \<le> n \<and> n \<le> 57 \<or> n = 95 \<or> n = 45)"

definition execIDRe :: "string \<Rightarrow> bool" where
  "execIDRe s \<longleftrightarrow> s \<noteq> '''' \<and> length s \<le> 128 \<and> list_all execIDChar s"

definition handleExecutionStream :: "string \<Rightarrow> 'w apiHandler" where
  "handleExecutionStream execID r hs s =
     (if \<not> execIDRe execID then (Ok (writeError 400 ''invalid execution id'' ''bad_request'' hs), s)
      else if \<not> aq_Flusher r
      then (Ok (writeError 500 ''streaming unsupported'' ''internal'' hs), s)
      else
        (case subscribe (ap_hub s) of
           (ch, hub) \<Rightarrow>
             (Ok \<lparr>ar_Status = 200,
                  ar_Headers = hs @ [(''Content-Type'', ''text/event-stream''), (''Cache-Control'', ''no-cache''),
                                     (''Connection'', ''keep-alive''), (''X-Accel-Buffering'', ''no'')],
                  ar_Body = StreamBody ch\<rparr>,
              s\<lparr>ap_hub := hub\<rparr>)))"

text \<open>
  One round of the loop: the request is cancelled, the ticker fires, or the channel gives an event
  (or is closed).  The result is what is written and whether the loop goes on.
\<close>

datatype selectCase = CtxDone | Tick | Received "WSEvent option"
datatype sseChunk = Keepalive | DataEvent WSEvent

definition streamEvent :: "string \<Rightarrow> WSEvent \<Rightarrow> sseChunk list" where
  "streamEvent execID ev =
     (if we_Type ev \<noteq> ''state_transition'' then []
      else (case we_Payload ev of
              StateTransitionPayload e sn from to err \<Rightarrow> if e \<noteq> execID then [] else [DataEvent ev]
            | _ \<Rightarrow> []))"

fun streamStep :: "string \<Rightarrow> selectCase \<Rightarrow> sseChunk list \<times> bool" where
  "streamStep execID CtxDone = ([], False)"
| "streamStep execID Tick = ([Keepalive], True)"
| "streamStep execID (Received None) = ([], False)"
| "streamStep execID (Received (Some ev)) = (streamEvent execID ev, True)"

fun streamLoop :: "string \<Rightarrow> selectCase list \<Rightarrow> sseChunk list" where
  "streamLoop execID [] = []"
| "streamLoop execID (c # cs) =
     (case streamStep execID c of
        (out, goOn) \<Rightarrow> if goOn then out @ streamLoop execID cs else out)"

section \<open>WebSockets\<close>

definition ServeWS :: "'w apiServer \<Rightarrow> 'w apiHandler" where
  "ServeWS srv r hs s =
     (case as_Upgrade srv r (ap_world s) of
        (Inr (err, resp), w) \<Rightarrow>
          (Ok resp, s\<lparr>ap_world := rt_Log (as_Runtime srv) (Sprintf [FL ''ws_hub: upgrade: '', FV err]) w\<rparr>)
      | (Inl conn, w) \<Rightarrow>
          (case ap_hub s of (h, hp) \<Rightarrow>
             (Ok \<lparr>ar_Status = 101, ar_Headers = hs, ar_Body = SocketBody conn None\<rparr>,
              s\<lparr>ap_hub := (Register conn h, hp), ap_world := w\<rparr>)))"

text \<open>The goroutine of the connection, when reading fails: \<open>Close\<close>, then \<open>Unregister\<close>.\<close>

definition disconnectWS :: "'w apiServer \<Rightarrow> nat \<Rightarrow> 'w apiState \<Rightarrow> 'w apiState" where
  "disconnectWS srv conn s =
     (case ap_hub s of (h, hp) \<Rightarrow>
        s\<lparr>ap_hub := (Unregister conn h, hp), ap_world := snd (ws_Close (as_Websocket srv) conn (ap_world s))\<rparr>)"

definition logsForFilter ::
    "'w apiServer \<Rightarrow> string \<Rightarrow> string \<Rightarrow> string \<Rightarrow> string \<Rightarrow> int \<Rightarrow> int \<Rightarrow> 'w \<Rightarrow> LogRow list res \<times> 'w" where
  "logsForFilter srv execID serviceName stateName level limit offset w =
     (case as_Telemetry srv of
        None \<Rightarrow>
          if execID = '''' then (Ok [], w)
          else ifErr (st_ListStates (as_Store srv) execID w)
                 (\<lambda>err w1. (Err err, w1))
                 (\<lambda>states w1. (Ok (concat (map stateLogs states)), w1))
      | Some ch \<Rightarrow>
          ifErr (QueryLogs ch \<lparr>lf_ExecutionID = execID, lf_ServiceName = serviceName,
                   lf_StateName = stateName, lf_Level = level, lf_Since = None, lf_Until = None,
                   lf_Query = '''', lf_Limit = limit, lf_Offset = offset\<rparr> w, w)
            (\<lambda>err w1. (Err err, w1))
            (\<lambda>(logs, _) w1. (Ok logs, w1)))"

definition sendWS :: "'w apiServer \<Rightarrow> nat \<Rightarrow> WSEvent \<Rightarrow> 'w \<Rightarrow> goerr option \<times> 'w" where
  "sendWS srv conn ev w =
     ws_WriteJSON (as_Websocket srv) conn ev
       (snd (ws_SetWriteDeadline (as_Websocket srv) conn (rt_Now (as_Runtime srv) w + 5 * Second) w))"

definition logEntryEvent :: "time \<Rightarrow> LogRow \<Rightarrow> WSEvent" where
  "logEntryEvent now row =
     \<lparr>we_Type = ''log_entry'',
      we_Payload = LogEntryPayload (lr_LogID row) (lr_ExecutionID row) (lr_ServiceName row)
        (lr_StateName row) (lr_Level row) (lr_Message row) (lr_OccurredAt row),
      we_Timestamp = now\<rparr>"

fun sendRows :: "'w apiServer \<Rightarrow> nat \<Rightarrow> LogRow list \<Rightarrow> 'w \<Rightarrow> goerr option \<times> 'w" where
  "sendRows srv conn [] w = (None, w)"
| "sendRows srv conn (row # rows) w =
     (case sendWS srv conn (logEntryEvent (rt_Now (as_Runtime srv) w) row) w of
        (Some err, w1) \<Rightarrow> (Some err, w1)
      | (None, w1) \<Rightarrow> sendRows srv conn rows w1)"

definition closedSocket :: "'w apiServer \<Rightarrow> nat \<Rightarrow> headers \<Rightarrow> 'w apiState \<Rightarrow> 'w apiResult" where
  "closedSocket srv conn hs s =
     (Ok \<lparr>ar_Status = 101, ar_Headers = hs, ar_Body = SocketBody conn None\<rparr>,
      s\<lparr>ap_world := snd (ws_Close (as_Websocket srv) conn (ap_world s))\<rparr>)"

definition handleWSLogs :: "'w apiServer \<Rightarrow> 'w apiHandler" where
  "handleWSLogs srv r hs s =
     (case as_Upgrade srv r (ap_world s) of
        (Inr (err, resp), w) \<Rightarrow>
          (Ok resp, s\<lparr>ap_world := rt_Log (as_Runtime srv) (Sprintf [FL ''ws_logs: upgrade: '', FV err]) w\<rparr>)
      | (Inl conn, w) \<Rightarrow>
          (let q = hq_Query r in
           ifErr (onWorld (logsForFilter srv (q ''execution_id'') (q ''service_name'') (q ''state_name'')
                    (q ''level'') (parseIntParam (q ''limit'') 100) (parseIntParam (q ''offset'') 0))
                    (s\<lparr>ap_world := w\<rparr>))
             (\<lambda>err s1. closedSocket srv conn hs
                (s1\<lparr>ap_world := rt_Log (as_Runtime srv) (Sprintf [FL ''ws_logs: query: '', FV err]) (ap_world s1)\<rparr>))
             (\<lambda>rows s1.
                (case sendRows srv conn rows (ap_world s1) of
                   (Some err, w1) \<Rightarrow> closedSocket srv conn hs (s1\<lparr>ap_world := w1\<rparr>)
                 | (None, w1) \<Rightarrow>
                     (case sendWS srv conn \<lparr>we_Type = ''logs_end'', we_Payload = NilPayload,
                             we_Timestamp = rt_Now (as_Runtime srv) w1\<rparr> w1 of
                        (Some err, w2) \<Rightarrow> closedSocket srv conn hs (s1\<lparr>ap_world := w2\<rparr>)
                      | (None, w2) \<Rightarrow>
                          (case subscribe (ap_hub s1) of
                             (ch, hub) \<Rightarrow>
                               (Ok \<lparr>ar_Status = 101, ar_Headers = hs, ar_Body = SocketBody conn (Some ch)\<rparr>,
                                s1\<lparr>ap_hub := hub, ap_world := w2\<rparr>)))))))"

text \<open>Which live events the connection gets, by the query of its request.\<close>

definition logEventMatches :: "(string \<Rightarrow> string) \<Rightarrow> WSEvent \<Rightarrow> bool" where
  "logEventMatches q ev \<longleftrightarrow>
     we_Type ev = ''log_entry'' \<and>
     (case we_Payload ev of
        LogEntryPayload _ e sv sn lv _ _ \<Rightarrow>
          \<not> (q ''execution_id'' \<noteq> '''' \<and> e \<noteq> q ''execution_id'') \<and>
          \<not> (q ''service_name'' \<noteq> '''' \<and> sv \<noteq> q ''service_name'') \<and>
          \<not> (q ''state_name'' \<noteq> '''' \<and> sn \<noteq> q ''state_name'') \<and>
          \<not> (q ''level'' \<noteq> '''' \<and> lv \<noteq> q ''level'')
      | _ \<Rightarrow> False)"

text \<open>One event from the channel; the stream ends when the client cannot be written to.\<close>

definition relayEvent ::
    "'w apiServer \<Rightarrow> nat \<Rightarrow> (string \<Rightarrow> string) \<Rightarrow> nat \<Rightarrow> 'w apiState \<Rightarrow> bool \<times> 'w apiState" where
  "relayEvent srv conn q ch s =
     (case ap_hub s of (h, hp) \<Rightarrow>
        (case takeChan ch hp of
           (None, hp1) \<Rightarrow> (True, s)
         | (Some ev, hp1) \<Rightarrow>
             (let s1 = s\<lparr>ap_hub := (h, hp1)\<rparr> in
              if \<not> logEventMatches q ev then (True, s1)
              else (case sendWS srv conn ev (ap_world s1) of
                      (err, w1) \<Rightarrow> (err = None, s1\<lparr>ap_world := w1\<rparr>)))))"

text \<open>The deferred calls at the end of a log stream: \<open>unsubscribe\<close>, then \<open>Close\<close>.\<close>

definition endWSLogs :: "'w apiServer \<Rightarrow> nat \<Rightarrow> nat \<Rightarrow> 'w apiState \<Rightarrow> unit res \<times> 'w apiState" where
  "endWSLogs srv conn ch s =
     (case unsubscribe ch (ap_hub s) of
        (r, hub) \<Rightarrow>
          (r, s\<lparr>ap_hub := hub, ap_world := snd (ws_Close (as_Websocket srv) conn (ap_world s))\<rparr>))"

section \<open>Routing\<close>

datatype apiRoute =
    RHealthz | RReadyz | RListWorkflows | RRegisterWorkflow | RGetWorkflow | RRunWorkflow
  | RListExecutions | RGetExecution | RListStates | RExecutionStream | RListServices | RCreateService
  | RGetService | RDeleteService | RServeWS | RWSLogs | RAuthToken | RAuthStatus | RListEvents
  | RListMetrics | RListLogs

text \<open>A segment of a pattern: literal, or a wildcard that matches one segment.\<close>

datatype patSeg = Lit string | Wild

definition apiPath :: "patSeg list \<Rightarrow> patSeg list" where
  "apiPath p = [Lit ''api'', Lit ''v1''] @ p"

definition registerRoutes :: "(string \<times> patSeg list \<times> apiRoute) list" where
  "registerRoutes =
     [(''GET'', [Lit ''healthz''], RHealthz),
      (''GET'', [Lit ''readyz''], RReadyz),
      (''GET'', apiPath [Lit ''workflows''], RListWorkflows),
      (''POST'', apiPath [Lit ''workflows''], RRegisterWorkflow),
      (''GET'', apiPath [Lit ''workflows'', Wild], RGetWorkflow),
      (''POST'', apiPath [Lit ''workflows'', Wild, Lit ''run''], RRunWorkflow),
      (''GET'', apiPath [Lit ''executions''], RListExecutions),
      (''GET'', apiPath [Lit ''executions'', Wild], RGetExecution),
      (''GET'', apiPath [Lit ''executions'', Wild, Lit ''states''], RListStates),
      (''GET'', apiPath [Lit ''executions'', Wild, Lit ''stream''], RExecutionStream),
      (''GET'', apiPath [Lit ''services''], RListServices),
      (''POST'', apiPath [Lit ''services''], RCreateService),
      (''GET'', apiPath [Lit ''services'', Wild], RGetService),
      (''DELETE'', apiPath [Lit ''services'', Wild], RDeleteService),
      (''GET'', apiPath [Lit ''ws''], RServeWS),
      (''GET'', apiPath [Lit ''ws'', Lit ''logs''], RWSLogs),
      (''POST'', apiPath [Lit ''auth'', Lit ''token''], RAuthToken),
      (''GET'', apiPath [Lit ''auth'', Lit ''status''], RAuthStatus),
      (''GET'', apiPath [Lit ''executions'', Wild, Lit ''events''], RListEvents),
      (''GET'', apiPath [Lit ''services'', Wild, Lit ''metrics''], RListMetrics),
      (''GET'', apiPath [Lit ''logs''], RListLogs)]"

text \<open>
  \<open>http.ServeMux\<close> for requests with a canonical path: the segments after the leading slash; a pattern
  with the method GET also matches HEAD.  No two of the patterns match the same request.
\<close>

fun splitSlash :: "string \<Rightarrow> string list" where
  "splitSlash [] = [[]]"
| "splitSlash (c # cs) =
     (if c = CHR ''/'' then [] # splitSlash cs
      else (case splitSlash cs of [] \<Rightarrow> [[c]] | p # ps \<Rightarrow> (c # p) # ps))"

fun matchSegs :: "patSeg list \<Rightarrow> string list \<Rightarrow> string list option" where
  "matchSegs [] [] = Some []"
| "matchSegs (Lit l # ps) (x # xs) = (if x = l then matchSegs ps xs else None)"
| "matchSegs (Wild # ps) (x # xs) = (if x = '''' then None else map_option ((#) x) (matchSegs ps xs))"
| "matchSegs _ _ = None"

definition methodMatches :: "string \<Rightarrow> string \<Rightarrow> bool" where
  "methodMatches pat meth \<longleftrightarrow> pat = meth \<or> pat = ''GET'' \<and> meth = ''HEAD''"

text \<open>The patterns that match a path: their methods, routes and the values of their wildcards.\<close>

definition pathMatches :: "string \<Rightarrow> (string \<times> apiRoute \<times> string list) list" where
  "pathMatches path =
     List.map_filter
       (\<lambda>(meth, pat, rt). map_option (\<lambda>vs. (meth, rt, vs)) (matchSegs pat (tl (splitSlash path))))
       registerRoutes"

definition pathValue :: "string list \<Rightarrow> string" where
  "pathValue vs = (case vs of [] \<Rightarrow> '''' | v # _ \<Rightarrow> v)"

definition dispatch :: "'w apiServer \<Rightarrow> apiRoute \<Rightarrow> string \<Rightarrow> 'w apiHandler" where
  "dispatch srv rt v r hs s =
     (case rt of
        RHealthz \<Rightarrow> handleHealthz hs s
      | RReadyz \<Rightarrow> handleReadyz hs s
      | RListWorkflows \<Rightarrow> handleListWorkflows srv hs s
      | RRegisterWorkflow \<Rightarrow> handleRegisterWorkflow srv r hs s
      | RGetWorkflow \<Rightarrow> handleGetWorkflow v hs s
      | RRunWorkflow \<Rightarrow> handleRunWorkflow srv v r hs s
      | RListExecutions \<Rightarrow> handleListExecutions srv r hs s
      | RGetExecution \<Rightarrow> handleGetExecution srv v hs s
      | RListStates \<Rightarrow> handleListStates srv v hs s
      | RExecutionStream \<Rightarrow> handleExecutionStream v r hs s
      | RListServices \<Rightarrow> handleListServices srv hs s
      | RCreateService \<Rightarrow> handleCreateService srv r hs s
      | RGetService \<Rightarrow> handleGetService srv v hs s
      | RDeleteService \<Rightarrow> handleDeleteService srv v hs s
      | RServeWS \<Rightarrow> ServeWS srv r hs s
      | RWSLogs \<Rightarrow> handleWSLogs srv r hs s
      | RAuthToken \<Rightarrow> handleAuthToken srv r hs s
      | RAuthStatus \<Rightarrow> handleAuthStatus srv hs s
      | RListEvents \<Rightarrow> handleListEvents srv v r hs s
      | RListMetrics \<Rightarrow> handleListMetrics srv v r hs s
      | RListLogs \<Rightarrow> handleListLogs srv r hs s)"

text \<open>The methods of the patterns that match a path, sorted, where GET allows HEAD.\<close>

definition allowedMethods :: "(string \<times> apiRoute \<times> string list) list \<Rightarrow> string list" where
  "allowedMethods ms =
     filter (\<lambda>m. \<exists>x \<in> set ms. methodMatches (fst x) m) [''DELETE'', ''GET'', ''HEAD'', ''POST'']"

definition joinComma :: "string list \<Rightarrow> string" where
  "joinComma ms = (case ms of [] \<Rightarrow> [] | m # rest \<Rightarrow> m @ concat (map (\<lambda>x. '', '' @ x) rest))"

definition apiMux :: "'w apiServer \<Rightarrow> 'w apiHandler" where
  "apiMux srv r hs s =
     (let ms = pathMatches (hq_Path r) in
      case find (\<lambda>(meth, _). methodMatches meth (hq_Method r)) ms of
        Some (_, rt, vs) \<Rightarrow> dispatch srv rt (pathValue vs) r hs s
      | None \<Rightarrow>
          if ms = [] then (Ok (apiHttpError ''404 page not found'' 404 hs), s)
          else (Ok (apiHttpError ''Method Not Allowed'' 405
                  (hs @ [(''Allow'', joinComma (allowedMethods ms))])), s))"

section \<open>Authentication\<close>

definition exemptPaths :: "string list" where
  "exemptPaths = [''/healthz'', ''/readyz'', ''/api/v1/auth/status'']"

definition hasPrefix :: "string \<Rightarrow> string \<Rightarrow> bool" where
  "hasPrefix s p \<longleftrightarrow> take (length p) s = p"

definition hasSuffix :: "string \<Rightarrow> string \<Rightarrow> bool" where
  "hasSuffix s p \<longleftrightarrow> length p \<le> length s \<and> drop (length s - length p) s = p"

text \<open>The token of a request: streams and sockets may give it in the query.\<close>

definition requestToken :: "apiRequest \<Rightarrow> string" where
  "requestToken r =
     (let auth = hq_Header r ''Authorization'' in
      if hasPrefix auth bearer then drop (length bearer) auth
      else if hasPrefix (hq_Path r) ''/api/v1/ws'' \<or> hasSuffix (hq_Path r) ''/stream'' then hq_Query r ''token''
      else '''')"

definition publicRequest :: "apiRequest \<Rightarrow> bool" where
  "publicRequest r \<longleftrightarrow>
     hq_Path r \<in> set exemptPaths \<or> hq_Method r = ''POST'' \<and> hq_Path r = ''/api/v1/auth/token''"

definition BearerAuthMiddleware :: "('w apiState \<Rightarrow> time) \<Rightarrow> string \<Rightarrow> 'w apiHandler \<Rightarrow> 'w apiHandler" where
  "BearerAuthMiddleware clock apiKey nxt r hs s =
     (if apiKey = '''' then nxt r hs s
      else if hq_Path r \<in> set exemptPaths then nxt r hs s
      else if hq_Method r = ''POST'' \<and> hq_Path r = ''/api/v1/auth/token'' then nxt r hs s
      else if requestToken r = '''' then (Ok (writeError 401 ''unauthorized'' ''auth_required'' hs), s)
      else if api_validateToken (clock s) (requestToken r) apiKey then nxt r hs s
      else (Ok (writeError 401 ''unauthorized'' ''auth_required'' hs), s))"

definition securityHeaders :: headers where
  "securityHeaders = [(''X-Content-Type-Options'', ''nosniff''), (''X-Frame-Options'', ''DENY'')]"

definition ServeHTTP :: "'w apiServer \<Rightarrow> apiRequest \<Rightarrow> 'w apiState \<Rightarrow> 'w apiResult" where
  "ServeHTTP srv r s =
     BearerAuthMiddleware (\<lambda>s. rt_Now (as_Runtime srv) (ap_world s)) (as_APIKey srv) (apiMux srv) r
       securityHeaders s"

end
