(* ===== verification/Url.thy ===== *)
theory Url
  imports Prelude "HOL-Library.Monad_Syntax"
begin

text \<open>
  What the programs use of package net/url: escaping of query components, the encoding of
  \<open>url.Values\<close> and its parsing on the other side.  A string is a list of bytes.
\<close>

section \<open>Escaping\<close>

definition byteOf :: "char \<Rightarrow> nat" where
  "byteOf c = of_char c"

definition unreserved :: "char \<Rightarrow> bool" where
  "unreserved c \<longleftrightarrow>
     (let n = byteOf c in
      97 \<le> n \<and> n \<le> 122 \<or> 65 \<le> n \<and> n \<le> 90 \<or> 48 \<le> n \<and> n \<le> 57 \<or> c \<in> set ''-_.~'')"

definition upperHex :: "nat \<Rightarrow> char" where
  "upperHex n = (if n < 10 then char_of (48 + n) else char_of (55 + n))"

definition escapeByte :: "char \<Rightarrow> string" where
  "escapeByte c =
     (if unreserved c then [c]
      else if c = CHR '' '' then ''+''
      else [CHR ''%'', upperHex (byteOf c div 16), upperHex (byteOf c mod 16)])"

definition QueryEscape :: "string \<Rightarrow> string" where
  "QueryEscape s = concat (map escapeByte s)"

definition unhex :: "char \<Rightarrow> nat option" where
  "unhex c =
     (let n = byteOf c in
      if 48 \<le> n \<and> n \<le> 57 then Some (n - 48)
      else if 97 \<le> n \<and> n \<le> 102 then Some (n - 87)
      else if 65 \<le> n \<and> n \<le> 70 then Some (n - 55) else None)"

fun QueryUnescape :: "string \<Rightarrow> string option" where
  "QueryUnescape [] = Some []"
| "QueryUnescape (c # s) =
     (if c = CHR ''%''
      then (case s of
              a # b # r \<Rightarrow>
                do { x \<leftarrow> unhex a; y \<leftarrow> unhex b; t \<leftarrow> QueryUnescape r; Some (char_of (16 * x + y) # t) }
            | _ \<Rightarrow> None)
      else map_option ((#) (if c = CHR ''+'' then CHR '' '' else c)) (QueryUnescape s))"

text \<open>The path of a URL, where a plus sign stands for itself.\<close>

fun PathUnescape :: "string \<Rightarrow> string option" where
  "PathUnescape [] = Some []"
| "PathUnescape (c # s) =
     (if c = CHR ''%''
      then (case s of
              a # b # r \<Rightarrow>
                do { x \<leftarrow> unhex a; y \<leftarrow> unhex b; t \<leftarrow> PathUnescape r; Some (char_of (16 * x + y) # t) }
            | _ \<Rightarrow> None)
      else map_option ((#) c) (PathUnescape s))"

section \<open>Values\<close>

text \<open>\<open>Values.Encode\<close> of values with one entry per key, in the order of their keys.\<close>

fun joinAmp :: "string list \<Rightarrow> string" where
  "joinAmp [] = []"
| "joinAmp [x] = x"
| "joinAmp (x # xs) = x @ ''&'' @ joinAmp xs"

definition Encode :: "(string \<times> string) list \<Rightarrow> string" where
  "Encode kvs = joinAmp (map (\<lambda>(k, v). QueryEscape k @ ''='' @ QueryEscape v) kvs)"

text \<open>
  \<open>URL.Query\<close>: the parts between ampersands, cut at the first equals sign; a part with a semicolon or
  with a bad escape is dropped, as is an empty one.
\<close>

fun splitAt :: "char \<Rightarrow> string \<Rightarrow> string list" where
  "splitAt d [] = [[]]"
| "splitAt d (c # cs) =
     (if c = d then [] # splitAt d cs
      else (case splitAt d cs of [] \<Rightarrow> [[c]] | p # ps \<Rightarrow> (c # p) # ps))"

definition cutEq :: "string \<Rightarrow> string \<times> string" where
  "cutEq s = (takeWhile (\<lambda>c. c \<noteq> CHR ''='') s, tl (dropWhile (\<lambda>c. c \<noteq> CHR ''='') s))"

text \<open>What follows the host of a URL: the path and the raw query, without the fragment.\<close>

definition cutTarget :: "string \<Rightarrow> string \<times> string" where
  "cutTarget s =
     (let u = takeWhile (\<lambda>c. c \<noteq> CHR ''#'') s
      in (takeWhile (\<lambda>c. c \<noteq> CHR ''?'') u, tl (dropWhile (\<lambda>c. c \<noteq> CHR ''?'') u)))"

text \<open>
  A path that \<open>http.ServeMux\<close> matches as it is: it starts with a slash, no segment but the last is
  empty, and no segment is a dot or two dots or hides a slash in an escape.  For any other path
  \<open>ServeMux\<close> may answer with a redirect.
\<close>

definition canonicalPath :: "string \<Rightarrow> bool" where
  "canonicalPath p \<longleftrightarrow>
     (case splitAt (CHR ''/'') p of
        first # segs \<Rightarrow>
          first = '''' \<and> segs \<noteq> [] \<and> '''' \<notin> set (butlast segs) \<and>
          list_all (\<lambda>s. case PathUnescape s of
            None \<Rightarrow> False | Some t \<Rightarrow> t \<noteq> ''.'' \<and> t \<noteq> ''..'' \<and> CHR ''/'' \<notin> set t) segs
      | [] \<Rightarrow> False)"

definition parsePair :: "string \<Rightarrow> (string \<times> string) option" where
  "parsePair s =
     (if s = [] \<or> CHR '';'' \<in> set s then None
      else do { k \<leftarrow> QueryUnescape (fst (cutEq s)); v \<leftarrow> QueryUnescape (snd (cutEq s)); Some (k, v) })"

definition parseQuery :: "string \<Rightarrow> (string \<times> string) list" where
  "parseQuery s = List.map_filter parsePair (splitAt (CHR ''&'') s)"

definition queryGet :: "(string \<times> string) list \<Rightarrow> string \<Rightarrow> string" where
  "queryGet kvs k = (case map_of kvs k of None \<Rightarrow> '''' | Some v \<Rightarrow> v)"

section \<open>Parsing what was encoded\<close>

lemma unhex_upperHex: "n < 16 \<Longrightarrow> unhex (upperHex n) = Some n"
  by (simp add: unhex_def upperHex_def byteOf_def)

lemma QueryUnescape_escapeByte: "QueryUnescape (escapeByte c @ s) = map_option ((#) c) (QueryUnescape s)"
proof -
  have n: "byteOf c < 256" by (simp add: byteOf_def)
  then have d: "unhex (upperHex (byteOf c div 16)) = Some (byteOf c div 16)"
    "unhex (upperHex (byteOf c mod 16)) = Some (byteOf c mod 16)"
    by (simp_all add: unhex_upperHex less_mult_imp_div_less)
  have "char_of (16 * (byteOf c div 16) + byteOf c mod 16) = c" by (simp add: byteOf_def)
  moreover have "unreserved c \<Longrightarrow> c \<noteq> CHR ''%'' \<and> c \<noteq> CHR ''+''"
    by (auto simp: unreserved_def byteOf_def)
  ultimately show ?thesis
    using d by (cases "QueryUnescape s") (auto simp: escapeByte_def)
qed

lemma QueryUnescape_escape: "QueryUnescape (QueryEscape s) = Some s"
  by (induction s) (simp_all add: QueryEscape_def QueryUnescape_escapeByte)

lemma upperHex_plain: "n < 16 \<Longrightarrow> upperHex n \<notin> {CHR ''&'', CHR ''='', CHR '';''}"
  using unhex_upperHex [of n] by (auto simp: unhex_def byteOf_def Let_def)

lemma escapeByte_plain: "x \<in> set (escapeByte c) \<Longrightarrow> x \<noteq> CHR ''&'' \<and> x \<noteq> CHR ''='' \<and> x \<noteq> CHR '';''"
proof -
  have "byteOf c div 16 < 16" by (simp add: byteOf_def less_mult_imp_div_less)
  then have "upperHex (byteOf c div 16) \<notin> {CHR ''&'', CHR ''='', CHR '';''}"
    "upperHex (byteOf c mod 16) \<notin> {CHR ''&'', CHR ''='', CHR '';''}"
    by (simp_all add: upperHex_plain del: insert_iff)
  moreover have "unreserved c \<Longrightarrow> c \<notin> {CHR ''&'', CHR ''='', CHR '';''}"
    by (auto simp: unreserved_def byteOf_def)
  moreover assume "x \<in> set (escapeByte c)"
  ultimately show ?thesis by (auto simp: escapeByte_def split: if_splits)
qed

lemma QueryEscape_plain: "x \<in> set (QueryEscape s) \<Longrightarrow> x \<noteq> CHR ''&'' \<and> x \<noteq> CHR ''='' \<and> x \<noteq> CHR '';''"
  using escapeByte_plain by (auto simp: QueryEscape_def)

lemma splitAt_plain: "d \<notin> set a \<Longrightarrow> splitAt d a = [a]"
  by (induction a) auto

lemma splitAt_sep: "d \<notin> set a \<Longrightarrow> splitAt d (a @ d # b) = a # splitAt d b"
  by (induction a) auto

lemma parsePair_encoded: "parsePair (QueryEscape k @ ''='' @ QueryEscape v) = Some (k, v)"
proof -
  let ?s = "QueryEscape k @ ''='' @ QueryEscape v"
  have no: "\<forall>x \<in> set (QueryEscape k). x \<noteq> CHR ''=''" using QueryEscape_plain by blast
  then have "cutEq ?s = (QueryEscape k, QueryEscape v)"
    by (simp add: cutEq_def takeWhile_append2 dropWhile_append2)
  moreover have "CHR '';'' \<notin> set ?s" using QueryEscape_plain by auto
  ultimately show ?thesis by (simp add: parsePair_def QueryUnescape_escape)
qed

lemma splitAt_joinAmp:
  assumes "\<forall>x \<in> set xs. CHR ''&'' \<notin> set x" and "xs \<noteq> []"
  shows "splitAt (CHR ''&'') (joinAmp xs) = xs"
  using assms by (induction xs rule: joinAmp.induct) (simp_all add: splitAt_plain splitAt_sep)

lemma parseQuery_Encode: "parseQuery (Encode kvs) = kvs"
proof (cases "kvs = []")
  case True
  then show ?thesis by (simp add: parseQuery_def Encode_def parsePair_def List.map_filter_simps)
next
  case False
  let ?xs = "map (\<lambda>(k, v). QueryEscape k @ ''='' @ QueryEscape v) kvs"
  have "CHR ''&'' \<notin> set (QueryEscape s)" for s using QueryEscape_plain by blast
  then have "\<forall>x \<in> set ?xs. CHR ''&'' \<notin> set x" by auto
  with False have "parseQuery (Encode kvs) = List.map_filter parsePair ?xs"
    by (simp add: parseQuery_def Encode_def splitAt_joinAmp)
  also have "\<dots> = kvs" using parsePair_encoded by (induction kvs) (auto simp: List.map_filter_simps)
  finally show ?thesis .
qed

section \<open>Targets\<close>

lemma PathUnescape_plain: "CHR ''%'' \<notin> set s \<Longrightarrow> PathUnescape s = Some s"
  by (induction s) auto

lemma upperHex_no_hash: "n < 16 \<Longrightarrow> upperHex n \<noteq> CHR ''#''"
  using unhex_upperHex [of n] by (auto simp: unhex_def byteOf_def Let_def)

lemma QueryEscape_no_hash: "CHR ''#'' \<notin> set (QueryEscape s)"
proof -
  have "CHR ''#'' \<notin> set (escapeByte c)" for c
  proof -
    have "byteOf c div 16 < 16" by (simp add: byteOf_def less_mult_imp_div_less)
    then have "upperHex (byteOf c div 16) \<noteq> CHR ''#''" "upperHex (byteOf c mod 16) \<noteq> CHR ''#''"
      by (simp_all add: upperHex_no_hash)
    then show ?thesis by (auto simp: escapeByte_def unreserved_def byteOf_def)
  qed
  then show ?thesis by (simp add: QueryEscape_def)
qed

lemma joinAmp_set: "set (joinAmp xs) \<subseteq> insert (CHR ''&'') (\<Union> (set ` set xs))"
  by (induction xs rule: joinAmp.induct) auto

lemma Encode_no_hash: "CHR ''#'' \<notin> set (Encode kvs)"
  using joinAmp_set [of "map (\<lambda>(k, v). QueryEscape k @ ''='' @ QueryEscape v) kvs"]
  by (auto simp: Encode_def QueryEscape_no_hash)

definition plainPath :: "string \<Rightarrow> bool" where
  "plainPath p \<longleftrightarrow> list_all (\<lambda>c. c \<noteq> CHR ''#'' \<and> c \<noteq> CHR ''?'' \<and> c \<noteq> CHR ''%'') p"

lemma cutTarget_path: "plainPath p \<Longrightarrow> cutTarget p = (p, '''')"
  by (simp add: cutTarget_def plainPath_def list_all_iff takeWhile_eq_all_conv [THEN iffD2] dropWhile_eq_Nil_conv [THEN iffD2])

lemma cutTarget_query:
  assumes "plainPath p" and "CHR ''#'' \<notin> set q"
  shows "cutTarget (p @ ''?'' @ q) = (p, q)"
proof -
  have "takeWhile (\<lambda>c. c \<noteq> CHR ''#'') (p @ ''?'' @ q) = p @ ''?'' @ q"
    by (subst takeWhile_eq_all_conv) (use assms in \<open>auto simp: plainPath_def list_all_iff\<close>)
  then show ?thesis
    using assms by (simp add: cutTarget_def plainPath_def list_all_iff takeWhile_append2 dropWhile_append2)
qed

lemma PathUnescape_plainPath: "plainPath p \<Longrightarrow> PathUnescape p = Some p"
  by (rule PathUnescape_plain) (auto simp: plainPath_def list_all_iff)

end
