(* ===== verification/Cli.thy ===== *)
theory Cli
  imports Api Url Worker
begin

text \<open>
  cmd/kflow: the command line client.  A command takes its flags (as cobra has parsed them) and the
  machine it runs on, and returns nil or an error and the machine it leaves: its files, its output
  and the network.  The HTTP transport, the dialer of the WebSocket library and \<open>url.Parse\<close> are
  parameters, and so are the text and the value of a JSON number, which is a float.
\<close>

section \<open>The machine and the process\<close>

record 'x machine =
  mc_files :: "string \<rightharpoonup> string"
  mc_stdout :: "string list"
  mc_stderr :: "string list"
  mc_net :: 'x

record cliRequest =
  cq_Method :: string
  cq_URL :: string
  cq_Headers :: headers
  cq_Body :: string

record cliResponse =
  cs_Status :: int
  cs_Body :: "string res"

text \<open>What \<open>doJSON\<close> is given as a body; \<open>nil\<close> is no body.\<close>

datatype cliBody = MapBody gomap | InputBody gomap | KeyBody string

text \<open>
  A \<open>url.URL\<close>: the user information, the host and the fragment are the texts that \<open>String\<close> writes for
  them.
\<close>

record parsedURL =
  pu_Scheme :: string
  pu_Opaque :: string
  pu_User :: "string option"
  pu_Host :: string
  pu_OmitHost :: bool
  pu_ForceQuery :: bool
  pu_Fragment :: string

text \<open>
  One dial of the log stream: an error, or the messages that are read until the connection fails
  with an error.
\<close>

type_synonym dial = "(string list \<times> goerr) res"

text \<open>
  \<open>ci_WriteErr\<close>: the error with which creating a directory or writing a file fails, if it does.
  \<open>ci_Marshal\<close> and \<open>ci_Indent\<close>: the JSON text of a map.
\<close>

record 'x cli =
  ci_server :: string
  ci_apiKey :: string
  ci_env :: getenv
  ci_home :: "string option"
  ci_WriteErr :: "string \<Rightarrow> goerr option"
  ci_URLErr :: "string \<Rightarrow> goerr option"
  ci_Do :: "cliRequest \<Rightarrow> 'x \<Rightarrow> cliResponse res \<times> 'x"
  ci_Marshal :: "cliBody \<Rightarrow> string res"
  ci_Number :: "nat list \<Rightarrow> gvalue"
  ci_Indent :: "gomap \<Rightarrow> string"
  ci_ParseURL :: "string \<Rightarrow> parsedURL res"

definition println :: "string \<Rightarrow> 'x machine \<Rightarrow> 'x machine" where
  "println s m = m\<lparr>mc_stdout := mc_stdout m @ [s]\<rparr>"

definition eprintln :: "string \<Rightarrow> 'x machine \<Rightarrow> 'x machine" where
  "eprintln s m = m\<lparr>mc_stderr := mc_stderr m @ [s]\<rparr>"

section \<open>The saved token\<close>

text \<open>\<open>ci_home\<close>: the home directory, if there is one, as \<open>filepath.Clean\<close> leaves it.\<close>

definition tokenFilePath :: "'x cli \<Rightarrow> string" where
  "tokenFilePath ci = (case ci_home ci of None \<Rightarrow> '''' | Some home \<Rightarrow> home @ ''/.kflow/token'')"

text \<open>\<open>filepath.Dir\<close> of the path; of the empty path it is the current directory.\<close>

definition tokenDir :: "'x cli \<Rightarrow> string" where
  "tokenDir ci = (case ci_home ci of None \<Rightarrow> ''.'' | Some home \<Rightarrow> home @ ''/.kflow'')"

definition noSuchFile :: goerr where
  "noSuchFile = Errorf [FL ''no such file or directory'']"

definition WriteFile :: "'x cli \<Rightarrow> string \<Rightarrow> string \<Rightarrow> 'x machine \<Rightarrow> unit res \<times> 'x machine" where
  "WriteFile ci p d m =
     (if p = '''' then (Err noSuchFile, m)
      else (case ci_WriteErr ci p of
              Some err \<Rightarrow> (Err err, m)
            | None \<Rightarrow> (Ok (), m\<lparr>mc_files := (mc_files m)(p \<mapsto> d)\<rparr>)))"

definition saveToken :: "'x cli \<Rightarrow> string \<Rightarrow> 'x machine \<Rightarrow> unit res \<times> 'x machine" where
  "saveToken ci token m =
     (case ci_WriteErr ci (tokenDir ci) of
        Some err \<Rightarrow> (Err (Errorf [FL ''create token dir: '', FW err]), m)
      | None \<Rightarrow> WriteFile ci (tokenFilePath ci) token m)"

definition loadSavedToken :: "'x cli \<Rightarrow> 'x machine \<Rightarrow> string" where
  "loadSavedToken ci m =
     (let p = tokenFilePath ci in
      if p = '''' then '''' else (case mc_files m p of None \<Rightarrow> '''' | Some b \<Rightarrow> b))"

definition resolveBearer :: "'x cli \<Rightarrow> 'x machine \<Rightarrow> string" where
  "resolveBearer ci m = (if ci_apiKey ci \<noteq> '''' then ci_apiKey ci else loadSavedToken ci m)"

definition resolveAPIKey :: "'x cli \<Rightarrow> string" where
  "resolveAPIKey ci = (if ci_apiKey ci \<noteq> '''' then ci_apiKey ci else ci_env ci ''KFLOW_API_KEY'')"

section \<open>Requests\<close>

text \<open>\<open>json.Marshal\<close>: a map of strings is written out; the text of the other bodies is a parameter.\<close>

definition marshalBody :: "'x cli \<Rightarrow> cliBody \<Rightarrow> string res" where
  "marshalBody ci b =
     (case b of
        KeyBody key \<Rightarrow> Ok (map char_of (singleMember ''api_key'' (asciiBytes key)))
      | _ \<Rightarrow> ci_Marshal ci b)"

text \<open>\<open>json.Unmarshal\<close> into \<open>map[string]any\<close>; a later member overrides an earlier one.\<close>

fun toValue :: "(nat list \<Rightarrow> gvalue) \<Rightarrow> jvalue \<Rightarrow> gvalue" where
  "toValue num JNull = VNull"
| "toValue num (JBool b) = VBool b"
| "toValue num (JNum t) = num t"
| "toValue num (JStr s) = VStr (map char_of s)"
| "toValue num (JArr vs) = VList (map (toValue num) vs)"
| "toValue num (JObj ms) = VMap (map (\<lambda>(k, v). (map char_of k, toValue num v)) ms)"

definition toMap :: "(nat list \<Rightarrow> gvalue) \<Rightarrow> jvalue \<Rightarrow> gomap option" where
  "toMap num v =
     (case v of
        JNull \<Rightarrow> Some None
      | JObj ms \<Rightarrow> Some (Some (map_of (rev (map (\<lambda>(k, v). (map char_of k, toValue num v)) ms))))
      | _ \<Rightarrow> None)"

definition unmarshalMap :: "'x cli \<Rightarrow> string \<Rightarrow> gomap res" where
  "unmarshalMap ci raw =
     (case parseJson (asciiBytes raw) of
        None \<Rightarrow> Err (Errorf [FL ''invalid JSON''])
      | Some v \<Rightarrow>
          (case toMap (ci_Number ci) v of
             None \<Rightarrow> Err (Errorf [FL ''json: cannot unmarshal into Go value of type map[string]interface {}''])
           | Some m \<Rightarrow> Ok m))"

definition buildRequest :: "'x cli \<Rightarrow> string \<Rightarrow> string \<Rightarrow> string option \<Rightarrow> string \<Rightarrow> cliRequest" where
  "buildRequest ci meth path body bearerTok =
     \<lparr>cq_Method = meth, cq_URL = ci_server ci @ path,
      cq_Headers = (if body \<noteq> None then [(''Content-Type'', ''application/json'')] else []) @
                   (if bearerTok \<noteq> '''' then [(''Authorization'', bearer @ bearerTok)] else []),
      cq_Body = (case body of None \<Rightarrow> '''' | Some b \<Rightarrow> b)\<rparr>"

definition onNet :: "('x \<Rightarrow> 'a res \<times> 'x) \<Rightarrow> 'x machine \<Rightarrow> 'a res \<times> 'x machine" where
  "onNet f m = (case f (mc_net m) of (r, x) \<Rightarrow> (r, m\<lparr>mc_net := x\<rparr>))"

text \<open>After the response headers have arrived.\<close>

definition readResponse :: "'x cli \<Rightarrow> cliResponse \<Rightarrow> gomap res" where
  "readResponse ci resp =
     (case cs_Body resp of
        Panic p \<Rightarrow> Panic p
      | Err err \<Rightarrow> Err (Errorf [FL ''read response: '', FW err])
      | Ok raw \<Rightarrow>
          if cs_Status resp \<ge> 400
          then Err (Errorf [FL ''server error '', FD (cs_Status resp), FL '': '', FS raw])
          else if length raw > 0
          then (case unmarshalMap ci raw of
                  Err err \<Rightarrow> Err (Errorf [FL ''decode response: '', FW err])
                | r \<Rightarrow> r)
          else Ok None)"

definition doJSONWithBearer ::
    "'x cli \<Rightarrow> string \<Rightarrow> string \<Rightarrow> cliBody option \<Rightarrow> string \<Rightarrow> 'x machine \<Rightarrow> gomap res \<times> 'x machine" where
  "doJSONWithBearer ci meth path body bearerTok m =
     ifErr ((case body of
               None \<Rightarrow> Ok None
             | Some b \<Rightarrow> (case marshalBody ci b of
                           Ok t \<Rightarrow> Ok (Some t)
                         | Err err \<Rightarrow> Err (Errorf [FL ''marshal request: '', FW err])
                         | Panic p \<Rightarrow> Panic p)), m)
       (\<lambda>err m1. (Err err, m1))
       (\<lambda>txt m1.
          (case ci_URLErr ci (ci_server ci @ path) of
             Some err \<Rightarrow> (Err (Errorf [FL ''build request: '', FW err]), m1)
           | None \<Rightarrow>
               ifErr (onNet (ci_Do ci (buildRequest ci meth path txt bearerTok)) m1)
                 (\<lambda>err m2. (Err (Errorf [FL ''request: '', FW err]), m2))
                 (\<lambda>resp m2. (readResponse ci resp, m2))))"

definition doJSON :: "'x cli \<Rightarrow> string \<Rightarrow> string \<Rightarrow> cliBody option \<Rightarrow> 'x machine \<Rightarrow> gomap res \<times> 'x machine" where
  "doJSON ci meth path body m = doJSONWithBearer ci meth path body (resolveBearer ci m) m"

definition doJSONNoAuth :: "'x cli \<Rightarrow> string \<Rightarrow> string \<Rightarrow> cliBody option \<Rightarrow> 'x machine \<Rightarrow> gomap res \<times> 'x machine" where
  "doJSONNoAuth ci meth path body m = doJSONWithBearer ci meth path body '''' m"

definition printJSON :: "'x cli \<Rightarrow> gomap \<Rightarrow> 'x machine \<Rightarrow> 'x machine" where
  "printJSON ci v m = println (ci_Indent ci v) m"

text \<open>\<open>v, _ := result[k].(string)\<close>.\<close>

definition stringAt :: "gomap \<Rightarrow> string \<Rightarrow> string" where
  "stringAt m k = (case entries m k of Some (VStr s) \<Rightarrow> s | _ \<Rightarrow> '''')"

definition listAt :: "gomap \<Rightarrow> string \<Rightarrow> gvalue list" where
  "listAt m k = (case entries m k of Some (VList vs) \<Rightarrow> vs | _ \<Rightarrow> [])"

definition asMap :: "gvalue \<Rightarrow> gomap" where
  "asMap v = (case v of VMap kvs \<Rightarrow> Some (map_of (rev kvs)) | _ \<Rightarrow> None)"

section \<open>Commands\<close>

text \<open>\<open>result, err := doJSON (...); if err != nil { return err }; printJSON (result); return nil\<close>.\<close>

definition printed :: "'x cli \<Rightarrow> gomap res \<times> 'x machine \<Rightarrow> unit res \<times> 'x machine" where
  "printed ci r = ifErr r (\<lambda>err m. (Err err, m)) (\<lambda>v m. (Ok (), printJSON ci v m))"

definition workflowRegister :: "'x cli \<Rightarrow> string \<Rightarrow> 'x machine \<Rightarrow> unit res \<times> 'x machine" where
  "workflowRegister ci file m =
     (case mc_files m file of
        None \<Rightarrow> (Err (Errorf [FL ''reading file: '', FW noSuchFile]), m)
      | Some raw \<Rightarrow>
          ifErr (unmarshalMap ci raw, m)
            (\<lambda>err m1. (Err (Errorf [FL ''parsing JSON: '', FW err]), m1))
            (\<lambda>body m1. printed ci (doJSON ci ''POST'' ''/api/v1/workflows'' (Some (MapBody body)) m1)))"

definition workflowList :: "'x cli \<Rightarrow> 'x machine \<Rightarrow> unit res \<times> 'x machine" where
  "workflowList ci m = printed ci (doJSON ci ''GET'' ''/api/v1/workflows'' None m)"

definition workflowRun :: "'x cli \<Rightarrow> string \<Rightarrow> string \<Rightarrow> 'x machine \<Rightarrow> unit res \<times> 'x machine" where
  "workflowRun ci name inputJSON m =
     ifErr (unmarshalMap ci inputJSON, m)
       (\<lambda>err m1. (Err (Errorf [FL ''parsing --input JSON: '', FW err]), m1))
       (\<lambda>input m1.
          printed ci (doJSON ci ''POST'' (''/api/v1/workflows/'' @ name @ ''/run'') (Some (InputBody input)) m1))"

definition executionGet :: "'x cli \<Rightarrow> string \<Rightarrow> 'x machine \<Rightarrow> unit res \<times> 'x machine" where
  "executionGet ci execID m = printed ci (doJSON ci ''GET'' (''/api/v1/executions/'' @ execID) None m)"

text \<open>The name of the workflow is put into the query as it is.\<close>

definition executionListPath :: "string \<Rightarrow> string" where
  "executionListPath workflow =
     ''/api/v1/executions'' @ (if workflow \<noteq> '''' then ''?workflow='' @ workflow else '''')"

definition executionList :: "'x cli \<Rightarrow> string \<Rightarrow> 'x machine \<Rightarrow> unit res \<times> 'x machine" where
  "executionList ci workflow m = printed ci (doJSON ci ''GET'' (executionListPath workflow) None m)"

definition serviceList :: "'x cli \<Rightarrow> 'x machine \<Rightarrow> unit res \<times> 'x machine" where
  "serviceList ci m = printed ci (doJSON ci ''GET'' ''/api/v1/services'' None m)"

definition serviceGet :: "'x cli \<Rightarrow> string \<Rightarrow> 'x machine \<Rightarrow> unit res \<times> 'x machine" where
  "serviceGet ci name m = printed ci (doJSON ci ''GET'' (''/api/v1/services/'' @ name) None m)"

definition serviceDelete :: "'x cli \<Rightarrow> string \<Rightarrow> 'x machine \<Rightarrow> unit res \<times> 'x machine" where
  "serviceDelete ci name m = printed ci (doJSON ci ''DELETE'' (''/api/v1/services/'' @ name) None m)"

section \<open>Logging in and out\<close>

definition exchangeKey :: "'x cli \<Rightarrow> string \<Rightarrow> 'x machine \<Rightarrow> gomap res \<times> 'x machine" where
  "exchangeKey ci key m = doJSONNoAuth ci ''POST'' ''/api/v1/auth/token'' (Some (KeyBody key)) m"

definition keyRequired :: goerr where
  "keyRequired = Errorf [FL ''--api-key flag or KFLOW_API_KEY env var required'']"

definition authToken :: "'x cli \<Rightarrow> 'x machine \<Rightarrow> unit res \<times> 'x machine" where
  "authToken ci m =
     (let key = resolveAPIKey ci in
      if key = '''' then (Err keyRequired, m)
      else ifErr (exchangeKey ci key m) (\<lambda>err m1. (Err err, m1))
             (\<lambda>result m1. (Ok (), println (stringAt result ''token'') m1)))"

definition authLogin :: "'x cli \<Rightarrow> 'x machine \<Rightarrow> unit res \<times> 'x machine" where
  "authLogin ci m =
     (let key = resolveAPIKey ci in
      if key = '''' then (Err keyRequired, m)
      else ifErr (exchangeKey ci key m) (\<lambda>err m1. (Err err, m1))
             (\<lambda>result m1.
                ifErr (saveToken ci (stringAt result ''token'') m1) (\<lambda>err m2. (Err err, m2))
                  (\<lambda>_ m2. (Ok (), println ''Logged in. Token saved to ~/.kflow/token'' m2))))"

text \<open>A file that is not there is not an error.\<close>

definition authLogout :: "'x cli \<Rightarrow> 'x machine \<Rightarrow> unit res \<times> 'x machine" where
  "authLogout ci m =
     (let p = tokenFilePath ci in
      if mc_files m p = None then (Ok (), println ''Logged out.'' m)
      else (case ci_WriteErr ci p of
              Some err \<Rightarrow> (Err (Errorf [FL ''remove token: '', FW err]), m)
            | None \<Rightarrow> (Ok (), println ''Logged out.'' (m\<lparr>mc_files := (mc_files m)(p := None)\<rparr>))))"

section \<open>Logs\<close>

definition optParam :: "string \<Rightarrow> string \<Rightarrow> (string \<times> string) list" where
  "optParam k v = (if v \<noteq> '''' then [(k, v)] else [])"

text \<open>The parameters of a query, in the order in which \<open>Encode\<close> writes them.\<close>

definition logsParams :: "string \<Rightarrow> string \<Rightarrow> string \<Rightarrow> string \<Rightarrow> int \<Rightarrow> (string \<times> string) list" where
  "logsParams execID serviceName level since limit =
     optParam ''execution_id'' execID @ optParam ''level'' level @ [(''limit'', showInt limit)] @
     optParam ''service_name'' serviceName @ optParam ''since'' since"

definition followParams :: "string \<Rightarrow> string \<Rightarrow> string \<Rightarrow> string \<Rightarrow> string \<Rightarrow> (string \<times> string) list" where
  "followParams execID serviceName level since tok =
     optParam ''execution_id'' execID @ optParam ''level'' level @ optParam ''service_name'' serviceName @
     optParam ''since'' since @ optParam ''token'' tok"

text \<open>
  \<open>t.UTC().Format (time.RFC3339)\<close>, for the years from 0 to 9999; days are counted from 1 January of
  year 0, which is a leap year.
\<close>

definition formatRFC3339 :: "time \<Rightarrow> string" where
  "formatRFC3339 t =
     (let secs = nat (t div Second + 366 * 86400);
          (y, yd) = splitYear 0 (secs div 86400);
          (mo, md) = splitMonth 1 (monthDays y) yd;
          sod = secs mod 86400
      in map char_of (padDigits 4 y @ [45] @ padDigits 2 mo @ [45] @ padDigits 2 (Suc md) @ [84] @
           padDigits 2 (sod div 3600) @ [58] @ padDigits 2 (sod div 60 mod 60) @ [58] @
           padDigits 2 (sod mod 60) @ [90]))"

text \<open>\<open>%-20s\<close>: padded with spaces to a width in characters.\<close>

definition padRight :: "nat \<Rightarrow> string \<Rightarrow> string" where
  "padRight n s = s @ replicate (n - length (runesOf s)) (CHR '' '')"

definition logSource :: "string \<Rightarrow> string \<Rightarrow> string" where
  "logSource execID stateName =
     (let e = (if length execID > 8 then take 8 execID else execID) in
      if stateName \<noteq> '''' \<and> e \<noteq> '''' then e @ ''/'' @ stateName
      else if stateName \<noteq> '''' then stateName else e)"

definition logLineText :: "gomap \<Rightarrow> string" where
  "logLineText row =
     (let ts0 = stringAt row ''occurred_at'';
          ts = (case parseRFC3339 (asciiBytes ts0) of Some t \<Rightarrow> formatRFC3339 t | None \<Rightarrow> ts0)
      in padRight 20 ts @ ''  '' @ padRight 5 (stringAt row ''level'') @ ''  '' @
         padRight 28 (logSource (stringAt row ''execution_id'') (stringAt row ''state_name'')) @ ''  '' @
         stringAt row ''message'')"

definition printLogLine :: "gomap \<Rightarrow> 'x machine \<Rightarrow> 'x machine" where
  "printLogLine row m = println (logLineText row) m"

definition queryLogsOnce ::
    "'x cli \<Rightarrow> string \<Rightarrow> string \<Rightarrow> string \<Rightarrow> string \<Rightarrow> int \<Rightarrow> 'x machine \<Rightarrow> unit res \<times> 'x machine" where
  "queryLogsOnce ci execID serviceName level since limit m =
     ifErr (doJSON ci ''GET'' (''/api/v1/logs?'' @ Encode (logsParams execID serviceName level since limit)) None m)
       (\<lambda>err m1. (Err err, m1))
       (\<lambda>result m1. (Ok (), fold (\<lambda>l. printLogLine (asMap l)) (listAt result ''logs'') m1))"

definition latestExecutionID :: "'x cli \<Rightarrow> string \<Rightarrow> 'x machine \<Rightarrow> string res \<times> 'x machine" where
  "latestExecutionID ci workflow m =
     ifErr (doJSON ci ''GET'' (''/api/v1/executions?workflow='' @ QueryEscape workflow @ ''&limit=1'') None m)
       (\<lambda>err m1. (Err err, m1))
       (\<lambda>result m1.
          (case listAt result ''executions'' of
             [] \<Rightarrow> (Err (Errorf [FL ''no executions found for workflow '', FQ workflow]), m1)
           | first # _ \<Rightarrow>
               (let i = stringAt (asMap first) ''id'' in
                if i = '''' then (Err (Errorf [FL ''execution record has no id field'']), m1) else (Ok i, m1))))"

definition wsScheme :: "string \<Rightarrow> string" where
  "wsScheme scheme = (if scheme = ''https'' then ''wss'' else ''ws'')"

text \<open>
  \<open>URL.String\<close> of a URL with a scheme, with a path that starts with a slash and needs no escape, and
  without a query.
\<close>

definition urlAuthority :: "parsedURL \<Rightarrow> string" where
  "urlAuthority u = (case pu_User u of None \<Rightarrow> '''' | Some ui \<Rightarrow> ui @ ''@'') @ pu_Host u"

definition urlString :: "parsedURL \<Rightarrow> string \<Rightarrow> string" where
  "urlString u path =
     pu_Scheme u @ '':'' @
     (if pu_Opaque u \<noteq> '''' then pu_Opaque u
      else (if pu_OmitHost u \<and> pu_Host u = '''' \<and> pu_User u = None then '''' else ''//'' @ urlAuthority u) @ path) @
     (if pu_ForceQuery u then ''?'' else '''') @
     (if pu_Fragment u \<noteq> '''' then ''#'' @ pu_Fragment u else '''')"

definition buildWSURL :: "'x cli \<Rightarrow> string \<Rightarrow> string res" where
  "buildWSURL ci path =
     (case ci_ParseURL ci (ci_server ci) of
        Panic p \<Rightarrow> Panic p
      | Err err \<Rightarrow> Err (Errorf [FL ''parse server URL: '', FW err])
      | Ok u \<Rightarrow> Ok (urlString (u\<lparr>pu_Scheme := wsScheme (pu_Scheme u)\<rparr>) path))"

text \<open>A message: an object with a type and a payload, whatever the case of the names.\<close>

fun wsMessage :: "string \<Rightarrow> jvalue option \<Rightarrow> (nat list \<times> jvalue) list \<Rightarrow> (string \<times> jvalue option) option" where
  "wsMessage ty pl [] = Some (ty, pl)"
| "wsMessage ty pl (kv # kvs) =
     (case fieldOf [''type'', ''payload''] (fst kv) of
        None \<Rightarrow> wsMessage ty pl kvs
      | Some f \<Rightarrow>
          if f = ''payload'' then wsMessage ty (Some (snd kv)) kvs
          else (case setString (\<lambda>t. t) (snd kv) ty of None \<Rightarrow> None | Some ty1 \<Rightarrow> wsMessage ty1 pl kvs))"

definition decodeWS :: "string \<Rightarrow> (string \<times> jvalue option) option" where
  "decodeWS data =
     (case parseJson (asciiBytes data) of
        Some (JObj ms) \<Rightarrow> wsMessage '''' None ms
      | Some JNull \<Rightarrow> Some ('''', None)
      | _ \<Rightarrow> None)"

definition showMessage :: "'x cli \<Rightarrow> string \<Rightarrow> 'x machine \<Rightarrow> 'x machine" where
  "showMessage ci data m =
     (case decodeWS data of
        None \<Rightarrow> m
      | Some (ty, pl) \<Rightarrow>
          if ty = ''log_entry''
          then (case pl of
                  None \<Rightarrow> m
                | Some v \<Rightarrow> (case toMap (ci_Number ci) v of None \<Rightarrow> m | Some row \<Rightarrow> printLogLine row m))
          else if ty = ''logs_end'' then println ''---'' m
          else m)"

text \<open>\<open>streamLogs\<close> leaves its loop only with the error of a read.\<close>

definition streamLogs :: "'x cli \<Rightarrow> string list \<times> goerr \<Rightarrow> 'x machine \<Rightarrow> goerr option \<times> 'x machine" where
  "streamLogs ci conn m = (case conn of (msgs, err) \<Rightarrow> (Some err, fold (showMessage ci) msgs m))"

definition retryNote :: "string \<Rightarrow> goerr \<Rightarrow> string" where
  "retryNote what err = Sprintf [FL what, FL '': '', FV err, FL '' '', FL emDash, FL '' retrying in 2s'']"

text \<open>
  The loop of \<open>followLogs\<close> over the outcomes of its dials; \<open>None\<close>: it is still running after them.
\<close>

fun followLoop :: "'x cli \<Rightarrow> dial list \<Rightarrow> 'x machine \<Rightarrow> unit res option \<times> 'x machine" where
  "followLoop ci [] m = (None, m)"
| "followLoop ci (d # ds) m =
     (case d of
        Panic p \<Rightarrow> (Some (Panic p), m)
      | Err err \<Rightarrow> followLoop ci ds (eprintln (retryNote ''ws connect'' err) m)
      | Ok conn \<Rightarrow>
          (case streamLogs ci conn m of
             (Some err, m1) \<Rightarrow> followLoop ci ds (eprintln (retryNote ''ws disconnected'' err) m1)
           | (None, m1) \<Rightarrow> (Some (Ok ()), m1)))"

text \<open>The dials of the URL are given by \<open>dials\<close>.\<close>

definition followLogs ::
    "'x cli \<Rightarrow> (string \<Rightarrow> dial list) \<Rightarrow> string \<Rightarrow> string \<Rightarrow> string \<Rightarrow> string \<Rightarrow> 'x machine
     \<Rightarrow> unit res option \<times> 'x machine" where
  "followLogs ci dials execID serviceName level since m =
     (case buildWSURL ci ''/api/v1/ws/logs'' of
        Err err \<Rightarrow> (Some (Err err), m)
      | Panic p \<Rightarrow> (Some (Panic p), m)
      | Ok wsURL \<Rightarrow>
          (let p = Encode (followParams execID serviceName level since (resolveBearer ci m))
           in followLoop ci (dials (if p \<noteq> '''' then wsURL @ ''?'' @ p else wsURL)) m))"

record logsFlags =
  fl_execution :: string
  fl_service :: string
  fl_workflow :: string
  fl_level :: string
  fl_follow :: bool
  fl_limit :: int
  fl_since :: string

definition runLogs :: "'x cli \<Rightarrow> (string \<Rightarrow> dial list) \<Rightarrow> logsFlags \<Rightarrow> 'x machine \<Rightarrow> unit res option \<times> 'x machine" where
  "runLogs ci dials fl m =
     (let go = (\<lambda>execID m1.
            if fl_follow fl then followLogs ci dials execID (fl_service fl) (fl_level fl) (fl_since fl) m1
            else (case queryLogsOnce ci execID (fl_service fl) (fl_level fl) (fl_since fl) (fl_limit fl) m1 of
                    (r, m2) \<Rightarrow> (Some r, m2)))
      in if fl_execution fl = '''' \<and> fl_workflow fl \<noteq> ''''
         then (case latestExecutionID ci (fl_workflow fl) m of
                 (Ok i, m1) \<Rightarrow> go i m1
               | (Err err, m1) \<Rightarrow> (Some (Err err), m1)
               | (Panic p, m1) \<Rightarrow> (Some (Panic p), m1))
         else go (fl_execution fl) m)"

section \<open>The dashboard\<close>

definition rightArrow :: string where
  "rightArrow = map char_of [0xE2, 0x86, 0x92 :: nat]"

text \<open>The token for the browser: the saved one, or a new one for the key, or none.\<close>

definition uiToken :: "'x cli \<Rightarrow> 'x machine \<Rightarrow> string res \<times> 'x machine" where
  "uiToken ci m =
     (let token = loadSavedToken ci m; key = resolveAPIKey ci in
      if token \<noteq> '''' then (Ok token, m)
      else if key = '''' then (Ok '''', m)
      else ifErr (exchangeKey ci key m)
             (\<lambda>err m1. (Err (Errorf [FL ''exchange api key for token: '', FW err]), m1))
             (\<lambda>result m1. (Ok (stringAt result ''token''), m1)))"

definition targetURL :: "int \<Rightarrow> string \<Rightarrow> string" where
  "targetURL port token =
     (if token \<noteq> '''' then Sprintf [FL ''http://localhost:'', FD port, FL ''/?token='', FS token]
      else Sprintf [FL ''http://localhost:'', FD port, FL ''/''])"

text \<open>
  Where the local server sends a request: to the orchestrator, or to the file server with the path
  it looks up.  \<open>asset\<close> says which assets there are.
\<close>

datatype uiRoute = ProxyAPI | StaticFile string

definition uiHandler :: "(string \<Rightarrow> bool) \<Rightarrow> string \<Rightarrow> uiRoute" where
  "uiHandler asset path =
     (if hasPrefix path ''/api/'' then ProxyAPI
      else
        (let p0 = (if hasPrefix path ''/'' then drop 1 path else path);
             p = (if p0 = '''' then ''index.html'' else p0)
         in if asset p then StaticFile path else StaticFile ''/''))"

definition browserCommand :: "string \<Rightarrow> string \<Rightarrow> string list" where
  "browserCommand goos url =
     (if goos = ''darwin'' then [''open'', url]
      else if goos = ''windows'' then [''cmd'', ''/c'', ''start'', url]
      else [''xdg-open'', url])"

text \<open>
  \<open>kflow ui\<close> up to serving: \<open>listen\<close> gives the port that was bound; the result is the command that
  opens the browser.
\<close>

definition uiListenAddr :: "string list \<Rightarrow> string" where
  "uiListenAddr args = (case args of [p] \<Rightarrow> '':'' @ p | _ \<Rightarrow> '':0'')"

definition uiCmd ::
    "'x cli \<Rightarrow> (string \<Rightarrow> int res) \<Rightarrow> string \<Rightarrow> string list \<Rightarrow> 'x machine \<Rightarrow> string list res \<times> 'x machine" where
  "uiCmd ci listen goos args m =
     ifErr (listen (uiListenAddr args), m)
       (\<lambda>err m1. (Err (Errorf [FL ''cannot bind on '', FS (uiListenAddr args), FL '' (port already in use?): '',
                               FW err]), m1))
       (\<lambda>port m1.
          ifErr (uiToken ci m1) (\<lambda>err m2. (Err err, m2))
            (\<lambda>token m2.
               (case ci_ParseURL ci (ci_server ci) of
                  Panic p \<Rightarrow> (Panic p, m2)
                | Err err \<Rightarrow> (Err (Errorf [FL ''invalid server URL: '', FW err]), m2)
                | Ok _ \<Rightarrow>
                    (let url = targetURL port token;
                         m3 = println (Sprintf [FL ''Proxying /api/ '', FL rightArrow, FL '' '', FS (ci_server ci)]) m2;
                         m4 = println (Sprintf [FL ''Dashboard: '', FS url]) m3
                     in (Ok (browserCommand goos url), m4)))))"

section \<open>The process\<close>

text \<open>\<open>main\<close>: an error of the command is printed and ends the process with code 1.\<close>

definition cliMain :: "unit res \<times> 'x machine \<Rightarrow> int \<times> 'x machine" where
  "cliMain r =
     (case r of
        (Ok _, m) \<Rightarrow> (0, m)
      | (Err err, m) \<Rightarrow> (1, eprintln (Error err) m)
      | (Panic p, m) \<Rightarrow> (2, m))"

end
