(* ===== verification/Api_Correct.thy ===== *)
theory Api_Correct
  imports Api
begin

text \<open>
  What the HTTP server guarantees: only the holder of the API key, or of a session token that was
  signed with it and has not expired, gets past the middleware; a login gives such a token; a
  workflow is registered once and exactly when its graph is well formed.
\<close>

section \<open>Who passes the middleware\<close>

text \<open>A token that is signed with the key, for a payload that has not expired.\<close>

definition signedSession :: "time \<Rightarrow> string \<Rightarrow> string \<Rightarrow> bool" where
  "signedSession now apiKey token \<longleftrightarrow>
     (\<exists>a b pl p. token = a @ ''.'' @ b \<and> b64decode a = Some pl \<and> b64decode b = Some (signPayload pl apiKey) \<and>
        unmarshalSession (asciiBytes pl) = Some p \<and> now < sp_ExpiresAt p)"

lemma validateToken_sound:
  assumes "api_validateToken now token apiKey"
  shows "token = apiKey \<or> signedSession now apiKey token"
proof (cases "token = apiKey")
  case False
  with assms obtain a b where sp: "splitDot token = Some (a, b)"
    by (cases "splitDot token") (auto simp: api_validateToken_def)
  with assms False obtain pl sig where d: "b64decode a = Some pl" "b64decode b = Some sig"
    by (cases "b64decode a"; cases "b64decode b") (auto simp: api_validateToken_def)
  with assms False sp have "signPayload pl apiKey = sig" by (auto simp: api_validateToken_def split: if_splits)
  with assms False sp d obtain p where "unmarshalSession (asciiBytes pl) = Some p" "now < sp_ExpiresAt p"
    by (cases "unmarshalSession (asciiBytes pl)") (auto simp: api_validateToken_def)
  with splitDot_Some(1) [OF sp] d \<open>signPayload pl apiKey = sig\<close> show ?thesis
    unfolding signedSession_def by blast
qed simp

lemma public_paths:
  "pathMatches ''/healthz'' = [(''GET'', RHealthz, [])]"
  "pathMatches ''/readyz'' = [(''GET'', RReadyz, [])]"
  "pathMatches ''/api/v1/auth/status'' = [(''GET'', RAuthStatus, [])]"
  "pathMatches ''/api/v1/auth/token'' = [(''POST'', RAuthToken, [])]"
  by code_simp+

text \<open>What a response without authority may carry.\<close>

definition publicBody :: "string \<Rightarrow> apiRequest \<Rightarrow> apiBody \<Rightarrow> bool" where
  "publicBody apiKey r b =
     (case b of
        TextBody _ \<Rightarrow> True | ErrorBody _ _ \<Rightarrow> True | AuthEnabledBody _ \<Rightarrow> True
      | TokenBody _ \<Rightarrow> decodeApiKey (MaxBytesReader (2 ^ 20) (hq_Body r)) = Some apiKey
      | _ \<Rightarrow> False)"

lemma issue_no_panic: "issueSessionToken now key \<noteq> Panic p"
  by (simp add: issueSessionToken_def Let_def split: option.splits)

lemma handleAuthToken_public:
  "\<exists>resp. handleAuthToken srv r hs s = (Ok resp, s) \<and> publicBody (as_APIKey srv) r (ar_Body resp)"
  using issue_no_panic [of "rt_Now (as_Runtime srv) (ap_world s)" "as_APIKey srv"]
  by (auto simp: handleAuthToken_def writeError_def writeJSON_def publicBody_def split: option.splits res.splits)

lemma apiMux_public:
  assumes "publicRequest r"
  shows "\<exists>resp. apiMux srv r hs s = (Ok resp, s) \<and> publicBody (as_APIKey srv) r (ar_Body resp)"
proof -
  have "hq_Path r = ''/healthz'' \<or> hq_Path r = ''/readyz'' \<or> hq_Path r = ''/api/v1/auth/status'' \<or>
      hq_Path r = ''/api/v1/auth/token''"
    using assms by (auto simp: publicRequest_def exemptPaths_def)
  then show ?thesis
    using handleAuthToken_public [of srv r hs s]
    by (elim disjE) (auto simp: apiMux_def public_paths dispatch_def handleHealthz_def handleReadyz_def
        handleAuthStatus_def apiHttpError_def apiText_def writeError_def writeJSON_def publicBody_def)
qed

lemma ServeHTTP_cases:
  assumes "as_APIKey srv \<noteq> ''''"
  shows "ServeHTTP srv r s =
    (if publicRequest r \<or> requestToken r \<noteq> '''' \<and>
        api_validateToken (rt_Now (as_Runtime srv) (ap_world s)) (requestToken r) (as_APIKey srv)
     then apiMux srv r securityHeaders s
     else (Ok (writeError 401 ''unauthorized'' ''auth_required'' securityHeaders), s))"
  using assms by (auto simp: ServeHTTP_def BearerAuthMiddleware_def publicRequest_def)

text \<open>
  C6.  With an API key configured, a request that presents neither the key nor an unexpired session
  token signed with it changes nothing in the server, its store, its hub or its cluster, whatever
  its path, method and body.  It is answered with status 401, or it is one of the public requests,
  whose answers carry a fixed text, an error, whether authentication is enabled, or a new token if
  the body holds the key.
\<close>

theorem api_requires_token:
  assumes "as_APIKey srv \<noteq> ''''" and "requestToken r \<noteq> as_APIKey srv"
    and "\<not> signedSession (rt_Now (as_Runtime srv) (ap_world s)) (as_APIKey srv) (requestToken r)"
  shows "\<exists>resp. ServeHTTP srv r s = (Ok resp, s) \<and> (publicRequest r \<or> ar_Status resp = 401) \<and>
    publicBody (as_APIKey srv) r (ar_Body resp)"
proof -
  have "\<not> api_validateToken (rt_Now (as_Runtime srv) (ap_world s)) (requestToken r) (as_APIKey srv)"
    using validateToken_sound assms(2,3) by blast
  then show ?thesis
    using ServeHTTP_cases [OF assms(1), of r s] apiMux_public [of r srv securityHeaders s]
    by (auto simp: writeError_def writeJSON_def publicBody_def)
qed

section \<open>Logging in\<close>

lemma issue_total:
  assumes "0 \<le> now" and "now + 24 * Hour < endOfTime"
  shows "\<exists>tok. issueSessionToken now apiKey = Ok tok \<and> tok \<noteq> ''''"
proof -
  have "0 \<le> now + 24 * Hour" "now < endOfTime" using assms by (simp_all add: Hour_def Second_def)
  with assms marshalTime_total [of now] marshalTime_total [of "now + 24 * Hour"] show ?thesis
    by (auto simp: issueSessionToken_def marshalSession_def Let_def)
qed

lemma apiMux_token:
  assumes "hq_Method r = ''POST''" and "hq_Path r = ''/api/v1/auth/token''"
  shows "apiMux srv r hs s = handleAuthToken srv r hs s" and "publicRequest r"
  using assms by (simp_all add: apiMux_def public_paths methodMatches_def dispatch_def publicRequest_def)

lemma requestToken_bearer: "hq_Header r ''Authorization'' = bearer @ tok \<Longrightarrow> requestToken r = tok"
  by (simp add: requestToken_def hasPrefix_def)

lemma login_answer:
  assumes "as_APIKey srv \<noteq> ''''" and "hq_Method r = ''POST''" and "hq_Path r = ''/api/v1/auth/token''"
    and "decodeApiKey (MaxBytesReader (2 ^ 20) (hq_Body r)) = Some (as_APIKey srv)"
    and "issueSessionToken (rt_Now (as_Runtime srv) (ap_world s)) (as_APIKey srv) = Ok tok"
  shows "ServeHTTP srv r s = (Ok (writeJSON 200 (TokenBody tok) securityHeaders), s)"
  using ServeHTTP_cases [OF assms(1), of r s] apiMux_token(1) [OF assms(2,3), of srv securityHeaders s]
    apiMux_token(2) [OF assms(2,3)] assms(4,5)
  by (simp add: handleAuthToken_def)

lemma session_access:
  assumes "as_APIKey srv \<noteq> ''''" and "issueSessionToken now (as_APIKey srv) = Ok tok" and "0 \<le> now"
  shows "\<forall>r' s'. hq_Header r' ''Authorization'' = bearer @ tok \<longrightarrow>
    ServeHTTP srv r' s' =
      (if rt_Now (as_Runtime srv) (ap_world s') < now + 24 * Hour \<or> publicRequest r' \<or> tok = as_APIKey srv
       then apiMux srv r' securityHeaders s'
       else (Ok (writeError 401 ''unauthorized'' ''auth_required'' securityHeaders), s'))"
proof (intro allI impI)
  fix r' :: apiRequest and s'
  assume "hq_Header r' ''Authorization'' = bearer @ tok"
  moreover have "tok \<noteq> ''''"
    using assms(2) by (auto simp: issueSessionToken_def Let_def split: option.splits)
  ultimately show "ServeHTTP srv r' s' =
      (if rt_Now (as_Runtime srv) (ap_world s') < now + 24 * Hour \<or> publicRequest r' \<or> tok = as_APIKey srv
       then apiMux srv r' securityHeaders s'
       else (Ok (writeError 401 ''unauthorized'' ''auth_required'' securityHeaders), s'))"
    using ServeHTTP_cases [OF assms(1), of r' s'] requestToken_bearer session_token_valid [OF assms(2,3)] by auto
qed

text \<open>
  C7.  A login with the API key answers with a session token, and until 24 hours after the login a
  request with that bearer token is served exactly as its route says, whichever it is; from then on
  it is refused without effect, unless it is public (or the token happens to be the key).
\<close>

theorem api_login_session:
  assumes "as_APIKey srv \<noteq> ''''" and "hq_Method r = ''POST''" and "hq_Path r = ''/api/v1/auth/token''"
    and "decodeApiKey (MaxBytesReader (2 ^ 20) (hq_Body r)) = Some (as_APIKey srv)"
    and "rt_Now (as_Runtime srv) (ap_world s) = now" and "0 \<le> now" and "now + 24 * Hour < endOfTime"
  shows "\<exists>tok. ServeHTTP srv r s = (Ok (writeJSON 200 (TokenBody tok) securityHeaders), s) \<and>
    (\<forall>r' s'. hq_Header r' ''Authorization'' = bearer @ tok \<longrightarrow>
       ServeHTTP srv r' s' =
         (if rt_Now (as_Runtime srv) (ap_world s') < now + 24 * Hour \<or> publicRequest r' \<or> tok = as_APIKey srv
          then apiMux srv r' securityHeaders s'
          else (Ok (writeError 401 ''unauthorized'' ''auth_required'' securityHeaders), s')))"
proof -
  obtain tok where tok: "issueSessionToken now (as_APIKey srv) = Ok tok"
    using issue_total [OF assms(6,7)] by blast
  have "ServeHTTP srv r s = (Ok (writeJSON 200 (TokenBody tok) securityHeaders), s)"
    using tok assms(5) by (intro login_answer [OF assms(1-4)]) simp
  with session_access [OF assms(1) tok assms(6)] show ?thesis by blast
qed

section \<open>A server over the memory store\<close>

definition exampleDecoders :: bodyDecoders where
  "exampleDecoders =
     \<lparr>bd_Input = (\<lambda>_. Ok None), bd_Graph = (\<lambda>_. Err (Errorf [FL ''EOF''])),
      bd_Service = (\<lambda>_. Err (Errorf [FL ''EOF'']))\<rparr>"

definition exampleSockets :: "unit mem_world Websocket" where
  "exampleSockets =
     \<lparr>ws_SetWriteDeadline = (\<lambda>_ _ w. (None, w)), ws_WriteJSON = (\<lambda>_ _ w. (None, w)),
      ws_Close = (\<lambda>_ w. (None, w))\<rparr>"

definition exampleServer :: "unit mem_world apiServer" where
  "exampleServer =
     \<lparr>as_Store = memoryStore exampleOrders, as_K8s = None, as_Telemetry = None,
      as_Workflows = [''order-workflow''], as_HasTrigger = True, as_APIKey = ''key'',
      as_Decode = exampleDecoders, as_Runtime = localRuntime,
      as_Rand = (\<lambda>w. (Ok (replicate 16 0xAB), w)), as_Upgrade = (\<lambda>_ w. (Inl 0, w)),
      as_Websocket = exampleSockets\<rparr>"

definition exampleState :: "time \<Rightarrow> unit mem_world apiState" where
  "exampleState now =
     NewServer (NewWSHub, \<lparr>hp_next = 0, hp_chan = Map.empty\<rparr>)
       \<lparr>mw_store = NewMemoryStore, mw_now = now, mw_log = [], mw_env = ()\<rparr>"

definition exampleApiRequest :: "string \<Rightarrow> string \<Rightarrow> string \<Rightarrow> string \<Rightarrow> apiRequest" where
  "exampleApiRequest meth path auth body =
     \<lparr>hq_Method = meth, hq_Path = path, hq_Header = (\<lambda>n. if n = ''Authorization'' then auth else ''''),
      hq_Query = (\<lambda>_. ''''), hq_Body = body, aq_Flusher = True\<rparr>"

definition loginBody :: "string \<Rightarrow> string" where
  "loginBody k = map char_of (singleMember ''api_key'' (asciiBytes k))"

lemma loginBody_decodes:
  assumes "validText k"
  shows "decodeApiKey (loginBody k) = Some k"
proof -
  have bytes: "asciiBytes (loginBody k) = singleMember ''api_key'' (asciiBytes k)"
    unfolding loginBody_def by (rule asciiBytes_char_of) (rule singleMember_bytes)
  have name: "plainName ''api_key''" and fld: "fieldOf [''api_key''] (asciiBytes ''api_key'') = Some ''api_key''"
    by (simp_all add: plainName_def asciiBytes_def fieldOf_def)
  obtain n where fuel: "2 * length (loginBody k) + 2 = Suc (Suc (Suc n))"
    by (rule that [of "2 * length (loginBody k) - 1"]) (simp add: loginBody_def singleMember_def)
  show ?thesis
    unfolding decodeApiKey_def bytes fuel
    using parseValue_single [OF name assms [unfolded validText_def], of n "[]"] by (simp add: fld setString_def)
qed

lemma loginBody_key:
  "decodeApiKey (MaxBytesReader (2 ^ 20) (loginBody ''key'')) = Some ''key''"
proof -
  have "length (loginBody ''key'') = 17" by code_simp
  moreover have "validText ''key''" by (rule validText_ascii) simp
  ultimately show ?thesis using loginBody_decodes [of "''key''"] by (simp add: MaxBytesReader_def)
qed

lemma no_dot_not_signed: "CHR ''.'' \<notin> set token \<Longrightarrow> \<not> signedSession now apiKey token"
  by (auto simp: signedSession_def)

theorem api_requires_token_witness:
  "\<exists>resp. ServeHTTP exampleServer (exampleApiRequest ''DELETE'' ''/api/v1/services/a'' ''Bearer guess'' '''')
      (exampleState 7) =
        (Ok resp, exampleState 7) \<and>
      ar_Status resp = 401"
proof -
  let ?r = "exampleApiRequest ''DELETE'' ''/api/v1/services/a'' ''Bearer guess'' ''''"
  let ?s = "exampleState 7"
  have "requestToken ?r = ''guess''"
    by (simp add: exampleApiRequest_def requestToken_def hasPrefix_def bearer_def)
  then show ?thesis
    using api_requires_token [of exampleServer ?r ?s] no_dot_not_signed [of "''guess''"]
    by (simp add: exampleServer_def publicRequest_def exemptPaths_def exampleApiRequest_def) blast
qed

theorem api_login_session_witness:
  "\<exists>tok. ServeHTTP exampleServer (exampleApiRequest ''POST'' ''/api/v1/auth/token'' '''' (loginBody ''key''))
       (exampleState 7) =
       (Ok (writeJSON 200 (TokenBody tok) securityHeaders),
        exampleState 7) \<and>
     fst (ServeHTTP exampleServer (exampleApiRequest ''GET'' ''/api/v1/workflows'' (bearer @ tok) '''')
       (exampleState 8)) =
       Ok (writeJSON 200 (WorkflowsBody [''order-workflow'']) securityHeaders)"
proof -
  let ?r = "exampleApiRequest ''POST'' ''/api/v1/auth/token'' '''' (loginBody ''key'')"
  let ?s = "exampleState 7"
  have key: "as_APIKey exampleServer = ''key''" and now: "rt_Now (as_Runtime exampleServer) (ap_world (exampleState t)) = t" for t
    by (simp_all add: exampleServer_def localRuntime_def exampleState_def NewServer_def)
  have path: "pathMatches ''/api/v1/workflows'' = [(''GET'', RListWorkflows, []), (''POST'', RRegisterWorkflow, [])]"
    by code_simp
  have "\<exists>tok. ServeHTTP exampleServer ?r ?s = (Ok (writeJSON 200 (TokenBody tok) securityHeaders), ?s) \<and>
    (\<forall>r' s'. hq_Header r' ''Authorization'' = bearer @ tok \<longrightarrow>
       ServeHTTP exampleServer r' s' =
         (if rt_Now (as_Runtime exampleServer) (ap_world s') < 7 + 24 * Hour \<or> publicRequest r' \<or>
             tok = as_APIKey exampleServer
          then apiMux exampleServer r' securityHeaders s'
          else (Ok (writeError 401 ''unauthorized'' ''auth_required'' securityHeaders), s')))"
    by (rule api_login_session)
      (use loginBody_key in \<open>simp_all add: exampleApiRequest_def key now endOfTime_def Hour_def Second_def\<close>)
  then obtain tok where tok: "ServeHTTP exampleServer ?r ?s = (Ok (writeJSON 200 (TokenBody tok) securityHeaders), ?s)"
    and acc: "\<And>r' s'. hq_Header r' ''Authorization'' = bearer @ tok \<Longrightarrow> ServeHTTP exampleServer r' s' =
         (if rt_Now (as_Runtime exampleServer) (ap_world s') < 7 + 24 * Hour \<or> publicRequest r' \<or>
             tok = as_APIKey exampleServer
          then apiMux exampleServer r' securityHeaders s'
          else (Ok (writeError 401 ''unauthorized'' ''auth_required'' securityHeaders), s'))"
    by blast
  have "fst (ServeHTTP exampleServer (exampleApiRequest ''GET'' ''/api/v1/workflows'' (bearer @ tok) '''')
       (exampleState 8)) =
       Ok (writeJSON 200 (WorkflowsBody [''order-workflow'']) securityHeaders)"
    by (subst acc) (simp_all add: exampleApiRequest_def now Hour_def Second_def apiMux_def path
        methodMatches_def dispatch_def handleListWorkflows_def, simp add: exampleServer_def)
  with tok show ?thesis by blast
qed

section \<open>Running a workflow\<close>

lemma splitSlash_plain: "CHR ''/'' \<notin> set a \<Longrightarrow> splitSlash a = [a]"
  by (induction a) auto

lemma splitSlash_sep: "CHR ''/'' \<notin> set a \<Longrightarrow> splitSlash (a @ CHR ''/'' # b) = a # splitSlash b"
  by (induction a) auto

lemma run_path:
  assumes "name \<noteq> ''''" and "CHR ''/'' \<notin> set name"
  shows "pathMatches (''/api/v1/workflows/'' @ name @ ''/run'') = [(''POST'', RRunWorkflow, [name])]"
proof -
  have "tl (splitSlash (''/api/v1/workflows/'' @ name @ ''/run'')) = [''api'', ''v1'', ''workflows'', name, ''run'']"
    using splitSlash_sep [OF assms(2), of "''run''"] by (simp add: splitSlash_plain)
  with assms(1) show ?thesis
    by (simp add: pathMatches_def registerRoutes_def apiPath_def List.map_filter_simps)
qed

lemma execution_path:
  assumes "execID \<noteq> ''''" and "CHR ''/'' \<notin> set execID"
  shows "pathMatches (''/api/v1/executions/'' @ execID) = [(''GET'', RGetExecution, [execID])]"
proof -
  have "tl (splitSlash (''/api/v1/executions/'' @ execID)) = [''api'', ''v1'', ''executions'', execID]"
    using assms(2) by (simp add: splitSlash_plain)
  with assms(1) show ?thesis
    by (simp add: pathMatches_def registerRoutes_def apiPath_def List.map_filter_simps)
qed

lemma genUUID_path:
  assumes "length bytes = 16" and "genUUID (Ok bytes) = Ok e"
  shows "e \<noteq> ''''" and "CHR ''/'' \<notin> set e"
proof -
  note f = newUUID_format [OF assms(1) assms(2) [unfolded genUUID_newUUID]]
  from f(1) show "e \<noteq> ''''" by auto
  have "\<not> isHex (CHR ''/'')" by (simp add: isHex_def)
  with f(2) show "CHR ''/'' \<notin> set e" by auto
qed

text \<open>The record that \<open>CreateExecution\<close> keeps.\<close>

definition pendingRecord :: "string \<Rightarrow> string \<Rightarrow> gomap \<Rightarrow> time \<Rightarrow> ExecutionRecord" where
  "pendingRecord execID name input now =
     (runRecord execID name input)\<lparr>er_Status := StatusPending, er_CreatedAt := now, er_UpdatedAt := now\<rparr>"

text \<open>
  C23.  Over the memory store, a run of a registered workflow with a readable input and an unused ID
  is accepted: the answer carries the ID, the trigger is started once with that ID, the workflow and
  the input, and a GET of the execution then answers with its record, pending, with that workflow
  and input.
\<close>

theorem api_run_then_get:
  assumes "as_Store srv = memoryStore ro" and "workflowRegistered srv name s"
    and "name \<noteq> ''''" and "CHR ''/'' \<notin> set name"
    and "hq_Method r = ''POST''" and "hq_Path r = ''/api/v1/workflows/'' @ name @ ''/run''"
    and "bd_Input (as_Decode srv) (MaxBytesReader (10 * 2 ^ 20) (hq_Body r)) = Ok input"
    and "as_Rand srv (ap_world s) = (Ok bytes, w1)" and "length bytes = 16" and "genUUID (Ok bytes) = Ok e"
    and "ms_executions (mw_store w1) e = None"
  shows "\<exists>s'. apiMux srv r hs s = (Ok (writeJSON 202 (ExecutionIDBody e) hs), s') \<and>
    ap_spawned s' = ap_spawned s @ (if as_HasTrigger srv then [(e, name, input)] else []) \<and>
    (\<forall>r' hs'. hq_Method r' = ''GET'' \<and> hq_Path r' = ''/api/v1/executions/'' @ e \<longrightarrow>
       apiMux srv r' hs' s' =
         (Ok (writeJSON 200 (ExecutionBody (pendingRecord e name input (mw_now w1))) hs'), s'))"
proof -
  let ?rec = "pendingRecord e name input (mw_now w1)"
  have c: "st_CreateExecution (as_Store srv) (runRecord e name input) w1 =
      (Ok (), w1\<lparr>mw_store := (mw_store w1)\<lparr>ms_executions := (ms_executions (mw_store w1))(e \<mapsto> ?rec)\<rparr>\<rparr>)"
    (is "_ = (_, ?w2)")
    using assms(1,11)
    by (simp add: mem_world_defs mem_CreateExecution_def Let_def pendingRecord_def runRecord_def)
  let ?s' = "s\<lparr>ap_world := ?w2, ap_spawned := ap_spawned s @ (if as_HasTrigger srv then [(e, name, input)] else [])\<rparr>"
  have "handleRunWorkflow srv name r hs s = (Ok (writeJSON 202 (ExecutionIDBody e) hs), ?s')"
    using assms(2,7,8,10) c by (simp add: handleRunWorkflow_def onWorld_def)
  moreover have "handleGetExecution srv e hs' ?s' = (Ok (writeJSON 200 (ExecutionBody ?rec) hs'), ?s')" for hs'
    using assms(1) by (simp add: handleGetExecution_def onWorld_def mem_world_defs mem_GetExecution_def)
  ultimately show ?thesis
    using assms(5,6) run_path [OF assms(3,4)] execution_path [OF genUUID_path [OF assms(9,10)]]
    by (intro exI [of _ ?s']) (simp add: apiMux_def methodMatches_def dispatch_def pathValue_def)
qed

theorem api_run_then_get_witness:
  "\<exists>e s'. apiMux exampleServer (exampleApiRequest ''POST'' ''/api/v1/workflows/order-workflow/run'' '''' ''{}'') []
       (exampleState 7) = (Ok (writeJSON 202 (ExecutionIDBody e) []), s') \<and>
     ap_spawned s' = [(e, ''order-workflow'', None)]"
proof -
  let ?r = "exampleApiRequest ''POST'' ''/api/v1/workflows/order-workflow/run'' '''' ''{}''"
  obtain e where e: "genUUID (Ok (replicate 16 (0xAB :: 8 word))) = Ok e"
    unfolding genUUID_def Let_def res.case by blast
  have "\<exists>s'. apiMux exampleServer ?r [] (exampleState 7) = (Ok (writeJSON 202 (ExecutionIDBody e) []), s') \<and>
    ap_spawned s' = ap_spawned (exampleState 7) @ (if as_HasTrigger exampleServer then [(e, ''order-workflow'', None)] else []) \<and>
    (\<forall>r' hs'. hq_Method r' = ''GET'' \<and> hq_Path r' = ''/api/v1/executions/'' @ e \<longrightarrow>
       apiMux exampleServer r' hs' s' =
         (Ok (writeJSON 200 (ExecutionBody (pendingRecord e ''order-workflow'' None
            (mw_now (ap_world (exampleState 7))))) hs'), s'))"
    by (rule api_run_then_get [where ro = exampleOrders and bytes = "replicate 16 0xAB"])
      (simp_all add: exampleServer_def exampleState_def NewServer_def exampleApiRequest_def exampleDecoders_def
        workflowRegistered_def NewMemoryStore_def e)
  then show ?thesis by (auto simp: exampleServer_def exampleState_def NewServer_def)
qed

section \<open>Services\<close>

text \<open>
  A stopped service cannot be registered again: the handler lets its name through, and the store
  refuses every name that has a record.
\<close>

lemma stopped_service_refused:
  assumes "as_Store srv = memoryStore ro"
    and "bd_Service (as_Decode srv) (MaxBytesReader (10 * 2 ^ 20) (hq_Body r)) = Ok rec" and "svc_Name rec \<noteq> ''''"
    and "ms_services (mw_store (ap_world s)) (svc_Name rec) = Some old"
  shows "handleCreateService srv r hs s =
    (Ok (writeError 409 ''service name already registered'' ''name_collision'' hs), s)"
  using assms
  by (simp add: handleCreateService_def createService_def onWorld_def mem_world_defs mem_GetService_def mem_CreateService_def)

text \<open>Without a cluster, a delete of a known service leaves no record of it.\<close>

lemma deleted_service_gone:
  assumes "as_Store srv = memoryStore ro" and "as_K8s srv = None"
    and "ms_services (mw_store (ap_world s)) name = Some old"
  shows "\<exists>s'. handleDeleteService srv name hs s = (Ok \<lparr>ar_Status = 204, ar_Headers = hs, ar_Body = NoBody\<rparr>, s') \<and>
    handleGetService srv name hs' s' = (Ok (writeError 404 ''service not found'' ''not_found'' hs'), s')"
  using assms
  by (simp add: handleDeleteService_def handleGetService_def onWorld_def tearDownService_def mem_world_defs
      mem_GetService_def mem_DeleteService_def)

section \<open>Registering workflows\<close>

definition wellFormedGraph :: "workflowGraph \<Rightarrow> bool" where
  "wellFormedGraph g \<longleftrightarrow>
     workflowNameRe (wg_Name g) \<and> wg_States g \<noteq> [] \<and> wg_Flow g \<noteq> [] \<and>
     distinct (map sn_Name (wg_States g)) \<and> fe_Name ` set (wg_Flow g) \<subseteq> sn_Name ` set (wg_States g)"

lemma stateSetOf_Inr:
  "stateSetOf seen sts = Inr k \<longleftrightarrow>
   distinct (map sn_Name sts) \<and> seen \<inter> sn_Name ` set sts = {} \<and> k = seen \<union> sn_Name ` set sts"
  by (induction sts arbitrary: seen) auto

lemma unknownFlow_None: "unknownFlow known fes = None \<longleftrightarrow> fe_Name ` set fes \<subseteq> known"
  by (induction fes) auto

text \<open>
  A graph is registered exactly when it is well formed and its name is new among the registered
  graphs; otherwise nothing changes and the status says why.
\<close>

theorem handleRegisterWorkflow_spec:
  assumes "bd_Graph (as_Decode srv) (MaxBytesReader (2 ^ 20) (hq_Body r)) = Ok g"
  shows "\<exists>resp. handleRegisterWorkflow srv r hs s =
      (Ok resp, if wellFormedGraph g \<and> ap_graphs s (wg_Name g) = None
                then s\<lparr>ap_graphs := (ap_graphs s)(wg_Name g \<mapsto> g)\<rparr> else s) \<and>
    ar_Status resp = (if \<not> wellFormedGraph g then 400 else if ap_graphs s (wg_Name g) \<noteq> None then 409 else 201)"
proof (cases "stateSetOf {} (wg_States g)")
  case (Inl dup)
  then have "\<not> distinct (map sn_Name (wg_States g))"
    using stateSetOf_Inr [of "{}" "wg_States g" "sn_Name ` set (wg_States g)"] by auto
  with Inl assms show ?thesis
    by (simp add: handleRegisterWorkflow_def wellFormedGraph_def writeError_def writeJSON_def)
next
  case (Inr k)
  then have k: "distinct (map sn_Name (wg_States g))" "k = sn_Name ` set (wg_States g)"
    by (simp_all add: stateSetOf_Inr)
  show ?thesis
    using assms Inr k unknownFlow_None [of k "wg_Flow g"]
    by (cases "unknownFlow k (wg_Flow g)")
      (simp_all add: handleRegisterWorkflow_def wellFormedGraph_def writeError_def writeJSON_def)
qed

text \<open>
  A registered workflow can be read back and run, but the list of workflows never shows it: the list
  is the one the server was created with.
\<close>

lemma registered_not_listed:
  assumes "ap_graphs s name = Some g" and "name \<notin> set (as_Workflows srv)"
  shows "workflowRegistered srv name s" and
    "handleGetWorkflow name hs s = (Ok (writeJSON 200 (GraphBody g) hs), s)" and
    "handleListWorkflows srv hs s = (Ok (writeJSON 200 (WorkflowsBody (as_Workflows srv)) hs), s)"
  using assms by (simp_all add: workflowRegistered_def handleGetWorkflow_def handleListWorkflows_def)

section \<open>Streams\<close>

definition transitionOf :: "string \<Rightarrow> WSEvent \<Rightarrow> bool" where
  "transitionOf execID ev \<longleftrightarrow>
     we_Type ev = ''state_transition'' \<and>
     (\<exists>sn from to err. we_Payload ev = StateTransitionPayload execID sn from to err)"

lemma streamEvent_eq: "streamEvent execID ev = (if transitionOf execID ev then [DataEvent ev] else [])"
  by (auto simp: streamEvent_def transitionOf_def split: payload.splits)

text \<open>
  A stream writes the state transitions of its execution, in order, among the events that arrive
  before it ends, whenever the ticker fires in between.
\<close>

definition eventsBefore :: "selectCase list \<Rightarrow> WSEvent list" where
  "eventsBefore cs =
     List.map_filter (\<lambda>c. case c of Received e \<Rightarrow> e | _ \<Rightarrow> None)
       (takeWhile (\<lambda>c. c \<noteq> CtxDone \<and> c \<noteq> Received None) cs)"

lemma stream_delivers:
  "filter (\<lambda>c. c \<noteq> Keepalive) (streamLoop execID cs) = map DataEvent (filter (transitionOf execID) (eventsBefore cs))"
proof (induction cs)
  case (Cons c cs)
  then show ?case
    by (cases c rule: selectCase.exhaust)
      (auto simp: eventsBefore_def streamEvent_eq List.map_filter_simps split: option.splits)
qed (simp add: eventsBefore_def List.map_filter_simps)

end
