(* ===== verification/Cli_Correct.thy ===== *)
theory Cli_Correct
  imports Cli Api_Correct
begin

text \<open>
  The command line client together with the servers it talks to: which of its requests the gateway
  of the orchestrator serves, what a log stream asks for, and the session of a login with the HTTP
  API.  The URL of the server is taken without a path of its own, the connection as HTTP/1.1.

  The transport is what the standard library does: it refuses a request with a control character
  in a header value, and removes the blanks around a value.  Paths are canonical, so the redirects of
  \<open>http.ServeMux\<close> do not occur.
\<close>

section \<open>Requests on their way\<close>

text \<open>\<open>httpguts.ValidHeaderFieldValue\<close> and \<open>textproto.TrimString\<close>.\<close>

definition validHeaderValue :: "string \<Rightarrow> bool" where
  "validHeaderValue v \<longleftrightarrow>
     list_all (\<lambda>c. byteOf c \<noteq> 0x7F \<and> (byteOf c < 0x20 \<longrightarrow> byteOf c = 9)) v"

definition blank :: "char \<Rightarrow> bool" where
  "blank c \<longleftrightarrow> byteOf c \<in> {32, 9, 10, 13}"

definition trimRight :: "string \<Rightarrow> string" where
  "trimRight v = rev (dropWhile blank (rev v))"

definition trimString :: "string \<Rightarrow> string" where
  "trimString v = dropWhile blank (trimRight v)"

text \<open>The error of the transport, without the method and the URL that \<open>url.Error\<close> puts before it.\<close>

definition badHeader :: "string \<Rightarrow> goerr" where
  "badHeader k = Errorf [FL ''net/http: invalid header field value for '', FQ k]"

definition headersErr :: "headers \<Rightarrow> goerr option" where
  "headersErr hs = map_option (\<lambda>(k, v). badHeader k) (find (\<lambda>(k, v). \<not> validHeaderValue v) hs)"

definition sentHeaders :: "headers \<Rightarrow> headers" where
  "sentHeaders hs = map (\<lambda>(k, v). (k, trimString v)) hs"

text \<open>The request a server reads, for a URL that starts with the server's own.\<close>

definition headerGet :: "headers \<Rightarrow> string \<Rightarrow> string" where
  "headerGet hs n = (case map_of hs n of None \<Rightarrow> '''' | Some v \<Rightarrow> v)"

definition targetRequest :: "string \<Rightarrow> string \<Rightarrow> string \<Rightarrow> headers \<Rightarrow> string \<Rightarrow> httpRequest" where
  "targetRequest base meth url hs body =
     (case cutTarget (drop (length base) url) of
        (p, q) \<Rightarrow>
          \<lparr>hq_Method = meth,
           hq_Path = (case PathUnescape p of None \<Rightarrow> p | Some p1 \<Rightarrow> p1),
           hq_Header = headerGet hs,
           hq_Query = queryGet (parseQuery q),
           hq_Body = body\<rparr>)"

definition sentRequest :: "string \<Rightarrow> cliRequest \<Rightarrow> httpRequest" where
  "sentRequest base q = targetRequest base (cq_Method q) (cq_URL q) (sentHeaders (cq_Headers q)) (cq_Body q)"

text \<open>\<open>http.DefaultClient.Do\<close> of a request to the gateway.\<close>

definition gatewayDo :: "string \<Rightarrow> 'w httpHandler \<Rightarrow> cliRequest \<Rightarrow> 'w \<Rightarrow> cliResponse res \<times> 'w" where
  "gatewayDo base h q w =
     (case headersErr (cq_Headers q) of
        Some err \<Rightarrow> (Err err, w)
      | None \<Rightarrow>
          (case h (sentRequest base q) [] w of
             (resp, w1) \<Rightarrow> (Ok \<lparr>cs_Status = hx_Status resp, cs_Body = Ok (hx_Body resp)\<rparr>, w1)))"

lemma targetRequest_path:
  assumes "plainPath p"
  shows "targetRequest base meth (base @ p) hs body =
    \<lparr>hq_Method = meth, hq_Path = p, hq_Header = headerGet hs, hq_Query = (\<lambda>_. ''''), hq_Body = body\<rparr>"
  by (simp add: targetRequest_def cutTarget_path [OF assms] PathUnescape_plainPath [OF assms]
      parseQuery_def parsePair_def queryGet_def List.map_filter_simps fun_eq_iff)

lemma targetRequest_query:
  assumes "plainPath p"
  shows "targetRequest base meth (base @ p @ ''?'' @ Encode kvs) hs body =
    \<lparr>hq_Method = meth, hq_Path = p, hq_Header = headerGet hs, hq_Query = queryGet kvs, hq_Body = body\<rparr>"
  using cutTarget_query [OF assms Encode_no_hash]
  by (simp add: targetRequest_def PathUnescape_plainPath [OF assms] parseQuery_Encode)

section \<open>Header values\<close>

lemma trimRight_idem [simp]: "trimRight (trimRight v) = trimRight v"
  by (simp add: trimRight_def)

lemma trimRight_blank: "trimRight v = '''' \<longleftrightarrow> list_all blank v"
  by (simp add: trimRight_def list_all_iff)

lemma blank_letters: "\<not> blank (CHR ''B'')" "blank (CHR '' '')" "\<not> blank (CHR ''r'')"
  by (simp_all add: blank_def byteOf_def)

lemma trimString_bearer:
  "trimString (bearer @ tok) = (if trimRight tok = '''' then ''Bearer'' else bearer @ trimRight tok)"
proof (cases "list_all blank tok")
  case True
  then have "trimRight (bearer @ tok) = trimRight bearer"
    using dropWhile_append2 [of "rev tok" blank "rev bearer"] by (simp add: trimRight_def list_all_iff)
  with True show ?thesis
    by (simp add: trimString_def trimRight_blank) (simp add: trimRight_def bearer_def blank_letters)
next
  case False
  then obtain c where "c \<in> set (rev tok)" "\<not> blank c" by (auto simp: list_all_iff)
  then have "trimRight (bearer @ tok) = bearer @ trimRight tok"
    by (simp add: trimRight_def dropWhile_append1)
  with False show ?thesis by (simp add: trimString_def trimRight_blank bearer_def blank_letters)
qed

lemma validHeader_bearer: "validHeaderValue (bearer @ tok) = validHeaderValue tok"
  by (simp add: validHeaderValue_def bearer_def byteOf_def)

lemma validHeader_fixed [simp]: "validHeaderValue ''application/json''" "validHeaderValue ''''"
  by (simp_all add: validHeaderValue_def byteOf_def)

lemma buildRequest_headersErr:
  "headersErr (cq_Headers (buildRequest ci meth path bt tok)) =
     (if validHeaderValue tok then None else Some (badHeader ''Authorization''))"
  by (auto simp: headersErr_def buildRequest_def validHeader_bearer)

lemma headerGet_sent: "headerGet (sentHeaders hs) n = (case map_of hs n of None \<Rightarrow> '''' | Some v \<Rightarrow> trimString v)"
  by (simp add: headerGet_def sentHeaders_def map_of_map split: option.split)

section \<open>The gateway and the client\<close>

abbreviation (input) commandRequest :: "'x cli \<Rightarrow> string \<Rightarrow> string \<Rightarrow> string option \<Rightarrow> string \<Rightarrow> httpRequest" where
  "commandRequest ci meth path bt tok \<equiv> sentRequest (ci_server ci) (buildRequest ci meth path bt tok)"

text \<open>The body of a command and the text it is sent as.\<close>

definition marshals :: "'x cli \<Rightarrow> cliBody option \<Rightarrow> string option \<Rightarrow> bool" where
  "marshals ci body bt \<longleftrightarrow>
     (case body of
        None \<Rightarrow> bt = None
      | Some b \<Rightarrow> (case bt of None \<Rightarrow> False | Some t \<Rightarrow> marshalBody ci b = Ok t))"

lemma sentRequest_simps:
  "hq_Method (commandRequest ci meth path bt tok) = meth"
  "hq_Body (commandRequest ci meth path bt tok) = (case bt of None \<Rightarrow> '''' | Some b \<Rightarrow> b)"
  by (simp_all add: sentRequest_def buildRequest_def targetRequest_def split: prod.split)

lemma sentRequest_target:
  "hq_Path (commandRequest ci meth path bt tok) = hq_Path (commandRequest ci meth path None '''')"
  "hq_Query (commandRequest ci meth path bt tok) = hq_Query (commandRequest ci meth path None '''')"
  "routeOf (commandRequest ci meth path bt tok) = routeOf (commandRequest ci meth path None '''')"
  by (simp_all add: sentRequest_def buildRequest_def targetRequest_def routeOf_def split: prod.split)

lemma command_header:
  "hq_Header (commandRequest ci meth path bt tok) ''Authorization'' =
     (if tok = '''' then '''' else if trimRight tok = '''' then ''Bearer'' else bearer @ trimRight tok)"
  by (simp add: sentRequest_def targetRequest_def headerGet_sent buildRequest_def trimString_bearer split: prod.split)

lemma command_key:
  assumes "hq_Query (commandRequest ci meth path bt tok) ''token'' = ''''"
  shows "presentedKey (commandRequest ci meth path bt tok) = trimRight tok"
proof -
  have "trimRight '''' = ''''" by (simp add: trimRight_def)
  with assms show ?thesis
    by (cases "tok = ''''"; cases "trimRight tok = ''''")
      (simp_all add: presentedKey_def command_header, simp_all add: bearer_def)
qed

text \<open>Blanks at the end of a token do not arrive.\<close>

lemma command_trimmed:
  assumes "trimRight tok \<noteq> ''''"
  shows "commandRequest ci meth path bt tok = commandRequest ci meth path bt (trimRight tok)"
proof -
  have "tok \<noteq> ''''" using assms by (auto simp: trimRight_def)
  with assms show ?thesis
    by (simp add: sentRequest_def buildRequest_def sentHeaders_def trimString_bearer)
qed

definition refused401 :: goerr where
  "refused401 = Errorf [FL ''server error '', FD 401, FL '': '', FS (unauthorizedBody @ [newlineCh])]"

lemma doJSON_sent:
  assumes "ci_Do ci = gatewayDo (ci_server ci) h" and "ci_URLErr ci (ci_server ci @ path) = None"
    and "marshals ci body bt"
  shows "doJSONWithBearer ci meth path body tok m =
    (if validHeaderValue tok
     then (case h (commandRequest ci meth path bt tok) [] (mc_net m) of
             (resp, w) \<Rightarrow> (readResponse ci \<lparr>cs_Status = hx_Status resp, cs_Body = Ok (hx_Body resp)\<rparr>,
                          m\<lparr>mc_net := w\<rparr>))
     else (Err (Errorf [FL ''request: '', FW (badHeader ''Authorization'')]), m))"
  using assms
  by (auto simp: doJSONWithBearer_def onNet_def gatewayDo_def marshals_def buildRequest_headersErr
      split: option.splits prod.split)

lemma gateway_refuses:
  assumes "apiKey \<noteq> ''''" and "presentedKey r \<noteq> apiKey" and "\<not> exempt r"
  shows "NewGatewayMux apiKey ready gh r [] w = (httpError unauthorizedBody 401 [], w)"
  using assms by (auto simp: exempt_route NewGatewayMux_def authMiddleware_def split: route.splits)

lemma readResponse_401:
  "readResponse ci \<lparr>cs_Status = hx_Status (httpError unauthorizedBody 401 []),
     cs_Body = Ok (hx_Body (httpError unauthorizedBody 401 []))\<rparr> = Err refused401"
  by (simp add: readResponse_def httpError_def refused401_def)

lemma key_body: "marshalBody ci (KeyBody key) = Ok (loginBody key)"
  by (simp add: marshalBody_def loginBody_def)

lemma token_request:
  "hq_Path (commandRequest ci meth ''/api/v1/auth/token'' bt tok) = ''/api/v1/auth/token''"
  "hq_Query (commandRequest ci meth ''/api/v1/auth/token'' bt tok) = (\<lambda>_. '''')"
proof -
  have "plainPath ''/api/v1/auth/token''" by (simp add: plainPath_def)
  then show "hq_Path (commandRequest ci meth ''/api/v1/auth/token'' bt tok) = ''/api/v1/auth/token''"
    "hq_Query (commandRequest ci meth ''/api/v1/auth/token'' bt tok) = (\<lambda>_. '''')"
    by (simp_all add: sentRequest_def buildRequest_def targetRequest_path)
qed

lemma exchange_refused:
  assumes "apiKey \<noteq> ''''" and "ci_Do ci = gatewayDo (ci_server ci) (NewGatewayMux apiKey ready gh)"
    and "ci_URLErr ci (ci_server ci @ ''/api/v1/auth/token'') = None"
  shows "exchangeKey ci key m = (Err refused401, m)"
proof -
  let ?r = "commandRequest ci ''POST'' ''/api/v1/auth/token'' (Some (loginBody key)) ''''"
  have "presentedKey ?r = ''''" by (simp add: command_key token_request trimRight_def)
  then have "NewGatewayMux apiKey ready gh ?r [] w = (httpError unauthorizedBody 401 [], w)" for w
    using assms(1) by (intro gateway_refuses) (simp_all add: exempt_def sentRequest_simps token_request)
  then show ?thesis
    using doJSON_sent [OF assms(2,3), of "Some (KeyBody key)" "Some (loginBody key)"]
    by (simp add: exchangeKey_def doJSONNoAuth_def marshals_def key_body readResponse_401)
qed

text \<open>
  C11.  Against the gateway of the orchestrator with an API key configured, every command that goes to
  the REST API, with or without a body, fares by its token: the one given with --api-key, else what
  the token file holds.  A token with a control character (a newline at the end of the file) is not
  sent at all; the command fails.  Otherwise the command is served exactly when the token without the
  blanks at its end is the key, with the body and the key as they are; else it fails with the error
  for status 401 and nothing changes.  The commands that exchange the key for a session token always
  fail, whatever key they have, and save nothing.  The path is canonical.
\<close>

theorem cli_gateway_access:
  assumes "apiKey \<noteq> ''''" and "ci_Do ci = gatewayDo (ci_server ci) (NewGatewayMux apiKey ready gh)"
    and "ci_URLErr ci (ci_server ci @ path) = None"
    and "ci_URLErr ci (ci_server ci @ ''/api/v1/auth/token'') = None"
    and "canonicalPath (fst (cutTarget path))" and "marshals ci body bt"
    and "r = sentRequest (ci_server ci) (buildRequest ci meth path bt apiKey)"
    and "routeOf r = RestAPI" and "hq_Query r ''token'' = ''''"
    and "tok = (if ci_apiKey ci \<noteq> '''' then ci_apiKey ci else loadSavedToken ci m)"
  shows "doJSON ci meth path body m =
      (if \<not> validHeaderValue tok
       then (Err (Errorf [FL ''request: '', FW (badHeader ''Authorization'')]), m)
       else if trimRight tok = apiKey
       then (case secureHeaders (gh_Rest gh) r [] (mc_net m) of
               (resp, w) \<Rightarrow> (readResponse ci \<lparr>cs_Status = hx_Status resp, cs_Body = Ok (hx_Body resp)\<rparr>,
                            m\<lparr>mc_net := w\<rparr>))
       else (Err refused401, m)) \<and>
    hq_Body r = (case bt of None \<Rightarrow> '''' | Some b \<Rightarrow> b) \<and>
    (\<exists>err. authLogin ci m = (Err err, m)) \<and> (\<exists>err. authToken ci m = (Err err, m))"
proof -
  let ?r = "commandRequest ci meth path bt tok" and ?mux = "NewGatewayMux apiKey ready gh"
  have same: "routeOf ?r = RestAPI" "hq_Query ?r ''token'' = ''''"
    using assms(8,9) sentRequest_target [of ci meth path bt] unfolding assms(7) by metis+
  have key: "presentedKey ?r = trimRight tok" by (rule command_key [OF same(2)])
  have refused: "?mux ?r [] w = (httpError unauthorizedBody 401 [], w)" if "trimRight tok \<noteq> apiKey" for w
    using that key same(1) by (intro gateway_refuses [OF assms(1)]) (simp_all add: exempt_route)
  have served: "?mux ?r [] w = secureHeaders (gh_Rest gh) r [] w" if "trimRight tok = apiKey" for w
    using that assms(1) key same(1) command_trimmed [of tok ci meth path bt]
    by (simp add: NewGatewayMux_def authMiddleware_def assms(7))
  have tok: "resolveBearer ci m = tok" by (simp add: resolveBearer_def assms(10))
  have "\<exists>err. authLogin ci m = (Err err, m)" "\<exists>err. authToken ci m = (Err err, m)"
    by (simp_all add: authLogin_def authToken_def Let_def exchange_refused [OF assms(1,2,4)])
  then show ?thesis
    using doJSON_sent [OF assms(2,3,6), of meth tok m] refused served
    by (simp add: doJSON_def tok readResponse_401 assms(7) sentRequest_simps)
qed

section \<open>Following logs\<close>

lemma streamLogs_err: "\<exists>err. fst (streamLogs ci conn m) = Some err"
  by (simp add: streamLogs_def split: prod.split)

text \<open>Without a panic the loop never returns: the \<open>return nil\<close> after it is unreachable.\<close>

lemma followLoop_endless:
  assumes "list_all (\<lambda>d. \<nexists>p. d = Panic p) ds"
  shows "fst (followLoop ci ds m) = None"
  using assms
proof (induction ds arbitrary: m)
  case Nil
  then show ?case by simp
next
  case (Cons d ds)
  then show ?case
    by (cases d) (auto simp: streamLogs_def split: prod.split)
qed

lemma follow_query:
  "queryGet (followParams e s l t k) ''execution_id'' = e" "queryGet (followParams e s l t k) ''level'' = l"
  "queryGet (followParams e s l t k) ''service_name'' = s" "queryGet (followParams e s l t k) ''since'' = t"
  "queryGet (followParams e s l t k) ''token'' = k" "queryGet (followParams e s l t k) ''q'' = ''''"
  "queryGet (followParams e s l t k) ''state_name'' = ''''" "queryGet (followParams e s l t k) ''limit'' = ''''"
  "queryGet (followParams e s l t k) ''offset'' = ''''"
  by (simp_all add: followParams_def queryGet_def optParam_def)

text \<open>
  C12.  The stream that --follow opens is the log stream of the gateway, with the key the client
  resolves, and asks for the execution, the service, the level and the time of its flags, whatever
  characters they have, and for at most 50 entries of history.  As long as no dial panics the
  command never returns.
\<close>

theorem cli_follow_stream:
  assumes "ci_ParseURL ci (ci_server ci) = Ok u" and "pu_Opaque u = ''''" and "pu_Fragment u = ''''"
    and "pu_Host u \<noteq> ''''" and "\<not> pu_ForceQuery u"
    and "\<forall>url. list_all (\<lambda>d. \<nexists>p. d = Panic p) (dials url)"
  shows "\<exists>url r. r = targetRequest (wsScheme (pu_Scheme u) @ ''://'' @ urlAuthority u) ''GET'' url [] '''' \<and>
    routeOf r = LogSocket \<and> presentedKey r = resolveBearer ci m \<and>
    logsWSFilter parseT (hq_Query r) =
      \<lparr>lf_ExecutionID = e, lf_ServiceName = s, lf_StateName = '''', lf_Level = l,
       lf_Since = (if t \<noteq> '''' then parseT t else None), lf_Until = None, lf_Query = '''',
       lf_Limit = 50, lf_Offset = 0\<rparr> \<and>
    followLogs ci dials e s l t m = followLoop ci (dials url) m \<and>
    fst (followLogs ci dials e s l t m) = None"
proof -
  let ?base = "wsScheme (pu_Scheme u) @ ''://'' @ urlAuthority u" and ?p = "''/api/v1/ws/logs''"
  let ?kvs = "followParams e s l t (resolveBearer ci m)"
  let ?url = "if Encode ?kvs \<noteq> '''' then ?base @ ?p @ ''?'' @ Encode ?kvs else ?base @ ?p"
  let ?r = "targetRequest ?base ''GET'' ?url [] ''''"
  have plain: "plainPath ?p" by (simp add: plainPath_def)
  have "Encode ?kvs = '''' \<Longrightarrow> queryGet ?kvs = (\<lambda>_. '''')"
    using parseQuery_Encode [of ?kvs] by (auto simp: parseQuery_def parsePair_def List.map_filter_simps queryGet_def)
  then have r: "?r = \<lparr>hq_Method = ''GET'', hq_Path = ?p, hq_Header = headerGet [], hq_Query = queryGet ?kvs,
      hq_Body = ''''\<rparr>"
    using targetRequest_path [OF plain, of ?base "''GET''" "[]" "''''"]
      targetRequest_query [OF plain, of ?base "''GET''" ?kvs "[]" "''''"] by simp
  have "buildWSURL ci ?p = Ok (?base @ ?p)"
    using assms(1-5) by (simp add: buildWSURL_def urlString_def urlAuthority_def)
  then have f: "followLogs ci dials e s l t m = followLoop ci (dials ?url) m"
    by (simp add: followLogs_def Let_def)
  have "fst (followLogs ci dials e s l t m) = None"
    unfolding f using assms(6) by (intro followLoop_endless) simp
  moreover have "routeOf ?r = LogSocket" "presentedKey ?r = resolveBearer ci m"
    unfolding r by (simp_all add: routeOf_def presentedKey_def headerGet_def follow_query)
  moreover have "logsWSFilter parseT (hq_Query ?r) =
      \<lparr>lf_ExecutionID = e, lf_ServiceName = s, lf_StateName = '''', lf_Level = l,
       lf_Since = (if t \<noteq> '''' then parseT t else None), lf_Until = None, lf_Query = '''',
       lf_Limit = 50, lf_Offset = 0\<rparr>"
    unfolding r by (simp add: logsWSFilter_def follow_query parseIntParam_def)
  ultimately show ?thesis using f by blast
qed

section \<open>A session with the HTTP API\<close>

text \<open>
  The body of a response as text: \<open>json.Encoder\<close> ends an object with a newline; the texts of the
  other bodies are a parameter.
\<close>

definition bodyText :: "(apiBody \<Rightarrow> string) \<Rightarrow> apiBody \<Rightarrow> string" where
  "bodyText render b =
     (case b of
        TokenBody t \<Rightarrow> map char_of (singleMember ''token'' (asciiBytes t)) @ [newlineCh]
      | _ \<Rightarrow> render b)"

definition apiTarget :: "string \<Rightarrow> cliRequest \<Rightarrow> apiRequest" where
  "apiTarget base q =
     httpRequest.extend (sentRequest base q) \<lparr>aq_Flusher = True\<rparr>"

text \<open>A handler that panics closes the connection without a response.\<close>

definition onWire :: "(apiBody \<Rightarrow> string) \<Rightarrow> 'w apiResult \<Rightarrow> cliResponse res \<times> 'w apiState" where
  "onWire render res =
     (case res of
        (Ok resp, s) \<Rightarrow> (Ok \<lparr>cs_Status = ar_Status resp, cs_Body = Ok (bodyText render (ar_Body resp))\<rparr>, s)
      | (_, s) \<Rightarrow> (Err (Errorf [FL ''EOF'']), s))"

definition apiDo ::
    "string \<Rightarrow> (apiBody \<Rightarrow> string) \<Rightarrow> 'w apiServer \<Rightarrow> cliRequest \<Rightarrow> 'w apiState \<Rightarrow> cliResponse res \<times> 'w apiState" where
  "apiDo base render srv q s =
     (case headersErr (cq_Headers q) of
        Some err \<Rightarrow> (Err err, s)
      | None \<Rightarrow> onWire render (ServeHTTP srv (apiTarget base q) s))"

text \<open>What a command makes of the outcome of its request.\<close>

definition answered ::
    "'w apiState cli \<Rightarrow> (apiBody \<Rightarrow> string) \<Rightarrow> ('w apiState \<Rightarrow> 'w apiResult) \<Rightarrow> 'w apiState machine
     \<Rightarrow> gomap res \<times> 'w apiState machine" where
  "answered ci render h m =
     ifErr (onNet (\<lambda>s. onWire render (h s)) m)
       (\<lambda>err m1. (Err (Errorf [FL ''request: '', FW err]), m1))
       (\<lambda>resp m1. (readResponse ci resp, m1))"

lemma token_text:
  assumes "validText tok"
  shows "unmarshalMap ci (bodyText render (TokenBody tok)) = Ok (Some [''token'' \<mapsto> VStr tok])"
proof -
  have name: "plainName ''token''" by (simp add: plainName_def asciiBytes_def)
  have "asciiBytes (bodyText render (TokenBody tok)) = singleMember ''token'' (asciiBytes tok) @ [10]"
    using asciiBytes_char_of [OF singleMember_bytes [of "''token''" tok]]
    by (simp add: bodyText_def asciiBytes_def newlineCh_def)
  then show ?thesis
    using parseJson_single [OF name assms [unfolded validText_def], of "[10]"]
    by (simp add: unmarshalMap_def toMap_def skipWs_def isSpace_def)
qed

lemma session_token_text:
  assumes "issueSessionToken now key = Ok tok"
  shows "validText tok"
proof (rule validText_ascii)
  obtain a b where "tok = b64encode a @ ''.'' @ b64encode b"
    using assms by (auto simp: issueSessionToken_def Let_def split: option.splits)
  then show "list_all (\<lambda>c. (of_char c :: nat) < 0x80) tok" using b64encode_ascii by simp
qed

text \<open>A session token is sent as it is.\<close>

lemma session_token_header:
  assumes "issueSessionToken now key = Ok tok"
  shows "validHeaderValue tok" and "trimRight tok = tok"
proof -
  obtain a b where "tok = b64encode a @ ''.'' @ b64encode b"
    using assms by (auto simp: issueSessionToken_def Let_def split: option.splits)
  then have "list_all (\<lambda>c. 32 < byteOf c \<and> byteOf c < 0x7F) tok"
    using b64encode_printable by (simp add: byteOf_def)
  then have "validHeaderValue tok" "\<forall>c \<in> set tok. \<not> blank c"
    by (fastforce simp: validHeaderValue_def blank_def list_all_iff)+
  moreover from this have "dropWhile blank (rev tok) = rev tok"
    by (cases "rev tok = []") (auto simp: dropWhile_eq_self_iff hd_rev)
  ultimately show "validHeaderValue tok" "trimRight tok = tok" by (simp_all add: trimRight_def)
qed

lemma apiTarget_simps:
  "hq_Method (apiTarget base q) = hq_Method (sentRequest base q)"
  "hq_Path (apiTarget base q) = hq_Path (sentRequest base q)"
  "hq_Header (apiTarget base q) = hq_Header (sentRequest base q)"
  "hq_Query (apiTarget base q) = hq_Query (sentRequest base q)"
  "hq_Body (apiTarget base q) = hq_Body (sentRequest base q)" "aq_Flusher (apiTarget base q)"
  by (simp_all add: apiTarget_def httpRequest.defs)

lemma login_exchange:
  assumes "as_APIKey srv = key" and "key \<noteq> ''''" and "ci_Do ci = apiDo (ci_server ci) render srv"
    and "ci_URLErr ci (ci_server ci @ ''/api/v1/auth/token'') = None" and "validText key" and "length (loginBody key) \<le> 2 ^ 20"
    and "issueSessionToken (rt_Now (as_Runtime srv) (ap_world (mc_net m))) key = Ok tok"
  shows "exchangeKey ci key m = (Ok (Some [''token'' \<mapsto> VStr tok]), m)"
proof -
  let ?q = "buildRequest ci ''POST'' ''/api/v1/auth/token'' (Some (loginBody key)) ''''"
  let ?r = "apiTarget (ci_server ci) ?q"
  have r: "hq_Method ?r = ''POST''" "hq_Path ?r = ''/api/v1/auth/token''" "hq_Body ?r = loginBody key"
    by (simp_all add: apiTarget_simps sentRequest_simps token_request)
  have "decodeApiKey (MaxBytesReader (2 ^ 20) (hq_Body ?r)) = Some key"
    using loginBody_decodes [OF assms(5)] assms(6) by (simp add: r MaxBytesReader_def)
  then have "ServeHTTP srv ?r (mc_net m) = (Ok (writeJSON 200 (TokenBody tok) securityHeaders), mc_net m)"
    using assms(1,2,7) r by (intro login_answer) simp_all
  then have "onNet (ci_Do ci ?q) m =
      (Ok \<lparr>cs_Status = 200, cs_Body = Ok (bodyText render (TokenBody tok))\<rparr>, m)"
    by (simp add: onNet_def assms(3) apiDo_def onWire_def writeJSON_def buildRequest_headersErr)
  moreover have "bodyText render (TokenBody tok) \<noteq> ''''" by (simp add: bodyText_def)
  ultimately show ?thesis
    using assms(4) token_text [OF session_token_text [OF assms(7)], of ci render]
    by (simp add: exchangeKey_def doJSONNoAuth_def doJSONWithBearer_def key_body readResponse_def)
qed

lemma doJSON_api:
  assumes "ci_Do ci = apiDo (ci_server ci) render srv" and "ci_URLErr ci (ci_server ci @ path) = None"
    and "marshals ci body bt" and "validHeaderValue (resolveBearer ci m)"
  shows "doJSON ci meth path body m =
    answered ci render (ServeHTTP srv (apiTarget (ci_server ci) (buildRequest ci meth path bt (resolveBearer ci m)))) m"
  using assms
  by (auto simp: doJSON_def doJSONWithBearer_def answered_def onNet_def apiDo_def marshals_def buildRequest_headersErr
      split: option.splits)

lemma apiTarget_bearer:
  assumes "tok \<noteq> ''''" and "trimRight tok = tok"
  shows "hq_Header (apiTarget (ci_server ci) (buildRequest ci meth path bt tok)) ''Authorization'' = bearer @ tok"
  using command_header [of ci meth path bt tok] assms by (simp add: apiTarget_simps)

lemma answered_at: "h (mc_net m) = h' (mc_net m) \<Longrightarrow> answered ci render h m = answered ci render h' m"
  by (simp add: answered_def onNet_def)

lemma later_command:
  assumes "ci_Do ci = apiDo (ci_server ci) render srv"
    and "as_APIKey srv \<noteq> ''''" and "issueSessionToken now (as_APIKey srv) = Ok tok" and "0 \<le> now"
    and "resolveBearer ci m = tok" and "tok \<noteq> ''''"
    and "ci_URLErr ci (ci_server ci @ path) = None" and "marshals ci body bt"
    and r: "r = apiTarget (ci_server ci) (buildRequest ci meth path bt tok)"
  shows "doJSON ci meth path body m =
    answered ci render
      (\<lambda>s. if rt_Now (as_Runtime srv) (ap_world s) < now + 24 * Hour \<or> publicRequest r \<or> tok = as_APIKey srv
           then apiMux srv r securityHeaders s
           else (Ok (writeError 401 ''unauthorized'' ''auth_required'' securityHeaders), s)) m"
proof -
  note tok = session_token_header [OF assms(3)]
  have "doJSON ci meth path body m = answered ci render (ServeHTTP srv r) m"
    using doJSON_api [OF assms(1,7,8), of m meth] assms(5) tok(1) by (simp add: r)
  also have "\<dots> = answered ci render
      (\<lambda>s. if rt_Now (as_Runtime srv) (ap_world s) < now + 24 * Hour \<or> publicRequest r \<or> tok = as_APIKey srv
           then apiMux srv r securityHeaders s
           else (Ok (writeError 401 ''unauthorized'' ''auth_required'' securityHeaders), s)) m"
    by (rule answered_at, rule session_access [OF assms(2-4), rule_format])
      (simp add: r apiTarget_bearer [OF assms(6) tok(2)])
  finally show ?thesis .
qed

text \<open>
  C8.  \<open>kflow auth login\<close> with the key of the HTTP API leaves a session token in the token file and
  changes nothing on the server.  Until 24 hours later every command without a key of its own that
  finds that file, whether its request has a body or not, is served as its route says, with that
  body; from then on it is refused, unless its path is public (or the token happens to be the key).
  \<open>kflow auth logout\<close> removes the token.  The path is canonical, and the URL and the body of the command
  are ones that \<open>http.NewRequest\<close> and \<open>json.Marshal\<close> accept.
\<close>

theorem cli_login_session:
  assumes "as_APIKey srv = resolveAPIKey ci" and "resolveAPIKey ci \<noteq> ''''"
    and "ci_Do ci = apiDo (ci_server ci) render srv"
    and "ci_URLErr ci (ci_server ci @ ''/api/v1/auth/token'') = None"
    and "\<forall>p. ci_WriteErr ci p = None" and "ci_home ci = Some home"
    and "validText (resolveAPIKey ci)" and "length (loginBody (resolveAPIKey ci)) \<le> 2 ^ 20"
    and "rt_Now (as_Runtime srv) (ap_world (mc_net m)) = now" and "0 \<le> now" and "now + 24 * Hour < endOfTime"
  shows "\<exists>m1 m2 tok. authLogin ci m = (Ok (), m1) \<and> mc_net m1 = mc_net m \<and> loadSavedToken ci m1 = tok \<and>
    (\<forall>meth path body bt m'. mc_files m' = mc_files m1 \<and> canonicalPath (fst (cutTarget path)) \<and>
         ci_URLErr ci (ci_server ci @ path) = None \<and> marshals ci body bt \<longrightarrow>
       (let later = ci\<lparr>ci_apiKey := ''''\<rparr>; r = apiTarget (ci_server ci) (buildRequest ci meth path bt tok)
        in hq_Body r = (case bt of None \<Rightarrow> '''' | Some b \<Rightarrow> b) \<and> doJSON later meth path body m' =
             answered later render
               (\<lambda>s. if rt_Now (as_Runtime srv) (ap_world s) < now + 24 * Hour \<or> publicRequest r \<or>
                       tok = resolveAPIKey ci
                    then apiMux srv r securityHeaders s
                    else (Ok (writeError 401 ''unauthorized'' ''auth_required'' securityHeaders), s)) m')) \<and>
    authLogout ci m1 = (Ok (), m2) \<and> loadSavedToken ci m2 = ''''"
proof -
  obtain tok where tok: "issueSessionToken now (resolveAPIKey ci) = Ok tok" and ne: "tok \<noteq> ''''"
    using issue_total [OF assms(10,11)] by blast
  let ?p = "home @ ''/.kflow/token''"
  let ?m1 = "println ''Logged in. Token saved to ~/.kflow/token'' (m\<lparr>mc_files := (mc_files m)(?p \<mapsto> tok)\<rparr>)"
  let ?m2 = "println ''Logged out.'' (?m1\<lparr>mc_files := (mc_files ?m1)(?p := None)\<rparr>)"
  have path: "tokenFilePath ci = ?p" using assms(6) by (simp add: tokenFilePath_def)
  have "exchangeKey ci (resolveAPIKey ci) m = (Ok (Some [''token'' \<mapsto> VStr tok]), m)"
    using tok assms(9) by (intro login_exchange [OF assms(1-4,7,8)]) simp
  then have login: "authLogin ci m = (Ok (), ?m1)"
    using assms(2,5) path
    by (simp add: authLogin_def Let_def saveToken_def WriteFile_def stringAt_def entries_def println_def)
  have load: "loadSavedToken ci ?m1 = tok" by (simp add: loadSavedToken_def path println_def)
  have logout: "authLogout ci ?m1 = (Ok (), ?m2)" "loadSavedToken ci ?m2 = ''''"
    using assms(5) by (simp_all add: authLogout_def loadSavedToken_def path println_def)
  have key: "as_APIKey srv \<noteq> ''''" and tok': "issueSessionToken now (as_APIKey srv) = Ok tok"
    using assms(1,2) tok by simp_all
  let ?ci = "ci\<lparr>ci_apiKey := ''''\<rparr>"
  have same: "buildRequest ?ci meth path bt tok = buildRequest ci meth path bt tok" for meth path bt
    by (simp add: buildRequest_def)
  have body: "marshals ?ci body bt = marshals ci body bt" for body bt
    by (simp add: marshals_def marshalBody_def cong: option.case_cong cliBody.case_cong)
  have bearer: "resolveBearer ?ci m' = tok" if "mc_files m' = mc_files ?m1" for m'
    using that assms(6) by (simp add: resolveBearer_def loadSavedToken_def tokenFilePath_def println_def)
  show ?thesis
    using login load logout assms(1,3,4)
      later_command [of ?ci render srv, OF _ key tok' assms(10) bearer ne] same body
    by (intro exI [of _ ?m1] exI [of _ ?m2] exI [of _ tok])
      (simp add: Let_def println_def apiTarget_simps sentRequest_simps)
qed

section \<open>Asking for logs once\<close>

lemma decVal_snoc: "decVal (s @ [c]) = 10 * decVal s + (int (of_char c) - 48)"
  by (simp add: decVal_def)

lemma showNat_decimal: "list_all decDigit (showNat n) \<and> showNat n \<noteq> '''' \<and> decVal (showNat n) = int n"
proof (induction n rule: showNat.induct)
  case (1 n)
  show ?case
  proof (cases "n < 10")
    case True
    then show ?thesis by (simp add: showNat.simps [of n] decDigit_def decVal_def)
  next
    case False
    with 1 have ih: "list_all decDigit (showNat (n div 10)) \<and> decVal (showNat (n div 10)) = int (n div 10)" by blast
    have split: "10 * int (n div 10) + int (n mod 10) = int n" by presburger
    have "n mod 10 < 10" by simp
    then have "decDigit (char_of (48 + n mod 10))" "int (of_char (char_of (48 + n mod 10) :: char)) = 48 + int (n mod 10)"
      by (simp_all add: decDigit_def)
    then show ?thesis
      using False ih split by (subst (1 2 3) showNat.simps) (simp add: decVal_snoc)
  qed
qed

lemma parseIntParam_showInt:
  assumes "0 \<le> n" and "n < 2 ^ 63"
  shows "parseIntParam (showInt n) dflt = n"
proof -
  obtain c cs where s: "showNat (nat n) = c # cs" using showNat_decimal [of "nat n"] by (cases "showNat (nat n)") auto
  with showNat_decimal [of "nat n"] have "decDigit c" by simp
  then have "c \<noteq> CHR ''-''" "c \<noteq> CHR ''+''" by (auto simp: decDigit_def)
  with s assms showNat_decimal [of "nat n"] show ?thesis
    by (simp add: parseIntParam_def Atoi_def showInt_def Let_def)
qed

text \<open>The query string of \<open>kflow logs\<close> reads back as the filter of its flags.\<close>

lemma logs_query_filter:
  assumes "0 \<le> n" and "n < 2 ^ 63"
  shows "logFilterOf (queryGet (parseQuery (Encode (logsParams e s l t n)))) since until =
    \<lparr>lf_ExecutionID = e, lf_ServiceName = s, lf_StateName = '''', lf_Level = l, lf_Since = since,
     lf_Until = until, lf_Query = '''', lf_Limit = n, lf_Offset = 0\<rparr>"
  by (simp add: parseQuery_Encode logFilterOf_def logsParams_def queryGet_def optParam_def
      parseIntParam_showInt [OF assms]) (simp add: parseIntParam_def)

text \<open>The workflow of \<open>execution list\<close> is not escaped: it can carry further parameters.\<close>

lemma execution_list_injects:
  "queryGet (parseQuery (snd (cutTarget (executionListPath ''a&status=Failed'')))) ''status'' = ''Failed''"
  by code_simp

text \<open>
  A row with the names that the JSON of the gateway has (\<open>occurredAt\<close>, \<open>executionId\<close>, \<open>stateName\<close>)
  is printed without its time and without its source.
\<close>

lemma camel_case_row_blank:
  "logLineText (Some [''occurredAt'' \<mapsto> VStr t, ''executionId'' \<mapsto> VStr e, ''stateName'' \<mapsto> VStr sn,
     ''level'' \<mapsto> VStr l, ''message'' \<mapsto> VStr msg]) =
   logLineText (Some [''level'' \<mapsto> VStr l, ''message'' \<mapsto> VStr msg])"
  by (simp add: logLineText_def stringAt_def entries_def)

section \<open>Examples\<close>

definition exampleURL :: parsedURL where
  "exampleURL = \<lparr>pu_Scheme = ''http'', pu_Opaque = '''', pu_User = None, pu_Host = ''kflow:8080'', pu_OmitHost = False,
     pu_ForceQuery = False, pu_Fragment = ''''\<rparr>"

definition exampleCli :: "string \<Rightarrow> (cliRequest \<Rightarrow> 'x \<Rightarrow> cliResponse res \<times> 'x) \<Rightarrow> 'x cli" where
  "exampleCli key transport =
     \<lparr>ci_server = ''http://kflow:8080'', ci_apiKey = key, ci_env = (\<lambda>_. ''''), ci_home = Some ''/home/dev'',
      ci_WriteErr = (\<lambda>_. None), ci_URLErr = (\<lambda>_. None), ci_Do = transport,
      ci_Marshal = (\<lambda>_. Ok ''{}''), ci_Number = (\<lambda>_. VNull), ci_Indent = (\<lambda>_. ''{}''),
      ci_ParseURL = (\<lambda>_. Ok exampleURL)\<rparr>"

definition exampleMachine :: "'x \<Rightarrow> 'x machine" where
  "exampleMachine x = \<lparr>mc_files = Map.empty, mc_stdout = [], mc_stderr = [], mc_net = x\<rparr>"

definition exampleGateway :: "cliRequest \<Rightarrow> nat \<Rightarrow> cliResponse res \<times> nat" where
  "exampleGateway = gatewayDo ''http://kflow:8080'' (NewGatewayMux ''key'' (\<lambda>_. True) countingHandlers)"

text \<open>
  A registration with the key and a blank behind it, with the key and a newline behind it, and
  without a key.
\<close>

theorem cli_gateway_access_witness:
  "let run = (\<lambda>key. doJSON (exampleCli key exampleGateway) ''POST'' ''/api/v1/workflows'' (Some (MapBody None))
         (exampleMachine 0))
   in mc_net (snd (run ''key '')) = 1 \<and>
      run (''key'' @ [newlineCh]) =
        (Err (Errorf [FL ''request: '', FW (badHeader ''Authorization'')]), exampleMachine 0) \<and>
      run '''' = (Err refused401, exampleMachine 0) \<and>
      (\<exists>err. authLogin (exampleCli ''key'' exampleGateway) (exampleMachine 0) = (Err err, exampleMachine 0))"
proof -
  let ?ci = "\<lambda>key. exampleCli key exampleGateway" and ?path = "''/api/v1/workflows''"
  have gw: "ci_Do (?ci k) = gatewayDo (ci_server (?ci k)) (NewGatewayMux ''key'' (\<lambda>_. True) countingHandlers)"
    "ci_URLErr (?ci k) u = None" "marshals (?ci k) (Some (MapBody None)) (Some ''{}'')" for k u
    by (simp_all add: exampleCli_def exampleGateway_def marshals_def marshalBody_def)
  have path: "canonicalPath (fst (cutTarget ?path))" by code_simp
  have plain: "plainPath ?path" by (simp add: plainPath_def)
  have r: "routeOf (sentRequest (ci_server (?ci k)) (buildRequest (?ci k) ''POST'' ?path bt tok)) = RestAPI"
    "hq_Query (sentRequest (ci_server (?ci k)) (buildRequest (?ci k) ''POST'' ?path bt tok)) ''token'' = ''''" for k bt tok
    by (simp_all add: sentRequest_def buildRequest_def targetRequest_path [OF plain] routeOf_def)
  have key: "''key'' \<noteq> ''''" by simp
  note at = cli_gateway_access [OF key gw(1,2,2) path gw(3) refl r refl, of _ "exampleMachine 0"]
  have saved: "loadSavedToken (?ci k) (exampleMachine 0) = ''''" and net: "mc_net (exampleMachine 0) = (0 :: nat)" for k
    by (simp_all add: exampleCli_def loadSavedToken_def exampleMachine_def tokenFilePath_def)
  have api: "ci_apiKey (?ci k) = k" for k by (simp add: exampleCli_def)
  have tokens: "validHeaderValue ''key ''" "trimRight ''key '' = ''key''" "\<not> validHeaderValue (''key'' @ [newlineCh])"
    "trimRight '''' = ''''"
    by (simp_all add: validHeaderValue_def trimRight_def blank_def byteOf_def newlineCh_def)
  show ?thesis
    using at [of "''key ''"] at [of "''key'' @ [newlineCh]"] at [of "''''"] at [of "''key''"] tokens
    by (simp add: saved api net Let_def secureHeaders_def countingHandlers_def)
qed

theorem cli_follow_stream_witness:
  "\<exists>url r. r = targetRequest ''ws://kflow:8080'' ''GET'' url [] '''' \<and> presentedKey r = ''key'' \<and>
     lf_ExecutionID (logsWSFilter (\<lambda>_. None) (hq_Query r)) = ''a&b=c'' \<and>
     fst (followLogs (exampleCli ''key'' exampleGateway) (\<lambda>_. [Err noSuchFile]) ''a&b=c'' '''' '''' '''' (exampleMachine 0)) =
       None"
proof -
  let ?ci = "exampleCli ''key'' exampleGateway"
  have "ci_ParseURL ?ci (ci_server ?ci) = Ok exampleURL" "pu_Opaque exampleURL = ''''" "pu_Fragment exampleURL = ''''"
    "pu_Host exampleURL \<noteq> ''''" "\<not> pu_ForceQuery exampleURL"
    by (simp_all add: exampleCli_def exampleURL_def)
  from cli_follow_stream [OF this, of "\<lambda>_. [Err noSuchFile]" "exampleMachine 0" "\<lambda>_. None" "''a&b=c''" "''''" "''''" "''''"]
  obtain url r where "r = targetRequest (wsScheme (pu_Scheme exampleURL) @ ''://'' @ urlAuthority exampleURL) ''GET'' url [] ''''"
    and "presentedKey r = resolveBearer ?ci (exampleMachine 0)"
    and "lf_ExecutionID (logsWSFilter (\<lambda>_. None) (hq_Query r)) = ''a&b=c''"
    and "fst (followLogs ?ci (\<lambda>_. [Err noSuchFile]) ''a&b=c'' '''' '''' '''' (exampleMachine 0)) = None"
    by auto
  moreover have "resolveBearer ?ci (exampleMachine 0) = ''key''"
    "wsScheme (pu_Scheme exampleURL) @ ''://'' @ urlAuthority exampleURL = ''ws://kflow:8080''"
    by (simp_all add: resolveBearer_def exampleCli_def exampleURL_def wsScheme_def urlAuthority_def)
  ultimately show ?thesis by metis
qed

definition exampleApi :: "cliRequest \<Rightarrow> unit mem_world apiState \<Rightarrow> cliResponse res \<times> unit mem_world apiState" where
  "exampleApi = apiDo ''http://kflow:8080'' (\<lambda>_. ''{}'') exampleServer"

lemma exampleApi_cli:
  "resolveAPIKey (exampleCli ''key'' exampleApi) = ''key''" "ci_server (exampleCli k exampleApi) = ''http://kflow:8080''"
  "ci_Do (exampleCli k exampleApi) = apiDo ''http://kflow:8080'' (\<lambda>_. ''{}'') exampleServer"
  "ci_URLErr (exampleCli k exampleApi) u = None" "\<forall>p. ci_WriteErr (exampleCli k exampleApi) p = None"
  "ci_home (exampleCli k exampleApi) = Some ''/home/dev''"
  "(exampleCli ''key'' exampleApi)\<lparr>ci_apiKey := ''''\<rparr> = exampleCli '''' exampleApi"
  by (simp_all add: resolveAPIKey_def exampleCli_def exampleApi_def)

lemma exampleApi_list:
  "apiMux exampleServer (apiTarget ''http://kflow:8080''
     (buildRequest (exampleCli k exampleApi) ''GET'' ''/api/v1/workflows'' None tok)) securityHeaders s =
   (Ok (writeJSON 200 (WorkflowsBody [''order-workflow'']) securityHeaders), s)"
proof -
  have path: "pathMatches ''/api/v1/workflows'' = [(''GET'', RListWorkflows, []), (''POST'', RRegisterWorkflow, [])]"
    by code_simp
  have "plainPath ''/api/v1/workflows''" by (simp add: plainPath_def)
  from targetRequest_path [OF this, of "''http://kflow:8080''" "''GET''"]
  have "hq_Method (apiTarget ''http://kflow:8080'' (buildRequest (exampleCli k exampleApi) ''GET'' ''/api/v1/workflows''
      None tok)) = ''GET''" "hq_Path (apiTarget ''http://kflow:8080'' (buildRequest (exampleCli k exampleApi) ''GET''
      ''/api/v1/workflows'' None tok)) = ''/api/v1/workflows''"
    by (simp_all add: apiTarget_simps sentRequest_def buildRequest_def exampleApi_cli)
  then show ?thesis
    by (simp add: apiMux_def path methodMatches_def dispatch_def handleListWorkflows_def Let_def)
      (simp add: exampleServer_def)
qed

theorem cli_login_session_witness:
  "\<exists>m1. authLogin (exampleCli ''key'' exampleApi) (exampleMachine (exampleState 7)) = (Ok (), m1) \<and>
     fst (doJSON (exampleCli '''' exampleApi) ''GET'' ''/api/v1/workflows'' None (m1\<lparr>mc_net := exampleState 8\<rparr>)) =
       Ok (Some Map.empty)"
proof -
  let ?ci = "exampleCli ''key'' exampleApi" and ?later = "exampleCli '''' exampleApi"
  let ?m = "exampleMachine (exampleState 7)" and ?path = "''/api/v1/workflows''"
  have net: "mc_net ?m = exampleState 7" and key: "as_APIKey exampleServer = ''key''"
    by (simp_all add: exampleMachine_def exampleServer_def)
  have now: "rt_Now (as_Runtime exampleServer) (ap_world (exampleState t)) = t" for t
    by (simp add: exampleServer_def localRuntime_def exampleState_def NewServer_def)
  have len: "length (loginBody ''key'') = 17" by code_simp
  have text_ok: "validText ''key''" by (rule validText_ascii) simp
  have path: "canonicalPath (fst (cutTarget ?path))" by code_simp
  have "parseJson (asciiBytes ''{}'') = Some (JObj [])" by code_simp
  then have empty: "unmarshalMap ?later ''{}'' = Ok (Some Map.empty)" by (simp add: unmarshalMap_def toMap_def)
  have "as_APIKey exampleServer = resolveAPIKey ?ci" "resolveAPIKey ?ci \<noteq> ''''" "validText (resolveAPIKey ?ci)"
    "length (loginBody (resolveAPIKey ?ci)) \<le> 2 ^ 20" "ci_Do ?ci = apiDo (ci_server ?ci) (\<lambda>_. ''{}'') exampleServer"
    "(0 :: int) \<le> 7" "7 + 24 * Hour < endOfTime" "8 < 7 + 24 * Hour"
    "rt_Now (as_Runtime exampleServer) (ap_world (mc_net ?m)) = 7"
    by (simp_all add: exampleApi_cli key text_ok len now net endOfTime_def Hour_def Second_def)
  note c = this
  from cli_login_session [OF c(1,2,5) exampleApi_cli(4-6) c(3,4,9,6,7)]
  obtain m1 tok where login: "authLogin ?ci ?m = (Ok (), m1)"
    and acc: "\<And>meth path body bt m'. mc_files m' = mc_files m1 \<and> canonicalPath (fst (cutTarget path)) \<and>
        ci_URLErr ?ci (ci_server ?ci @ path) = None \<and> marshals ?ci body bt \<Longrightarrow>
      (let later = ?ci\<lparr>ci_apiKey := ''''\<rparr>; r = apiTarget (ci_server ?ci) (buildRequest ?ci meth path bt tok)
       in hq_Body r = (case bt of None \<Rightarrow> '''' | Some b \<Rightarrow> b) \<and> doJSON later meth path body m' =
             answered later (\<lambda>_. ''{}'')
               (\<lambda>s. if rt_Now (as_Runtime exampleServer) (ap_world s) < 7 + 24 * Hour \<or> publicRequest r \<or>
                       tok = resolveAPIKey ?ci
                    then apiMux exampleServer r securityHeaders s
                    else (Ok (writeError 401 ''unauthorized'' ''auth_required'' securityHeaders), s)) m')"
    by blast
  let ?m1 = "m1\<lparr>mc_net := exampleState 8\<rparr>"
  have "mc_files ?m1 = mc_files m1 \<and> canonicalPath (fst (cutTarget ?path)) \<and>
      ci_URLErr ?ci (ci_server ?ci @ ?path) = None \<and> marshals ?ci None None"
    using path by (simp add: exampleApi_cli marshals_def)
  from acc [OF this, of "''GET''"]
  have "doJSON ?later ''GET'' ?path None ?m1 = answered ?later (\<lambda>_. ''{}'')
      (apiMux exampleServer (apiTarget ''http://kflow:8080'' (buildRequest ?ci ''GET'' ?path None tok)) securityHeaders) ?m1"
    using c(8) by (simp add: Let_def exampleApi_cli answered_def onNet_def now)
  then show ?thesis
    using login empty
    by (auto simp: answered_def onNet_def onWire_def exampleApi_list writeJSON_def bodyText_def readResponse_def)
qed

end
