(* ===== verification/Spec2Isabelle.thy ===== *)
theory Spec2Isabelle
  imports Runners_Agree Kubernetes_Run Hub_Concurrent Orchestrator_Correct Startup_Correct Cli_Correct
begin

text \<open>
  \<^bold>\<open>kflow\<close>, a workflow engine on Kubernetes (Go, src/).  A user writes a workflow of task, choice,
  wait and parallel states with the SDK (pkg/kflow).  The workflow is run in process, or registered
  with the control plane (cmd/orchestrator), which drives it state by state with the engine
  (internal/engine), records every step in a store (internal/store) before it is taken, and runs
  states as Kubernetes jobs whose containers call back over gRPC with signed tokens
  (internal/runner).  Events and logs go to ClickHouse (internal/telemetry) and to connected clients
  (internal/api).  Users operate it with a terminal client (cmd/kflow).

  \<^bold>\<open>The theories\<close>, from the bottom up; each names the Go file it models.

  \<^item> \<open>Prelude\<close>: Go values, nil maps, errors as fragments of their format, results (\<open>Ok\<close>, \<open>Err\<close>,
    \<open>Panic\<close>), formatting, wrap-around integers, times in nanoseconds.
  \<^item> \<open>Workflow\<close> (pkg/kflow/workflow.go, state.go, validate.go, service.go) and \<open>Graph\<close>
    (internal/engine/graph.go): builders, \<open>Validate\<close>, \<open>Build\<close>, \<open>Next\<close>.  \<open>Validate\<close> and \<open>Build\<close> accept
    exactly what their specification says, and the graph has the nodes of the steps.
  \<^item> \<open>Store_Interface\<close> (store.go, service_store.go): records, the interface as a record of methods, its
    contract as the locales \<open>state_store\<close> and \<open>reliable_store\<close>.  \<open>Memory_Store\<close> (memory_store.go)
    implements it (interpretation \<open>mem\<close>), with an invariant over all interleavings of calls.
    \<open>Mongo_Store\<close>, \<open>Mongo_Correct\<close> (mongo_store.go, object_store.go): the production store over the
    database driver and the S3 client as parameters with their documented laws.  \<open>Mongo_Execution\<close>: the
    engine over it, for the executions of the control plane.
  \<^item> \<open>Executor\<close> (executor.go): \<open>Run\<close>, the write-ahead protocol around a state, retries and catches, over
    any store, handler, dispatcher and hooks.  \<open>Executor_Correct\<close> proves its properties once in the
    locale \<open>executor_env\<close>; \<open>Executor_Sim\<close> relates two executors that differ in bookkeeping.
  \<^item> \<open>Local_Runner\<close>, \<open>Local_Correct\<close> (internal/local/runner.go): the engine on the memory store, where
    the locale is interpreted and the engine's theorems are stated.  \<open>Sdk_Local\<close>
    (pkg/kflow/graph_json.go, runner.go): the SDK's own runner; \<open>Runners_Agree\<close>: the two agree.
  \<^item> \<open>Utf8\<close>, \<open>Codec\<close> (SHA-256, HMAC, base64), \<open>Json\<close>: what tokens and names use of the standard library.
    \<open>Token\<close> (internal/runner/token.go): state tokens, their round trip and authenticity.
  \<^item> \<open>K8s_Names\<close>, \<open>K8s_Client\<close> (internal/k8s): names, jobs, deployments, ingresses and watches over
    client-go as a parameter.  \<open>Telemetry\<close> (internal/telemetry): log capture and the SQL queries.
  \<^item> \<open>Runner_Server\<close>, \<open>Runner_Correct\<close> (internal/runner/server.go): the callback service.
    \<open>K8s_Executor\<close> (k8s_executor.go, internal/controller): jobs and service dispatch.  \<open>Wire_Format\<close>:
    what survives registration.  \<open>Worker\<close> (pkg/kflow/worker.go, runner.go): the container side.
    \<open>Kubernetes_Run\<close> composes the executor's job, the worker in its container and the runner service
    over any store, for one state; the cluster is not part of it.
  \<^item> \<open>Config\<close> (internal/config), \<open>Hub\<close>, \<open>Hub_Concurrent\<close> (internal/api/ws_handler.go,
    logs_ws_handler.go): the configuration and the event and log hubs; the locale \<open>bounded_hub\<close> is
    interpreted by both hubs, and \<open>hub_step\<close> runs their operations in arbitrary interleavings.
  \<^item> \<open>Gateway\<close> (internal/grpc): authentication, routing, the services behind the REST routes and the
    interceptors.  \<open>Orchestrator\<close>, \<open>Orchestrator_Correct\<close> (cmd/orchestrator/main.go): the modes of the
    binary and \<open>trigger\<close>; the locale \<open>execution_store\<close> is what the gateway and \<open>trigger\<close> need of the
    store.  Its theorems about the control plane are over the MongoDB store, the one \<open>runServerMode\<close>
    builds.
  \<^item> \<open>Time_Format\<close> (times in RFC 3339), \<open>Session\<close> (auth_middleware.go, auth_handler.go: session tokens)
    and \<open>Api\<close> (the rest of internal/api): the HTTP server with its routes, its middleware and all its
    handlers, which the tests drive and the binary no longer starts.  \<open>Api_Correct\<close>: who passes the
    middleware, what a login gives, which graphs are registered, what a stream delivers.

  \<^item> \<open>Startup\<close> (the startup of cmd/orchestrator/main.go, NewClient of internal/k8s and of
    internal/telemetry, the schema and the writers, internal/grpc/server.go): how the server connects
    to the database, the object store, the cluster and ClickHouse and what it runs without.
    \<open>Startup_Correct\<close>: it comes up without the optional parts; \<open>Serve\<close> as a step relation drains its
    two servers.
  \<^item> \<open>Url\<close> (query strings of net/url) and \<open>Cli\<close> (cmd/kflow): every command of the terminal client, over
    the machine it runs on.  \<open>Cli_Correct\<close> composes it with the gateway and with the HTTP API.

  \<^bold>\<open>Correspondence.\<close>  A Go function has a definition of the same name (with a prefix where two share
  one: \<open>mem_\<close>, \<open>mongo_\<close>, \<open>gw_\<close>, \<open>sdk_\<close>); a struct is a record; a method that changes state takes the
  world it acts on and returns it updated.  A part of a function with a name of its own is described
  in the text before it.  Code outside the repository is a parameter: client-go, the MongoDB driver,
  the S3 client, the ClickHouse driver, gRPC, the HTTP and WebSocket libraries, structpb, and the
  tables of package unicode.

  \<^bold>\<open>What is assumed of it.\<close>  \<open>mongo_laws\<close> and \<open>execution_laws\<close>: the database can be reached, and a document
  comes back decoded, with times in milliseconds and with strings, booleans and null as they were;
  what numbers, arrays and nested documents come back as is a parameter of which nothing is assumed.
  \<open>service_laws\<close> also allows calls that fail.  \<open>object_laws\<close>: a stored object is read back.
  \<open>resource_api\<close>: a failed call of the API server has no effect.  \<open>connected\<close>: a gRPC call over the
  connection is one call of the service.  Nothing is assumed of structpb and of the JSON of values.
  The simulated databases and clusters (\<open>simMongo\<close>, \<open>simClientset\<close>) only show that the laws can hold,
  in witnesses.

  \<^bold>\<open>What is shown.\<close>  Safety of the write-ahead protocol: a handler is only called on a state recorded
  as running, completed work is neither repeated nor lost.  Liveness: acyclic workflows end, in the
  engine and through the control plane.  Authority: only the holder of a token changes a state, only
  the holder of the key passes the gateway, only the holder of the key or of a live session the
  HTTP server; and which commands of the terminal client each of them serves.  A server that comes
  up without its optional parts and drains on a signal.  Round trips of tokens, outputs, registered
  workflows and query strings, each up to what the encodings outside the repository keep; agreement
  of the two in-process runners on plain workflows; bounds on generated names; hubs that never
  panic; and the situations in which the program does not do what it means to.

  \<^bold>\<open>Fuel.\<close>  \<open>executeState\<close> follows catches and \<open>runLoop\<close> may revisit states, so both take fuel, and
  \<open>None\<close> means that it ran out.  More fuel never changes a result (\<open>Run_mono\<close>); for a graph whose edges
  decrease a rank, the rank of the entry plus the bound on catch chains is enough (\<open>Run_terminates\<close>), and
  for a registered workflow the number of its steps plus two is (\<open>execution_completes\<close>).  A cycle of
  completed states returns for no fuel (\<open>replay_cycle_diverges\<close>).

  \<^bold>\<open>Not modelled.\<close>  The code generated from the protocol buffers (internal/gen), which maps REST
  requests to the services of the gateway, and the examples, which are programs of users of the
  SDK.  What happens on sockets is a parameter or a step of the environment: the transport of an
  HTTP request, the dials of a log stream, the listeners of the servers.  The flags of the terminal
  client are taken as cobra parses them.  Requests have canonical paths, for which \<open>http.ServeMux\<close> sends
  no redirect.  How a cluster runs a job (when, how often, on which node) is not modelled: what is
  shown is what the container does when it is started, and what the executor makes of the events of
  the job.  In \<open>Api\<close> the body of a response is the value given to the
  JSON encoder, and decoding a request into an input, a graph or a service record is a parameter,
  since inputs hold floats; the same holds for the JSON of maps in \<open>Cli\<close>.
  A fire-and-forget write of telemetry is one step of its caller.
  Concurrency is modelled for the stores, the hubs and \<open>Serve\<close>, whose operations interleave;
  an execution is one goroutine and is modelled sequentially.
\<close>

end
